(* ===== verification/Go_Prelude.thy ===== *)
theory Go_Prelude
  imports Main
begin

text \<open>
  The vocabulary every component of the development shares: the outcome of a Go call, the
  state-passing computations that model code with effects, the operations of Go's
  \<^verbatim>\<open>strings\<close> package the sources call, and the frame predicate with which the
  components state that a call leaves a part of the world alone.

  A Go function that talks to a database, to OpenFGA or to an identity provider is a
  computation \<open>('w, 'a) io\<close>: it takes the state of the world, of an arbitrary type
  \<open>'w\<close>, and returns an outcome and the world after the call. The outcome says how the call
  ended: it returned a value, it returned a non-nil error, it panicked, or a loop whose
  number of iterations depends on a remote service ran out of the fuel it was given.
\<close>

section \<open>Outcomes and computations\<close>

datatype ('e, 'a) outcome = Ok 'a | Err 'e | Panic string | NoFuel

type_synonym ('w, 'e, 'a) comp = "'w \<Rightarrow> ('e, 'a) outcome \<times> 'w"

named_theorems go_simps \<open>unfolding rules of the computation combinators\<close>
named_theorems frame_intros \<open>introduction rules of the frame predicate\<close>
named_theorems atomic_intros \<open>introduction rules of the atomicity predicate\<close>
named_theorems triple_intros \<open>rules of the triples\<close>
named_theorems ends_intros \<open>introduction rules of the totality predicate\<close>

definition go_return :: "'a \<Rightarrow> ('w, 'e, 'a) comp" where
  "go_return x w = (Ok x, w)"

definition go_err :: "'e \<Rightarrow> ('w, 'e, 'a) comp" where
  "go_err e w = (Err e, w)"

definition go_panic :: "string \<Rightarrow> ('w, 'e, 'a) comp" where
  "go_panic s w = (Panic s, w)"

definition go_nofuel :: "('w, 'e, 'a) comp" where
  "go_nofuel w = (NoFuel, w)"

text \<open>Sequencing with the early return of \<^verbatim>\<open>if err != nil { return err }\<close>.\<close>

definition go_bind :: "('w, 'e, 'a) comp \<Rightarrow> ('a \<Rightarrow> ('w, 'e, 'b) comp) \<Rightarrow> ('w, 'e, 'b) comp" where
  "go_bind m f w = (case m w of
       (Ok x, w') \<Rightarrow> f x w'
     | (Err e, w') \<Rightarrow> (Err e, w')
     | (Panic s, w') \<Rightarrow> (Panic s, w')
     | (NoFuel, w') \<Rightarrow> (NoFuel, w'))"

text \<open>Code that looks at the error itself: the error becomes a value.\<close>

definition go_try :: "('w, 'e, 'a) comp \<Rightarrow> ('w, 'f, 'e + 'a) comp" where
  "go_try m w = (case m w of
       (Ok x, w') \<Rightarrow> (Ok (Inr x), w')
     | (Err e, w') \<Rightarrow> (Ok (Inl e), w')
     | (Panic s, w') \<Rightarrow> (Panic s, w')
     | (NoFuel, w') \<Rightarrow> (NoFuel, w'))"

text \<open>\<^verbatim>\<open>if err != nil { return f(err) }\<close>: an error is replaced on its way out.\<close>

definition go_maperr :: "('e \<Rightarrow> 'f) \<Rightarrow> ('w, 'e, 'a) comp \<Rightarrow> ('w, 'f, 'a) comp" where
  "go_maperr h m w = (case m w of
       (Ok x, w') \<Rightarrow> (Ok x, w')
     | (Err e, w') \<Rightarrow> (Err (h e), w')
     | (Panic s, w') \<Rightarrow> (Panic s, w')
     | (NoFuel, w') \<Rightarrow> (NoFuel, w'))"

text \<open>A pure result that may be an error, and a constructor that may panic.\<close>

definition go_sum :: "'e + 'a \<Rightarrow> ('w, 'e, 'a) comp" where
  "go_sum r = (case r of Inl e \<Rightarrow> go_err e | Inr x \<Rightarrow> go_return x)"

definition go_some :: "string \<Rightarrow> 'a option \<Rightarrow> ('w, 'e, 'a) comp" where
  "go_some msg r = (case r of None \<Rightarrow> go_panic msg | Some x \<Rightarrow> go_return x)"

text \<open>A call that cannot fail but may change the world: a clock, a source of random numbers.\<close>

definition go_lift :: "('w \<Rightarrow> 'a \<times> 'w) \<Rightarrow> ('w, 'e, 'a) comp" where
  "go_lift f w = (Ok (fst (f w)), snd (f w))"

text \<open>A loop over a slice that stops at the first error.\<close>

fun go_foreach :: "('a \<Rightarrow> ('w, 'e, unit) comp) \<Rightarrow> 'a list \<Rightarrow> ('w, 'e, unit) comp" where
  "go_foreach f [] = go_return ()"
| "go_foreach f (x # xs) = go_bind (f x) (\<lambda>_. go_foreach f xs)"

fun go_mapM :: "('a \<Rightarrow> ('w, 'e, 'b) comp) \<Rightarrow> 'a list \<Rightarrow> ('w, 'e, 'b list) comp" where
  "go_mapM f [] = go_return []"
| "go_mapM f (x # xs) = go_bind (f x) (\<lambda>y. go_bind (go_mapM f xs) (\<lambda>ys. go_return (y # ys)))"

text \<open>A loop over a slice whose body updates local variables and that stops at the first error.\<close>

fun go_fold :: "('a \<Rightarrow> 's \<Rightarrow> ('w, 'e, 's) comp) \<Rightarrow> 'a list \<Rightarrow> 's \<Rightarrow> ('w, 'e, 's) comp" where
  "go_fold f [] s = go_return s"
| "go_fold f (x # xs) s = go_bind (f x s) (\<lambda>s'. go_fold f xs s')"

declare go_return_def [go_simps] go_err_def [go_simps] go_panic_def [go_simps]
  go_nofuel_def [go_simps] go_lift_def [go_simps]

lemma go_bind_return [simp]: "go_bind (go_return x) f = f x"
  by (rule ext) (simp add: go_bind_def go_return_def)

lemma go_bind_err [simp]: "go_bind (go_err e) f = go_err e"
  by (rule ext) (simp add: go_bind_def go_err_def)

lemma go_bind_panic [simp]: "go_bind (go_panic s) f = go_panic s"
  by (rule ext) (simp add: go_bind_def go_panic_def)

lemma go_bind_nofuel [simp]: "go_bind go_nofuel f = go_nofuel"
  by (rule ext) (simp add: go_bind_def go_nofuel_def)

lemma go_return_bind [simp]: "go_bind m go_return = m"
  by (rule ext) (auto simp: go_bind_def go_return_def split: prod.splits outcome.splits)

lemma go_bind_assoc: "go_bind (go_bind m f) g = go_bind m (\<lambda>x. go_bind (f x) g)"
  by (rule ext) (auto simp: go_bind_def split: prod.splits outcome.splits)

lemma go_try_return [simp]: "go_try (go_return x) = go_return (Inr x)"
  by (rule ext) (simp add: go_try_def go_return_def)

lemma go_try_err [simp]: "go_try (go_err e) = go_return (Inl e)"
  by (rule ext) (simp add: go_try_def go_return_def go_err_def)

lemma go_maperr_return [simp]: "go_maperr h (go_return x) = go_return x"
  by (rule ext) (simp add: go_maperr_def go_return_def)

lemma go_maperr_err [simp]: "go_maperr h (go_err e) = go_err (h e)"
  by (rule ext) (simp add: go_maperr_def go_err_def)

lemma go_err_inject [simp]: "go_err e = go_err e' \<longleftrightarrow> e = e'"
  by (auto simp: go_err_def fun_eq_iff)

lemma go_sum_simps [simp]: "go_sum (Inl e) = go_err e" "go_sum (Inr x) = go_return x"
  by (simp_all add: go_sum_def)

lemma go_some_simps [simp]: "go_some s None = go_panic s" "go_some s (Some x) = go_return x"
  by (simp_all add: go_some_def)

lemma go_try_sum [simp]: "go_bind (go_try m) go_sum = m"
  by (rule ext) (simp add: go_bind_def go_try_def go_sum_def go_simps split: prod.split outcome.split)

text \<open>Inversion: how a compound call can have ended.\<close>

lemma go_bind_OkE:
  assumes "go_bind m f w = (Ok y, w')"
  obtains x w1 where "m w = (Ok x, w1)" and "f x w1 = (Ok y, w')"
  using assms by (auto simp: go_bind_def split: prod.splits outcome.splits)

lemma go_guard_OkE:
  assumes "go_bind m (\<lambda>b. if \<not> b then go_err e else k) w = (Ok x, w')"
  obtains w1 where "m w = (Ok True, w1)" and "k w1 = (Ok x, w')"
  using assms by (auto simp: go_bind_def go_err_def split: prod.splits outcome.splits if_splits)

lemma go_try_OkE:
  assumes "go_try m w = (Ok r, w')"
  obtains (failed) e where "r = Inl e" and "m w = (Err e, w')"
    | (succeeded) x where "r = Inr x" and "m w = (Ok x, w')"
  using assms by (auto simp: go_try_def split: prod.splits outcome.splits)

lemma go_try_bindE:
  assumes "go_bind (go_try m) f w = (Ok y, w')"
  obtains (failed) e w1 where "m w = (Err e, w1)" and "f (Inl e) w1 = (Ok y, w')"
    | (succeeded) x w1 where "m w = (Ok x, w1)" and "f (Inr x) w1 = (Ok y, w')"
  using assms by (auto simp: go_bind_def go_try_def split: prod.splits outcome.splits)

lemma go_maperr_Ok_iff [simp]: "go_maperr h m w = (Ok x, w') \<longleftrightarrow> m w = (Ok x, w')"
  by (auto simp: go_maperr_def split: prod.splits outcome.splits)

lemma go_return_Ok_iff [simp]: "go_return x w = (Ok y, w') \<longleftrightarrow> y = x \<and> w' = w"
  by (auto simp: go_return_def)

lemma go_err_not_Ok [simp]: "go_err e w \<noteq> (Ok y, w')"
  by (simp add: go_err_def)

lemma go_panic_not_Ok [simp]: "go_panic s w \<noteq> (Ok y, w')"
  by (simp add: go_panic_def)

lemma go_nofuel_not_Ok [simp]: "go_nofuel w \<noteq> (Ok y, w')"
  by (simp add: go_nofuel_def)

lemma go_sum_OkE:
  assumes "go_sum r w = (Ok x, w')"
  obtains "r = Inr x" and "w' = w"
  using assms by (cases r) auto

lemma go_some_OkE:
  assumes "go_some s r w = (Ok x, w')"
  obtains "r = Some x" and "w' = w"
  using assms by (cases r) auto

section \<open>Frames\<close>

text \<open>
  \<open>frame obs m\<close>: the call \<open>m\<close> does not change what \<open>obs\<close> observes of the world, however it
  ends. The rules follow the structure of a computation.
\<close>

definition frame :: "('w \<Rightarrow> 'o) \<Rightarrow> ('w, 'e, 'a) comp \<Rightarrow> bool" where
  "frame obs m \<longleftrightarrow> (\<forall>w. obs (snd (m w)) = obs w)"

lemma frameI: "(\<And>w. obs (snd (m w)) = obs w) \<Longrightarrow> frame obs m"
  by (simp add: frame_def)

lemma frameD: "frame obs m \<Longrightarrow> m w = (r, w') \<Longrightarrow> obs w' = obs w"
  by (metis frame_def snd_conv)

lemma frame_return [frame_intros]: "frame obs (go_return x)"
  and frame_err [frame_intros]: "frame obs (go_err e)"
  and frame_panic [frame_intros]: "frame obs (go_panic s)"
  and frame_nofuel [frame_intros]: "frame obs go_nofuel"
  by (simp_all add: frame_def go_simps)

lemma frame_bind [frame_intros]:
  assumes "frame obs m" and "\<And>x. frame obs (f x)"
  shows "frame obs (go_bind m f)"
proof (rule frameI)
  fix w
  obtain r w1 where m: "m w = (r, w1)" by (cases "m w")
  with assms(1) have "obs w1 = obs w" by (rule frameD)
  moreover have "obs (snd (f x w1)) = obs w1" for x
    using assms(2) [of x] by (simp add: frame_def)
  ultimately show "obs (snd (go_bind m f w)) = obs w"
    using m by (cases r) (simp_all add: go_bind_def)
qed

lemma snd_go_try [simp]: "snd (go_try m w) = snd (m w)"
  by (auto simp: go_try_def split: prod.splits outcome.splits)

lemma snd_go_maperr [simp]: "snd (go_maperr h m w) = snd (m w)"
  by (auto simp: go_maperr_def split: prod.splits outcome.splits)

lemma frame_try [frame_intros]: "frame obs m \<Longrightarrow> frame obs (go_try m)"
  by (simp add: frame_def)

lemma frame_maperr [frame_intros]: "frame obs m \<Longrightarrow> frame obs (go_maperr h m)"
  by (simp add: frame_def)

lemma frame_sum [frame_intros]: "frame obs (go_sum r)"
  by (cases r) (simp_all add: frame_intros)

lemma frame_some [frame_intros]: "frame obs (go_some s r)"
  by (cases r) (simp_all add: frame_intros)

lemma frame_lift [frame_intros]: "(\<And>w. obs (snd (f w)) = obs w) \<Longrightarrow> frame obs (go_lift f)"
  by (simp add: frame_def go_lift_def)

lemma frame_if [frame_intros]:
  "(b \<Longrightarrow> frame obs m) \<Longrightarrow> (\<not> b \<Longrightarrow> frame obs m') \<Longrightarrow> frame obs (if b then m else m')"
  by simp

lemma frame_case_sum [frame_intros]:
  "(\<And>e. frame obs (f e)) \<Longrightarrow> (\<And>x. frame obs (g x)) \<Longrightarrow> frame obs (case r of Inl e \<Rightarrow> f e | Inr x \<Rightarrow> g x)"
  by (cases r) simp_all

lemma frame_case_option [frame_intros]:
  "frame obs m \<Longrightarrow> (\<And>x. frame obs (g x)) \<Longrightarrow> frame obs (case r of None \<Rightarrow> m | Some x \<Rightarrow> g x)"
  by (cases r) simp_all

lemma frame_case_prod [frame_intros]:
  "(\<And>x y. frame obs (f x y)) \<Longrightarrow> frame obs (case p of (x, y) \<Rightarrow> f x y)"
  by (cases p) simp

lemma frame_let [frame_intros]: "frame obs (f x) \<Longrightarrow> frame obs (let y = x in f y)"
  by simp

lemma frame_foreach [frame_intros]:
  "(\<And>x. frame obs (f x)) \<Longrightarrow> frame obs (go_foreach f xs)"
  by (induction xs) (auto intro: frame_intros)

lemma frame_fold [frame_intros]:
  "(\<And>x s. frame obs (f x s)) \<Longrightarrow> frame obs (go_fold f xs s)"
  by (induction xs arbitrary: s) (auto intro!: frame_intros)

lemma frame_mapM [frame_intros]:
  "(\<And>x. frame obs (f x)) \<Longrightarrow> frame obs (go_mapM f xs)"
  by (induction xs) (auto intro!: frame_intros)

text \<open>
  \<open>atomic obs m\<close>: if the call \<open>m\<close> does not succeed it has changed nothing that \<open>obs\<close> observes.
  A sequence is atomic when everything before its last step only reads.
\<close>

definition atomic :: "('w \<Rightarrow> 'o) \<Rightarrow> ('w, 'e, 'a) comp \<Rightarrow> bool" where
  "atomic obs m \<longleftrightarrow> (\<forall>w q w'. m w = (q, w') \<longrightarrow> q \<notin> range Ok \<longrightarrow> obs w' = obs w)"

lemma atomicD: "atomic obs m \<Longrightarrow> m w = (q, w') \<Longrightarrow> q \<notin> range Ok \<Longrightarrow> obs w' = obs w"
  by (simp add: atomic_def)

lemma atomic_unitD: "atomic obs m \<Longrightarrow> m w = (q, w') \<Longrightarrow> q \<noteq> Ok () \<Longrightarrow> obs w' = obs w"
  by (cases q) (auto simp: atomic_def)

lemma atomic_frame: "frame obs m \<Longrightarrow> atomic obs m"
  by (auto simp: atomic_def dest: frameD)

lemma atomic_bind [atomic_intros]:
  assumes "frame obs m" and "\<And>x. atomic obs (f x)"
  shows "atomic obs (go_bind m f)"
  unfolding atomic_def
proof (intro allI impI)
  fix w q w'
  assume run: "go_bind m f w = (q, w')" and "q \<notin> range Ok"
  obtain r w1 where m: "m w = (r, w1)" by (cases "m w")
  then have "obs w1 = obs w" using assms(1) by (rule frameD [rotated])
  with run m \<open>q \<notin> range Ok\<close> show "obs w' = obs w"
    by (cases r) (auto simp: go_bind_def dest: atomicD [OF assms(2)])
qed

lemma atomic_maperr [atomic_intros]: "atomic obs m \<Longrightarrow> atomic obs (go_maperr h m)"
  unfolding atomic_def go_maperr_def by (auto split: prod.splits outcome.splits)

lemma atomic_if [atomic_intros]:
  "(b \<Longrightarrow> atomic obs m) \<Longrightarrow> (\<not> b \<Longrightarrow> atomic obs m') \<Longrightarrow> atomic obs (if b then m else m')"
  by simp

lemma atomic_case_sum [atomic_intros]:
  "(\<And>e. atomic obs (f e)) \<Longrightarrow> (\<And>x. atomic obs (g x)) \<Longrightarrow> atomic obs (case r of Inl e \<Rightarrow> f e | Inr x \<Rightarrow> g x)"
  by (cases r) simp_all

lemma atomic_case_option [atomic_intros]:
  "atomic obs m \<Longrightarrow> (\<And>x. atomic obs (g x)) \<Longrightarrow> atomic obs (case r of None \<Rightarrow> m | Some x \<Rightarrow> g x)"
  by (cases r) simp_all

lemma atomic_let [atomic_intros]: "atomic obs (f x) \<Longrightarrow> atomic obs (let y = x in f y)"
  by simp

lemmas atomic_leaves [atomic_intros] = atomic_frame [OF frame_return] atomic_frame [OF frame_err]

text \<open>A call that never changes the world at all.\<close>

lemma frame_world: "frame (\<lambda>w. w) m \<Longrightarrow> frame obs m"
  by (simp add: frame_def)

text \<open>
  \<open>ends m\<close>: the call \<open>m\<close> always comes back, with a value or with an error: it neither panics nor
  runs out of fuel.
\<close>

definition ends :: "('w, 'e, 'a) comp \<Rightarrow> bool" where
  "ends m \<longleftrightarrow> (\<forall>w. fst (m w) \<notin> {NoFuel} \<union> range Panic)"

lemma endsI: "(\<And>w. fst (m w) \<notin> {NoFuel} \<union> range Panic) \<Longrightarrow> ends m"
  by (simp add: ends_def)

lemma ends_cases:
  assumes "ends m"
  obtains (ok) x w' where "m w = (Ok x, w')" | (err) e w' where "m w = (Err e, w')"
  using assms unfolding ends_def by (cases "m w", cases "fst (m w)") (auto dest: spec [of _ w])

lemma ends_return [ends_intros]: "ends (go_return x)"
  and ends_err [ends_intros]: "ends (go_err e)"
  and ends_lift [ends_intros]: "ends (go_lift f)"
  by (auto simp: ends_def go_simps)

lemma ends_bind [ends_intros]:
  assumes "ends m" and "\<And>x. ends (f x)"
  shows "ends (go_bind m f)"
proof (rule endsI)
  fix w
  from assms(1) show "fst (go_bind m f w) \<notin> {NoFuel} \<union> range Panic"
  proof (cases rule: ends_cases [where w = w])
    case (ok x w')
    then show ?thesis using assms(2) [of x] by (simp add: go_bind_def ends_def)
  qed (auto simp: go_bind_def)
qed

lemma ends_try [ends_intros]: "ends m \<Longrightarrow> ends (go_try m)"
  by (rule endsI, rule_tac w = w in ends_cases) (auto simp: go_try_def)

lemma ends_maperr [ends_intros]: "ends m \<Longrightarrow> ends (go_maperr h m)"
  by (rule endsI, rule_tac w = w in ends_cases) (auto simp: go_maperr_def)

lemma ends_sum [ends_intros]: "ends (go_sum r)"
  by (cases r) (simp_all add: ends_intros)

lemma ends_if [ends_intros]:
  "(b \<Longrightarrow> ends m) \<Longrightarrow> (\<not> b \<Longrightarrow> ends m') \<Longrightarrow> ends (if b then m else m')"
  by simp

lemma ends_case_sum [ends_intros]:
  "(\<And>e. ends (f e)) \<Longrightarrow> (\<And>x. ends (g x)) \<Longrightarrow> ends (case r of Inl e \<Rightarrow> f e | Inr x \<Rightarrow> g x)"
  by (cases r) simp_all

lemma ends_case_option [ends_intros]:
  "ends m \<Longrightarrow> (\<And>x. ends (g x)) \<Longrightarrow> ends (case r of None \<Rightarrow> m | Some x \<Rightarrow> g x)"
  by (cases r) simp_all

section \<open>Triples\<close>

text \<open>
  \<open>triple P m Q R\<close>: from a state that satisfies \<open>P\<close> a call that returns a value ends in \<open>Q\<close> of
  that value, and one that ends in any other way in \<open>R\<close>. Used where a call changes an object
  that outlives the error it returns.
\<close>

definition triple :: "('w \<Rightarrow> bool) \<Rightarrow> ('w, 'e, 'a) comp \<Rightarrow> ('a \<Rightarrow> 'w \<Rightarrow> bool) \<Rightarrow> ('w \<Rightarrow> bool) \<Rightarrow> bool" where
  "triple P m Q R \<longleftrightarrow> (\<forall>w. P w \<longrightarrow> (case m w of (Ok x, w') \<Rightarrow> Q x w' | (_, w') \<Rightarrow> R w'))"

lemma triple_bind [triple_intros]:
  "triple P m A R \<Longrightarrow> (\<And>x. triple (A x) (f x) Q R) \<Longrightarrow> triple P (go_bind m f) Q R"
  unfolding triple_def go_bind_def by (fastforce split: prod.splits outcome.splits)

lemma triple_return: "(\<And>w. P w \<Longrightarrow> Q x w) \<Longrightarrow> triple P (go_return x) Q R"
  and triple_err: "(\<And>w. P w \<Longrightarrow> R w) \<Longrightarrow> triple P (go_err e) Q R"
  and triple_panic: "(\<And>w. P w \<Longrightarrow> R w) \<Longrightarrow> triple P (go_panic s) Q R"
  by (simp_all add: triple_def go_simps)

lemma triple_try_cases:
  assumes "triple P m Q R"
  shows "triple P (go_try m) (\<lambda>r w. case r of Inl e \<Rightarrow> R w | Inr x \<Rightarrow> Q x w) R"
  unfolding triple_def
proof (intro allI impI)
  fix w
  assume "P w"
  with assms show "case go_try m w of (Ok r, w') \<Rightarrow> (case r of Inl e \<Rightarrow> R w' | Inr x \<Rightarrow> Q x w') | (_, w') \<Rightarrow> R w'"
    unfolding triple_def go_try_def by (cases "m w"; cases "fst (m w)") (drule spec [of _ w]; simp)+
qed

lemma triple_try: "triple P m (\<lambda>_. I) I \<Longrightarrow> triple P (go_try m) (\<lambda>_. I) I"
  by (drule triple_try_cases) simp

lemma triple_try_bind:
  assumes "triple P m A I" and "\<And>e. triple I (f (Inl e)) Q R" and "\<And>x. triple (A x) (f (Inr x)) Q R" and "\<And>w. I w \<Longrightarrow> R w"
  shows "triple P (go_bind (go_try m) f) Q R"
  unfolding triple_def
proof (intro allI impI)
  fix w
  assume P: "P w"
  show "case go_bind (go_try m) f w of (Ok x, w') \<Rightarrow> Q x w' | (_, w') \<Rightarrow> R w'"
  proof (cases "m w")
    case (Pair r w')
    have r: "case r of Ok x \<Rightarrow> A x w' | _ \<Rightarrow> I w'"
      using assms(1) P Pair unfolding triple_def by (cases r) (drule spec [of _ w]; simp)+
    show ?thesis
    proof (cases r)
      case (Ok x)
      then show ?thesis using assms(3) [of x] r Pair by (simp add: go_bind_def go_try_def triple_def)
    next
      case (Err e)
      then show ?thesis using assms(2) [of e] r Pair by (simp add: go_bind_def go_try_def triple_def)
    qed (use assms(4) r Pair in \<open>simp_all add: go_bind_def go_try_def\<close>)
  qed
qed

lemma triple_maperr:
  assumes "triple P m Q R"
  shows "triple P (go_maperr h m) Q R"
  unfolding triple_def
proof (intro allI impI)
  fix w
  assume "P w"
  with assms show "case go_maperr h m w of (Ok x, w') \<Rightarrow> Q x w' | (_, w') \<Rightarrow> R w'"
    unfolding triple_def go_maperr_def by (cases "m w"; cases "fst (m w)") (drule spec [of _ w]; simp)+
qed

lemma triple_sum: "triple P (go_sum r) (\<lambda>_. P) P"
  by (cases r) (simp_all add: triple_def go_simps)

lemma triple_some: "triple P (go_some s r) (\<lambda>_. P) P"
  by (cases r) (simp_all add: triple_def go_simps)

lemma triple_if [triple_intros]:
  "triple P m Q R \<Longrightarrow> triple P m' Q R \<Longrightarrow> triple P (if b then m else m') Q R"
  by simp

lemma triple_cond:
  "(b \<Longrightarrow> triple P m Q R) \<Longrightarrow> (\<not> b \<Longrightarrow> triple P m' Q R) \<Longrightarrow> triple P (if b then m else m') Q R"
  by simp

lemma triple_pure: "(A \<Longrightarrow> triple P m Q R) \<Longrightarrow> triple (\<lambda>w. P w \<and> A) m Q R"
  by (auto simp: triple_def)

lemma triple_mono:
  assumes "triple P m Q' R'" and "\<And>x w. Q' x w \<Longrightarrow> Q x w" and "\<And>w. R' w \<Longrightarrow> R w"
  shows "triple P m Q R"
  unfolding triple_def
proof (intro allI impI)
  fix w
  assume "P w"
  with assms(1) show "case m w of (Ok x, w') \<Rightarrow> Q x w' | (_, w') \<Rightarrow> R w'"
    unfolding triple_def using assms(2,3) by (cases "m w"; cases "fst (m w)") (drule spec [of _ w]; simp)+
qed

lemma triple_strengthen: "triple P' m Q R \<Longrightarrow> (\<And>w. P w \<Longrightarrow> P' w) \<Longrightarrow> triple P m Q R"
  by (simp add: triple_def)

lemma triple_OkD: "triple P m Q R \<Longrightarrow> P w \<Longrightarrow> m w = (Ok x, w') \<Longrightarrow> Q x w'"
  unfolding triple_def by (drule spec [of _ w]) simp

lemma triple_runD:
  "triple P m Q R \<Longrightarrow> P w \<Longrightarrow> m w = (q, w') \<Longrightarrow> (\<forall>x. q = Ok x \<longrightarrow> Q x w') \<and> (q \<notin> range Ok \<longrightarrow> R w')"
  unfolding triple_def by (drule spec [of _ w]) (auto split: outcome.splits)

lemma triple_anyD:
  "triple P m Q R \<Longrightarrow> P w \<Longrightarrow> m w = (q, w') \<Longrightarrow> (\<And>x w. Q x w \<Longrightarrow> R w) \<Longrightarrow> R w'"
  unfolding triple_def by (drule spec [of _ w]) (simp split: outcome.splits)

lemma triple_foreach:
  "(\<And>x. x \<in> set xs \<Longrightarrow> triple P (f x) (\<lambda>_. P) R) \<Longrightarrow> triple P (go_foreach f xs) (\<lambda>_. P) R"
  by (induction xs) (auto intro!: triple_return triple_bind)

lemma triple_frame: "frame obs m \<Longrightarrow> triple (\<lambda>w. obs w = S) m (\<lambda>_ w. obs w = S) (\<lambda>w. obs w = S)"
  unfolding triple_def by (auto split: prod.splits outcome.splits dest: frameD)

lemma triple_frameI:
  assumes "frame obs m" and "\<And>w x w'. m w = (Ok x, w') \<Longrightarrow> obs w = S \<Longrightarrow> Q x"
  shows "triple (\<lambda>w. obs w = S) m (\<lambda>x w. obs w = S \<and> Q x) (\<lambda>w. obs w = S)"
  using assms unfolding triple_def by (auto split: prod.splits outcome.splits dest: frameD)

lemma triple_fold:
  "(\<And>x s. x \<in> set xs \<Longrightarrow> triple (\<lambda>w. P w \<and> I s) (f x s) (\<lambda>s' w. P w \<and> I s') R) \<Longrightarrow>
     triple (\<lambda>w. P w \<and> I s) (go_fold f xs s) (\<lambda>s' w. P w \<and> I s') R"
  by (induction xs arbitrary: s) (auto intro!: triple_return triple_bind)

text \<open>A call made from a method of an object: it changes the world but not the object.\<close>

definition in_world :: "('w, 'e, 'a) comp \<Rightarrow> ('s \<times> 'w, 'e, 'a) comp" where
  "in_world m = (\<lambda>(s, w). case m w of (r, w') \<Rightarrow> (r, (s, w')))"

definition obj_get :: "('s \<times> 'w, 'e, 's) comp" where
  "obj_get = (\<lambda>(s, w). (Ok s, (s, w)))"

definition obj_update :: "('s \<Rightarrow> 's) \<Rightarrow> ('s \<times> 'w, 'e, unit) comp" where
  "obj_update f = (\<lambda>(s, w). (Ok (), (f s, w)))"

text \<open>A method called on an object nobody keeps.\<close>

definition with_obj :: "'s \<Rightarrow> ('s \<times> 'w, 'e, 'a) comp \<Rightarrow> ('w, 'e, 'a) comp" where
  "with_obj s m = (\<lambda>w. case m (s, w) of (r, (s', w')) \<Rightarrow> (r, w'))"

lemma triple_in_world:
  assumes "\<And>s w r w'. P (s, w) \<Longrightarrow> m w = (r, w') \<Longrightarrow> (\<forall>x. r = Ok x \<longrightarrow> Q x (s, w')) \<and> (r \<notin> range Ok \<longrightarrow> R (s, w'))"
  shows "triple P (in_world m) Q R"
  using assms unfolding triple_def in_world_def by (auto split: prod.splits outcome.splits)

lemma triple_objI:
  assumes "\<And>s w q s' w'. P (s, w) \<Longrightarrow> m (s, w) = (q, s', w') \<Longrightarrow>
    (\<forall>x. q = Ok x \<longrightarrow> Q x (s', w')) \<and> (q \<notin> range Ok \<longrightarrow> R (s', w'))"
  shows "triple P m Q R"
  using assms unfolding triple_def by (fastforce split: prod.splits outcome.splits)

lemma triple_get_bind:
  "(\<And>g w. P (g, w) \<Longrightarrow> triple P (f g) Q R) \<Longrightarrow> triple P (go_bind obj_get f) Q R"
  unfolding triple_def go_bind_def by (fastforce simp: obj_get_def)

lemma triple_get: "(\<And>s w. P (s, w) \<Longrightarrow> Q s (s, w)) \<Longrightarrow> triple P obj_get Q R"
  by (auto simp: triple_def obj_get_def)

lemma triple_update: "(\<And>s w. P (s, w) \<Longrightarrow> Q () (f s, w)) \<Longrightarrow> triple P (obj_update f) Q R"
  by (auto simp: triple_def obj_update_def)

lemma in_world_Ok_iff [simp]: "in_world m (s, w) = (Ok x, s', w') \<longleftrightarrow> m w = (Ok x, w') \<and> s' = s"
  by (auto simp: in_world_def split: prod.splits)

lemma obj_simps [simp]: "obj_get (s, w) = (Ok s, (s, w))" "obj_update f (s, w) = (Ok (), (f s, w))"
  by (simp_all add: obj_get_def obj_update_def)

lemma with_obj_OkE:
  assumes "with_obj s m w = (Ok x, w')"
  obtains s' where "m (s, w) = (Ok x, (s', w'))"
  using assms by (auto simp: with_obj_def split: prod.splits)

section \<open>Go's strings package\<close>

text \<open>
  Strings are byte lists. \<open>go_split c s\<close> is \<^verbatim>\<open>strings.Split(s, sep)\<close> for a separator of
  one byte; it never returns an empty slice. \<open>go_splitN2\<close> is
  \<^verbatim>\<open>strings.SplitN(s, sep, 2)\<close>, \<open>go_index\<close> is \<^verbatim>\<open>strings.Index\<close> for one byte (\<open>None\<close> for
  \<open>-1\<close>).
\<close>

fun go_split :: "char \<Rightarrow> string \<Rightarrow> string list" where
  "go_split c [] = [[]]"
| "go_split c (x # xs) =
     (if x = c then [] # go_split c xs
      else (case go_split c xs of [] \<Rightarrow> [[x]] | p # ps \<Rightarrow> (x # p) # ps))"

fun go_index :: "char \<Rightarrow> string \<Rightarrow> nat option" where
  "go_index c [] = None"
| "go_index c (x # xs) = (if x = c then Some 0 else map_option Suc (go_index c xs))"

definition go_splitN2 :: "char \<Rightarrow> string \<Rightarrow> string list" where
  "go_splitN2 c s = (case go_index c s of
       None \<Rightarrow> [s]
     | Some i \<Rightarrow> [take i s, drop (Suc i) s])"

fun go_has_prefix :: "string \<Rightarrow> string \<Rightarrow> bool" where
  "go_has_prefix s [] = True"
| "go_has_prefix [] (p # ps) = False"
| "go_has_prefix (x # xs) (p # ps) = (x = p \<and> go_has_prefix xs ps)"

fun go_contains :: "string \<Rightarrow> string \<Rightarrow> bool" where
  "go_contains [] sub = (sub = [])"
| "go_contains (x # xs) sub = (go_has_prefix (x # xs) sub \<or> go_contains xs sub)"

definition go_has_suffix :: "string \<Rightarrow> string \<Rightarrow> bool" where
  "go_has_suffix s suf = go_has_prefix (rev s) (rev suf)"

text \<open>\<^verbatim>\<open>strings.Replace(s, old, new, 1)\<close> for an old string of one byte.\<close>

fun go_replace1 :: "string \<Rightarrow> char \<Rightarrow> string \<Rightarrow> string" where
  "go_replace1 [] c new = []"
| "go_replace1 (x # xs) c new = (if x = c then new @ xs else x # go_replace1 xs c new)"

lemma go_split_nonempty [simp]: "go_split c s \<noteq> []"
  by (induction s) (auto split: list.splits)

lemma go_split_hd: "hd (go_split c s) = takeWhile (\<lambda>x. x \<noteq> c) s"
  by (induction s) (auto split: list.splits)

lemma go_split_length: "length (go_split c s) = Suc (count_list s c)"
proof (induction s)
  case (Cons x s)
  then show ?case by (cases "go_split c s") auto
qed simp

lemma go_split_no_sep: "p \<in> set (go_split c s) \<Longrightarrow> c \<notin> set p"
proof (induction s arbitrary: p)
  case (Cons x s)
  then show ?case by (cases "go_split c s") (auto split: if_splits)
qed simp

lemma go_split_no_occurrence [simp]: "c \<notin> set s \<Longrightarrow> go_split c s = [s]"
  by (induction s) auto

lemma go_split_first_sep [simp]: "c \<notin> set a \<Longrightarrow> go_split c (a @ c # b) = a # go_split c b"
  by (induction a) auto

lemma count_list_one_split:
  assumes "count_list s c = 1"
  obtains a b where "s = a @ c # b" and "c \<notin> set a" and "c \<notin> set b"
proof -
  have "c \<in> set s" using assms by (metis count_notin zero_neq_one)
  then obtain a b where ab: "s = a @ c # b" "c \<notin> set a" by (meson split_list_first)
  with assms have "count_list b c = 0" by (simp add: count_list_0_iff)
  with ab show ?thesis by (intro that [of a b]) (simp_all add: count_list_0_iff)
qed

lemma go_index_Some:
  "go_index c s = Some i \<Longrightarrow> i < length s \<and> s ! i = c \<and> c \<notin> set (take i s)"
proof (induction s arbitrary: i)
  case (Cons x s)
  then show ?case by (cases i) (auto split: if_splits)
qed simp

lemma go_index_None [simp]: "go_index c s = None \<longleftrightarrow> c \<notin> set s"
  by (induction s) auto

lemma go_index_append_sep [simp]: "c \<notin> set xs \<Longrightarrow> go_index c (xs @ c # ys) = Some (length xs)"
  by (induction xs) auto

lemma go_has_prefix_iff: "go_has_prefix s p \<longleftrightarrow> (\<exists>r. s = p @ r)"
  by (induction s p rule: go_has_prefix.induct) auto

lemma go_has_suffix_iff: "go_has_suffix s p \<longleftrightarrow> (\<exists>r. s = r @ p)"
proof -
  have "(\<exists>r. rev s = rev p @ r) \<longleftrightarrow> (\<exists>r. s = r @ p)"
    by (metis rev_append rev_rev_ident)
  then show ?thesis by (simp add: go_has_suffix_def go_has_prefix_iff)
qed

section \<open>Character classes of the regular expressions\<close>

definition is_lower :: "char \<Rightarrow> bool" where
  "is_lower c \<longleftrightarrow> c \<in> set ''abcdefghijklmnopqrstuvwxyz''"

definition is_upper :: "char \<Rightarrow> bool" where
  "is_upper c \<longleftrightarrow> c \<in> set ''ABCDEFGHIJKLMNOPQRSTUVWXYZ''"

definition is_digit :: "char \<Rightarrow> bool" where
  "is_digit c \<longleftrightarrow> c \<in> set ''0123456789''"

definition is_alpha :: "char \<Rightarrow> bool" where
  "is_alpha c \<longleftrightarrow> is_lower c \<or> is_upper c"

definition is_alnum :: "char \<Rightarrow> bool" where
  "is_alnum c \<longleftrightarrow> is_alpha c \<or> is_digit c"

lemmas char_class_defs = is_lower_def is_upper_def is_digit_def is_alpha_def is_alnum_def

lemma not_alnum_dash [simp]: "\<not> is_alnum (CHR ''-'')"
  by (simp add: char_class_defs)

lemma not_alpha_hash [simp]: "\<not> is_alpha (CHR ''#'')"
  by (simp add: char_class_defs)

section \<open>Go's int\<close>

text \<open>\<^verbatim>\<open>int\<close> is a 64-bit two's complement integer: arithmetic wraps around.\<close>

definition go_int :: "int \<Rightarrow> int" where
  "go_int x = (x + 2 ^ 63) mod 2 ^ 64 - 2 ^ 63"

lemma go_int_range: "- (2 ^ 63) \<le> go_int x" "go_int x < 2 ^ 63"
proof -
  have "0 \<le> (x + 2 ^ 63) mod 2 ^ 64" and "(x + 2 ^ 63) mod 2 ^ 64 < 2 ^ 64" by simp_all
  then show "- (2 ^ 63) \<le> go_int x" and "go_int x < 2 ^ 63" by (simp_all add: go_int_def)
qed

lemma go_int_id: "- (2 ^ 63) \<le> x \<Longrightarrow> x < 2 ^ 63 \<Longrightarrow> go_int x = x"
  by (simp add: go_int_def)

section \<open>Shared list lemmas\<close>

lemma find_SomeD: "find P xs = Some x \<Longrightarrow> x \<in> set xs \<and> P x"
  by (auto simp: find_Some_iff)

lemma takeWhile_append_stop [simp]:
  "\<forall>x\<in>set xs. P x \<Longrightarrow> \<not> P y \<Longrightarrow> takeWhile P (xs @ y # ys) = xs"
  by (induction xs) auto

lemma dropWhile_append_stop [simp]:
  "\<forall>x\<in>set xs. P x \<Longrightarrow> \<not> P y \<Longrightarrow> dropWhile P (xs @ y # ys) = y # ys"
  by (induction xs) auto

end
