(* ===== verification/Errors.thy ===== *)
theory Errors
  imports Go_Prelude
begin

text \<open>
  The package \<^verbatim>\<open>internal/errors\<close>: the codes of JIMM's errors, the error values that travel
  through the system, and the two functions that walk an error's chain.

  The codes taken over from Juju's \<^verbatim>\<open>rpc/params\<close> and the ones JIMM spells out are the
  constructors of one datatype (they are pairwise different strings in the source), a code of
  any other error is \<open>CodeOther\<close>, and \<open>CodeNone\<close> is the empty code. The text a formatted
  error prints is kept as its format string and arguments: no decision of the modelled code
  depends on the formatted text, so \<^verbatim>\<open>fmt\<close> is the parameter \<open>sprintf\<close> where \<^verbatim>\<open>Error()\<close> is
  asked for.
\<close>

datatype Code =
    CodeNone
  | CodeAlreadyExists | CodeBadRequest | CodeCloudRegionRequired | CodeConnectionFailed
  | CodeDatabaseLocked | CodeForbidden | CodeIncompatibleClouds | CodeModelNotFound
  | CodeModelMigrating | CodeNotFound | CodeNotImplemented | CodeNotSupported | CodeRedirect
  | CodeServerConfiguration | CodeStillAlive | CodeUnauthorized | CodeServerError
  | CodeSessionTokenInvalid | CodeUpgradeInProgress | CodeInProgress
  | CodeFailedToParseTupleKey | CodeFailedToResolveTupleResource | CodeOpenFGARequestFailed
  | CodeJWKSRetrievalFailed | CodeFatalLoginError
  | CodeOther string

type_synonym info = "(string \<times> string) list"

text \<open>
  An error value: \<^verbatim>\<open>errors.New\<close>, \<^verbatim>\<open>fmt.Errorf\<close> (with the error its \<^verbatim>\<open>%w\<close> wraps, if any),
  JIMM's own \<^verbatim>\<open>*errors.Error\<close>, gorm's sentinel \<^verbatim>\<open>ErrRecordNotFound\<close>, or an error of foreign
  code, given by its text, what its \<^verbatim>\<open>ErrorCode\<close>, \<^verbatim>\<open>ErrorInfo\<close> and \<^verbatim>\<open>SQLState\<close> methods
  return and what it wraps.
\<close>

datatype err =
    ErrNew string
  | ErrFmt string "string list" "err option"
  | Error (err_Code: Code) (err_Message: string) (err_Info: "info option") (err_Err: "err option")
  | ErrRecordNotFound
  | ErrExt string Code "info option" "string option" "err option"

type_synonym ('w, 'a) io = "('w, err, 'a) comp"

text \<open>\<^verbatim>\<open>stderr.Unwrap\<close>.\<close>

fun Unwrap :: "err \<Rightarrow> err option" where
  "Unwrap (ErrNew s) = None"
| "Unwrap (ErrFmt f args w) = w"
| "Unwrap (Error c m i w) = w"
| "Unwrap ErrRecordNotFound = None"
| "Unwrap (ErrExt m c i q w) = w"

text \<open>A chain is finite: what \<^verbatim>\<open>Unwrap\<close> returns is smaller.\<close>

definition chain_measure :: "err option \<Rightarrow> nat" where
  "chain_measure r = (case r of None \<Rightarrow> 0 | Some e \<Rightarrow> Suc (size e))"

lemma Unwrap_smaller: "(Unwrap e, Some e) \<in> measure chain_measure"
  by (cases e rule: Unwrap.cases) (auto simp: chain_measure_def split: option.split)

text \<open>\<^verbatim>\<open>Codef\<close>: a code on top of a formatted error; \<open>inner\<close> is what \<^verbatim>\<open>fmt.Errorf\<close> returned.\<close>

definition Codef :: "Code \<Rightarrow> err \<Rightarrow> err" where
  "Codef code inner = Error code '''' None (Some inner)"

text \<open>The method \<^verbatim>\<open>Error()\<close>; a foreign error prints its own text.\<close>

definition code_string :: "(Code \<Rightarrow> string) \<Rightarrow> Code \<Rightarrow> string" where
  "code_string codes c = (case c of
       CodeNone \<Rightarrow> '''' | CodeOther s \<Rightarrow> s
     | CodeConnectionFailed \<Rightarrow> ''connection failed'' | CodeDatabaseLocked \<Rightarrow> ''database locked''
     | CodeModelMigrating \<Rightarrow> ''model migrating'' | CodeServerConfiguration \<Rightarrow> ''server configuration''
     | CodeServerError \<Rightarrow> ''server error'' | CodeInProgress \<Rightarrow> ''in progress''
     | CodeFailedToParseTupleKey \<Rightarrow> ''failed to parse tuple''
     | CodeFailedToResolveTupleResource \<Rightarrow> ''failed resolve resource''
     | CodeOpenFGARequestFailed \<Rightarrow> ''failed request to OpenFGA''
     | CodeJWKSRetrievalFailed \<Rightarrow> ''jwks retrieval failure''
     | CodeFatalLoginError \<Rightarrow> ''fatal login error''
     | _ \<Rightarrow> codes c)"

function Error_text :: "(string \<Rightarrow> string list \<Rightarrow> string) \<Rightarrow> (Code \<Rightarrow> string) \<Rightarrow> err \<Rightarrow> string" where
  "Error_text sprintf codes (ErrNew s) = s"
| "Error_text sprintf codes (ErrFmt f args w) = sprintf f args"
| "Error_text sprintf codes (Error c m i w) =
     (if m \<noteq> '''' then m
      else case w of
        Some e \<Rightarrow> Error_text sprintf codes e
      | None \<Rightarrow> if c \<noteq> CodeNone then code_string codes c else ''unknown error'')"
| "Error_text sprintf codes ErrRecordNotFound = ''record not found''"
| "Error_text sprintf codes (ErrExt m c i q w) = m"
  by pat_completeness auto
termination
  by (relation "measure (\<lambda>(s, c, e). size e)") auto

text \<open>The methods \<^verbatim>\<open>ErrorCode()\<close> and \<^verbatim>\<open>ErrorInfo()\<close> where an error has them.\<close>

fun own_code :: "err \<Rightarrow> Code" where
  "own_code (Error c m i w) = c"
| "own_code (ErrExt m c i q w) = c"
| "own_code _ = CodeNone"

fun own_info :: "err \<Rightarrow> info option" where
  "own_info (Error c m i w) = i"
| "own_info (ErrExt m c i q w) = i"
| "own_info _ = None"

text \<open>The package functions \<^verbatim>\<open>ErrorCode\<close> and \<^verbatim>\<open>ErrorInfo\<close>: a loop down the chain.\<close>

function ErrorCode :: "err option \<Rightarrow> Code" where
  "ErrorCode None = CodeNone"
| "ErrorCode (Some e) = (if own_code e \<noteq> CodeNone then own_code e else ErrorCode (Unwrap e))"
  by pat_completeness auto
termination
  by (relation "measure chain_measure") (simp_all only: wf_measure Unwrap_smaller)

function ErrorInfo :: "err option \<Rightarrow> info option" where
  "ErrorInfo None = None"
| "ErrorInfo (Some e) = (case own_info e of Some i \<Rightarrow> Some i | None \<Rightarrow> ErrorInfo (Unwrap e))"
  by pat_completeness auto
termination
  by (relation "measure chain_measure") (simp_all only: wf_measure Unwrap_smaller)

text \<open>The chain of an error, as a list, to specify the two loops.\<close>

function err_chain :: "err option \<Rightarrow> err list" where
  "err_chain None = []"
| "err_chain (Some e) = e # err_chain (Unwrap e)"
  by pat_completeness auto
termination
  by (relation "measure chain_measure") (simp_all only: wf_measure Unwrap_smaller)

lemma ErrorCode_chain:
  "ErrorCode e = (case find (\<lambda>x. own_code x \<noteq> CodeNone) (err_chain e) of
     None \<Rightarrow> CodeNone | Some x \<Rightarrow> own_code x)"
  by (induction e rule: ErrorCode.induct) simp_all

lemma ErrorInfo_chain:
  "ErrorInfo e = (case find (\<lambda>x. own_info x \<noteq> None) (err_chain e) of
     None \<Rightarrow> None | Some x \<Rightarrow> own_info x)"
  by (induction e rule: ErrorInfo.induct) (simp_all split: option.split)

lemma ErrorCode_Codef [simp]:
  "ErrorCode (Some (Codef c inner)) = (if c = CodeNone then ErrorCode (Some inner) else c)"
  by (simp add: Codef_def)

declare ErrorCode.simps(2) [simp del] ErrorInfo.simps(2) [simp del]

lemma ErrorCode_basic [simp]:
  "ErrorCode (Some (ErrNew s)) = CodeNone"
  "ErrorCode (Some ErrRecordNotFound) = CodeNone"
  "ErrorCode (Some (ErrFmt f args w)) = ErrorCode w"
  by (simp_all add: ErrorCode.simps(2))

text \<open>The refusals the sources write most often.\<close>

definition err_unauthorized :: err where
  "err_unauthorized = Codef CodeUnauthorized (ErrNew ''unauthorized'')"

lemma ErrorCode_unauthorized [simp]: "ErrorCode (Some err_unauthorized) = CodeUnauthorized"
  by (simp add: err_unauthorized_def)

text \<open>
  C38. The code an error carries is the code of the first error of its chain that has a
  non-empty one, and a chain with none has the empty code.
\<close>

theorem error_code_is_first_code_of_chain:
  "ErrorCode e = (case find (\<lambda>x. own_code x \<noteq> CodeNone) (err_chain e) of
     None \<Rightarrow> CodeNone | Some x \<Rightarrow> own_code x)
   \<and> ErrorInfo e = (case find (\<lambda>x. own_info x \<noteq> None) (err_chain e) of
     None \<Rightarrow> None | Some x \<Rightarrow> own_info x)"
  using ErrorCode_chain ErrorInfo_chain by blast

end
