(* ===== verification/Jimm_Names.thy ===== *)
theory Jimm_Names
  imports Errors
begin

text \<open>
  The package \<^verbatim>\<open>pkg/names\<close>: the tags of JIMM's own entities (groups, roles, groups of an
  identity provider), their validation and parsing, and service account identifiers.

  Juju's package \<^verbatim>\<open>names\<close> is third-party code: the functions of it that the sources call
  are the fields of the record \<open>juju_names\<close>, which every definition that uses them takes as
  an argument. \<open>names_NewTag kind id\<close> is the \<^verbatim>\<open>Id()\<close> of the tag that the constructor for
  \<open>kind\<close> (\<^verbatim>\<open>NewUserTag\<close>, \<^verbatim>\<open>NewModelTag\<close> and so on) builds from \<open>id\<close>, \<open>None\<close> where it panics.
  The kinds of Juju's tags are the type names of \<^verbatim>\<open>openfga/authorisation_model.fga\<close>.
\<close>

section \<open>Tags\<close>

datatype tag = Tag (Kind: string) (Id: string)

definition tag_String :: "tag \<Rightarrow> string" where
  "tag_String t = Kind t @ ''-'' @ Id t"

definition UserTagKind :: string where "UserTagKind = ''user''"
definition ModelTagKind :: string where "ModelTagKind = ''model''"
definition ControllerTagKind :: string where "ControllerTagKind = ''controller''"
definition ApplicationOfferTagKind :: string where "ApplicationOfferTagKind = ''applicationoffer''"
definition CloudTagKind :: string where "CloudTagKind = ''cloud''"
definition GroupTagKind :: string where "GroupTagKind = ''group''"
definition IdPGroupTagKind :: string where "IdPGroupTagKind = ''idpgroup''"
definition RoleTagKind :: string where "RoleTagKind = ''role''"

lemmas kind_defs =
  UserTagKind_def ModelTagKind_def ControllerTagKind_def ApplicationOfferTagKind_def
  CloudTagKind_def GroupTagKind_def IdPGroupTagKind_def RoleTagKind_def

lemma kind_distinct [simp]:
  "UserTagKind \<noteq> ModelTagKind" "UserTagKind \<noteq> ControllerTagKind"
  "UserTagKind \<noteq> ApplicationOfferTagKind" "UserTagKind \<noteq> CloudTagKind"
  "UserTagKind \<noteq> GroupTagKind" "UserTagKind \<noteq> IdPGroupTagKind"
  "UserTagKind \<noteq> RoleTagKind" "ModelTagKind \<noteq> UserTagKind"
  "ModelTagKind \<noteq> ControllerTagKind" "ModelTagKind \<noteq> ApplicationOfferTagKind"
  "ModelTagKind \<noteq> CloudTagKind" "ModelTagKind \<noteq> GroupTagKind"
  "ModelTagKind \<noteq> IdPGroupTagKind" "ModelTagKind \<noteq> RoleTagKind"
  "ControllerTagKind \<noteq> UserTagKind" "ControllerTagKind \<noteq> ModelTagKind"
  "ControllerTagKind \<noteq> ApplicationOfferTagKind" "ControllerTagKind \<noteq> CloudTagKind"
  "ControllerTagKind \<noteq> GroupTagKind" "ControllerTagKind \<noteq> IdPGroupTagKind"
  "ControllerTagKind \<noteq> RoleTagKind" "ApplicationOfferTagKind \<noteq> UserTagKind"
  "ApplicationOfferTagKind \<noteq> ModelTagKind" "ApplicationOfferTagKind \<noteq> ControllerTagKind"
  "ApplicationOfferTagKind \<noteq> CloudTagKind" "ApplicationOfferTagKind \<noteq> GroupTagKind"
  "ApplicationOfferTagKind \<noteq> IdPGroupTagKind" "ApplicationOfferTagKind \<noteq> RoleTagKind"
  "CloudTagKind \<noteq> UserTagKind" "CloudTagKind \<noteq> ModelTagKind"
  "CloudTagKind \<noteq> ControllerTagKind" "CloudTagKind \<noteq> ApplicationOfferTagKind"
  "CloudTagKind \<noteq> GroupTagKind" "CloudTagKind \<noteq> IdPGroupTagKind"
  "CloudTagKind \<noteq> RoleTagKind" "GroupTagKind \<noteq> UserTagKind"
  "GroupTagKind \<noteq> ModelTagKind" "GroupTagKind \<noteq> ControllerTagKind"
  "GroupTagKind \<noteq> ApplicationOfferTagKind" "GroupTagKind \<noteq> CloudTagKind"
  "GroupTagKind \<noteq> IdPGroupTagKind" "GroupTagKind \<noteq> RoleTagKind"
  "IdPGroupTagKind \<noteq> UserTagKind" "IdPGroupTagKind \<noteq> ModelTagKind"
  "IdPGroupTagKind \<noteq> ControllerTagKind" "IdPGroupTagKind \<noteq> ApplicationOfferTagKind"
  "IdPGroupTagKind \<noteq> CloudTagKind" "IdPGroupTagKind \<noteq> GroupTagKind"
  "IdPGroupTagKind \<noteq> RoleTagKind" "RoleTagKind \<noteq> UserTagKind"
  "RoleTagKind \<noteq> ModelTagKind" "RoleTagKind \<noteq> ControllerTagKind"
  "RoleTagKind \<noteq> ApplicationOfferTagKind" "RoleTagKind \<noteq> CloudTagKind"
  "RoleTagKind \<noteq> GroupTagKind" "RoleTagKind \<noteq> IdPGroupTagKind"
  by (simp_all add: kind_defs)

record juju_names =
  IsValidUser :: "string \<Rightarrow> bool"
  UserDomain :: "string \<Rightarrow> string"
  names_ParseTag :: "string \<Rightarrow> err + tag"
  names_NewTag :: "string \<Rightarrow> string \<Rightarrow> string option"
  names_IsLocal :: "tag \<Rightarrow> bool"

section \<open>Identifiers and names of groups and roles\<close>

text \<open>
  The regular expression of group and role identifiers: a lower-case UUID, then optionally a
  hash sign and lower-case letters (the alternative \<^verbatim>\<open>\z\<close> before \<^verbatim>\<open>[a-z]+\<close> never matches).
\<close>

definition is_hex_lower :: "char \<Rightarrow> bool" where
  "is_hex_lower c \<longleftrightarrow> c \<in> set ''abcdef0123456789''"

definition uuid_template :: "bool list" where
  "uuid_template = replicate 8 False @ [True] @ replicate 4 False @ [True] @ replicate 4 False
     @ [True] @ replicate 4 False @ [True] @ replicate 12 False"

definition match_uuid_text :: "string \<Rightarrow> bool" where
  "match_uuid_text s \<longleftrightarrow>
     list_all2 (\<lambda>sep c. if sep then c = CHR ''-'' else is_hex_lower c) uuid_template s"

definition match_entity_id :: "string \<Rightarrow> bool" where
  "match_entity_id s \<longleftrightarrow> match_uuid_text (take 36 s) \<and>
     (case drop 36 s of [] \<Rightarrow> True
      | c # rel \<Rightarrow> c = CHR ''#'' \<and> rel \<noteq> [] \<and> list_all is_lower rel)"

text \<open>The regular expression of group and role names.\<close>

definition is_name_char :: "char \<Rightarrow> bool" where
  "is_name_char c \<longleftrightarrow> is_alnum c \<or> c \<in> set ''._-''"

definition match_entity_name :: "string \<Rightarrow> bool" where
  "match_entity_name s \<longleftrightarrow> 3 \<le> length s \<and> is_alpha (hd s) \<and> is_alnum (last s)
     \<and> list_all is_name_char (butlast (tl s))"

definition IsValidGroupId :: "string \<Rightarrow> bool" where
  "IsValidGroupId s = match_entity_id s"

definition IsValidGroupName :: "string \<Rightarrow> bool" where
  "IsValidGroupName s = match_entity_name s"

text \<open>The constructors: \<open>None\<close> is the panic on an identifier that does not match.\<close>

definition NewGroupTag :: "string \<Rightarrow> tag option" where
  "NewGroupTag groupId =
     (if match_entity_id groupId then Some (Tag GroupTagKind groupId) else None)"

definition IsValidRoleId :: "string \<Rightarrow> bool" where
  "IsValidRoleId s = match_entity_id s"

definition IsValidRoleName :: "string \<Rightarrow> bool" where
  "IsValidRoleName s = match_entity_name s"

definition NewRoleTag :: "string \<Rightarrow> tag option" where
  "NewRoleTag roleId =
     (if match_entity_id roleId then Some (Tag RoleTagKind roleId) else None)"

section \<open>Groups of an identity provider\<close>

definition IsValidIdPGroupId :: "string \<Rightarrow> bool" where
  "IsValidIdPGroupId s =
     (if s = '''' then False
      else let parts = go_split (CHR ''#'') s in
        if 2 < length parts then False
        else if hd parts = '''' then False
        else length parts = 1 \<or> parts ! 1 \<noteq> '''')"

definition NewIdPGroupTag :: "string \<Rightarrow> tag option" where
  "NewIdPGroupTag groupId =
     (if \<not> IsValidIdPGroupId groupId then None else Some (Tag IdPGroupTagKind groupId))"

section \<open>Parsing tags\<close>

definition invalidTagError :: "string \<Rightarrow> string \<Rightarrow> err" where
  "invalidTagError tag kind =
     (if kind \<noteq> '''' then ErrFmt ''%q is not a valid %s tag'' [tag, kind] None
      else ErrFmt ''%q is not a valid tag'' [tag] None)"

definition TagKind :: "string \<Rightarrow> err + string" where
  "TagKind tag = (case go_index (CHR ''-'') tag of
       None \<Rightarrow> Inl (ErrFmt ''%q is not a valid tag'' [tag] None)
     | Some i \<Rightarrow> if i = 0 then Inl (ErrFmt ''%q is not a valid tag'' [tag] None)
                 else Inr (take i tag))"

definition splitTag :: "string \<Rightarrow> err + (string \<times> string)" where
  "splitTag tag = (case TagKind tag of
       Inl e \<Rightarrow> Inl e
     | Inr kind \<Rightarrow> Inr (kind, drop (length kind + 1) tag))"

text \<open>
  \<^verbatim>\<open>ParseTag\<close>: the outer \<open>None\<close> is a panic of one of the constructors, which the validity
  checks before them exclude.
\<close>

definition parse_checked :: "string \<Rightarrow> string \<Rightarrow> bool \<Rightarrow> tag option \<Rightarrow> (err + tag) option" where
  "parse_checked tag kind valid t =
     (if \<not> valid then Some (Inl (invalidTagError tag kind)) else map_option Inr t)"

definition ParseTag :: "'z juju_names_scheme \<Rightarrow> string \<Rightarrow> (err + tag) option" where
  "ParseTag J tag = (case splitTag tag of
       Inl _ \<Rightarrow> Some (Inl (invalidTagError tag ''''))
     | Inr (kind, i) \<Rightarrow>
         if kind = GroupTagKind then parse_checked tag kind (IsValidGroupId i) (NewGroupTag i)
         else if kind = IdPGroupTagKind
           then parse_checked tag kind (IsValidIdPGroupId i) (NewIdPGroupTag i)
         else if kind = RoleTagKind then parse_checked tag kind (IsValidRoleId i) (NewRoleTag i)
         else Some (names_ParseTag J tag))"

text \<open>\<^verbatim>\<open>ParseGroupTag\<close>, \<^verbatim>\<open>ParseIdPGroupTag\<close> and \<^verbatim>\<open>ParseRoleTag\<close>: the type assertion on the result.\<close>

definition parse_as :: "string \<Rightarrow> string \<Rightarrow> (err + tag) option \<Rightarrow> (err + tag) option" where
  "parse_as kind tag r = map_option
     (\<lambda>r. case r of Inl e \<Rightarrow> Inl e
        | Inr t \<Rightarrow> if Kind t = kind then Inr t else Inl (invalidTagError tag kind)) r"

definition ParseGroupTag :: "'z juju_names_scheme \<Rightarrow> string \<Rightarrow> (err + tag) option" where
  "ParseGroupTag J tag = parse_as GroupTagKind tag (ParseTag J tag)"

definition ParseIdPGroupTag :: "'z juju_names_scheme \<Rightarrow> string \<Rightarrow> (err + tag) option" where
  "ParseIdPGroupTag J tag = parse_as IdPGroupTagKind tag (ParseTag J tag)"

definition ParseRoleTag :: "'z juju_names_scheme \<Rightarrow> string \<Rightarrow> (err + tag) option" where
  "ParseRoleTag J tag = parse_as RoleTagKind tag (ParseTag J tag)"

section \<open>Service accounts\<close>

definition ServiceAccountDomain :: string where
  "ServiceAccountDomain = ''serviceaccount''"

definition ErrInvalidClientID :: err where
  "ErrInvalidClientID = ErrNew ''invalid client ID''"

definition IsValidServiceAccountId :: "'z juju_names_scheme \<Rightarrow> string \<Rightarrow> bool" where
  "IsValidServiceAccountId J i =
     (if \<not> IsValidUser J i then False else UserDomain J i = ServiceAccountDomain)"

definition EnsureValidServiceAccountId :: "'z juju_names_scheme \<Rightarrow> string \<Rightarrow> err + string" where
  "EnsureValidServiceAccountId J i =
     (let i' = (if \<not> go_has_suffix i (''@'' @ ServiceAccountDomain)
                then i @ ''@'' @ ServiceAccountDomain else i)
      in if \<not> IsValidServiceAccountId J i' then Inl ErrInvalidClientID else Inr i')"

section \<open>The contract of a family of tags\<close>

text \<open>
  What the three families of tags share: a kind without a dash, a validity test, a
  constructor that panics exactly on invalid identifiers, and a parser that accepts the
  printed form of every tag the constructor makes and nothing else of that kind.
\<close>

locale tag_family =
  fixes kind :: string
    and valid :: "string \<Rightarrow> bool"
    and mk :: "string \<Rightarrow> tag option"
    and parse :: "string \<Rightarrow> (err + tag) option"
  assumes mk_valid: "valid i \<Longrightarrow> mk i = Some (Tag kind i)"
    and mk_invalid: "\<not> valid i \<Longrightarrow> mk i = None"
    and valid_nonempty: "valid i \<Longrightarrow> i \<noteq> ''''"
    and parse_kind: "parse (kind @ CHR ''-'' # i) =
      (if valid i then Some (Inr (Tag kind i))
       else Some (Inl (invalidTagError (kind @ CHR ''-'' # i) kind)))"
begin

lemma mk_iff: "mk i = Some t \<longleftrightarrow> valid i \<and> t = Tag kind i"
  by (metis mk_invalid mk_valid option.distinct(1) option.inject)

lemma parse_print: "mk i = Some t \<Longrightarrow> parse (tag_String t) = Some (Inr t)"
  by (simp add: mk_iff tag_String_def parse_kind)

lemma parse_rejects: "\<not> valid i \<Longrightarrow> \<exists>e. parse (kind @ CHR ''-'' # i) = Some (Inl e)"
  by (simp add: parse_kind)

lemma print_injective: "mk i = Some t \<Longrightarrow> mk i' = Some t' \<Longrightarrow> tag_String t = tag_String t' \<Longrightarrow> t = t'"
  by (auto simp: mk_iff tag_String_def)

end

lemma match_entity_id_nonempty: "match_entity_id s \<Longrightarrow> s \<noteq> ''''"
  by (auto simp: match_entity_id_def match_uuid_text_def uuid_template_def)

lemma splitTag_kind:
  "kind \<noteq> '''' \<Longrightarrow> CHR ''-'' \<notin> set kind \<Longrightarrow> splitTag (kind @ CHR ''-'' # i) = Inr (kind, i)"
  by (simp add: splitTag_def TagKind_def)

lemma splitTag_jimm_kinds [simp]:
  "splitTag (GroupTagKind @ CHR ''-'' # i) = Inr (GroupTagKind, i)"
  "splitTag (RoleTagKind @ CHR ''-'' # i) = Inr (RoleTagKind, i)"
  "splitTag (IdPGroupTagKind @ CHR ''-'' # i) = Inr (IdPGroupTagKind, i)"
  by (rule splitTag_kind; simp add: kind_defs)+

lemmas parse_defs = ParseTag_def parse_checked_def parse_as_def

interpretation group_tags: tag_family GroupTagKind IsValidGroupId NewGroupTag "ParseGroupTag J" for J
  by unfold_locales
    (auto simp: ParseGroupTag_def parse_defs NewGroupTag_def IsValidGroupId_def
      dest: match_entity_id_nonempty)

interpretation role_tags: tag_family RoleTagKind IsValidRoleId NewRoleTag "ParseRoleTag J" for J
  by unfold_locales
    (auto simp: ParseRoleTag_def parse_defs NewRoleTag_def IsValidRoleId_def
      dest: match_entity_id_nonempty)

interpretation idp_tags: tag_family IdPGroupTagKind IsValidIdPGroupId NewIdPGroupTag "ParseIdPGroupTag J" for J
  by unfold_locales
    (auto simp: ParseIdPGroupTag_def parse_defs NewIdPGroupTag_def IsValidIdPGroupId_def)

lemma parse_checked_total [simp]:
  "parse_checked tag kind (IsValidGroupId i) (NewGroupTag i) \<noteq> None"
  "parse_checked tag kind (IsValidRoleId i) (NewRoleTag i) \<noteq> None"
  "parse_checked tag kind (IsValidIdPGroupId i) (NewIdPGroupTag i) \<noteq> None"
  by (simp_all add: parse_checked_def NewGroupTag_def NewRoleTag_def NewIdPGroupTag_def
      IsValidGroupId_def IsValidRoleId_def)

lemma IsValidIdPGroupId_iff:
  "IsValidIdPGroupId s \<longleftrightarrow>
     s \<noteq> '''' \<and> hd s \<noteq> CHR ''#'' \<and> last s \<noteq> CHR ''#'' \<and> count_list s (CHR ''#'') \<le> 1"
proof (cases "s = ''''")
  case False
  let ?h = "CHR ''#''"
  have len: "length (go_split ?h s) = Suc (count_list s ?h)" by (rule go_split_length)
  have hd: "hd (go_split ?h s) = '''' \<longleftrightarrow> hd s = ?h"
    using False unfolding go_split_hd by (cases s) auto
  have snd: "go_split ?h s ! 1 = '''' \<longleftrightarrow> last s = ?h"
    if one: "count_list s ?h = 1"
  proof -
    from one obtain a b where s: "s = a @ ?h # b" and "?h \<notin> set a" and b: "?h \<notin> set b"
      by (rule count_list_one_split)
    then have "go_split ?h s ! 1 = b" by simp
    moreover have "last s = ?h \<longleftrightarrow> b = ''''"
      using s b by (cases b rule: rev_cases) auto
    ultimately show ?thesis by blast
  qed
  have none: "last s \<noteq> ?h" if "count_list s ?h = 0"
    using that False by (metis count_list_0_iff last_in_set)
  consider (zero) "count_list s ?h = 0" | (one) "count_list s ?h = 1" | (more) "1 < count_list s ?h"
    by linarith
  then show ?thesis
  proof cases
    case zero
    with False len hd none show ?thesis by (simp add: IsValidIdPGroupId_def)
  next
    case one
    with False len hd snd [OF one] show ?thesis by (auto simp: IsValidIdPGroupId_def)
  next
    case more
    with False len show ?thesis by (simp add: IsValidIdPGroupId_def)
  qed
qed (simp add: IsValidIdPGroupId_def)

section \<open>Properties\<close>

text \<open>
  Every group, role and identity-provider group tag that can be constructed is recovered
  by parsing its printed form.
\<close>

theorem jimm_tags_roundtrip:
  "(NewGroupTag i = Some t \<longrightarrow> ParseGroupTag J (tag_String t) = Some (Inr t))
   \<and> (NewRoleTag i = Some t \<longrightarrow> ParseRoleTag J (tag_String t) = Some (Inr t))
   \<and> (NewIdPGroupTag i = Some t \<longrightarrow> ParseIdPGroupTag J (tag_String t) = Some (Inr t))"
  using group_tags.parse_print role_tags.parse_print idp_tags.parse_print by blast

definition juju_names_none :: juju_names where
  "juju_names_none = \<lparr>IsValidUser = (\<lambda>_. False), UserDomain = (\<lambda>_. ''''),
     names_ParseTag = (\<lambda>s. Inl (ErrNew s)), names_NewTag = (\<lambda>_ _. None),
     names_IsLocal = (\<lambda>_. False)\<rparr>"

theorem jimm_tags_roundtrip_witness:
  "NewRoleTag ''0a6b8f5e-6f4c-4d2b-9a51-3c0f5d7e9b12'' =
     Some (Tag RoleTagKind ''0a6b8f5e-6f4c-4d2b-9a51-3c0f5d7e9b12'')
   \<and> ParseRoleTag juju_names_none (tag_String (Tag RoleTagKind ''0a6b8f5e-6f4c-4d2b-9a51-3c0f5d7e9b12''))
     = Some (Inr (Tag RoleTagKind ''0a6b8f5e-6f4c-4d2b-9a51-3c0f5d7e9b12''))"
proof -
  have "NewRoleTag ''0a6b8f5e-6f4c-4d2b-9a51-3c0f5d7e9b12'' =
     Some (Tag RoleTagKind ''0a6b8f5e-6f4c-4d2b-9a51-3c0f5d7e9b12'')"
    by code_simp
  then show ?thesis using jimm_tags_roundtrip by blast
qed

text \<open>
  Parsing never panics: the validity test in front of each constructor is exactly the
  condition under which that constructor does not panic.
\<close>

theorem parse_tag_never_panics: "ParseTag J tag \<noteq> None"
  by (simp add: ParseTag_def del: not_None_eq split: sum.split prod.split)

text \<open>
  An identity-provider group identifier is accepted exactly when it is not empty, has at
  most one relation separator, and that separator is neither its first nor its last byte.
\<close>

theorem idp_group_id_accepted_iff:
  "IsValidIdPGroupId s \<longleftrightarrow>
     s \<noteq> '''' \<and> hd s \<noteq> CHR ''#'' \<and> last s \<noteq> CHR ''#'' \<and> count_list s (CHR ''#'') \<le> 1"
  by (rule IsValidIdPGroupId_iff)

text \<open>
  The shortest group and role names the code accepts have three bytes; the comment above
  \<^verbatim>\<open>IsValidGroupName\<close> and \<^verbatim>\<open>IsValidRoleName\<close> asks for six.
\<close>

theorem shortest_entity_name_is_three:
  "(IsValidGroupName s \<or> IsValidRoleName s \<longrightarrow> 3 \<le> length s)
   \<and> IsValidGroupName ''abc'' \<and> IsValidRoleName ''abc''"
  by (auto simp: IsValidGroupName_def IsValidRoleName_def match_entity_name_def char_class_defs
      is_name_char_def)

theorem shortest_entity_name_is_three_witness:
  "IsValidGroupName ''team-1'' \<and> 3 \<le> length ''team-1''"
proof -
  have "IsValidGroupName ''team-1''" by code_simp
  then show ?thesis using shortest_entity_name_is_three by blast
qed

text \<open>
  A service account identifier that \<^verbatim>\<open>EnsureValidServiceAccountId\<close> returns is valid,
  carries the service account domain, and is returned unchanged by a second call.
\<close>

theorem ensure_service_account_id:
  assumes "EnsureValidServiceAccountId J i = Inr i'"
  shows "IsValidServiceAccountId J i' \<and> go_has_suffix i' ''@serviceaccount''
    \<and> EnsureValidServiceAccountId J i' = Inr i'"
proof -
  have suf: "go_has_suffix i' (''@'' @ ServiceAccountDomain)" and v: "IsValidServiceAccountId J i'"
    using assms
    by (auto simp: EnsureValidServiceAccountId_def Let_def go_has_suffix_iff split: if_splits)
  then have "EnsureValidServiceAccountId J i' = Inr i'"
    by (simp add: EnsureValidServiceAccountId_def)
  with suf v show ?thesis by (simp add: ServiceAccountDomain_def)
qed

theorem ensure_service_account_id_witness:
  "EnsureValidServiceAccountId (juju_names_none\<lparr>IsValidUser := (\<lambda>_. True), UserDomain := (\<lambda>_. ''serviceaccount'')\<rparr>) ''bot''
     = Inr ''bot@serviceaccount''
   \<and> EnsureValidServiceAccountId (juju_names_none\<lparr>IsValidUser := (\<lambda>_. True), UserDomain := (\<lambda>_. ''serviceaccount'')\<rparr>)
       ''bot@serviceaccount'' = Inr ''bot@serviceaccount''"
proof -
  have h: "EnsureValidServiceAccountId (juju_names_none\<lparr>IsValidUser := (\<lambda>_. True), UserDomain := (\<lambda>_. ''serviceaccount'')\<rparr>) ''bot''
     = Inr ''bot@serviceaccount''"
    by (simp add: EnsureValidServiceAccountId_def IsValidServiceAccountId_def go_has_suffix_def
        ServiceAccountDomain_def)
  show ?thesis using h ensure_service_account_id [OF h] by simp
qed

end
