(* ===== verification/Ofga_Names.thy ===== *)
theory Ofga_Names
  imports Jimm_Names
begin

text \<open>
  The package \<^verbatim>\<open>internal/openfga/names\<close>: the entities and tuples exchanged with OpenFGA, the
  relations, and the conversions between tags, Juju access levels and OpenFGA relations.
  Kinds and relations are strings, as in the source; a nil pointer to an entity is \<open>None\<close>.
  The access levels of Juju's package \<^verbatim>\<open>core/permission\<close> are the strings JIMM itself spells
  out in \<^verbatim>\<open>internal/jimm/permissions/access.go\<close>.
\<close>

section \<open>Entities and tuples\<close>

record entity =
  ent_Kind :: string
  ent_ID :: string
  ent_Relation :: string

record tup =
  Object :: "entity option"
  Relation :: string
  Target :: "entity option"

section \<open>Relations\<close>

definition MemberRelation :: string where "MemberRelation = ''member''"
definition AssigneeRelation :: string where "AssigneeRelation = ''assignee''"
definition AdministratorRelation :: string where "AdministratorRelation = ''administrator''"
definition ControllerRelation :: string where "ControllerRelation = ''controller''"
definition ModelRelation :: string where "ModelRelation = ''model''"
definition ConsumerRelation :: string where "ConsumerRelation = ''consumer''"
definition ReaderRelation :: string where "ReaderRelation = ''reader''"
definition WriterRelation :: string where "WriterRelation = ''writer''"
definition CanAddModelRelation :: string where "CanAddModelRelation = ''can_addmodel''"
definition AuditLogViewerRelation :: string where "AuditLogViewerRelation = ''audit_log_viewer''"
abbreviation NoRelation :: string where "NoRelation \<equiv> ''''"

lemmas relation_defs =
  MemberRelation_def AssigneeRelation_def AdministratorRelation_def ControllerRelation_def
  ModelRelation_def ConsumerRelation_def ReaderRelation_def WriterRelation_def
  CanAddModelRelation_def AuditLogViewerRelation_def

lemma relation_distinct [simp]:
  "MemberRelation \<noteq> AssigneeRelation" "MemberRelation \<noteq> AdministratorRelation"
  "MemberRelation \<noteq> ControllerRelation" "MemberRelation \<noteq> ModelRelation"
  "MemberRelation \<noteq> ConsumerRelation" "MemberRelation \<noteq> ReaderRelation"
  "MemberRelation \<noteq> WriterRelation" "MemberRelation \<noteq> CanAddModelRelation"
  "MemberRelation \<noteq> AuditLogViewerRelation" "AssigneeRelation \<noteq> MemberRelation"
  "AssigneeRelation \<noteq> AdministratorRelation" "AssigneeRelation \<noteq> ControllerRelation"
  "AssigneeRelation \<noteq> ModelRelation" "AssigneeRelation \<noteq> ConsumerRelation"
  "AssigneeRelation \<noteq> ReaderRelation" "AssigneeRelation \<noteq> WriterRelation"
  "AssigneeRelation \<noteq> CanAddModelRelation" "AssigneeRelation \<noteq> AuditLogViewerRelation"
  "AdministratorRelation \<noteq> MemberRelation" "AdministratorRelation \<noteq> AssigneeRelation"
  "AdministratorRelation \<noteq> ControllerRelation" "AdministratorRelation \<noteq> ModelRelation"
  "AdministratorRelation \<noteq> ConsumerRelation" "AdministratorRelation \<noteq> ReaderRelation"
  "AdministratorRelation \<noteq> WriterRelation" "AdministratorRelation \<noteq> CanAddModelRelation"
  "AdministratorRelation \<noteq> AuditLogViewerRelation" "ControllerRelation \<noteq> MemberRelation"
  "ControllerRelation \<noteq> AssigneeRelation" "ControllerRelation \<noteq> AdministratorRelation"
  "ControllerRelation \<noteq> ModelRelation" "ControllerRelation \<noteq> ConsumerRelation"
  "ControllerRelation \<noteq> ReaderRelation" "ControllerRelation \<noteq> WriterRelation"
  "ControllerRelation \<noteq> CanAddModelRelation" "ControllerRelation \<noteq> AuditLogViewerRelation"
  "ModelRelation \<noteq> MemberRelation" "ModelRelation \<noteq> AssigneeRelation"
  "ModelRelation \<noteq> AdministratorRelation" "ModelRelation \<noteq> ControllerRelation"
  "ModelRelation \<noteq> ConsumerRelation" "ModelRelation \<noteq> ReaderRelation"
  "ModelRelation \<noteq> WriterRelation" "ModelRelation \<noteq> CanAddModelRelation"
  "ModelRelation \<noteq> AuditLogViewerRelation" "ConsumerRelation \<noteq> MemberRelation"
  "ConsumerRelation \<noteq> AssigneeRelation" "ConsumerRelation \<noteq> AdministratorRelation"
  "ConsumerRelation \<noteq> ControllerRelation" "ConsumerRelation \<noteq> ModelRelation"
  "ConsumerRelation \<noteq> ReaderRelation" "ConsumerRelation \<noteq> WriterRelation"
  "ConsumerRelation \<noteq> CanAddModelRelation" "ConsumerRelation \<noteq> AuditLogViewerRelation"
  "ReaderRelation \<noteq> MemberRelation" "ReaderRelation \<noteq> AssigneeRelation"
  "ReaderRelation \<noteq> AdministratorRelation" "ReaderRelation \<noteq> ControllerRelation"
  "ReaderRelation \<noteq> ModelRelation" "ReaderRelation \<noteq> ConsumerRelation"
  "ReaderRelation \<noteq> WriterRelation" "ReaderRelation \<noteq> CanAddModelRelation"
  "ReaderRelation \<noteq> AuditLogViewerRelation" "WriterRelation \<noteq> MemberRelation"
  "WriterRelation \<noteq> AssigneeRelation" "WriterRelation \<noteq> AdministratorRelation"
  "WriterRelation \<noteq> ControllerRelation" "WriterRelation \<noteq> ModelRelation"
  "WriterRelation \<noteq> ConsumerRelation" "WriterRelation \<noteq> ReaderRelation"
  "WriterRelation \<noteq> CanAddModelRelation" "WriterRelation \<noteq> AuditLogViewerRelation"
  "CanAddModelRelation \<noteq> MemberRelation" "CanAddModelRelation \<noteq> AssigneeRelation"
  "CanAddModelRelation \<noteq> AdministratorRelation" "CanAddModelRelation \<noteq> ControllerRelation"
  "CanAddModelRelation \<noteq> ModelRelation" "CanAddModelRelation \<noteq> ConsumerRelation"
  "CanAddModelRelation \<noteq> ReaderRelation" "CanAddModelRelation \<noteq> WriterRelation"
  "CanAddModelRelation \<noteq> AuditLogViewerRelation" "AuditLogViewerRelation \<noteq> MemberRelation"
  "AuditLogViewerRelation \<noteq> AssigneeRelation" "AuditLogViewerRelation \<noteq> AdministratorRelation"
  "AuditLogViewerRelation \<noteq> ControllerRelation" "AuditLogViewerRelation \<noteq> ModelRelation"
  "AuditLogViewerRelation \<noteq> ConsumerRelation" "AuditLogViewerRelation \<noteq> ReaderRelation"
  "AuditLogViewerRelation \<noteq> WriterRelation" "AuditLogViewerRelation \<noteq> CanAddModelRelation"
  "MemberRelation \<noteq> NoRelation" "AssigneeRelation \<noteq> NoRelation"
  "AdministratorRelation \<noteq> NoRelation" "ControllerRelation \<noteq> NoRelation"
  "ModelRelation \<noteq> NoRelation" "ConsumerRelation \<noteq> NoRelation"
  "ReaderRelation \<noteq> NoRelation" "WriterRelation \<noteq> NoRelation"
  "CanAddModelRelation \<noteq> NoRelation" "AuditLogViewerRelation \<noteq> NoRelation"
  "NoRelation \<noteq> MemberRelation" "NoRelation \<noteq> AssigneeRelation"
  "NoRelation \<noteq> AdministratorRelation" "NoRelation \<noteq> ControllerRelation"
  "NoRelation \<noteq> ModelRelation" "NoRelation \<noteq> ConsumerRelation"
  "NoRelation \<noteq> ReaderRelation" "NoRelation \<noteq> WriterRelation"
  "NoRelation \<noteq> CanAddModelRelation" "NoRelation \<noteq> AuditLogViewerRelation"
  by (simp_all add: relation_defs)

definition allRelations :: "string list" where
  "allRelations = [MemberRelation, AdministratorRelation, ControllerRelation, ModelRelation,
     ConsumerRelation, ReaderRelation, WriterRelation, CanAddModelRelation,
     AuditLogViewerRelation, AssigneeRelation, NoRelation]"

definition EveryoneUser :: string where
  "EveryoneUser = ''everyone@external''"

section \<open>Conversions\<close>

definition ConvertGenericTag :: "tag \<Rightarrow> entity" where
  "ConvertGenericTag t =
     (let i = (if Kind t = UserTagKind \<and> Id t = EveryoneUser then ''*'' else Id t)
      in \<lparr>ent_Kind = Kind t, ent_ID = i, ent_Relation = ''''\<rparr>)"

definition ConvertTag :: "tag \<Rightarrow> entity" where
  "ConvertTag t = ConvertGenericTag t"

definition ConvertTagWithRelation :: "tag \<Rightarrow> string \<Rightarrow> entity" where
  "ConvertTagWithRelation t relation = (ConvertTag t)\<lparr>ent_Relation := relation\<rparr>"

definition BlankKindTag :: "string \<Rightarrow> err + entity" where
  "BlankKindTag kind =
     (if kind = UserTagKind \<or> kind = GroupTagKind \<or> kind = IdPGroupTagKind \<or> kind = RoleTagKind
         \<or> kind = ControllerTagKind \<or> kind = ModelTagKind \<or> kind = ApplicationOfferTagKind
         \<or> kind = CloudTagKind
      then Inr \<lparr>ent_Kind = kind, ent_ID = '''', ent_Relation = ''''\<rparr>
      else Inl (ErrNew ''unknown tag kind''))"

definition AdminAccess :: string where "AdminAccess = ''admin''"
definition ReadAccess :: string where "ReadAccess = ''read''"
definition WriteAccess :: string where "WriteAccess = ''write''"
definition ConsumeAccess :: string where "ConsumeAccess = ''consume''"
definition AddModelAccess :: string where "AddModelAccess = ''add-model''"
definition LoginAccess :: string where "LoginAccess = ''login''"
definition SuperuserAccess :: string where "SuperuserAccess = ''superuser''"

lemmas access_defs =
  AdminAccess_def ReadAccess_def WriteAccess_def ConsumeAccess_def AddModelAccess_def
  LoginAccess_def SuperuserAccess_def

lemma access_distinct [simp]:
  "AdminAccess \<noteq> ReadAccess" "AdminAccess \<noteq> WriteAccess"
  "AdminAccess \<noteq> ConsumeAccess" "AdminAccess \<noteq> AddModelAccess"
  "AdminAccess \<noteq> LoginAccess" "AdminAccess \<noteq> SuperuserAccess"
  "ReadAccess \<noteq> AdminAccess" "ReadAccess \<noteq> WriteAccess"
  "ReadAccess \<noteq> ConsumeAccess" "ReadAccess \<noteq> AddModelAccess"
  "ReadAccess \<noteq> LoginAccess" "ReadAccess \<noteq> SuperuserAccess"
  "WriteAccess \<noteq> AdminAccess" "WriteAccess \<noteq> ReadAccess"
  "WriteAccess \<noteq> ConsumeAccess" "WriteAccess \<noteq> AddModelAccess"
  "WriteAccess \<noteq> LoginAccess" "WriteAccess \<noteq> SuperuserAccess"
  "ConsumeAccess \<noteq> AdminAccess" "ConsumeAccess \<noteq> ReadAccess"
  "ConsumeAccess \<noteq> WriteAccess" "ConsumeAccess \<noteq> AddModelAccess"
  "ConsumeAccess \<noteq> LoginAccess" "ConsumeAccess \<noteq> SuperuserAccess"
  "AddModelAccess \<noteq> AdminAccess" "AddModelAccess \<noteq> ReadAccess"
  "AddModelAccess \<noteq> WriteAccess" "AddModelAccess \<noteq> ConsumeAccess"
  "AddModelAccess \<noteq> LoginAccess" "AddModelAccess \<noteq> SuperuserAccess"
  "LoginAccess \<noteq> AdminAccess" "LoginAccess \<noteq> ReadAccess"
  "LoginAccess \<noteq> WriteAccess" "LoginAccess \<noteq> ConsumeAccess"
  "LoginAccess \<noteq> AddModelAccess" "LoginAccess \<noteq> SuperuserAccess"
  "SuperuserAccess \<noteq> AdminAccess" "SuperuserAccess \<noteq> ReadAccess"
  "SuperuserAccess \<noteq> WriteAccess" "SuperuserAccess \<noteq> ConsumeAccess"
  "SuperuserAccess \<noteq> AddModelAccess" "SuperuserAccess \<noteq> LoginAccess"
  by (simp_all add: access_defs)

definition ConvertJujuRelation :: "string \<Rightarrow> err + string" where
  "ConvertJujuRelation relation =
     (if relation = AdminAccess then Inr AdministratorRelation
      else if relation = ReadAccess then Inr ReaderRelation
      else if relation = WriteAccess then Inr WriterRelation
      else if relation = ConsumeAccess then Inr ConsumerRelation
      else if relation = AddModelAccess then Inr CanAddModelRelation
      else if relation = LoginAccess then Inl (ErrNew ''login access unused'')
      else if relation = SuperuserAccess then Inl (ErrNew ''superuser access unused'')
      else Inl (ErrNew ''unknown relation''))"

definition ParseRelation :: "string \<Rightarrow> err + string" where
  "ParseRelation relationString =
     (if relationString = '''' then Inr ''''
      else if relationString = ControllerRelation then Inr ControllerRelation
      else if relationString = ModelRelation then Inr ModelRelation
      else if relationString = MemberRelation then Inr MemberRelation
      else if relationString = AdministratorRelation then Inr AdministratorRelation
      else if relationString = ConsumerRelation then Inr ConsumerRelation
      else if relationString = ReaderRelation then Inr ReaderRelation
      else if relationString = WriterRelation then Inr WriterRelation
      else if relationString = CanAddModelRelation then Inr CanAddModelRelation
      else if relationString = AuditLogViewerRelation then Inr AuditLogViewerRelation
      else if relationString = AssigneeRelation then Inr AssigneeRelation
      else Inl (ErrFmt ''unknown relation %s'' [relationString] None))"

section \<open>Facts\<close>

lemma ParseRelation_iff: "ParseRelation r = Inr r' \<longleftrightarrow> r \<in> set allRelations \<and> r' = r"
  by (auto simp: ParseRelation_def allRelations_def split: if_splits)

lemma ConvertTag_simps [simp]:
  "ent_Kind (ConvertTag t) = Kind t"
  "ent_Relation (ConvertTag t) = ''''"
  "ent_Kind (ConvertGenericTag t) = Kind t"
  "ent_Relation (ConvertGenericTag t) = ''''"
  "ent_Kind (ConvertTagWithRelation t r) = Kind t"
  "ent_Relation (ConvertTagWithRelation t r) = r"
  by (simp_all add: ConvertTag_def ConvertGenericTag_def ConvertTagWithRelation_def Let_def)

lemma ent_ID_ConvertTag:
  "ent_ID (ConvertTag t) = (if Kind t = UserTagKind \<and> Id t = EveryoneUser then ''*'' else Id t)"
  by (simp add: ConvertTag_def ConvertGenericTag_def)

lemma ConvertTag_nonuser [simp]: "Kind t \<noteq> UserTagKind \<Longrightarrow> ent_ID (ConvertTag t) = Id t"
  by (simp add: ent_ID_ConvertTag)

text \<open>
  \<^verbatim>\<open>ParseRelation\<close> accepts exactly the relations that \<^verbatim>\<open>allRelations\<close> lists and returns
  them unchanged, and every access level that \<^verbatim>\<open>ConvertJujuRelation\<close> accepts becomes one of
  those relations.
\<close>

theorem parse_relation_accepts_all_relations:
  "(ParseRelation r = Inr r' \<longleftrightarrow> r \<in> set allRelations \<and> r' = r)
   \<and> (ConvertJujuRelation a = Inr r'' \<longrightarrow> r'' \<noteq> NoRelation \<and> ParseRelation r'' = Inr r'')"
  by (auto simp: ParseRelation_iff ConvertJujuRelation_def split: if_splits)
    (simp_all add: allRelations_def)

theorem parse_relation_accepts_all_relations_witness:
  "ConvertJujuRelation ''consume'' = Inr ConsumerRelation \<and> ParseRelation ConsumerRelation = Inr ConsumerRelation"
proof -
  have h: "ConvertJujuRelation ''consume'' = Inr ConsumerRelation" by code_simp
  then show ?thesis using parse_relation_accepts_all_relations by blast
qed

end
