(* ===== verification/Auth_Model.thy ===== *)
theory Auth_Model
  imports Ofga_Names
begin

text \<open>
  The authorisation model JIMM installs in OpenFGA, \<^verbatim>\<open>openfga/authorisation_model.fga\<close>, as the
  meaning of a set of relationship tuples: which subjects may be related directly
  (\<open>assignable\<close>), which relation implies which on the same object (\<open>implied_by\<close>, the
  \<^verbatim>\<open>or\<close>-parts of the file) and which relation is inherited over which link
  (\<open>inherited_over\<close>, its \<^verbatim>\<open>from\<close>-parts). \<open>holds S u r t\<close> says that user \<open>u\<close> has relation
  \<open>r\<close> to object \<open>t\<close> under the tuples \<open>S\<close>.
\<close>

definition is_user :: "entity \<Rightarrow> bool" where
  "is_user e \<longleftrightarrow> ent_Kind e = UserTagKind \<and> ent_Relation e = ''''"

definition is_wildcard :: "entity \<Rightarrow> bool" where
  "is_wildcard e \<longleftrightarrow> is_user e \<and> ent_ID e = ''*''"

text \<open>The type restriction in brackets: users, everyone, and the listed user sets.\<close>

definition is_userset :: "string \<Rightarrow> string \<Rightarrow> entity \<Rightarrow> bool" where
  "is_userset kind rel e \<longleftrightarrow> ent_Kind e = kind \<and> ent_Relation e = rel"

definition grantee :: "entity \<Rightarrow> bool" where
  "grantee e \<longleftrightarrow> is_user e \<or> is_userset GroupTagKind MemberRelation e
     \<or> is_userset IdPGroupTagKind MemberRelation e \<or> is_userset RoleTagKind AssigneeRelation e"

definition access_relations :: "string \<Rightarrow> string list" where
  "access_relations kind =
     (if kind = ControllerTagKind
        then [AdministratorRelation, AuditLogViewerRelation, CanAddModelRelation]
      else if kind = ModelTagKind
        then [AdministratorRelation, ReaderRelation, WriterRelation]
      else if kind = ApplicationOfferTagKind
        then [AdministratorRelation, ConsumerRelation, ReaderRelation]
      else if kind = CloudTagKind then [AdministratorRelation, CanAddModelRelation]
      else [])"

definition assignable :: "string \<Rightarrow> string \<Rightarrow> entity \<Rightarrow> bool" where
  "assignable kind rel e \<longleftrightarrow>
     (rel \<in> set (access_relations kind) \<and> grantee e)
   \<or> (kind = RoleTagKind \<and> rel = AssigneeRelation
        \<and> (is_user e \<or> is_userset GroupTagKind MemberRelation e
             \<or> is_userset IdPGroupTagKind MemberRelation e))
   \<or> (kind = GroupTagKind \<and> rel = MemberRelation
        \<and> (is_user e \<or> is_userset GroupTagKind MemberRelation e))
   \<or> (kind = IdPGroupTagKind \<and> rel = MemberRelation \<and> is_user e)"

text \<open>\<open>implied_by kind r r'\<close>: having \<open>r'\<close> on an object of \<open>kind\<close> gives \<open>r\<close> on it.\<close>

definition implied_by :: "string \<Rightarrow> string \<Rightarrow> string \<Rightarrow> bool" where
  "implied_by kind r r' \<longleftrightarrow>
     (kind, r, r') \<in>
       {(ControllerTagKind, AuditLogViewerRelation, AdministratorRelation),
        (ControllerTagKind, CanAddModelRelation, AdministratorRelation),
        (ModelTagKind, ReaderRelation, WriterRelation),
        (ModelTagKind, WriterRelation, AdministratorRelation),
        (ApplicationOfferTagKind, ConsumerRelation, AdministratorRelation),
        (ApplicationOfferTagKind, ReaderRelation, ConsumerRelation),
        (CloudTagKind, CanAddModelRelation, AdministratorRelation)}"

text \<open>The link over which an object inherits its administrators.\<close>

definition inherited_over :: "string \<Rightarrow> string \<Rightarrow> string \<Rightarrow> bool" where
  "inherited_over kind link parent_kind \<longleftrightarrow>
     (kind, link, parent_kind) \<in>
       {(ControllerTagKind, ControllerRelation, ControllerTagKind),
        (ModelTagKind, ControllerRelation, ControllerTagKind),
        (CloudTagKind, ControllerRelation, ControllerTagKind),
        (ApplicationOfferTagKind, ModelRelation, ModelTagKind)}"

definition mk_tup :: "entity \<Rightarrow> string \<Rightarrow> entity \<Rightarrow> tup" where
  "mk_tup o' r t = \<lparr>Object = Some o', Relation = r, Target = Some t\<rparr>"

inductive holds :: "tup set \<Rightarrow> entity \<Rightarrow> string \<Rightarrow> entity \<Rightarrow> bool" for S :: "tup set" where
  direct: "mk_tup u r t \<in> S \<Longrightarrow> assignable (ent_Kind t) r u \<Longrightarrow> is_user u \<Longrightarrow> holds S u r t"
| everyone: "mk_tup e r t \<in> S \<Longrightarrow> assignable (ent_Kind t) r e \<Longrightarrow> is_wildcard e \<Longrightarrow> is_user u
    \<Longrightarrow> holds S u r t"
| userset: "mk_tup g r t \<in> S \<Longrightarrow> assignable (ent_Kind t) r g \<Longrightarrow> \<not> is_user g
    \<Longrightarrow> holds S u (ent_Relation g) (g\<lparr>ent_Relation := ''''\<rparr>) \<Longrightarrow> holds S u r t"
| implied: "implied_by (ent_Kind t) r r' \<Longrightarrow> holds S u r' t \<Longrightarrow> holds S u r t"
| inherited: "mk_tup p link t \<in> S \<Longrightarrow> inherited_over (ent_Kind t) link (ent_Kind p)
    \<Longrightarrow> ent_Relation p = '''' \<Longrightarrow> holds S u AdministratorRelation p
    \<Longrightarrow> holds S u AdministratorRelation t"

lemma holds_mono: "holds S u r t \<Longrightarrow> S \<subseteq> S' \<Longrightarrow> holds S' u r t"
  by (induction rule: holds.induct) (blast intro: holds.intros)+

lemma holds_is_user: "holds S u r t \<Longrightarrow> is_user u"
  by (induction rule: holds.induct)

lemma holds_empty [simp]: "\<not> holds {} u r t"
proof
  assume "holds {} u r t"
  then show False by (induction rule: holds.induct) auto
qed

lemma model_admin_writes: "ent_Kind t = ModelTagKind \<Longrightarrow> holds S u AdministratorRelation t \<Longrightarrow> holds S u WriterRelation t"
  by (rule holds.implied [of _ _ AdministratorRelation]) (simp_all add: implied_by_def)

lemma model_writer_reads: "ent_Kind t = ModelTagKind \<Longrightarrow> holds S u WriterRelation t \<Longrightarrow> holds S u ReaderRelation t"
  by (rule holds.implied [of _ _ WriterRelation]) (simp_all add: implied_by_def)

lemma offer_admin_consumes: "ent_Kind t = ApplicationOfferTagKind \<Longrightarrow> holds S u AdministratorRelation t \<Longrightarrow> holds S u ConsumerRelation t"
  by (rule holds.implied [of _ _ AdministratorRelation]) (simp_all add: implied_by_def)

lemma offer_consumer_reads: "ent_Kind t = ApplicationOfferTagKind \<Longrightarrow> holds S u ConsumerRelation t \<Longrightarrow> holds S u ReaderRelation t"
  by (rule holds.implied [of _ _ ConsumerRelation]) (simp_all add: implied_by_def)

lemma cloud_admin_adds: "ent_Kind t = CloudTagKind \<Longrightarrow> holds S u AdministratorRelation t \<Longrightarrow> holds S u CanAddModelRelation t"
  by (rule holds.implied [of _ _ AdministratorRelation]) (simp_all add: implied_by_def)

lemmas model_ladder = model_admin_writes model_writer_reads
lemmas offer_ladder = offer_admin_consumes offer_consumer_reads

end
