(* ===== verification/Go_Encoding.thy ===== *)
theory Go_Encoding
  imports Errors
begin

text \<open>
  The encodings of Go's standard library that tokens go through: \<^verbatim>\<open>base64.StdEncoding\<close>. Bytes
  are characters; decoding skips line breaks and insists on the padding, as the library does.
\<close>

section \<open>Base 64\<close>

definition b64_alphabet :: string where
  "b64_alphabet = ''ABCDEFGHIJKLMNOPQRSTUVWXYZabcdefghijklmnopqrstuvwxyz0123456789+/''"

definition b64_char :: "nat \<Rightarrow> char" where
  "b64_char n = b64_alphabet ! n"

fun index_of :: "'a \<Rightarrow> 'a list \<Rightarrow> nat option" where
  "index_of x [] = None"
| "index_of x (y # ys) = (if x = y then Some 0 else map_option Suc (index_of x ys))"

definition b64_val :: "char \<Rightarrow> nat option" where
  "b64_val c = index_of c b64_alphabet"

fun b64_encode :: "nat list \<Rightarrow> string" where
  "b64_encode [] = ''''"
| "b64_encode [a] = [b64_char (a div 4), b64_char (a mod 4 * 16), CHR ''='', CHR ''='']"
| "b64_encode [a, b] = [b64_char (a div 4), b64_char (a mod 4 * 16 + b div 16), b64_char (b mod 16 * 4), CHR ''='']"
| "b64_encode (a # b # c # rest) =
     [b64_char (a div 4), b64_char (a mod 4 * 16 + b div 16), b64_char (b mod 16 * 4 + c div 64), b64_char (c mod 64)]
     @ b64_encode rest"

definition err_base64 :: err where
  "err_base64 = ErrNew ''illegal base64 data at input byte''"

fun b64_decode :: "string \<Rightarrow> err + nat list" where
  "b64_decode [] = Inr []"
| "b64_decode (p # q # r # s # rest) = (case (b64_val p, b64_val q, b64_val r, b64_val s) of
       (Some a, Some b, Some c, Some d) \<Rightarrow>
         map_sum id (\<lambda>bs. [(a * 4 + b div 16), (b mod 16 * 16 + c div 4), (c mod 4 * 64 + d)] @ bs) (b64_decode rest)
     | (Some a, Some b, Some c, None) \<Rightarrow>
         if s = CHR ''='' \<and> rest = [] then Inr [a * 4 + b div 16, b mod 16 * 16 + c div 4] else Inl err_base64
     | (Some a, Some b, None, None) \<Rightarrow>
         if r = CHR ''='' \<and> s = CHR ''='' \<and> rest = [] then Inr [a * 4 + b div 16] else Inl err_base64
     | _ \<Rightarrow> Inl err_base64)"
| "b64_decode _ = Inl err_base64"

definition EncodeToString :: "string \<Rightarrow> string" where
  "EncodeToString s = b64_encode (map of_char s)"

definition DecodeString :: "string \<Rightarrow> err + string" where
  "DecodeString s = map_sum id (map char_of) (b64_decode (filter (\<lambda>c. c \<noteq> CHR 10 \<and> c \<noteq> CHR 13) s))"

section \<open>Facts\<close>

lemma index_of_nth: "distinct xs \<Longrightarrow> n < length xs \<Longrightarrow> index_of (xs ! n) xs = Some n"
proof (induction xs arbitrary: n)
  case (Cons x xs)
  then show ?case by (cases n) auto
qed simp

lemma b64_alphabet_facts: "length b64_alphabet = 64" "distinct b64_alphabet"
  "CHR ''='' \<notin> set b64_alphabet" "CHR 10 \<notin> set b64_alphabet" "CHR 13 \<notin> set b64_alphabet"
  by (code_simp)+

lemma b64_val_char [simp]: "n < 64 \<Longrightarrow> b64_val (b64_char n) = Some n"
  by (simp add: b64_val_def b64_char_def index_of_nth b64_alphabet_facts)

lemma index_of_None: "x \<notin> set xs \<Longrightarrow> index_of x xs = None"
  by (induction xs) auto

lemma b64_val_pad [simp]: "b64_val (CHR ''='') = None"
  by (simp add: b64_val_def index_of_None b64_alphabet_facts)

lemma b64_char_mem: "n < 64 \<Longrightarrow> b64_char n \<in> set b64_alphabet"
  by (simp add: b64_char_def b64_alphabet_facts)

text \<open>The six-bit pieces of three bytes, put together again.\<close>

lemma b64_quantum:
  fixes a b c :: nat
  assumes "a < 256" and "b < 256" and "c < 256"
  shows "a div 4 < 64" "a mod 4 * 16 < 64" "a mod 4 * 16 + b div 16 < 64" "b mod 16 * 4 < 64"
    "b mod 16 * 4 + c div 64 < 64" "c mod 64 < 64"
    "a div 4 * 4 + a mod 4 * 16 div 16 = a" "a div 4 * 4 + (a mod 4 * 16 + b div 16) div 16 = a"
    "(a mod 4 * 16 + b div 16) mod 16 * 16 + (b mod 16 * 4) div 4 = b"
    "(a mod 4 * 16 + b div 16) mod 16 * 16 + (b mod 16 * 4 + c div 64) div 4 = b"
    "(b mod 16 * 4 + c div 64) mod 4 * 64 + c mod 64 = c"
  using assms by (auto simp: algebra_simps div_mult2_eq)

lemma b64_roundtrip: "\<forall>b\<in>set bs. b < 256 \<Longrightarrow> b64_decode (b64_encode bs) = Inr bs"
  by (induction bs rule: b64_encode.induct) (auto simp: b64_quantum)

lemma b64_encode_chars: "\<forall>b\<in>set bs. b < 256 \<Longrightarrow> set (b64_encode bs) \<subseteq> insert (CHR ''='') (set b64_alphabet)"
  by (induction bs rule: b64_encode.induct) (auto simp: b64_quantum b64_char_mem)

lemma of_char_byte: "of_char c < (256 :: nat)"
  by (metis nat_of_char_less_256)

lemma base64_roundtrip [simp]: "DecodeString (EncodeToString s) = Inr s"
proof -
  let ?bs = "map of_char s :: nat list"
  have bytes: "\<forall>b\<in>set ?bs. b < 256" by (auto simp: of_char_byte)
  have "filter (\<lambda>c. c \<noteq> CHR 10 \<and> c \<noteq> CHR 13) (b64_encode ?bs) = b64_encode ?bs"
    using b64_encode_chars [OF bytes] b64_alphabet_facts(4,5) by (intro filter_True) auto
  then show ?thesis by (simp add: DecodeString_def EncodeToString_def b64_roundtrip [OF bytes] comp_def)
qed

lemma b64_encode_empty [simp]: "b64_encode bs = '''' \<longleftrightarrow> bs = []"
  by (cases bs rule: b64_encode.cases) simp_all

lemma EncodeToString_empty [simp]: "EncodeToString s = '''' \<longleftrightarrow> s = ''''"
  by (simp add: EncodeToString_def)

end
