(* ===== verification/Go_Json.thy ===== *)
theory Go_Json
  imports Go_Encoding
begin

text \<open>
  \<^verbatim>\<open>encoding/json\<close> of Go's standard library, as far as structs of strings go through it: how a
  string is escaped and read back, the grammar of JSON, and the rules by which the members of an
  object find the fields of a struct. Text is a list of bytes, as numbers.
\<close>

type_synonym bytes = "nat list"

section \<open>Runes\<close>

text \<open>
  The number of bytes of the rune at the front, 0 where the front is not valid UTF-8, and the
  encoding of a rune.
\<close>

definition continues :: "bytes \<Rightarrow> nat \<Rightarrow> bool" where
  "continues bs n \<longleftrightarrow> length bs \<ge> n \<and> (\<forall>b\<in>set (take n bs). 128 \<le> b \<and> b \<le> 191)"

fun rune_width :: "bytes \<Rightarrow> nat" where
  "rune_width [] = 0"
| "rune_width (b # bs) =
     (if b < 128 then 1
      else if 194 \<le> b \<and> b \<le> 223 \<and> continues bs 1 then 2
      else if 224 \<le> b \<and> b \<le> 239 \<and> continues bs 2
        \<and> (b = 224 \<longrightarrow> 160 \<le> hd bs) \<and> (b = 237 \<longrightarrow> hd bs \<le> 159) then 3
      else if 240 \<le> b \<and> b \<le> 244 \<and> continues bs 3
        \<and> (b = 240 \<longrightarrow> 144 \<le> hd bs) \<and> (b = 244 \<longrightarrow> hd bs \<le> 143) then 4
      else 0)"

declare rune_width.simps [simp del]

definition rune_bytes :: "nat \<Rightarrow> bytes" where
  "rune_bytes r =
     (if r < 128 then [r]
      else if r < 2048 then [192 + r div 64, 128 + r mod 64]
      else if r < 65536 then [224 + r div 4096, 128 + r div 64 mod 64, 128 + r mod 64]
      else [240 + r div 262144, 128 + r div 4096 mod 64, 128 + r div 64 mod 64, 128 + r mod 64])"

definition replacement :: bytes where
  "replacement = rune_bytes 65533"

definition hexd :: "nat \<Rightarrow> nat" where
  "hexd n = (if n < 10 then 48 + n else 87 + n)"

definition hexval :: "nat \<Rightarrow> nat option" where
  "hexval c = (if 48 \<le> c \<and> c \<le> 57 then Some (c - 48)
     else if 97 \<le> c \<and> c \<le> 102 then Some (c - 87)
     else if 65 \<le> c \<and> c \<le> 70 then Some (c - 55) else None)"

fun hex4 :: "bytes \<Rightarrow> nat option" where
  "hex4 (a # b # c # d # _) = (case (hexval a, hexval b, hexval c, hexval d) of
       (Some w, Some x, Some y, Some z) \<Rightarrow> Some (w * 4096 + x * 256 + y * 16 + z)
     | _ \<Rightarrow> None)"
| "hex4 _ = None"

section \<open>Strings\<close>

text \<open>\<^verbatim>\<open>appendString\<close> with the escaping of HTML that \<^verbatim>\<open>json.Marshal\<close> turns on.\<close>

definition esc_byte :: "nat \<Rightarrow> bytes" where
  "esc_byte b =
     (if b = 92 \<or> b = 34 then [92, b]
      else if b = 8 then [92, 98] else if b = 12 then [92, 102] else if b = 10 then [92, 110]
      else if b = 13 then [92, 114] else if b = 9 then [92, 116]
      else if b < 32 \<or> b = 60 \<or> b = 62 \<or> b = 38 then [92, 117, 48, 48, hexd (b div 16), hexd (b mod 16)]
      else [b])"

fun esc :: "bytes \<Rightarrow> bytes" where
  "esc [] = []"
| "esc (b # bs) =
     (if b < 128 then esc_byte b @ esc bs
      else let n = rune_width (b # bs) in
        if n = 0 then [92, 117, 102, 102, 102, 100] @ esc bs
        else if take n (b # bs) = [226, 128, 168] then [92, 117, 50, 48, 50, 56] @ esc (drop (n - 1) bs)
        else if take n (b # bs) = [226, 128, 169] then [92, 117, 50, 48, 50, 57] @ esc (drop (n - 1) bs)
        else take n (b # bs) @ esc (drop (n - 1) bs))"

definition json_string :: "bytes \<Rightarrow> bytes" where
  "json_string s = [34] @ esc s @ [34]"

definition simple_escape :: "nat \<Rightarrow> nat option" where
  "simple_escape c = map_of [(34, 34), (92, 92), (47, 47), (98, 8), (102, 12), (110, 10), (114, 13), (116, 9)] c"

definition surrogate :: "nat \<Rightarrow> bool" where
  "surrogate r \<longleftrightarrow> 55296 \<le> r \<and> r < 57344"

text \<open>The second half of a surrogate pair, where the text goes on with one.\<close>

definition low_surrogate :: "bytes \<Rightarrow> nat option" where
  "low_surrogate s = (case s of
       b # c # rest \<Rightarrow> if b = 92 \<and> c = 117 then (case hex4 rest of
           Some r \<Rightarrow> if 56320 \<le> r \<and> r < 57344 then Some r else None
         | None \<Rightarrow> None) else None
     | _ \<Rightarrow> None)"

definition prepend :: "bytes \<Rightarrow> (bytes \<times> bytes) option \<Rightarrow> (bytes \<times> bytes) option" where
  "prepend xs r = map_option (\<lambda>(s, rest). (xs @ s, rest)) r"

text \<open>The rest of a string after the opening quote: its contents and what follows it.\<close>

fun unquote :: "bytes \<Rightarrow> (bytes \<times> bytes) option" where
  "unquote [] = None"
| "unquote (b # bs) =
     (if b = 34 then Some ([], bs)
      else if b = 92 then (case bs of
          [] \<Rightarrow> None
        | c # cs \<Rightarrow> (case simple_escape c of
            Some x \<Rightarrow> prepend [x] (unquote cs)
          | None \<Rightarrow>
              if c \<noteq> 117 then None
              else (case hex4 cs of
                None \<Rightarrow> None
              | Some r \<Rightarrow>
                  if \<not> surrogate r then prepend (rune_bytes r) (unquote (drop 4 cs))
                  else (case (if r < 56320 then low_surrogate (drop 4 cs) else None) of
                    Some r' \<Rightarrow> prepend (rune_bytes (65536 + (r - 55296) * 1024 + (r' - 56320))) (unquote (drop 10 cs))
                  | None \<Rightarrow> prepend replacement (unquote (drop 4 cs))))))
      else if b < 32 then None
      else let n = rune_width (b # bs) in
        if n = 0 then prepend replacement (unquote bs)
        else prepend (take n (b # bs)) (unquote (drop (n - 1) bs)))"

section \<open>Values\<close>

datatype json = JNull | JBool bool | JNum bytes | JStr bytes | JArr "json list" | JObj "(bytes \<times> json) list"

fun skip_ws :: "bytes \<Rightarrow> bytes" where
  "skip_ws [] = []"
| "skip_ws (b # bs) = (if b \<in> {32, 9, 10, 13} then skip_ws bs else b # bs)"

definition digit :: "nat \<Rightarrow> bool" where
  "digit b \<longleftrightarrow> 48 \<le> b \<and> b \<le> 57"

text \<open>What follows a number.\<close>

definition digits :: "bytes \<Rightarrow> bytes option" where
  "digits s = (if s \<noteq> [] \<and> digit (hd s) then Some (dropWhile digit s) else None)"

definition number_int :: "bytes \<Rightarrow> bytes option" where
  "number_int s = (case s of [] \<Rightarrow> None | b # bs \<Rightarrow> if b = 48 then Some bs else digits s)"

definition number_frac :: "bytes \<Rightarrow> bytes option" where
  "number_frac s = (case s of b # bs \<Rightarrow> if b = 46 then digits bs else Some s | [] \<Rightarrow> Some [])"

definition number_exp :: "bytes \<Rightarrow> bytes option" where
  "number_exp s = (case s of
       b # bs \<Rightarrow> if b = 101 \<or> b = 69
         then (case bs of c # cs \<Rightarrow> digits (if c = 43 \<or> c = 45 then cs else bs) | [] \<Rightarrow> None) else Some s
     | [] \<Rightarrow> Some [])"

definition number :: "bytes \<Rightarrow> bytes option" where
  "number s = Option.bind (number_int (case s of b # bs \<Rightarrow> if b = 45 then bs else s | [] \<Rightarrow> []))
     (\<lambda>r. Option.bind (number_frac r) number_exp)"

definition literal :: "bytes \<Rightarrow> json \<Rightarrow> bytes \<Rightarrow> (json \<times> bytes) option" where
  "literal word v s = (if take (length word) s = word then Some (v, drop (length word) s) else None)"

definition maxNestingDepth :: nat where
  "maxNestingDepth = 10000"

text \<open>
  Values, the members of an object and the elements of an array. \<open>n\<close> is fuel: of two calls inside
  each other at least one eats a byte, so twice the length of the text is enough. \<open>d\<close> is the depth of nesting, which the library
  limits.
\<close>

fun json_value :: "nat \<Rightarrow> nat \<Rightarrow> bytes \<Rightarrow> (json \<times> bytes) option"
  and json_members :: "nat \<Rightarrow> nat \<Rightarrow> bytes \<Rightarrow> ((bytes \<times> json) list \<times> bytes) option"
  and json_elements :: "nat \<Rightarrow> nat \<Rightarrow> bytes \<Rightarrow> (json list \<times> bytes) option" where
  "json_value 0 d s = None"
| "json_value (Suc n) d s = (case skip_ws s of
       [] \<Rightarrow> None
     | b # bs \<Rightarrow>
         if b = 123 then
           if d \<ge> maxNestingDepth then None
           else (case skip_ws bs of
               [] \<Rightarrow> None
             | c # cs \<Rightarrow> if c = 125 then Some (JObj [], cs)
                 else map_option (\<lambda>(ms, r). (JObj ms, r)) (json_members n (Suc d) (c # cs)))
         else if b = 91 then
           if d \<ge> maxNestingDepth then None
           else (case skip_ws bs of
               [] \<Rightarrow> None
             | c # cs \<Rightarrow> if c = 93 then Some (JArr [], cs)
                 else map_option (\<lambda>(vs, r). (JArr vs, r)) (json_elements n (Suc d) (c # cs)))
         else if b = 34 then map_option (\<lambda>(t, r). (JStr t, r)) (unquote bs)
         else if b = 116 then literal [116, 114, 117, 101] (JBool True) (b # bs)
         else if b = 102 then literal [102, 97, 108, 115, 101] (JBool False) (b # bs)
         else if b = 110 then literal [110, 117, 108, 108] JNull (b # bs)
         else map_option (\<lambda>r. (JNum (take (length (b # bs) - length r) (b # bs)), r)) (number (b # bs)))"
| "json_members 0 d s = None"
| "json_members (Suc n) d s = (case skip_ws s of
       [] \<Rightarrow> None
     | q # ks \<Rightarrow> if q \<noteq> 34 then None
         else (case unquote ks of
           None \<Rightarrow> None
         | Some (k, r) \<Rightarrow> (case skip_ws r of
             [] \<Rightarrow> None
           | c # cs \<Rightarrow> if c \<noteq> 58 then None
               else (case json_value n d cs of
                 None \<Rightarrow> None
               | Some (v, r') \<Rightarrow> (case skip_ws r' of
                   [] \<Rightarrow> None
                 | e # es \<Rightarrow>
                     if e = 125 then Some ([(k, v)], es)
                     else if e = 44 then map_option (\<lambda>(ms, t). ((k, v) # ms, t)) (json_members n d es)
                     else None)))))"
| "json_elements 0 d s = None"
| "json_elements (Suc n) d s = (case json_value n d s of
       None \<Rightarrow> None
     | Some (v, r) \<Rightarrow> (case skip_ws r of
         [] \<Rightarrow> None
       | e # es \<Rightarrow>
           if e = 93 then Some ([v], es)
           else if e = 44 then map_option (\<lambda>(vs, t). (v # vs, t)) (json_elements n d es)
           else None))"

definition json_parse :: "bytes \<Rightarrow> json option" where
  "json_parse s = (case json_value (2 * length s + 2) 0 s of
       Some (v, r) \<Rightarrow> if skip_ws r = [] then Some v else None
     | None \<Rightarrow> None)"

section \<open>Structs of strings\<close>

text \<open>
  \<^verbatim>\<open>foldName\<close>: letters are compared without case; two characters outside ASCII fold to letters
  of ASCII, the Kelvin sign and the long s.
\<close>

fun fold_name :: "bytes \<Rightarrow> bytes" where
  "fold_name (b # c # d # bs) =
     (if b = 226 \<and> c = 132 \<and> d = 170 then 75 # fold_name bs
      else if b = 197 \<and> c = 191 then 83 # fold_name (d # bs)
      else (if 97 \<le> b \<and> b \<le> 122 then b - 32 else b) # fold_name (c # d # bs))"
| "fold_name [b, c] = (if b = 197 \<and> c = 191 then [83] else map (\<lambda>x. if 97 \<le> x \<and> x \<le> 122 then x - 32 else x) [b, c])"
| "fold_name [b] = [if 97 \<le> b \<and> b \<le> 122 then b - 32 else b]"
| "fold_name [] = []"

definition field_of :: "bytes list \<Rightarrow> bytes \<Rightarrow> bytes option" where
  "field_of fields k = (if k \<in> set fields then Some k
     else find (\<lambda>f. fold_name f = fold_name k) fields)"

definition err_json :: err where
  "err_json = ErrNew ''json: cannot unmarshal''"

text \<open>
  One member after the other: a string is stored in its field, null changes nothing, any other
  value is an error that is reported at the end, and members without a field are skipped.
\<close>

fun store_members :: "bytes list \<Rightarrow> (bytes \<times> json) list \<Rightarrow> (bytes \<Rightarrow> bytes) \<Rightarrow> (bytes \<Rightarrow> bytes) \<times> bool" where
  "store_members fields [] m = (m, True)"
| "store_members fields ((k, v) # rest) m = (case field_of fields k of
       None \<Rightarrow> store_members fields rest m
     | Some f \<Rightarrow> (case v of
         JStr s \<Rightarrow> store_members fields rest (m(f := s))
       | JNull \<Rightarrow> store_members fields rest m
       | _ \<Rightarrow> (fst (store_members fields rest m), False)))"

definition json_unmarshal :: "bytes list \<Rightarrow> bytes \<Rightarrow> err + (bytes \<Rightarrow> bytes)" where
  "json_unmarshal fields s = (case json_parse s of
       Some JNull \<Rightarrow> Inr (\<lambda>_. [])
     | Some (JObj ms) \<Rightarrow> (case store_members fields ms (\<lambda>_. []) of
         (m, ok) \<Rightarrow> if ok then Inr m else Inl err_json)
     | _ \<Rightarrow> Inl err_json)"

fun json_fields :: "(bytes \<times> bytes) list \<Rightarrow> bytes" where
  "json_fields [] = []"
| "json_fields [(k, v)] = json_string k @ [58] @ json_string v"
| "json_fields ((k, v) # rest) = json_string k @ [58] @ json_string v @ [44] @ json_fields rest"

definition json_marshal :: "(bytes \<times> bytes) list \<Rightarrow> bytes" where
  "json_marshal fields = [123] @ json_fields fields @ [125]"

section \<open>Reading back what was written\<close>

lemma hexval_hexd: "n < 16 \<Longrightarrow> hexval (hexd n) = Some n"
  by (auto simp: hexval_def hexd_def)

lemma hex4_esc:
  "b < 256 \<Longrightarrow> hex4 (48 # 48 # hexd (b div 16) # hexd (b mod 16) # r) = Some b"
  by (simp add: hexval_hexd) (simp add: hexval_def)

lemma unquote_step:
  "b < 128 \<Longrightarrow> \<not> b < 32 \<Longrightarrow> b \<noteq> 34 \<Longrightarrow> b \<noteq> 92 \<Longrightarrow> unquote (b # r) = prepend [b] (unquote r)"
  by (simp add: rune_width.simps)

lemma unquote_u00:
  assumes "b < 128"
  shows "unquote (92 # 117 # 48 # 48 # hexd (b div 16) # hexd (b mod 16) # r) = prepend [b] (unquote r)"
proof -
  have "\<not> surrogate b" "rune_bytes b = [b]" using assms by (simp_all add: surrogate_def rune_bytes_def)
  then show ?thesis using hex4_esc [of b r] assms by (subst unquote.simps) (simp add: simple_escape_def)
qed

lemma unquote_simple:
  "simple_escape c = Some x \<Longrightarrow> unquote (92 # c # r) = prepend [x] (unquote r)"
  by simp

lemma unquote_esc_byte:
  assumes "b < 128"
  shows "unquote (esc_byte b @ r) = prepend [b] (unquote r)"
proof -
  consider "b \<in> {92, 34, 8, 12, 10, 13, 9}" | "b < 32 \<or> b \<in> {60, 62, 38}" "b \<notin> {92, 34, 8, 12, 10, 13, 9}"
    | "\<not> b < 32" "b \<notin> {60, 62, 38, 92, 34}" by fastforce
  then show ?thesis
  proof cases
    case 1
    then show ?thesis by (auto simp: esc_byte_def simple_escape_def)
  next
    case 2
    then have "esc_byte b = [92, 117, 48, 48, hexd (b div 16), hexd (b mod 16)]" by (auto simp: esc_byte_def)
    then show ?thesis using unquote_u00 [OF assms] by simp
  next
    case 3
    then have "esc_byte b = [b]" by (auto simp: esc_byte_def)
    then show ?thesis using unquote_step [OF assms] 3 by simp
  qed
qed

definition ascii :: "bytes \<Rightarrow> bool" where
  "ascii s \<longleftrightarrow> (\<forall>b\<in>set s. b < 128)"

lemma unquote_esc: "ascii s \<Longrightarrow> unquote (esc s @ 34 # r) = Some (s, r)"
  by (induction s) (auto simp: ascii_def unquote_esc_byte prepend_def)

declare unquote.simps [simp del]

lemma skip_ws_id [simp]: "b \<notin> {32, 9, 10, 13} \<Longrightarrow> skip_ws (b # bs) = b # bs"
  by simp

lemma json_value_string:
  "ascii s \<Longrightarrow> json_value (Suc n) d (json_string s @ r) = Some (JStr s, r)"
  by (simp add: json_string_def unquote_esc)

lemma json_member:
  assumes "ascii k" and "ascii v" and "t \<notin> {32, 9, 10, 13}"
  shows "json_members (Suc (Suc m)) d (json_string k @ 58 # json_string v @ t # r) =
     (if t = 125 then Some ([(k, JStr v)], r)
      else if t = 44 then map_option (\<lambda>(ms, t). ((k, JStr v) # ms, t)) (json_members (Suc m) d r) else None)"
proof -
  have key: "json_string k @ x = 34 # (esc k @ 34 # x)" for x by (simp add: json_string_def)
  have "json_value (Suc m) d (json_string v @ t # r) = Some (JStr v, t # r)" using assms(2) by (rule json_value_string)
  with assms(1,3) show ?thesis
    unfolding key json_members.simps(2) [of "Suc m"] by (simp add: unquote_esc del: json_value.simps json_members.simps)
qed

declare json_value.simps [simp del] json_members.simps [simp del] json_elements.simps [simp del]

lemma json_members_fields:
  assumes "kvs \<noteq> []" and "\<forall>(k, v)\<in>set kvs. ascii k \<and> ascii v" and "n > length kvs"
  shows "json_members n d (json_fields kvs @ 125 # r) = Some (map (\<lambda>(k, v). (k, JStr v)) kvs, r)"
  using assms
proof (induction kvs arbitrary: n rule: json_fields.induct)
  case (2 k v)
  then obtain m where "n = Suc (Suc m)" by (auto dest!: less_imp_Suc_add)
  then show ?case using 2 json_member [of k v 125] by simp
next
  case (3 k v kv rest)
  then obtain m where n: "n = Suc (Suc m)" by (auto dest!: less_imp_Suc_add)
  have "json_members (Suc m) d (json_fields (kv # rest) @ 125 # r) = Some (map (\<lambda>(k, v). (k, JStr v)) (kv # rest), r)"
    using 3 n by simp
  then show ?case using 3(3) n json_member [of k v 44 m d "json_fields (kv # rest) @ 125 # r"] by simp
qed simp

lemma json_parse_marshal:
  assumes "kvs \<noteq> []" and "\<forall>(k, v)\<in>set kvs. ascii k \<and> ascii v"
  shows "json_parse (json_marshal kvs) = Some (JObj (map (\<lambda>(k, v). (k, JStr v)) kvs))"
proof -
  let ?f = "json_fields kvs"
  have len: "length kvs \<le> length ?f" by (induction kvs rule: json_fields.induct) (simp_all add: json_string_def)
  from assms(1) obtain cs where cs: "?f = 34 # cs" by (cases kvs rule: json_fields.cases) (auto simp: json_string_def)
  have "json_members (2 * length (json_marshal kvs) + 1) (Suc 0) (?f @ 125 # []) = Some (map (\<lambda>(k, v). (k, JStr v)) kvs, [])"
    using assms len by (intro json_members_fields) (simp_all add: json_marshal_def)
  then show ?thesis
    unfolding json_parse_def json_marshal_def
    by (simp add: json_value.simps(2) cs maxNestingDepth_def)
qed

section \<open>The fuel is enough\<close>

lemma skip_ws_shorter: "length (skip_ws s) \<le> length s"
  by (induction s) auto

lemma unquote_shorter: "unquote s = Some (t, r) \<Longrightarrow> length r < length s"
proof (induction "length s" arbitrary: s t r rule: less_induct)
  case less
  show ?case
  proof (cases s)
    case (Cons b bs)
    have prep: "length r < N" if "prepend xs (unquote x) = Some (t', r)" "length x < N" "N = length s" for xs x t' r N
    proof -
      from that(1) obtain u where "unquote x = Some (u, r)" by (auto simp: prepend_def)
      then show ?thesis using less(1) [of x u r] that(2,3) by simp
    qed
    define N where "N = length s"
    have "length r < N" using less(2) N_def unfolding Cons
      by (subst (asm) unquote.simps)
        (auto simp: Let_def Cons split: if_splits option.splits list.splits elim!: prep)
    then show ?thesis by (simp add: N_def)
  qed (use less(2) in \<open>simp add: unquote.simps\<close>)
qed

lemma skip_ws_Cons: "skip_ws s = b # bs \<Longrightarrow> length bs < length s"
  using skip_ws_shorter [of s] by simp

lemma digits_shorter: "digits s = Some r \<Longrightarrow> length r < length s"
  by (cases s) (auto simp: digits_def split: if_splits intro: le_imp_less_Suc length_dropWhile_le)

lemma number_shorter: "number s = Some r \<Longrightarrow> length r < length s"
proof -
  assume "number s = Some r"
  then obtain t u where t: "number_int (case s of b # bs \<Rightarrow> if b = 45 then bs else s | [] \<Rightarrow> []) = Some t"
    and u: "number_frac t = Some u" and r: "number_exp u = Some r"
    by (auto simp: number_def bind_eq_Some_conv)
  have "length t < length s" using t
    by (auto simp: number_int_def dest!: digits_shorter split: list.splits if_splits)
  moreover have "length u \<le> length t" using u
    by (auto simp: number_frac_def dest!: digits_shorter split: list.splits if_splits)
  moreover have "length r \<le> length u" using r
    by (auto simp: number_exp_def dest!: digits_shorter split: list.splits if_splits)
  ultimately show ?thesis by simp
qed

lemma literal_shorter: "literal word v (b # bs) = Some (v', r) \<Longrightarrow> word \<noteq> [] \<Longrightarrow> length r < Suc (length bs)"
  by (cases word) (auto simp: literal_def split: if_splits)

lemma json_members_SucE:
  assumes "json_members (Suc n) d s = Some (ms, r)"
  obtains ks k r1 cs v r2 e es where "skip_ws s = 34 # ks" and "unquote ks = Some (k, r1)" and "skip_ws r1 = 58 # cs"
    and "json_value n d cs = Some (v, r2)" and "skip_ws r2 = e # es"
    and "e = 125 \<and> r = es \<or> e = 44 \<and> (\<exists>ms'. json_members n d es = Some (ms', r))"
  using assms unfolding json_members.simps
  by (auto split: list.splits option.splits if_splits prod.splits)

lemma json_elements_SucE:
  assumes "json_elements (Suc n) d s = Some (vs, r)"
  obtains v r1 e es where "json_value n d s = Some (v, r1)" and "skip_ws r1 = e # es"
    and "e = 93 \<and> r = es \<or> e = 44 \<and> (\<exists>vs'. json_elements n d es = Some (vs', r))"
  using assms unfolding json_elements.simps
  by (auto split: list.splits option.splits if_splits prod.splits)

lemma json_shorter:
  "json_value n d s = Some (v, r) \<Longrightarrow> length r < length s"
  "json_members n d s = Some (ms, r) \<Longrightarrow> length r < length s"
  "json_elements n d s = Some (vs, r) \<Longrightarrow> length r < length s"
proof (induction n d s and n d s and n d s arbitrary: v r and ms r and vs r rule: json_value_json_members_json_elements.induct)
  case (2 n d s)
  then obtain b bs where s: "skip_ws s = b # bs" by (cases "skip_ws s") (simp_all add: json_value.simps)
  have "length r < Suc (length bs)"
    using 2 s skip_ws_Cons [of bs]
    by (auto simp: json_value.simps split: if_splits list.splits dest!: unquote_shorter number_shorter literal_shorter) fastforce+
  then show ?case using skip_ws_Cons [OF s] by simp
next
  case (4 n d s)
  from 4(3) obtain ks k r1 cs v r2 e es where parts: "skip_ws s = 34 # ks" "unquote ks = Some (k, r1)" "skip_ws r1 = 58 # cs"
    "json_value n d cs = Some (v, r2)" "skip_ws r2 = e # es"
    and last: "e = 125 \<and> r = es \<or> e = 44 \<and> (\<exists>ms'. json_members n d es = Some (ms', r))"
    by (rule json_members_SucE)
  have len: "length r2 < length cs" using 4(1) parts by simp
  have "length es < length s"
    using skip_ws_Cons [OF parts(1)] unquote_shorter [OF parts(2)] skip_ws_Cons [OF parts(3)] len skip_ws_Cons [OF parts(5)] by simp
  moreover have "length r \<le> length es" using last 4(2) parts by fastforce
  ultimately show ?case by simp
next
  case (6 n d s)
  from 6(3) obtain v r1 e es where parts: "json_value n d s = Some (v, r1)" "skip_ws r1 = e # es"
    and last: "e = 93 \<and> r = es \<or> e = 44 \<and> (\<exists>vs'. json_elements n d es = Some (vs', r))"
    by (rule json_elements_SucE)
  have "length es < length s" using 6(1) [OF parts(1)] skip_ws_Cons [OF parts(2)] by simp
  moreover have "length r \<le> length es" using last 6(2) parts by fastforce
  ultimately show ?case by simp
qed (simp_all add: json_value.simps json_members.simps json_elements.simps)

definition enough :: "nat \<Rightarrow> bool" where
  "enough n \<longleftrightarrow> (\<forall>d s. (2 * length s < n \<longrightarrow> json_value (Suc n) d s = json_value n d s)
     \<and> (2 * length s < n \<longrightarrow> json_members (Suc n) d s = json_members n d s)
     \<and> (2 * length s + 1 < n \<longrightarrow> json_elements (Suc n) d s = json_elements n d s))"

lemma enough_value:
  assumes "enough n" and "2 * length s < Suc n"
  shows "json_value (Suc (Suc n)) d s = json_value (Suc n) d s"
proof (cases "skip_ws s")
  case (Cons b bs)
  show ?thesis
  proof (cases "skip_ws bs")
    case Nil
    then show ?thesis using Cons by (simp add: json_value.simps(2))
  next
    case cs: (Cons c cs)
    have "2 * length (c # cs) + 1 < n" using skip_ws_shorter [of s] skip_ws_shorter [of bs] Cons cs assms(2) by simp
    then have "json_members (Suc n) (Suc d) (x # cs) = json_members n (Suc d) (x # cs)"
      "json_elements (Suc n) (Suc d) (x # cs) = json_elements n (Suc d) (x # cs)" for x
      using assms(1) unfolding enough_def by simp_all
    then show ?thesis by (simp add: json_value.simps(2) Cons cs)
  qed
qed (simp add: json_value.simps(2))

lemma enough_members:
  assumes "enough n" and "2 * length s < Suc n"
  shows "json_members (Suc (Suc n)) d s = json_members (Suc n) d s"
proof -
  have one: "json_value (Suc n) d cs = json_value n d cs"
    if "skip_ws s = q # ks" "unquote ks = Some (k, r)" "skip_ws r = c # cs" for q ks k r c cs
    using assms skip_ws_Cons [OF that(1)] unquote_shorter [OF that(2)] skip_ws_Cons [OF that(3)] unfolding enough_def by simp
  have two: "json_members (Suc n) d es = json_members n d es"
    if "skip_ws s = q # ks" "unquote ks = Some (k, r)" "skip_ws r = c # cs" "json_value n d cs = Some (v, r')" "skip_ws r' = e # es"
    for q ks k r c cs v r' e es
    using assms skip_ws_Cons [OF that(1)] unquote_shorter [OF that(2)] skip_ws_Cons [OF that(3)] json_shorter(1) [OF that(4)]
      skip_ws_Cons [OF that(5)] unfolding enough_def by simp
  show ?thesis unfolding json_members.simps(2) [of "Suc n"] json_members.simps(2) [of n d s]
    by (auto simp: one two split: list.split option.split)
qed

lemma enough_elements:
  assumes "enough n" and "2 * length s + 1 < Suc n"
  shows "json_elements (Suc (Suc n)) d s = json_elements (Suc n) d s"
proof -
  have one: "json_value (Suc n) d s = json_value n d s" using assms unfolding enough_def by simp
  have two: "json_elements (Suc n) d es = json_elements n d es"
    if "json_value n d s = Some (v, r)" "skip_ws r = e # es" for v r e es
    using assms json_shorter(1) [OF that(1)] skip_ws_Cons [OF that(2)] unfolding enough_def by simp
  show ?thesis unfolding json_elements.simps(2) [of "Suc n"] json_elements.simps(2) [of n d s] one
    by (auto simp: two split: list.split option.split)
qed

lemma enough_all: "enough n"
proof (induction n)
  case (Suc n)
  then show ?case
    using enough_value [OF Suc] enough_members [OF Suc] enough_elements [OF Suc] by (simp add: enough_def [of "Suc n"])
qed (simp add: enough_def)

text \<open>More fuel than \<^term>\<open>json_parse s\<close> takes changes nothing.\<close>

lemma json_parse_fuel:
  assumes "2 * length s + 2 \<le> n"
  shows "json_parse s = (case json_value n 0 s of Some (v, r) \<Rightarrow> if skip_ws r = [] then Some v else None | None \<Rightarrow> None)"
proof -
  have "json_value n 0 s = json_value (2 * length s + 2) 0 s"
    using assms by (induction rule: dec_induct) (use enough_all in \<open>auto simp: enough_def\<close>)
  then show ?thesis by (simp add: json_parse_def)
qed

end
