(* ===== verification/Db_Model.thy ===== *)
theory Db_Model
  imports Auth_Model Go_Json
begin

text \<open>
  The package \<^verbatim>\<open>internal/dbmodel\<close>: the rows of JIMM's tables, as far as the modelled code
  reads or writes their columns, and the operations on identities. \<open>ao_ModelUUID\<close> is the
  UUID of the model gorm preloads with an offer. The row types refer to each other in circles,
  which records cannot: \<open>cloud_ref\<close> and \<open>region_ref\<close> are a cloud and a cloud region as they are
  preloaded with another row, and a \<^verbatim>\<open>CloudRegionControllerPriority\<close> is a \<open>controller_region\<close>
  seen from its controller and a \<open>region_controller\<close> seen from its region. Timestamps that the
  database fills in, and the associations gorm preloads but the modelled code does not read,
  are left out. \<open>libs\<close> collects the pure third-party functions: Juju's names, the UUID
  parser, the SHA-256 digest (as bytes), and the text of formatted errors.
\<close>

record libs = juju_names +
  uuid_Parse :: "string \<Rightarrow> bool"
  sha256_Sum256 :: "string \<Rightarrow> nat list"
  fmt_Sprintf :: "string \<Rightarrow> string list \<Rightarrow> string"
  juju_code_text :: "Code \<Rightarrow> string"
  IsPublicAccess :: "entity \<Rightarrow> bool"

section \<open>Rows\<close>

record group_entry =
  ge_ID :: nat
  ge_Name :: string
  ge_UUID :: string

record role_entry =
  re_ID :: nat
  re_Name :: string
  re_UUID :: string

record identity =
  id_ID :: nat
  id_Name :: string
  id_DisplayName :: string
  id_LastLogin :: "int option"
  id_Disabled :: bool
  id_AccessToken :: string
  id_RefreshToken :: string
  id_AccessTokenExpiry :: int
  id_AccessTokenType :: string

type_synonym config = "string \<rightharpoonup> json"

record cloud_ref =
  clr_Name :: string
  clr_Type :: string
  clr_HostCloudRegion :: string

record region_ref =
  rr_ID :: nat
  rr_CloudName :: string
  rr_Cloud :: cloud_ref
  rr_Name :: string

record controller_region =
  crg_ID :: nat
  crg_CloudRegionID :: nat
  crg_CloudRegion :: region_ref
  crg_ControllerID :: nat
  crg_Priority :: nat

record controller =
  ctl_ID :: nat
  ctl_Name :: string
  ctl_UUID :: string
  ctl_CACertificate :: string
  ctl_PublicAddress :: string
  ctl_TLSHostname :: string
  ctl_CloudName :: string
  ctl_CloudRegion :: string
  ctl_Deprecated :: bool
  ctl_AgentVersion :: string
  ctl_Addresses :: "(string \<times> int) list list"
  ctl_UnavailableSince :: "int option"
  ctl_CloudRegions :: "controller_region list"

record region_controller =
  rc_ID :: nat
  rc_CloudRegionID :: nat
  rc_ControllerID :: nat
  rc_Controller :: controller
  rc_Priority :: nat

record cloud_region =
  cr_ID :: nat
  cr_CloudName :: string
  cr_Cloud :: cloud_ref
  cr_Name :: string
  cr_Endpoint :: string
  cr_IdentityEndpoint :: string
  cr_StorageEndpoint :: string
  cr_Config :: "config option"
  cr_Controllers :: "region_controller list"
  cr_Virtual :: bool

record cloud =
  cld_ID :: nat
  cld_Name :: string
  cld_Type :: string
  cld_HostCloudRegion :: string
  cld_AuthTypes :: "string list"
  cld_Endpoint :: string
  cld_IdentityEndpoint :: string
  cld_StorageEndpoint :: string
  cld_Regions :: "cloud_region list"
  cld_CACertificates :: "string list"
  cld_SkipTLSVerify :: bool
  cld_Config :: "config option"

record cloud_credential =
  cc_ID :: nat
  cc_Name :: string
  cc_CloudName :: string
  cc_Cloud :: cloud_ref
  cc_OwnerIdentityName :: string
  cc_Owner :: identity
  cc_AuthType :: string
  cc_Label :: string
  cc_Valid :: "bool option"

record cloud_defaults =
  cdf_ID :: nat
  cdf_IdentityName :: string
  cdf_CloudID :: nat
  cdf_Cloud :: cloud
  cdf_Region :: string
  cdf_Defaults :: "config option"

record model =
  mdl_ID :: nat
  mdl_Name :: string
  mdl_UUID :: "string option"
  mdl_OwnerIdentityName :: string
  mdl_Owner :: identity
  mdl_ControllerID :: nat
  mdl_Controller :: controller
  mdl_CloudRegionID :: nat
  mdl_CloudRegion :: region_ref
  mdl_CloudCredentialID :: nat
  mdl_CloudCredential :: cloud_credential
  mdl_Life :: string
  mdl_MigrationMode :: string

record application_offer =
  ao_ID :: nat
  ao_ModelID :: nat
  ao_Name :: string
  ao_UUID :: string
  ao_URL :: string
  ao_ModelUUID :: "string option"
  ao_Controller :: controller

record user_mapping =
  um_ID :: nat
  um_ModelUUID :: "string option"
  um_LocalUser :: string
  um_ExternalUserName :: string

definition empty_identity :: identity where
  "empty_identity = \<lparr>id_ID = 0, id_Name = '''', id_DisplayName = '''', id_LastLogin = None,
     id_Disabled = False, id_AccessToken = '''', id_RefreshToken = '''', id_AccessTokenExpiry = 0,
     id_AccessTokenType = ''''\<rparr>"

definition empty_group :: group_entry where
  "empty_group = \<lparr>ge_ID = 0, ge_Name = '''', ge_UUID = ''''\<rparr>"

definition empty_role :: role_entry where
  "empty_role = \<lparr>re_ID = 0, re_Name = '''', re_UUID = ''''\<rparr>"

definition empty_cloud_ref :: cloud_ref where
  "empty_cloud_ref = \<lparr>clr_Name = '''', clr_Type = '''', clr_HostCloudRegion = ''''\<rparr>"

definition empty_region_ref :: region_ref where
  "empty_region_ref = \<lparr>rr_ID = 0, rr_CloudName = '''', rr_Cloud = empty_cloud_ref, rr_Name = ''''\<rparr>"

definition empty_controller :: controller where
  "empty_controller = \<lparr>ctl_ID = 0, ctl_Name = '''', ctl_UUID = '''', ctl_CACertificate = '''', ctl_PublicAddress = '''',
     ctl_TLSHostname = '''', ctl_CloudName = '''', ctl_CloudRegion = '''', ctl_Deprecated = False, ctl_AgentVersion = '''',
     ctl_Addresses = [], ctl_UnavailableSince = None, ctl_CloudRegions = []\<rparr>"

definition empty_region_controller :: region_controller where
  "empty_region_controller = \<lparr>rc_ID = 0, rc_CloudRegionID = 0, rc_ControllerID = 0, rc_Controller = empty_controller, rc_Priority = 0\<rparr>"

definition empty_region :: cloud_region where
  "empty_region = \<lparr>cr_ID = 0, cr_CloudName = '''', cr_Cloud = empty_cloud_ref, cr_Name = '''', cr_Endpoint = '''',
     cr_IdentityEndpoint = '''', cr_StorageEndpoint = '''', cr_Config = None, cr_Controllers = [], cr_Virtual = False\<rparr>"

definition empty_cloud :: cloud where
  "empty_cloud = \<lparr>cld_ID = 0, cld_Name = '''', cld_Type = '''', cld_HostCloudRegion = '''', cld_AuthTypes = [], cld_Endpoint = '''',
     cld_IdentityEndpoint = '''', cld_StorageEndpoint = '''', cld_Regions = [], cld_CACertificates = [], cld_SkipTLSVerify = False,
     cld_Config = None\<rparr>"

definition empty_credential :: cloud_credential where
  "empty_credential = \<lparr>cc_ID = 0, cc_Name = '''', cc_CloudName = '''', cc_Cloud = empty_cloud_ref, cc_OwnerIdentityName = '''',
     cc_Owner = empty_identity, cc_AuthType = '''', cc_Label = '''', cc_Valid = None\<rparr>"

definition empty_defaults :: cloud_defaults where
  "empty_defaults = \<lparr>cdf_ID = 0, cdf_IdentityName = '''', cdf_CloudID = 0, cdf_Cloud = empty_cloud, cdf_Region = '''', cdf_Defaults = None\<rparr>"

definition empty_model :: model where
  "empty_model = \<lparr>mdl_ID = 0, mdl_Name = '''', mdl_UUID = None, mdl_OwnerIdentityName = '''', mdl_Owner = empty_identity,
     mdl_ControllerID = 0, mdl_Controller = empty_controller, mdl_CloudRegionID = 0, mdl_CloudRegion = empty_region_ref,
     mdl_CloudCredentialID = 0, mdl_CloudCredential = empty_credential, mdl_Life = '''', mdl_MigrationMode = ''''\<rparr>"

definition empty_offer :: application_offer where
  "empty_offer = \<lparr>ao_ID = 0, ao_ModelID = 0, ao_Name = '''', ao_UUID = '''', ao_URL = '''',
     ao_ModelUUID = None, ao_Controller = empty_controller\<rparr>"

definition empty_user_mapping :: user_mapping where
  "empty_user_mapping = \<lparr>um_ID = 0, um_ModelUUID = None, um_LocalUser = '''', um_ExternalUserName = ''''\<rparr>"

section \<open>Migration modes\<close>

text \<open>The modes that come from Juju are spelled as Juju spells them.\<close>

definition MigrationModeNone :: string where "MigrationModeNone = ''''"

definition MigrationModeExporting :: string where "MigrationModeExporting = ''exporting''"

definition MigrationModeImporting :: string where "MigrationModeImporting = ''importing''"

definition MigrationModeMigrateInternal :: string where "MigrationModeMigrateInternal = ''migrating-internally''"

definition MigrationFailed :: "model \<Rightarrow> model" where
  "MigrationFailed m = m\<lparr>mdl_MigrationMode := MigrationModeNone\<rparr>"

definition InternalMigrationSuccess :: "nat \<Rightarrow> model \<Rightarrow> model" where
  "InternalMigrationSuccess controllerID m =
     m\<lparr>mdl_MigrationMode := MigrationModeNone, mdl_ControllerID := controllerID, mdl_Controller := empty_controller\<rparr>"

definition SetInternalMigration :: "model \<Rightarrow> model" where
  "SetInternalMigration m = m\<lparr>mdl_MigrationMode := MigrationModeMigrateInternal\<rparr>"

definition SetExternalMigration :: "model \<Rightarrow> model" where
  "SetExternalMigration m = m\<lparr>mdl_MigrationMode := MigrationModeExporting\<rparr>"

section \<open>Tags of rows\<close>

text \<open>The \<^verbatim>\<open>ResourceTag\<close> methods; \<open>None\<close> is the panic of the constructor they call.\<close>

definition new_juju_tag :: "'z juju_names_scheme \<Rightarrow> string \<Rightarrow> string \<Rightarrow> tag option" where
  "new_juju_tag J kind i = map_option (Tag kind) (names_NewTag J kind i)"

definition identity_ResourceTag :: "'z juju_names_scheme \<Rightarrow> identity \<Rightarrow> tag option" where
  "identity_ResourceTag J i = new_juju_tag J UserTagKind (id_Name i)"

definition controller_ResourceTag :: "'z juju_names_scheme \<Rightarrow> controller \<Rightarrow> tag option" where
  "controller_ResourceTag J c = new_juju_tag J ControllerTagKind (ctl_UUID c)"

definition controller_SetTag :: "controller \<Rightarrow> tag \<Rightarrow> controller" where
  "controller_SetTag c t = c\<lparr>ctl_UUID := Id t\<rparr>"

definition model_ResourceTag :: "'z juju_names_scheme \<Rightarrow> model \<Rightarrow> tag option" where
  "model_ResourceTag J m = (case mdl_UUID m of
       Some u \<Rightarrow> new_juju_tag J ModelTagKind u
     | None \<Rightarrow> Some (Tag ModelTagKind ''''))"

definition model_SetTag :: "model \<Rightarrow> tag \<Rightarrow> model" where
  "model_SetTag m t = m\<lparr>mdl_UUID := Some (Id t)\<rparr>"

definition offer_ResourceTag :: "'z juju_names_scheme \<Rightarrow> application_offer \<Rightarrow> tag option" where
  "offer_ResourceTag J a = new_juju_tag J ApplicationOfferTagKind (ao_UUID a)"

definition cloud_ResourceTag :: "'z juju_names_scheme \<Rightarrow> cloud \<Rightarrow> tag option" where
  "cloud_ResourceTag J c = new_juju_tag J CloudTagKind (cld_Name c)"

definition group_ResourceTag :: "group_entry \<Rightarrow> tag option" where
  "group_ResourceTag g = NewGroupTag (ge_UUID g)"

definition role_ResourceTag :: "role_entry \<Rightarrow> tag option" where
  "role_ResourceTag r = NewRoleTag (re_UUID r)"

section \<open>Identities\<close>

definition ErrIdentityCreation :: err where
  "ErrIdentityCreation = ErrNew ''identity name cannot be empty''"

definition unsafe_chars :: string where
  "unsafe_chars = ''~!$%^&*_={}?'' @ [CHR 39]"

definition userTagReplacer :: "string \<Rightarrow> string" where
  "userTagReplacer s = map (\<lambda>c. if c \<in> set unsafe_chars then CHR ''-'' else c) s"

definition hex_digit :: "nat \<Rightarrow> char" where
  "hex_digit n = (''0123456789abcdef'' ! (n mod 16))"

definition hex_bytes :: "nat list \<Rightarrow> string" where
  "hex_bytes bs = concat (map (\<lambda>b. [hex_digit (b div 16), hex_digit b]) bs)"

definition santiseIdentityId :: "'z libs_scheme \<Rightarrow> identity \<Rightarrow> identity" where
  "santiseIdentityId L i =
     (let replaced = userTagReplacer (id_Name i) in
      if replaced = id_Name i then i
      else let shortHash = hex_bytes (take 3 (sha256_Sum256 L (id_Name i)));
               replacedWithSHA = go_replace1 replaced (CHR ''@'') (shortHash @ ''@'')
           in i\<lparr>id_Name := replacedWithSHA\<rparr>)"

definition setDisplayName :: "identity \<Rightarrow> identity" where
  "setDisplayName i =
     (if id_DisplayName i = '''' then i\<lparr>id_DisplayName := hd (go_split (CHR ''@'') (id_Name i))\<rparr> else i)"

definition NewIdentity :: "'z libs_scheme \<Rightarrow> string \<Rightarrow> err + identity" where
  "NewIdentity L name =
     (if name = '''' then Inl ErrIdentityCreation
      else Inr (setDisplayName (santiseIdentityId L (empty_identity\<lparr>id_Name := name\<rparr>))))"

definition identity_SetTag :: "identity \<Rightarrow> tag \<Rightarrow> identity" where
  "identity_SetTag i t = i\<lparr>id_Name := Id t\<rparr>"

section \<open>Facts on identities\<close>

lemma hex_digit_safe [simp]: "hex_digit n \<notin> set unsafe_chars"
proof -
  have "hex_digit n \<in> set ''0123456789abcdef''"
    unfolding hex_digit_def by (rule nth_mem) simp
  moreover have "set ''0123456789abcdef'' \<inter> set unsafe_chars = {}"
    by (simp add: unsafe_chars_def)
  ultimately show ?thesis by blast
qed

lemma hex_bytes_safe: "set (hex_bytes bs) \<inter> set unsafe_chars = {}"
  by (auto simp: hex_bytes_def)

lemma userTagReplacer_id: "userTagReplacer s = s \<longleftrightarrow> set s \<inter> set unsafe_chars = {}"
proof -
  have "CHR ''-'' \<notin> set unsafe_chars" by (simp add: unsafe_chars_def)
  then show ?thesis by (induction s) (auto simp: userTagReplacer_def)
qed

lemma userTagReplacer_safe: "set (userTagReplacer s) \<inter> set unsafe_chars = {}"
  by (auto simp: userTagReplacer_def) (simp add: unsafe_chars_def)

lemma set_go_replace1: "set (go_replace1 s c new) \<subseteq> set s \<union> set new"
  by (induction s) auto

lemma sanitised_name_safe: "set (id_Name (santiseIdentityId L i)) \<inter> set unsafe_chars = {}"
proof (cases "userTagReplacer (id_Name i) = id_Name i")
  case True
  then show ?thesis by (simp add: santiseIdentityId_def) (simp add: userTagReplacer_id)
next
  case False
  let ?h = "hex_bytes (take 3 (sha256_Sum256 L (id_Name i)))"
  have "set (?h @ ''@'') \<inter> set unsafe_chars = {}"
    using hex_bytes_safe by (auto simp: unsafe_chars_def)
  with userTagReplacer_safe set_go_replace1 [of "userTagReplacer (id_Name i)" "CHR ''@''" "?h @ ''@''"]
  have "set (go_replace1 (userTagReplacer (id_Name i)) (CHR ''@'') (?h @ ''@'')) \<inter> set unsafe_chars = {}"
    by blast
  with False show ?thesis by (simp add: santiseIdentityId_def Let_def)
qed

lemma santiseIdentityId_safe [simp]:
  "set (id_Name i) \<inter> set unsafe_chars = {} \<Longrightarrow> santiseIdentityId L i = i"
  by (simp add: santiseIdentityId_def userTagReplacer_id)

lemma setDisplayName_Name [simp]: "id_Name (setDisplayName i) = id_Name i"
  by (simp add: setDisplayName_def)

lemma NewIdentity_Name:
  "NewIdentity L name = Inr i \<Longrightarrow>
     name \<noteq> '''' \<and> id_Name i = id_Name (santiseIdentityId L (empty_identity\<lparr>id_Name := name\<rparr>))"
  by (auto simp: NewIdentity_def split: if_splits)

lemma NewIdentity_safe_name:
  "name \<noteq> '''' \<Longrightarrow> set name \<inter> set unsafe_chars = {} \<Longrightarrow>
     \<exists>i. NewIdentity L name = Inr i \<and> id_Name i = name"
  by (simp add: NewIdentity_def)


definition libs_none :: libs where
  "libs_none = juju_names.extend juju_names_none
     (libs.fields (\<lambda>_. False) (\<lambda>_. [1, 2, 3]) (\<lambda>f _. f) (\<lambda>_. '''') (\<lambda>e. ent_ID e = ''*''))"


end
