(* ===== verification/External.thy ===== *)
theory External
  imports Db_Model
begin

text \<open>
  The services and libraries JIMM calls but does not contain, as one record of functions that
  the definitions take as an argument: the client library \<^verbatim>\<open>canonical/ofga\<close> for OpenFGA,
  gorm's operations on each table, the identity provider's group lookup and the clock. Each
  stateful operation is a computation over the world, of the arbitrary type \<open>'w\<close>.

  What the code relies on of OpenFGA is the locale \<open>openfga_service\<close>: the documented
  behaviour of writing, deleting, reading and checking relationship tuples. Theorems that
  need it state \<open>openfga_service E store remaining\<close> as a hypothesis.
\<close>

section \<open>Operations\<close>

text \<open>A condition of a gorm query: a column, an operator and the value it is compared with.\<close>

datatype cond = WhereEq string string | WhereID nat | WhereLike "string list" string
  | WhereController nat | WhereCredential nat | WhereCloud nat | WhereIn string "string list" | WhereNotIn string "string list"

datatype handle = MainDB | Tx

record ('w, 'row) gorm_table =
  gorm_Create :: "handle \<Rightarrow> 'row \<Rightarrow> ('w, 'row) io"
  gorm_CreateDoNothing :: "handle \<Rightarrow> 'row \<Rightarrow> ('w, 'row \<times> nat) io"
  gorm_First :: "handle \<Rightarrow> cond list \<Rightarrow> 'row \<Rightarrow> ('w, 'row) io"
  gorm_Find :: "handle \<Rightarrow> cond list \<Rightarrow> string \<Rightarrow> nat option \<Rightarrow> nat option \<Rightarrow> ('w, 'row list) io"
  gorm_Count :: "handle \<Rightarrow> ('w, nat) io"
  gorm_Update :: "handle \<Rightarrow> cond list \<Rightarrow> string \<Rightarrow> string \<Rightarrow> 'w \<Rightarrow> nat \<times> 'w"
  gorm_Delete :: "handle \<Rightarrow> cond list \<Rightarrow> 'row \<Rightarrow> ('w, unit) io"
  gorm_Save :: "handle \<Rightarrow> string list \<Rightarrow> 'row \<Rightarrow> ('w, 'row) io"

type_synonym tuple_with_id = "tup \<times> string \<times> tup list"

record 'w externals = libs +
  cofga_AddRelationIdempotent :: "tup list \<Rightarrow> ('w, unit) io"
  cofga_RemoveRelationIdempotent :: "tup list \<Rightarrow> ('w, unit) io"
  cofga_FindMatchingTuples :: "tup \<Rightarrow> int \<Rightarrow> string \<Rightarrow> ('w, tup list \<times> string) io"
  cofga_FindAccessibleObjects :: "tup \<Rightarrow> tup list \<Rightarrow> ('w, entity list) io"
  cofga_FindUsersByRelation :: "tup \<Rightarrow> ('w, entity list) io"
  cofga_CheckRelation :: "tup \<Rightarrow> tup list \<Rightarrow> ('w, bool) io"
  cofga_CheckRelationWithTracing :: "tup \<Rightarrow> tup list \<Rightarrow> ('w, bool) io"
  cofga_BatchCheckRelations :: "tuple_with_id list \<Rightarrow> ('w, string \<Rightarrow> bool option) io"
  FetchGroups :: "string \<Rightarrow> ('w, string list) io"
  newUUID :: "'w \<Rightarrow> string \<times> 'w"
  NowFunc :: "'w \<Rightarrow> int \<times> 'w"
  gorm_Transaction :: "(handle \<Rightarrow> ('w, group_entry) io) \<Rightarrow> ('w, group_entry) io"
  tbl_groups :: "('w, group_entry) gorm_table"
  tbl_roles :: "('w, role_entry) gorm_table"
  tbl_identities :: "('w, identity) gorm_table"
  tbl_controllers :: "('w, controller) gorm_table"
  tbl_models :: "('w, model) gorm_table"
  tbl_offers :: "('w, application_offer) gorm_table"
  tbl_clouds :: "('w, cloud) gorm_table"
  tbl_user_mappings :: "('w, user_mapping) gorm_table"

text \<open>The text of an error, \<^verbatim>\<open>err.Error()\<close>.\<close>

definition err_text :: "'z libs_scheme \<Rightarrow> err \<Rightarrow> string" where
  "err_text L e = Error_text (fmt_Sprintf L) (juju_code_text L) e"

section \<open>The contract of OpenFGA\<close>

text \<open>
  Which stored tuples a read with the tuple \<open>p\<close> returns: the object, where given, must be
  equal; the relation, where given, must be equal; the target, where given, must have the kind
  and, where given, the identifier.
\<close>

definition tup_matches :: "tup \<Rightarrow> tup \<Rightarrow> bool" where
  "tup_matches p x \<longleftrightarrow>
     (Object p = None \<or> Object p = Object x)
   \<and> (Relation p = '''' \<or> Relation p = Relation x)
   \<and> (case Target p of None \<Rightarrow> True
      | Some t \<Rightarrow> (case Target x of None \<Rightarrow> False
          | Some t' \<Rightarrow> ent_Kind t = ent_Kind t' \<and> (ent_ID t = '''' \<or> ent_ID t = ent_ID t')))"

definition check_holds :: "tup set \<Rightarrow> tup \<Rightarrow> bool" where
  "check_holds S x = (case (Object x, Target x) of
       (Some u, Some t) \<Rightarrow> holds S u (Relation x) t
     | _ \<Rightarrow> False)"

text \<open>
  \<open>store\<close> is the set of tuples OpenFGA holds in a state of the world. Writes and deletes are
  transactional: they succeed as a whole or change nothing. Reads and checks change nothing,
  whether they succeed or fail. \<open>remaining w p tok\<close> is what is still to be read of the query
  \<open>p\<close> at the continuation token \<open>tok\<close>; the empty token starts the query, and a page that is
  not the last one is not empty. Every stored tuple has an object. A server without idempotent
  writes refuses to add a tuple it has and to delete one it has not, with the two texts the
  sources look for.
\<close>

locale openfga_service =
  fixes E :: "'w externals"
    and store :: "'w \<Rightarrow> tup set"
    and remaining :: "'w \<Rightarrow> tup \<Rightarrow> string \<Rightarrow> tup set"
  assumes add_ok: "cofga_AddRelationIdempotent E ts w = (Ok u, w') \<Longrightarrow> store w' = store w \<union> set ts"
    and add_err: "cofga_AddRelationIdempotent E ts w = (Err e, w') \<Longrightarrow> store w' = store w"
    and add_total: "fst (cofga_AddRelationIdempotent E ts w) \<notin> {NoFuel} \<union> range Panic"
    and remove_ok: "cofga_RemoveRelationIdempotent E ts w = (Ok u, w') \<Longrightarrow> store w' = store w - set ts"
    and remove_err: "cofga_RemoveRelationIdempotent E ts w = (Err e, w') \<Longrightarrow> store w' = store w"
    and remove_total: "fst (cofga_RemoveRelationIdempotent E ts w) \<notin> {NoFuel} \<union> range Panic"
    and read_frame: "frame store (cofga_FindMatchingTuples E p n tok)"
    and read_total: "fst (cofga_FindMatchingTuples E p n tok w) \<notin> {NoFuel} \<union> range Panic"
    and remaining_store: "store w = store w' \<Longrightarrow> remaining w p tok = remaining w' p tok"
    and remaining_start: "remaining w p '''' = {x \<in> store w. tup_matches p x}"
    and remaining_sub: "remaining w p tok \<subseteq> {x \<in> store w. tup_matches p x}"
    and read_ok: "cofga_FindMatchingTuples E p n tok w = (Ok (ts, ct), w') \<Longrightarrow>
      remaining w p tok = set ts \<union> (if ct = '''' then {} else remaining w p ct)
      \<and> (ct \<noteq> '''' \<longrightarrow> ts \<noteq> [] \<and> set ts \<inter> remaining w p ct = {})"
    and check_frame: "frame store (cofga_CheckRelation E x ctx)"
    and check_tracing_frame: "frame store (cofga_CheckRelationWithTracing E x ctx)"
    and check_total: "fst (cofga_CheckRelation E x ctx w) \<notin> {NoFuel} \<union> range Panic"
    and check_tracing_total: "fst (cofga_CheckRelationWithTracing E x ctx w) \<notin> {NoFuel} \<union> range Panic"
    and check_ok: "cofga_CheckRelation E x ctx w = (Ok b, w') \<Longrightarrow> b = check_holds (store w \<union> set ctx) x"
    and check_tracing_ok:
      "cofga_CheckRelationWithTracing E x ctx w = (Ok b, w') \<Longrightarrow> b = check_holds (store w \<union> set ctx) x"
    and batch_frame: "frame store (cofga_BatchCheckRelations E xs)"
    and batch_ok: "cofga_BatchCheckRelations E xs w = (Ok res, w') \<Longrightarrow> distinct (map (fst \<circ> snd) xs) \<Longrightarrow>
      (x, i, ctx) \<in> set xs \<Longrightarrow> res i = Some True \<Longrightarrow> check_holds (store w \<union> set ctx) x"
    and batch_ids: "cofga_BatchCheckRelations E xs w = (Ok res, w') \<Longrightarrow> res i \<noteq> None \<Longrightarrow> i \<in> (fst \<circ> snd) ` set xs"
    and find_objects_frame: "frame store (cofga_FindAccessibleObjects E x ctx)"
    and find_users_frame: "frame store (cofga_FindUsersByRelation E x)"
    and find_objects_ok: "cofga_FindAccessibleObjects E x ctx w = (Ok es, w') \<Longrightarrow>
      \<forall>o'\<in>set es. check_holds (store w \<union> set ctx) (x\<lparr>Target := Some o'\<rparr>)"
    and add_exists: "cofga_AddRelationIdempotent E [x] w = (Err e, w') \<Longrightarrow>
      go_contains (err_text E e) ''cannot write a tuple which already exists'' \<Longrightarrow> x \<in> store w"
    and remove_missing: "cofga_RemoveRelationIdempotent E [x] w = (Err e, w') \<Longrightarrow>
      go_contains (err_text E e) ''cannot delete a tuple which does not exist'' \<Longrightarrow> x \<notin> store w"
    and stored_object: "x \<in> store w \<Longrightarrow> Object x \<noteq> None"
    and public_access: "IsPublicAccess E ent \<longleftrightarrow> ent_ID ent = ''*''"
    and finite_store: "finite (store w)"
begin

lemmas service_frames = read_frame check_frame check_tracing_frame batch_frame
  find_objects_frame find_users_frame

lemma add_cases:
  obtains (ok) w' where "cofga_AddRelationIdempotent E ts w = (Ok (), w')" and "store w' = store w \<union> set ts"
    | (err) e w' where "cofga_AddRelationIdempotent E ts w = (Err e, w')" and "store w' = store w"
proof (cases "cofga_AddRelationIdempotent E ts w")
  case (Pair r w')
  then show ?thesis
    using add_total [of ts w] ok err add_ok add_err by (cases r) (auto simp: image_iff)
qed

lemma remove_cases:
  obtains (ok) w' where "cofga_RemoveRelationIdempotent E ts w = (Ok (), w')" and "store w' = store w - set ts"
    | (err) e w' where "cofga_RemoveRelationIdempotent E ts w = (Err e, w')" and "store w' = store w"
proof (cases "cofga_RemoveRelationIdempotent E ts w")
  case (Pair r w')
  then show ?thesis
    using remove_total [of ts w] ok err remove_ok remove_err by (cases r) (auto simp: image_iff)
qed

lemma read_first_page:
  assumes "cofga_FindMatchingTuples E p n '''' w = (Ok (ts, ct), w')"
  shows "set ts \<subseteq> {x \<in> store w. tup_matches p x}" and "store w' = store w"
    and "ct = '''' \<Longrightarrow> set ts = {x \<in> store w. tup_matches p x}"
    and "ct \<noteq> '''' \<Longrightarrow> ts \<noteq> []"
  using read_ok [OF assms] remaining_start [of w p] frameD [OF read_frame assms]
  by (auto split: if_splits)

end

section \<open>An in-memory OpenFGA\<close>

text \<open>
  A world that is just a list of tuples, with every other library doing nothing: the instance
  on which the hypotheses of the theorems are shown to hold together. It refuses tuples
  without an object.
\<close>

definition no_table :: "(tup list, 'row) gorm_table" where
  "no_table = \<lparr>gorm_Create = (\<lambda>_ r. go_return r), gorm_CreateDoNothing = (\<lambda>_ r. go_return (r, 1)),
     gorm_First = (\<lambda>_ _ r. go_err ErrRecordNotFound), gorm_Find = (\<lambda>_ _ _ _ _. go_return []),
     gorm_Count = (\<lambda>_. go_return 0), gorm_Update = (\<lambda>_ _ _ _ w. (0, w)),
     gorm_Delete = (\<lambda>_ _ _. go_return ()), gorm_Save = (\<lambda>_ _ r. go_return r)\<rparr>"

text \<open>
  Every group and every offer that is looked up exists, with a fixed UUID, every controller, with
  one cloud, every cloud, with one region, and every model, on the controller c.
\<close>

definition mem_groups :: "(tup list, group_entry) gorm_table" where
  "mem_groups = no_table\<lparr>gorm_First := (\<lambda>_ _ r.
     go_return (r\<lparr>ge_ID := 1, ge_UUID := ''0a6b8f5e-6f4c-4d2b-9a51-3c0f5d7e9b12''\<rparr>))\<rparr>"

text \<open>The name a query asks for, or the name the row has.\<close>

fun asked_name :: "cond list \<Rightarrow> string \<Rightarrow> string" where
  "asked_name [WhereEq col n] own = (if col = ''name'' then n else own)"
| "asked_name _ own = own"

definition mem_controllers :: "(tup list, controller) gorm_table" where
  "mem_controllers = no_table\<lparr>gorm_First := (\<lambda>_ cs r. go_return (r\<lparr>ctl_ID := 1, ctl_Name := asked_name cs (ctl_Name r),
     ctl_UUID := (if ctl_UUID r = '''' then ''c'' else ctl_UUID r), ctl_CloudRegions := [\<lparr>crg_ID = 1, crg_CloudRegionID = 1,
     crg_CloudRegion = empty_region_ref\<lparr>rr_CloudName := ''aws'', rr_Cloud := empty_cloud_ref\<lparr>clr_Name := ''aws''\<rparr>, rr_Name := ''r''\<rparr>,
     crg_ControllerID = 1, crg_Priority = 1\<rparr>]\<rparr>))\<rparr>"

definition mem_region :: cloud_region where
  "mem_region = empty_region\<lparr>cr_ID := 1, cr_CloudName := ''aws'', cr_Name := ''r'',
     cr_Controllers := [empty_region_controller\<lparr>rc_ID := 1, rc_CloudRegionID := 1, rc_ControllerID := 1, rc_Priority := 1\<rparr>]\<rparr>"

definition mem_clouds :: "(tup list, cloud) gorm_table" where
  "mem_clouds = no_table\<lparr>gorm_First := (\<lambda>_ cs r. go_return (r\<lparr>cld_ID := 1, cld_Name := asked_name cs (cld_Name r),
     cld_Regions := [mem_region]\<rparr>))\<rparr>"

definition mem_models :: "(tup list, model) gorm_table" where
  "mem_models = no_table\<lparr>gorm_First := (\<lambda>_ _ r. go_return (r\<lparr>mdl_Controller := empty_controller\<lparr>ctl_UUID := ''c''\<rparr>\<rparr>))\<rparr>"

definition mem_offers :: "(tup list, application_offer) gorm_table" where
  "mem_offers = no_table\<lparr>gorm_First := (\<lambda>_ _ r. go_return (r\<lparr>ao_UUID := ''off''\<rparr>))\<rparr>"

definition mem_libs :: libs where
  "mem_libs = libs_none\<lparr>names_NewTag := (\<lambda>_ i. Some i), IsValidUser := (\<lambda>i. i \<noteq> ''''),
     names_ParseTag := (\<lambda>s. case go_splitN2 (CHR ''-'') s of [k, i] \<Rightarrow> Inr (Tag k i) | _ \<Rightarrow> Inl (ErrNew s))\<rparr>"

definition mem_store :: "tup list \<Rightarrow> tup set" where
  "mem_store w = {x \<in> set w. Object x \<noteq> None}"

definition mem_add :: "tup list \<Rightarrow> (tup list, unit) io" where
  "mem_add ts w = (if \<exists>x\<in>set ts. Object x = None then (Err (ErrNew ''invalid tuple''), w) else (Ok (), w @ ts))"

definition mem_find :: "tup \<Rightarrow> tup list \<Rightarrow> tup list" where
  "mem_find p w = filter (\<lambda>x. Object x \<noteq> None \<and> tup_matches p x) w"

definition mem_externals :: "tup list externals" where
  "mem_externals = libs.extend mem_libs
     (externals.fields
       mem_add
       (\<lambda>ts w. (Ok (), filter (\<lambda>x. x \<notin> set ts) w))
       (\<lambda>p n tok w. (Ok (if tok = '''' then mem_find p w else [], ''''), w))
       (\<lambda>x ctx. go_return [])
       (\<lambda>x. go_return [])
       (\<lambda>x ctx w. (Ok (check_holds (mem_store w \<union> set ctx) x), w))
       (\<lambda>x ctx w. (Ok (check_holds (mem_store w \<union> set ctx) x), w))
       (\<lambda>xs w. (Ok (\<lambda>i. map_option (\<lambda>(x, _, ctx). check_holds (mem_store w \<union> set ctx) x)
                          (find (\<lambda>(_, i', _). i' = i) xs)), w))
       (\<lambda>_. go_return [])
       (\<lambda>w. (''0a6b8f5e-6f4c-4d2b-9a51-3c0f5d7e9b12'', w))
       (\<lambda>w. (0, w))
       (\<lambda>f. f Tx)
       mem_groups no_table no_table mem_controllers mem_models mem_offers mem_clouds no_table)"

definition mem_remaining :: "tup list \<Rightarrow> tup \<Rightarrow> string \<Rightarrow> tup set" where
  "mem_remaining w p tok = (if tok = '''' then {x \<in> mem_store w. tup_matches p x} else {})"

lemmas mem_defs = mem_externals_def mem_libs_def libs_none_def juju_names_none_def
  libs.defs externals.defs juju_names.defs

lemma mem_externals_simps [simp]:
  "cofga_AddRelationIdempotent mem_externals = mem_add"
  "cofga_RemoveRelationIdempotent mem_externals ts w = (Ok (), filter (\<lambda>x. x \<notin> set ts) w)"
  "cofga_FindMatchingTuples mem_externals p n tok w =
     (Ok (if tok = '''' then mem_find p w else [], ''''), w)"
  "cofga_CheckRelation mem_externals x ctx w = (Ok (check_holds (mem_store w \<union> set ctx) x), w)"
  "cofga_CheckRelationWithTracing mem_externals x ctx w = (Ok (check_holds (mem_store w \<union> set ctx) x), w)"
  "cofga_FindAccessibleObjects mem_externals x ctx = go_return []"
  "cofga_FindUsersByRelation mem_externals x = go_return []"
  "IsPublicAccess mem_externals e \<longleftrightarrow> ent_ID e = ''*''"
  "names_NewTag mem_externals k i = Some i"
  "IsValidUser mem_externals i \<longleftrightarrow> i \<noteq> ''''"
  "names_ParseTag mem_externals s = (case go_splitN2 (CHR ''-'') s of [k, i] \<Rightarrow> Inr (Tag k i) | _ \<Rightarrow> Inl (ErrNew s))"
  "FetchGroups mem_externals u = go_return []"
  "tbl_identities mem_externals = no_table" "tbl_groups mem_externals = mem_groups"
  "tbl_roles mem_externals = no_table" "tbl_controllers mem_externals = mem_controllers"
  "tbl_models mem_externals = mem_models" "tbl_offers mem_externals = mem_offers"
  "tbl_clouds mem_externals = mem_clouds" "tbl_user_mappings mem_externals = no_table"
  "gorm_Transaction mem_externals body = body Tx"
  "newUUID mem_externals w = (''0a6b8f5e-6f4c-4d2b-9a51-3c0f5d7e9b12'', w)"
  "NowFunc mem_externals w = (0, w)"
  "fmt_Sprintf mem_externals f args = f"
  by (simp_all add: mem_defs)

lemma mem_batch_frame [simp]: "snd (cofga_BatchCheckRelations mem_externals xs w) = w"
  by (simp add: mem_defs)

text \<open>The answer of a batch is keyed by correlation identifier.\<close>

lemma mem_batch:
  "cofga_BatchCheckRelations mem_externals xs w = (Ok (\<lambda>i. map_option (\<lambda>(x, _, ctx).
     check_holds (mem_store w \<union> set ctx) x) (find (\<lambda>(_, i', _). i' = i) xs)), w)"
  by (simp add: mem_defs)

lemma find_distinct_id:
  "distinct (map (fst \<circ> snd) xs) \<Longrightarrow> (x, i, ctx) \<in> set xs \<Longrightarrow> find (\<lambda>(_, i', _). i' = i) xs = Some (x, i, ctx)"
  by (induction xs) (force split: prod.splits)+

lemma mem_add_simps:
  "mem_add ts w = (Ok u, w') \<Longrightarrow> mem_store w' = mem_store w \<union> set ts"
  "mem_add ts w = (Err e, w') \<Longrightarrow> w' = w \<and> e = ErrNew ''invalid tuple''"
  "fst (mem_add ts w) \<noteq> NoFuel" "fst (mem_add ts w) \<noteq> Panic s"
  by (auto simp: mem_add_def mem_store_def split: if_splits)

lemma mem_add_not_exists:
  "mem_add ts w = (Err e, w') \<Longrightarrow>
     \<not> go_contains (err_text mem_externals e) ''cannot write a tuple which already exists''"
  by (drule mem_add_simps(2)) (simp add: err_text_def)

interpretation mem: openfga_service mem_externals mem_store mem_remaining
proof unfold_locales
  fix x w e w'
  assume "cofga_AddRelationIdempotent mem_externals [x] w = (Err e, w')"
    and "go_contains (err_text mem_externals e) ''cannot write a tuple which already exists''"
  then show "x \<in> mem_store w" using mem_add_not_exists by simp
next
  fix xs w res w' x i ctx
  assume "cofga_BatchCheckRelations mem_externals xs w = (Ok res, w')" and "distinct (map (fst \<circ> snd) xs)"
    and "(x, i, ctx) \<in> set xs" and "res i = Some True"
  then show "check_holds (mem_store w \<union> set ctx) x" by (auto simp: mem_batch find_distinct_id)
next
  fix xs w res w' and i :: string
  assume "cofga_BatchCheckRelations mem_externals xs w = (Ok res, w')" and "res i \<noteq> None"
  then show "i \<in> (fst \<circ> snd) ` set xs"
    by (force simp: mem_batch find_Some_iff image_iff dest!: nth_mem)
qed (auto simp: mem_add_def frame_def mem_remaining_def mem_find_def mem_store_def go_simps
      split: if_splits)

end
