(* ===== verification/OFGA_Client.thy ===== *)
theory OFGA_Client
  imports External
begin

text \<open>
  The file \<^verbatim>\<open>internal/openfga/openfga.go\<close>: JIMM's client for OpenFGA. Every function of the
  file is here; the timestamps of the tuples OpenFGA returns are never read and are dropped, and
  the metrics the functions record do not influence them. The methods whose names the package
  also uses for other things carry the prefix \<open>OFGA_\<close>. The loop of \<^verbatim>\<open>removeTuples\<close> ends when
  the service says so, and takes fuel.
\<close>

section \<open>Reading, writing, checking\<close>

text \<open>\<open>None\<close> is the panic on a tuple without an object.\<close>

definition publicAccessAdaptor :: "'z libs_scheme \<Rightarrow> tup \<Rightarrow> tup option" where
  "publicAccessAdaptor L tt = (case Object tt of
       None \<Rightarrow> None
     | Some ob \<Rightarrow>
         Some (if ent_Kind ob = UserTagKind \<and> IsPublicAccess L ob
               then tt\<lparr>Object := Some (ob\<lparr>ent_ID := EveryoneUser\<rparr>)\<rparr> else tt))"

definition OFGA_AddRelation :: "'w externals \<Rightarrow> tup list \<Rightarrow> ('w, unit) io" where
  "OFGA_AddRelation E tuples = cofga_AddRelationIdempotent E tuples"

definition OFGA_RemoveRelation :: "'w externals \<Rightarrow> tup list \<Rightarrow> ('w, unit) io" where
  "OFGA_RemoveRelation E tuples = cofga_RemoveRelationIdempotent E tuples"

definition setResourceAccess :: "'w externals \<Rightarrow> tag option \<Rightarrow> tag option \<Rightarrow> string \<Rightarrow> ('w, unit) io" where
  "setResourceAccess E object target relation = (case (object, target) of
       (Some ob, Some t) \<Rightarrow>
         go_bind (go_try (OFGA_AddRelation E
             [\<lparr>Object = Some (ConvertGenericTag ob), Relation = relation,
               Target = Some (ConvertGenericTag t)\<rparr>])) (\<lambda>r.
         case r of
           Inr _ \<Rightarrow> go_return ()
         | Inl e \<Rightarrow> if go_contains (err_text E e) ''cannot write a tuple which already exists''
                    then go_return () else go_err e)
     | _ \<Rightarrow> go_err (ErrNew ''missing object or target for relation''))"

definition unsetResourceAccess :: "'w externals \<Rightarrow> tag option \<Rightarrow> tag option \<Rightarrow> string \<Rightarrow> ('w, unit) io" where
  "unsetResourceAccess E object target relation = (case (object, target) of
       (Some ob, Some t) \<Rightarrow>
         go_bind (go_try (OFGA_RemoveRelation E
             [\<lparr>Object = Some (ConvertGenericTag ob), Relation = relation,
               Target = Some (ConvertGenericTag t)\<rparr>])) (\<lambda>r.
         case r of
           Inr _ \<Rightarrow> go_return ()
         | Inl e \<Rightarrow> if go_contains (err_text E e) ''cannot delete a tuple which does not exist''
                    then go_return () else go_err e)
     | _ \<Rightarrow> go_err (ErrNew ''missing object or target for relation''))"

definition getRelatedObjects :: "'w externals \<Rightarrow> tup \<Rightarrow> int \<Rightarrow> string \<Rightarrow> ('w, tup list \<times> string) io" where
  "getRelatedObjects E tuple pageSize continuationToken =
     go_bind (cofga_FindMatchingTuples E tuple pageSize continuationToken) (\<lambda>(timestampedTuples, ct).
     go_bind (go_mapM (\<lambda>tt. go_some ''nil pointer dereference'' (publicAccessAdaptor E tt)) timestampedTuples)
       (\<lambda>tuples. go_return (tuples, ct)))"

definition listObjects :: "'w externals \<Rightarrow> entity \<Rightarrow> string \<Rightarrow> string \<Rightarrow> tup list \<Rightarrow> ('w, entity list) io" where
  "listObjects E user relation objType contextualTuples =
     cofga_FindAccessibleObjects E
       \<lparr>Object = Some user, Relation = relation,
        Target = Some \<lparr>ent_Kind = objType, ent_ID = '''', ent_Relation = ''''\<rparr>\<rparr> contextualTuples"

definition OFGA_ListObjects :: "'w externals \<Rightarrow> entity \<Rightarrow> string \<Rightarrow> string \<Rightarrow> tup list \<Rightarrow> ('w, entity list) io" where
  "OFGA_ListObjects E user relation objType contextualTuples =
     listObjects E user relation objType contextualTuples"

definition OFGA_ReadRelatedObjects :: "'w externals \<Rightarrow> tup \<Rightarrow> int \<Rightarrow> string \<Rightarrow> ('w, tup list \<times> string) io" where
  "OFGA_ReadRelatedObjects E tuple pageSize continuationToken =
     getRelatedObjects E tuple pageSize continuationToken"

definition OFGA_CheckRelation :: "'w externals \<Rightarrow> tup \<Rightarrow> bool \<Rightarrow> tup list \<Rightarrow> ('w, bool) io" where
  "OFGA_CheckRelation E tuple trace contextualTuples =
     (if trace then cofga_CheckRelationWithTracing E tuple contextualTuples
      else cofga_CheckRelation E tuple contextualTuples)"

definition BatchCheckSize :: nat where
  "BatchCheckSize = 50"

text \<open>The loop over slices of \<^verbatim>\<open>BatchCheckSize\<close> tuples; \<open>results\<close> is the map filled so far.\<close>

function batch_loop :: "'w externals \<Rightarrow> tuple_with_id list \<Rightarrow> (string \<Rightarrow> bool option) \<Rightarrow> ('w, string \<Rightarrow> bool option) io" where
  "batch_loop E [] results = go_return results"
| "batch_loop E (t # ts) results =
     go_bind (cofga_BatchCheckRelations E (take BatchCheckSize (t # ts))) (\<lambda>batchResults.
     batch_loop E (drop BatchCheckSize (t # ts)) (results ++ batchResults))"
  by pat_completeness auto
termination
  by (relation "measure (\<lambda>(E, ts, results). length ts)") (simp_all add: BatchCheckSize_def)

definition OFGA_BatchCheckRelations :: "'w externals \<Rightarrow> tuple_with_id list \<Rightarrow> ('w, string \<Rightarrow> bool option) io" where
  "OFGA_BatchCheckRelations E tuples = batch_loop E tuples Map.empty"

section \<open>Removing everything that matches\<close>

primrec removeTuples :: "'w externals \<Rightarrow> nat \<Rightarrow> tup \<Rightarrow> ('w, unit) io" where
  "removeTuples E 0 tuple = go_nofuel"
| "removeTuples E (Suc fuel) tuple =
     go_bind (OFGA_ReadRelatedObjects E tuple 50 '''') (\<lambda>(tuples, ct).
     go_bind (if tuples \<noteq> [] then OFGA_RemoveRelation E tuples else go_return ()) (\<lambda>_.
     if ct = '''' then go_return () else removeTuples E fuel tuple))"

definition no_tup :: tup where
  "no_tup = \<lparr>Object = None, Relation = '''', Target = None\<rparr>"

definition AddControllerModel :: "'w externals \<Rightarrow> tag \<Rightarrow> tag \<Rightarrow> ('w, unit) io" where
  "AddControllerModel E controller model = setResourceAccess E (Some controller) (Some model) ControllerRelation"

definition RemoveControllerModel :: "'w externals \<Rightarrow> tag \<Rightarrow> tag \<Rightarrow> ('w, unit) io" where
  "RemoveControllerModel E controller model =
     unsetResourceAccess E (Some controller) (Some model) ControllerRelation"

definition OFGA_RemoveModel :: "'w externals \<Rightarrow> nat \<Rightarrow> tag \<Rightarrow> ('w, unit) io" where
  "OFGA_RemoveModel E fuel model =
     go_bind (removeTuples E fuel (no_tup\<lparr>Target := Some (ConvertTag model)\<rparr>)) (\<lambda>_.
     go_bind (go_sum (BlankKindTag ApplicationOfferTagKind)) (\<lambda>offerKind.
     removeTuples E fuel (no_tup\<lparr>Object := Some (ConvertTag model), Target := Some offerKind\<rparr>)))"

definition AddModelApplicationOffer :: "'w externals \<Rightarrow> tag \<Rightarrow> tag \<Rightarrow> ('w, unit) io" where
  "AddModelApplicationOffer E model offer = setResourceAccess E (Some model) (Some offer) ModelRelation"

definition RemoveApplicationOffer :: "'w externals \<Rightarrow> nat \<Rightarrow> tag \<Rightarrow> ('w, unit) io" where
  "RemoveApplicationOffer E fuel offer =
     removeTuples E fuel (no_tup\<lparr>Target := Some (ConvertTag offer)\<rparr>)"

definition resourceTypes :: "string list" where
  "resourceTypes = [UserTagKind, ModelTagKind, ControllerTagKind, ApplicationOfferTagKind,
     GroupTagKind, IdPGroupTagKind, RoleTagKind]"

text \<open>The common shape of the two loops over \<^verbatim>\<open>resourceTypes\<close> below.\<close>

definition remove_access_of :: "'w externals \<Rightarrow> nat \<Rightarrow> entity \<Rightarrow> ('w, unit) io" where
  "remove_access_of E fuel object =
     go_foreach (\<lambda>kind.
       go_bind (go_sum (BlankKindTag kind)) (\<lambda>kt.
       removeTuples E fuel (no_tup\<lparr>Object := Some object, Target := Some kt\<rparr>))) resourceTypes"

definition OFGA_RemoveRole :: "'w externals \<Rightarrow> nat \<Rightarrow> tag \<Rightarrow> ('w, unit) io" where
  "OFGA_RemoveRole E fuel role =
     go_bind (removeTuples E fuel (no_tup\<lparr>Relation := AssigneeRelation, Target := Some (ConvertTag role)\<rparr>)) (\<lambda>_.
     remove_access_of E fuel (ConvertTagWithRelation role AssigneeRelation))"

definition OFGA_RemoveGroup :: "'w externals \<Rightarrow> nat \<Rightarrow> tag \<Rightarrow> ('w, unit) io" where
  "OFGA_RemoveGroup E fuel grp =
     go_bind (removeTuples E fuel (no_tup\<lparr>Relation := MemberRelation, Target := Some (ConvertTag grp)\<rparr>)) (\<lambda>_.
     remove_access_of E fuel (ConvertTagWithRelation grp MemberRelation))"

definition RemoveCloud :: "'w externals \<Rightarrow> nat \<Rightarrow> tag \<Rightarrow> ('w, unit) io" where
  "RemoveCloud E fuel cloud = removeTuples E fuel (no_tup\<lparr>Target := Some (ConvertTag cloud)\<rparr>)"

definition AddCloudController :: "'w externals \<Rightarrow> tag \<Rightarrow> tag \<Rightarrow> ('w, unit) io" where
  "AddCloudController E cloud controller =
     setResourceAccess E (Some controller) (Some cloud) ControllerRelation"

definition OFGA_AddController :: "'w externals \<Rightarrow> tag \<Rightarrow> tag \<Rightarrow> ('w, unit) io" where
  "OFGA_AddController E jimm controller =
     setResourceAccess E (Some jimm) (Some controller) ControllerRelation"

section \<open>Facts\<close>

declare removeTuples.simps(2) [simp del]

text \<open>A tuple on everyone: what the adaptor rewrites on its way out.\<close>

definition is_public :: "tup \<Rightarrow> bool" where
  "is_public x = (case Object x of None \<Rightarrow> False
     | Some ob \<Rightarrow> ent_Kind ob = UserTagKind \<and> ent_ID ob = ''*'')"

definition adapted :: "tup \<Rightarrow> tup" where
  "adapted x = (if is_public x then x\<lparr>Object := map_option (\<lambda>ob. ob\<lparr>ent_ID := EveryoneUser\<rparr>) (Object x)\<rparr> else x)"

text \<open>A tuple whose object is the user name that stands for everyone inside JIMM.\<close>

definition on_everyone_user :: "tup \<Rightarrow> bool" where
  "on_everyone_user x = (case Object x of None \<Rightarrow> False
     | Some ob \<Rightarrow> ent_Kind ob = UserTagKind \<and> ent_ID ob = EveryoneUser)"

lemma adapted_id [simp]: "\<not> is_public x \<Longrightarrow> adapted x = x"
  by (simp add: adapted_def)

lemma adapted_public: "is_public x \<Longrightarrow> on_everyone_user (adapted x)"
  by (auto simp: adapted_def is_public_def on_everyone_user_def split: option.splits)

lemma adapted_not_public [simp]: "\<not> is_public (adapted x)"
  by (auto simp: adapted_def is_public_def EveryoneUser_def split: option.splits)

lemma go_mapM_return [simp]: "go_mapM (\<lambda>x. go_return (f x)) xs = go_return (map f xs)"
  by (induction xs) simp_all

lemma go_mapM_cong: "(\<And>x. x \<in> set xs \<Longrightarrow> f x = g x) \<Longrightarrow> go_mapM f xs = go_mapM g xs"
  by (induction xs) simp_all

text \<open>A loop whose body only ever takes away only takes away.\<close>

lemma shrink_foreach:
  assumes "\<And>x w q w'. f x w = (q, w') \<Longrightarrow> obs w' \<subseteq> obs w" and "go_foreach f xs w = (q, w')"
  shows "obs w' \<subseteq> obs w"
  using assms(2)
proof (induction xs arbitrary: w)
  case Nil
  then show ?case by (simp add: go_simps)
next
  case (Cons x xs)
  obtain q1 w1 where f: "f x w = (q1, w1)" by fastforce
  show ?case
  proof (cases q1)
    case (Ok v)
    then have "go_foreach f xs w1 = (q, w')" using Cons.prems f by (simp add: go_bind_def [of _ _ w])
    then show ?thesis using Cons.IH assms(1) [OF f] by blast
  qed (use Cons.prems f assms(1) [OF f] in \<open>auto simp: go_bind_def [of _ _ w]\<close>)
qed

text \<open>What one relation between two tags is as a tuple.\<close>

definition tag_tup :: "tag \<Rightarrow> string \<Rightarrow> tag \<Rightarrow> tup" where
  "tag_tup ob r t = mk_tup (ConvertTag ob) r (ConvertTag t)"

lemma ConvertTag_record:
  "ConvertTag t = \<lparr>ent_Kind = Kind t,
     ent_ID = if Kind t = UserTagKind \<and> Id t = EveryoneUser then ''*'' else Id t, ent_Relation = ''''\<rparr>"
  by (simp add: ConvertTag_def ConvertGenericTag_def)

lemma ConvertGenericTag_eq [simp]: "ConvertGenericTag t = ConvertTag t"
  by (simp add: ConvertTag_def)

lemma frame_removeTuples:
  assumes "\<And>p n tok. frame obs (cofga_FindMatchingTuples E p n tok)"
    and "\<And>ts. frame obs (cofga_RemoveRelationIdempotent E ts)"
  shows "frame obs (removeTuples E fuel p)"
  by (induction fuel)
    (auto intro!: frame_intros assms
      simp: removeTuples.simps(2) OFGA_ReadRelatedObjects_def getRelatedObjects_def
        OFGA_RemoveRelation_def split: prod.split)

context openfga_service
begin

lemma setResourceAccess_cases:
  obtains (ok) w' where "setResourceAccess E (Some ob) (Some t) r w = (Ok (), w')"
      and "store w' = insert (tag_tup ob r t) (store w)"
    | (err) e w' where "setResourceAccess E (Some ob) (Some t) r w = (Err e, w')" and "store w' = store w"
proof (cases rule: add_cases [of "[tag_tup ob r t]" w])
  case (ok w1)
  then show ?thesis
    by (intro that(1) [of w1])
      (simp_all add: setResourceAccess_def OFGA_AddRelation_def tag_tup_def mk_tup_def go_bind_def
        go_try_def go_simps)
next
  case (err e w1)
  show ?thesis
  proof (cases "go_contains (err_text E e) ''cannot write a tuple which already exists''")
    case True
    then have "tag_tup ob r t \<in> store w" using add_exists err(1) by blast
    with True err show ?thesis
      by (intro that(1) [of w1])
        (auto simp: setResourceAccess_def OFGA_AddRelation_def tag_tup_def mk_tup_def go_bind_def
          go_try_def go_simps)
  next
    case False
    with err show ?thesis
      by (intro that(2) [of e w1])
        (simp_all add: setResourceAccess_def OFGA_AddRelation_def tag_tup_def mk_tup_def go_bind_def
          go_try_def go_simps)
  qed
qed

lemma unsetResourceAccess_cases:
  obtains (ok) w' where "unsetResourceAccess E (Some ob) (Some t) r w = (Ok (), w')"
      and "store w' = store w - {tag_tup ob r t}"
    | (err) e w' where "unsetResourceAccess E (Some ob) (Some t) r w = (Err e, w')" and "store w' = store w"
proof (cases rule: remove_cases [of "[tag_tup ob r t]" w])
  case (ok w1)
  then show ?thesis
    by (intro that(1) [of w1])
      (simp_all add: unsetResourceAccess_def OFGA_RemoveRelation_def tag_tup_def mk_tup_def go_bind_def
        go_try_def go_simps)
next
  case (err e w1)
  show ?thesis
  proof (cases "go_contains (err_text E e) ''cannot delete a tuple which does not exist''")
    case True
    then have "tag_tup ob r t \<notin> store w" using remove_missing err(1) by blast
    with True err show ?thesis
      by (intro that(1) [of w1])
        (auto simp: unsetResourceAccess_def OFGA_RemoveRelation_def tag_tup_def mk_tup_def go_bind_def
          go_try_def go_simps)
  next
    case False
    with err show ?thesis
      by (intro that(2) [of e w1])
        (simp_all add: unsetResourceAccess_def OFGA_RemoveRelation_def tag_tup_def mk_tup_def go_bind_def
          go_try_def go_simps)
  qed
qed

lemma setResourceAccess_ok:
  "setResourceAccess E (Some ob) (Some t) r w = (Ok u, w') \<Longrightarrow> store w' = insert (tag_tup ob r t) (store w)"
  by (cases rule: setResourceAccess_cases [of ob t r w]) auto

lemma unsetResourceAccess_ok:
  "unsetResourceAccess E (Some ob) (Some t) r w = (Ok u, w') \<Longrightarrow> store w' = store w - {tag_tup ob r t}"
  by (cases rule: unsetResourceAccess_cases [of ob t r w]) auto

lemma publicAccessAdaptor_stored:
  "x \<in> store w \<Longrightarrow> publicAccessAdaptor E x = Some (adapted x)"
  using stored_object [of x w]
  by (auto simp: publicAccessAdaptor_def adapted_def is_public_def public_access)

lemma read_found:
  assumes "cofga_FindMatchingTuples E p n tok w = (Ok (ts, ct), w')"
  shows "OFGA_ReadRelatedObjects E p n tok w = (Ok (map adapted ts, ct), w')"
proof -
  have sub: "set ts \<subseteq> store w" using read_ok [OF assms] remaining_sub [of w p tok] by blast
  have "go_mapM (\<lambda>tt. go_some msg (publicAccessAdaptor E tt)) ts =
      (go_mapM (\<lambda>tt. go_return (adapted tt)) ts :: ('w, tup list) io)" for msg
    by (intro go_mapM_cong) (use sub publicAccessAdaptor_stored in auto)
  then show ?thesis using assms
    by (simp add: OFGA_ReadRelatedObjects_def getRelatedObjects_def go_bind_def go_simps)
qed

lemma read_cases:
  obtains (ok) ts ct w' where "OFGA_ReadRelatedObjects E p n tok w = (Ok (map adapted ts, ct), w')"
      and "store w' = store w" and "cofga_FindMatchingTuples E p n tok w = (Ok (ts, ct), w')"
    | (err) e w' where "OFGA_ReadRelatedObjects E p n tok w = (Err e, w')" and "store w' = store w"
proof (cases "cofga_FindMatchingTuples E p n tok w")
  case (Pair r w')
  note f = frameD [OF read_frame Pair]
  show ?thesis
  proof (cases r)
    case (Ok q)
    obtain ts ct where q: "q = (ts, ct)" by (cases q)
    then show ?thesis using that(1) [OF read_found [of p n tok w ts ct w']] f Pair Ok by blast
  next
    case (Err e)
    then show ?thesis using that(2) [of e w'] f Pair
      by (simp add: OFGA_ReadRelatedObjects_def getRelatedObjects_def go_bind_def)
  qed (use read_total [of p n tok w] Pair in auto)
qed

text \<open>One iteration of the loop that removes tuples.\<close>

lemma removeTuples_step:
  obtains (ended) r w1 where "removeTuples E (Suc fuel) p w = (r, w1)"
      and "store w1 = store w" and "r \<in> range Err"
    | (last) w1 where "removeTuples E (Suc fuel) p w = (Ok (), w1)"
      and "store w1 = store w - adapted ` {x \<in> store w. tup_matches p x}"
    | (again) w1 X where "removeTuples E (Suc fuel) p w = removeTuples E fuel p w1"
      and "store w1 = store w - adapted ` X" and "X \<noteq> {}" and "X \<subseteq> {x \<in> store w. tup_matches p x}"
proof (cases rule: read_cases [of p 50 "''''" w])
  case (err e w1)
  then show ?thesis by (intro that(1) [of "Err e" w1]) (auto simp: removeTuples.simps(2) go_bind_def)
next
  case (ok ts ct w1)
  note page = read_first_page [OF ok(3)]
  let ?m = "if map adapted ts \<noteq> [] then OFGA_RemoveRelation E (map adapted ts) else go_return ()"
  consider (rm) w2 where "?m w1 = (Ok (), w2)" and "store w2 = store w - adapted ` set ts"
    | (fail) e w2 where "?m w1 = (Err e, w2)" and "store w2 = store w"
    using ok(2) by (cases "ts = []"; cases rule: remove_cases [of "map adapted ts" w1])
      (auto simp: OFGA_RemoveRelation_def go_simps)
  then show ?thesis
  proof cases
    case rm
    have "removeTuples E (Suc fuel) p w = (if ct = '''' then (Ok (), w2) else removeTuples E fuel p w2)"
      using ok(1) rm(1) by (simp add: removeTuples.simps(2) go_bind_def go_simps)
    then show ?thesis using rm(2) page that(2) [of w2] that(3) [of w2 "set ts"]
      by (cases "ct = ''''") auto
  next
    case fail
    have "removeTuples E (Suc fuel) p w = (Err e, w2)"
      using ok(1) fail(1) by (simp add: removeTuples.simps(2) go_bind_def)
    then show ?thesis using fail(2) that(1) by blast
  qed
qed

lemma removeTuples_only:
  assumes "removeTuples E fuel p w = (r, w')"
  shows "store w' \<subseteq> store w
    \<and> store w - store w' \<subseteq> {x. tup_matches p x \<and> \<not> is_public x} \<union> {x. on_everyone_user x}"
  using assms
proof (induction fuel arbitrary: w)
  case 0
  then show ?case by (simp add: go_simps)
next
  case (Suc fuel)
  have ad: "adapted x \<in> {x. tup_matches p x \<and> \<not> is_public x} \<union> {x. on_everyone_user x}"
    if "tup_matches p x" for x
    using that adapted_public [of x] by (cases "is_public x") auto
  show ?case
  proof (cases rule: removeTuples_step [of fuel p w])
    case (ended q w1)
    with Suc.prems show ?thesis by simp
  next
    case (last w1)
    with Suc.prems ad show ?thesis by auto
  next
    case (again w1 X)
    from again(4) ad have "adapted ` X \<subseteq> {x. tup_matches p x \<and> \<not> is_public x} \<union> {x. on_everyone_user x}"
      by blast
    moreover have "removeTuples E fuel p w1 = (r, w')" using again(1) Suc.prems by metis
    note Suc.IH [OF this]
    ultimately show ?thesis unfolding again(2) by blast
  qed
qed

lemma removeTuples_removes:
  assumes "removeTuples E fuel p w = (Ok u, w')"
  shows "\<forall>x\<in>store w'. tup_matches p x \<longrightarrow> is_public x"
  using assms
proof (induction fuel arbitrary: w)
  case (Suc fuel)
  show ?case
  proof (cases rule: removeTuples_step [of fuel p w])
    case (last w1)
    with Suc.prems show ?thesis by force
  qed (use Suc in auto)
qed (simp add: go_simps)

lemma removeTuples_terminates:
  assumes "card {x \<in> store w. tup_matches p x} < fuel"
    and "\<forall>x\<in>store w. tup_matches p x \<longrightarrow> \<not> is_public x"
  shows "fst (removeTuples E fuel p w) \<in> {Ok ()} \<union> range Err"
  using assms
proof (induction fuel arbitrary: w)
  case (Suc fuel)
  show ?case
  proof (cases rule: removeTuples_step [of fuel p w])
    case (again w1 X)
    have X: "adapted ` X = X" using again(4) Suc.prems(2) by force
    have "{x \<in> store w1. tup_matches p x} \<subset> {x \<in> store w. tup_matches p x}"
      using again(2-4) X by auto
    then have "card {x \<in> store w1. tup_matches p x} < card {x \<in> store w. tup_matches p x}"
      using finite_store [of w] by (intro psubset_card_mono) simp_all
    with Suc.prems(1) have "card {x \<in> store w1. tup_matches p x} < fuel" by linarith
    moreover have "\<forall>x\<in>store w1. tup_matches p x \<longrightarrow> \<not> is_public x"
      using Suc.prems(2) unfolding again(2) by blast
    ultimately show ?thesis unfolding again(1) by (rule Suc.IH)
  qed auto
qed simp

lemma removeTuples_exact:
  assumes "removeTuples E fuel p w = (Ok u, w')"
    and "\<forall>x\<in>store w. tup_matches p x \<longrightarrow> \<not> is_public x"
  shows "store w' = {x \<in> store w. \<not> tup_matches p x}"
  using assms
proof (induction fuel arbitrary: w)
  case (Suc fuel)
  show ?case
  proof (cases rule: removeTuples_step [of fuel p w])
    case (last w1)
    have "adapted ` {x \<in> store w. tup_matches p x} = {x \<in> store w. tup_matches p x}"
      using Suc.prems(2) by force
    with last Suc.prems show ?thesis by auto
  next
    case (again w1 X)
    have X: "adapted ` X = X" using again(4) Suc.prems(2) by force
    have "removeTuples E fuel p w1 = (Ok u, w')" using again(1) Suc.prems(1) by metis
    moreover have "\<forall>x\<in>store w1. tup_matches p x \<longrightarrow> \<not> is_public x"
      using Suc.prems(2) unfolding again(2) by blast
    ultimately have "store w' = {x \<in> store w1. \<not> tup_matches p x}" by (rule Suc.IH)
    then show ?thesis using again(2,4) X by auto
  qed (use Suc.prems in auto)
qed (simp add: go_simps)

lemma remove_access_of_removes:
  assumes "remove_access_of E fuel ob w = (Ok u, w')"
  shows "\<forall>x\<in>store w'. Object x = Some ob \<longrightarrow> (\<forall>t. Target x = Some t \<longrightarrow> ent_Kind t \<in> set resourceTypes \<longrightarrow> is_public x)"
proof -
  define body where "body kind = go_bind (go_sum (BlankKindTag kind)) (\<lambda>kt.
       removeTuples E fuel (no_tup\<lparr>Object := Some ob, Target := Some kt\<rparr>))" for kind
  have body_ok: "store w2 \<subseteq> store w1 \<and> (\<forall>x\<in>store w2. Object x = Some ob \<longrightarrow>
        (\<forall>t. Target x = Some t \<longrightarrow> ent_Kind t = kind \<longrightarrow> is_public x))"
    if "body kind w1 = (Ok v, w2)" for kind w1 w2 v
  proof -
    let ?p = "no_tup\<lparr>Object := Some ob, Target := Some \<lparr>ent_Kind = kind, ent_ID = '''', ent_Relation = ''''\<rparr>\<rparr>"
    have r: "removeTuples E fuel ?p w1 = (Ok v, w2)"
      using that by (auto simp: body_def BlankKindTag_def split: if_splits)
    show ?thesis using removeTuples_removes [OF r] removeTuples_only [OF r]
      by (auto simp: tup_matches_def no_tup_def)
  qed
  have "go_foreach body kinds w = (Ok u, w') \<Longrightarrow> store w' \<subseteq> store w \<and> (\<forall>x\<in>store w'. Object x = Some ob \<longrightarrow>
      (\<forall>t. Target x = Some t \<longrightarrow> ent_Kind t \<in> set kinds \<longrightarrow> is_public x))" for kinds
  proof (induction kinds arbitrary: w)
    case (Cons k kinds)
    from Cons.prems obtain v w1 where b: "body k w = (Ok v, w1)" and f: "go_foreach body kinds w1 = (Ok u, w')"
      by (auto elim: go_bind_OkE)
    show ?case using body_ok [OF b] Cons.IH [OF f] by auto
  qed simp
  then show ?thesis using assms unfolding remove_access_of_def body_def [abs_def] by blast
qed

lemma remove_access_of_sub:
  assumes "remove_access_of E fuel ob w = (r, w')"
  shows "store w' \<subseteq> store w"
proof -
  have step: "store w2 \<subseteq> store w1" if "go_bind (go_sum (BlankKindTag kind)) (\<lambda>kt.
       removeTuples E fuel (no_tup\<lparr>Object := Some ob, Target := Some kt\<rparr>)) w1 = (q, w2)" for kind w1 w2 q
    using that removeTuples_only by (cases "BlankKindTag kind") (auto simp: go_simps)
  show ?thesis using assms unfolding remove_access_of_def by (rule shrink_foreach [rotated]) (rule step)
qed

lemma remove_access_of_only:
  assumes "remove_access_of E fuel ob w = (r, w')" and "x \<in> store w" and "\<not> on_everyone_user x"
    and "Object x \<noteq> Some ob \<or> (\<exists>t. Target x = Some t \<and> ent_Kind t \<notin> set resourceTypes)"
  shows "x \<in> store w'"
proof -
  have keep: "x \<in> store w2" if "removeTuples E fuel (no_tup\<lparr>Object := Some ob, Target := Some kt\<rparr>) w1 = (q, w2)"
     and "BlankKindTag kind = Inr kt" and "x \<in> store w1" and "kind \<in> set resourceTypes" for kind kt w1 w2 q
    using removeTuples_only [OF that(1)] that(2-) assms(3,4)
    by (auto simp: tup_matches_def no_tup_def BlankKindTag_def split: if_splits option.splits)
  have step: "x \<in> store w2" if "go_bind (go_sum (BlankKindTag kind)) (\<lambda>kt.
       removeTuples E fuel (no_tup\<lparr>Object := Some ob, Target := Some kt\<rparr>)) w1 = (q, w2)"
     and "x \<in> store w1" and "kind \<in> set resourceTypes" for kind w1 w2 q
    using that keep by (cases "BlankKindTag kind") (auto simp: go_simps)
  have "set kinds \<subseteq> set resourceTypes \<Longrightarrow> x \<in> store w \<Longrightarrow>
      go_foreach (\<lambda>kind. go_bind (go_sum (BlankKindTag kind)) (\<lambda>kt.
       removeTuples E fuel (no_tup\<lparr>Object := Some ob, Target := Some kt\<rparr>))) kinds w = (r, w') \<Longrightarrow> x \<in> store w'" for kinds
  proof (induction kinds arbitrary: w)
    case Nil
    then show ?case by (simp add: go_simps)
  next
    case (Cons k kinds)
    obtain q w1 where b: "go_bind (go_sum (BlankKindTag k)) (\<lambda>kt.
       removeTuples E fuel (no_tup\<lparr>Object := Some ob, Target := Some kt\<rparr>)) w = (q, w1)" by fastforce
    have x1: "x \<in> store w1" using step [OF b] Cons.prems by simp
    show ?case
    proof (cases q)
      case (Ok v)
      then show ?thesis using Cons.IH [of w1] Cons.prems b x1 by (simp add: go_bind_def [of _ _ w])
    qed (use Cons.prems b x1 in \<open>auto simp: go_bind_def [of _ _ w]\<close>)
  qed
  then show ?thesis using assms(1,2) unfolding remove_access_of_def by blast
qed

end

section \<open>Properties\<close>

lemma adapted_disjoint: "is_public x \<Longrightarrow> \<not> on_everyone_user x"
  by (auto simp: is_public_def on_everyone_user_def EveryoneUser_def split: option.splits)

text \<open>
  C26. Setting and unsetting a resource access are exact and idempotent: after a successful call
  OpenFGA holds the tuple, or does not hold it, and every other tuple is as before; a call that
  fails changed nothing, and there is no other way for it to end. This covers the servers that
  report an existing or a missing tuple as an error.
\<close>

theorem resource_access_exact:
  assumes "openfga_service E store remaining"
    and "setResourceAccess E (Some ob) (Some t) r w = (q, w1)"
    and "unsetResourceAccess E (Some ob) (Some t) r w = (q', w2)"
  shows "(q = Ok () \<and> store w1 = insert (tag_tup ob r t) (store w) \<or> q \<in> range Err \<and> store w1 = store w)
    \<and> (q' = Ok () \<and> store w2 = store w - {tag_tup ob r t} \<or> q' \<in> range Err \<and> store w2 = store w)"
proof -
  have "q = Ok () \<and> store w1 = insert (tag_tup ob r t) (store w) \<or> q \<in> range Err \<and> store w1 = store w"
    using assms(2) by (cases rule: openfga_service.setResourceAccess_cases [OF assms(1), of ob t r w]) auto
  moreover have "q' = Ok () \<and> store w2 = store w - {tag_tup ob r t} \<or> q' \<in> range Err \<and> store w2 = store w"
    using assms(3) by (cases rule: openfga_service.unsetResourceAccess_cases [OF assms(1), of ob t r w]) auto
  ultimately show ?thesis by blast
qed

theorem resource_access_exact_witness:
  "setResourceAccess mem_externals (Some (Tag UserTagKind ''bob'')) (Some (Tag ModelTagKind ''m'')) ReaderRelation []
     = (Ok (), [tag_tup (Tag UserTagKind ''bob'') ReaderRelation (Tag ModelTagKind ''m'')])
   \<and> mem_store [tag_tup (Tag UserTagKind ''bob'') ReaderRelation (Tag ModelTagKind ''m'')]
     = insert (tag_tup (Tag UserTagKind ''bob'') ReaderRelation (Tag ModelTagKind ''m'')) (mem_store [])"
proof -
  let ?u = "Tag UserTagKind ''bob''" and ?m = "Tag ModelTagKind ''m''"
  have s: "setResourceAccess mem_externals (Some ?u) (Some ?m) ReaderRelation [] = (Ok (), [tag_tup ?u ReaderRelation ?m])"
    by (simp add: setResourceAccess_def OFGA_AddRelation_def mem_add_def go_bind_def go_try_def go_simps
        tag_tup_def mk_tup_def)
  have r: "unsetResourceAccess mem_externals (Some ?u) (Some ?m) ReaderRelation [] = (Ok (), [])"
    by (simp add: unsetResourceAccess_def OFGA_RemoveRelation_def go_bind_def go_try_def go_simps)
  show ?thesis using s resource_access_exact [OF mem.openfga_service_axioms s r] by auto
qed

text \<open>
  C27. Where no tuple on everyone matches, \<^verbatim>\<open>removeTuples\<close> ends after at most one iteration more
  than there are matching tuples, whatever the size of the pages; it ends with an error or with
  every matching tuple gone and every other tuple kept, and an error does not touch a tuple that
  does not match (other than ones on the reserved user that stands for everyone).
\<close>

theorem remove_tuples_complete:
  assumes "openfga_service E store remaining"
    and "\<forall>x\<in>store w. tup_matches p x \<longrightarrow> \<not> is_public x"
    and "card {x \<in> store w. tup_matches p x} < fuel"
    and "removeTuples E fuel p w = (r, w')"
  shows "r = Ok () \<and> store w' = {x \<in> store w. \<not> tup_matches p x}
    \<or> r \<in> range Err \<and> store w' \<subseteq> store w
      \<and> {x \<in> store w. \<not> tup_matches p x \<and> \<not> on_everyone_user x} \<subseteq> store w'"
  using openfga_service.removeTuples_terminates [OF assms(1,3,2)]
    openfga_service.removeTuples_exact [OF assms(1), of fuel p w "()" w']
    openfga_service.removeTuples_only [OF assms(1,4)] assms(2,4)
  by auto

theorem remove_tuples_complete_witness:
  "removeTuples mem_externals 2 (no_tup\<lparr>Target := Some (ConvertTag (Tag ModelTagKind ''m''))\<rparr>)
       [tag_tup (Tag UserTagKind ''bob'') ReaderRelation (Tag ModelTagKind ''m''),
        tag_tup (Tag UserTagKind ''bob'') ReaderRelation (Tag ModelTagKind ''n'')] =
     (Ok (), [tag_tup (Tag UserTagKind ''bob'') ReaderRelation (Tag ModelTagKind ''n'')])
   \<and> tag_tup (Tag UserTagKind ''bob'') ReaderRelation (Tag ModelTagKind ''m'')
       \<notin> mem_store [tag_tup (Tag UserTagKind ''bob'') ReaderRelation (Tag ModelTagKind ''n'')]"
proof -
  let ?m = "tag_tup (Tag UserTagKind ''bob'') ReaderRelation (Tag ModelTagKind ''m'')"
  let ?n = "tag_tup (Tag UserTagKind ''bob'') ReaderRelation (Tag ModelTagKind ''n'')"
  let ?p = "no_tup\<lparr>Target := Some (ConvertTag (Tag ModelTagKind ''m''))\<rparr>"
  note d = tag_tup_def mk_tup_def no_tup_def tup_matches_def mem_find_def ConvertTag_record
  have m: "tup_matches ?p ?m" "\<not> tup_matches ?p ?n" "?m \<noteq> ?n" "Object ?m \<noteq> None" "Object ?n \<noteq> None"
    by (simp_all add: d)
  have pub: "\<not> is_public ?m" by (simp add: is_public_def d EveryoneUser_def)
  have find: "mem_find ?p [?m, ?n] = [?m]" using m by (simp add: mem_find_def)
  have ad: "publicAccessAdaptor mem_externals ?m = Some ?m"
    by (simp add: publicAccessAdaptor_def tag_tup_def mk_tup_def ent_ID_ConvertTag EveryoneUser_def)
  have run: "removeTuples mem_externals 2 ?p [?m, ?n] = (Ok (), [?n])"
    using m(3) by (simp add: numeral_2_eq_2 removeTuples.simps(2) OFGA_ReadRelatedObjects_def
        getRelatedObjects_def OFGA_RemoveRelation_def go_bind_def go_simps find ad)
  have sets: "{x \<in> mem_store [?m, ?n]. tup_matches ?p x} = {?m}" using m by (auto simp: mem_store_def)
  have "\<forall>x\<in>mem_store [?m, ?n]. tup_matches ?p x \<longrightarrow> \<not> is_public x"
    using m pub by (auto simp: mem_store_def)
  moreover have "card {x \<in> mem_store [?m, ?n]. tup_matches ?p x} < 2" by (simp only: sets) simp
  ultimately show ?thesis
    using remove_tuples_complete [OF mem.openfga_service_axioms _ _ run] run m by auto
qed

text \<open>
  Deleting a group from OpenFGA: after \<^verbatim>\<open>RemoveGroup\<close> succeeds nobody but everyone at once
  is a direct member of the group, and the members of the group hold no relation to a model, a
  controller, an application offer, a group, a role or a user. Their relations to clouds stay,
  because the list of resource types leaves clouds out: however the call ends, a group's access
  to a cloud is still there, although the comment calls the list one of all resource kinds.
\<close>

theorem remove_group_access:
  assumes "openfga_service E store remaining"
    and "OFGA_RemoveGroup E fuel (Tag GroupTagKind g) w = (r, w')"
  shows "(r = Ok () \<and> x \<in> store w' \<and> Target x = Some (ConvertTag (Tag GroupTagKind g)) \<and> Relation x = MemberRelation
      \<longrightarrow> is_public x)
    \<and> (r = Ok () \<and> x \<in> store w' \<and> Object x = Some (ConvertTagWithRelation (Tag GroupTagKind g) MemberRelation)
        \<and> Target x = Some t \<longrightarrow> ent_Kind t \<notin> set resourceTypes)
    \<and> (x \<in> store w \<and> Object x = Some (ConvertTagWithRelation (Tag GroupTagKind g) MemberRelation)
        \<and> Target x = Some t \<and> ent_Kind t = CloudTagKind \<longrightarrow> x \<in> store w')"
proof -
  let ?g = "Tag GroupTagKind g" and ?ob = "ConvertTagWithRelation (Tag GroupTagKind g) MemberRelation"
  let ?p = "no_tup\<lparr>Relation := MemberRelation, Target := Some (ConvertTag ?g)\<rparr>"
  obtain r1 w1 where one: "removeTuples E fuel ?p w = (r1, w1)" by fastforce
  note only1 = openfga_service.removeTuples_only [OF assms(1) one]
  have ob: "\<not> on_everyone_user x" "\<not> is_public x" if "Object x = Some ?ob"
    using that by (simp_all add: on_everyone_user_def is_public_def)
  have del: "store w' \<subseteq> store w1 \<and> (x \<in> store w1 \<and> Object x = Some ?ob \<and> Target x = Some t
      \<and> ent_Kind t = CloudTagKind \<longrightarrow> x \<in> store w')"
    and del_ok: "r = Ok () \<longrightarrow> (\<exists>u. r1 = Ok u \<and> remove_access_of E fuel ?ob w1 = (Ok (), w'))"
  proof -
    obtain r2 w2 where two: "remove_access_of E fuel ?ob w1 = (r2, w2)" by fastforce
    have run: "(r, w') = (if r1 \<in> range Ok then (r2, w2) else (r, w1))"
      using assms(2) one two by (cases r1) (auto simp: OFGA_RemoveGroup_def go_bind_def)
    have "x \<in> store w2" if "x \<in> store w1" "Object x = Some ?ob" "Target x = Some t" "ent_Kind t = CloudTagKind"
      using openfga_service.remove_access_of_only [OF assms(1) two that(1)] ob(1) that
      by (auto simp: resourceTypes_def)
    moreover have "store w2 \<subseteq> store w1"
      using openfga_service.remove_access_of_sub [OF assms(1) two] .
    ultimately show "store w' \<subseteq> store w1 \<and> (x \<in> store w1 \<and> Object x = Some ?ob \<and> Target x = Some t
        \<and> ent_Kind t = CloudTagKind \<longrightarrow> x \<in> store w')"
      using run by (auto split: if_splits)
    show "r = Ok () \<longrightarrow> (\<exists>u. r1 = Ok u \<and> remove_access_of E fuel ?ob w1 = (Ok (), w'))"
      using assms(2) one two by (cases r1) (auto simp: OFGA_RemoveGroup_def go_bind_def)
  qed
  have "is_public x" if "r = Ok ()" "x \<in> store w'" "Target x = Some (ConvertTag ?g)" "Relation x = MemberRelation"
  proof -
    from del_ok that obtain u where "r1 = Ok u" by blast
    with one have "removeTuples E fuel ?p w = (Ok u, w1)" by simp
    from openfga_service.removeTuples_removes [OF assms(1) this] del that show ?thesis
      by (auto simp: tup_matches_def no_tup_def)
  qed
  moreover have "ent_Kind t \<notin> set resourceTypes"
    if "r = Ok ()" "x \<in> store w'" "Object x = Some ?ob" "Target x = Some t"
    using openfga_service.remove_access_of_removes [OF assms(1)] del_ok that ob(2) by blast
  moreover have "x \<in> store w'" if "x \<in> store w" "Object x = Some ?ob" "Target x = Some t" "ent_Kind t = CloudTagKind"
  proof -
    have "x \<in> store w1" using only1 that ob by (auto simp: tup_matches_def no_tup_def)
    then show ?thesis using del that by blast
  qed
  ultimately show ?thesis by blast
qed

lemma mem_removeTuples_none:
  "mem_find p w = [] \<Longrightarrow> removeTuples mem_externals (Suc n) p w = (Ok (), w)"
  by (simp add: removeTuples.simps(2) OFGA_ReadRelatedObjects_def getRelatedObjects_def go_bind_def go_simps)

lemma go_foreach_return:
  "(\<And>x. x \<in> set xs \<Longrightarrow> f x w = (Ok (), w)) \<Longrightarrow> go_foreach f xs w = (Ok (), w)"
  by (induction xs) (simp_all add: go_bind_def go_simps)

theorem remove_group_access_witness:
  "OFGA_RemoveGroup mem_externals 1 (Tag GroupTagKind ''g'')
     [mk_tup (ConvertTagWithRelation (Tag GroupTagKind ''g'') MemberRelation) CanAddModelRelation
        (ConvertTag (Tag CloudTagKind ''aws''))] =
     (Ok (), [mk_tup (ConvertTagWithRelation (Tag GroupTagKind ''g'') MemberRelation) CanAddModelRelation
        (ConvertTag (Tag CloudTagKind ''aws''))])
   \<and> CloudTagKind \<notin> set resourceTypes"
proof -
  let ?g = "Tag GroupTagKind ''g''"
  let ?x = "mk_tup (ConvertTagWithRelation ?g MemberRelation) CanAddModelRelation (ConvertTag (Tag CloudTagKind ''aws''))"
  have none: "mem_find p [?x] = []" if "Target p = Some t" and "ent_Kind t \<noteq> CloudTagKind" for p t
    using that by (simp add: mem_find_def tup_matches_def mk_tup_def ConvertTag_record)
  have "remove_access_of mem_externals 1 (ConvertTagWithRelation ?g MemberRelation) [?x] = (Ok (), [?x])"
    unfolding remove_access_of_def
  proof (rule go_foreach_return)
    fix kind
    assume "kind \<in> set resourceTypes"
    then have "BlankKindTag kind = Inr \<lparr>ent_Kind = kind, ent_ID = '''', ent_Relation = ''''\<rparr>" and "kind \<noteq> CloudTagKind"
      by (auto simp: resourceTypes_def BlankKindTag_def)
    then show "go_bind (go_sum (BlankKindTag kind)) (\<lambda>kt. removeTuples mem_externals 1
        (no_tup\<lparr>Object := Some (ConvertTagWithRelation ?g MemberRelation), Target := Some kt\<rparr>)) [?x] = (Ok (), [?x])"
      by (simp add: mem_removeTuples_none none no_tup_def)
  qed
  then have run: "OFGA_RemoveGroup mem_externals 1 ?g [?x] = (Ok (), [?x])"
    using mem_removeTuples_none [OF none, of "no_tup\<lparr>Relation := MemberRelation, Target := Some (ConvertTag ?g)\<rparr>" "ConvertTag ?g" 0]
    by (simp add: OFGA_RemoveGroup_def go_bind_def)
  have "?x \<in> mem_store [?x]" by (simp add: mem_store_def mk_tup_def)
  then show ?thesis
    using run remove_group_access [OF mem.openfga_service_axioms run, of ?x "ConvertTag (Tag CloudTagKind ''aws'')"]
    by (simp add: mk_tup_def)
qed

text \<open>
  Public access outlives its resource: a tuple that gives everyone access is never removed
  by \<^verbatim>\<open>RemoveModel\<close>, \<^verbatim>\<open>RemoveApplicationOffer\<close> or \<^verbatim>\<open>RemoveCloud\<close>, however they end, because the
  tuples they delete are the ones \<^verbatim>\<open>publicAccessAdaptor\<close> has rewritten.
\<close>

theorem public_access_survives_removal:
  assumes "openfga_service E store remaining" and "x \<in> store w" and "is_public x"
  shows "x \<in> store (snd (OFGA_RemoveModel E fuel m w))
    \<and> x \<in> store (snd (RemoveApplicationOffer E fuel off w))
    \<and> x \<in> store (snd (RemoveCloud E fuel c w))"
proof -
  have rm: "x \<in> store (snd (removeTuples E fuel p w1))" if "x \<in> store w1" for p w1
  proof (cases "removeTuples E fuel p w1")
    case (Pair r w')
    from openfga_service.removeTuples_only [OF assms(1) this] that assms(3) adapted_disjoint [of x] Pair
    show ?thesis by auto
  qed
  have "x \<in> store (snd (OFGA_RemoveModel E fuel m w))"
    using rm [OF assms(2), of "no_tup\<lparr>Target := Some (ConvertTag m)\<rparr>"] rm
    by (auto simp: OFGA_RemoveModel_def go_bind_def BlankKindTag_def split: prod.splits outcome.splits)
  then show ?thesis using rm [OF assms(2)] by (simp add: RemoveApplicationOffer_def RemoveCloud_def)
qed

theorem public_access_survives_removal_witness:
  "tag_tup (Tag UserTagKind EveryoneUser) ReaderRelation (Tag ModelTagKind ''m'')
     \<in> mem_store (snd (OFGA_RemoveModel mem_externals 3 (Tag ModelTagKind ''m'')
         [tag_tup (Tag UserTagKind EveryoneUser) ReaderRelation (Tag ModelTagKind ''m'')]))"
proof -
  let ?x = "tag_tup (Tag UserTagKind EveryoneUser) ReaderRelation (Tag ModelTagKind ''m'')"
  have "?x \<in> mem_store [?x]" "is_public ?x"
    by (simp_all add: mem_store_def tag_tup_def mk_tup_def is_public_def ent_ID_ConvertTag)
  then show ?thesis using public_access_survives_removal [OF mem.openfga_service_axioms] by blast
qed

end
