(* ===== verification/OFGA_User.thy ===== *)
theory OFGA_User
  imports OFGA_Client
begin

text \<open>
  The file \<^verbatim>\<open>internal/openfga/user.go\<close>: a user together with the groups its identity provider
  reports, and everything JIMM asks OpenFGA on behalf of a user. Every function of the file is
  here. A \<^verbatim>\<open>User\<close> whose embedded identity is nil only arises in \<^verbatim>\<open>ListUsersWithAccess\<close>, where it
  is \<open>None\<close>; log lines are left out.
\<close>

record ofga_user =
  u_Identity :: identity
  u_client :: bool
  u_JimmAdmin :: bool
  u_IDPGroupIDs :: "string list"

abbreviation u_Name :: "ofga_user \<Rightarrow> string" where
  "u_Name u \<equiv> id_Name (u_Identity u)"

definition maxContextualTuples :: nat where
  "maxContextualTuples = 20"

definition NewUser :: "identity \<Rightarrow> bool \<Rightarrow> ofga_user" where
  "NewUser i client = \<lparr>u_Identity = i, u_client = client, u_JimmAdmin = False, u_IDPGroupIDs = []\<rparr>"

definition SetIDPGroups :: "ofga_user \<Rightarrow> string list \<Rightarrow> ofga_user" where
  "SetIDPGroups u groups = u\<lparr>u_IDPGroupIDs := groups\<rparr>"

definition NewUserFromTag :: "'w externals \<Rightarrow> tag \<Rightarrow> ('w, ofga_user) io" where
  "NewUserFromTag E t =
     go_bind (go_sum (NewIdentity E (Id t))) (\<lambda>identity.
     go_bind (go_maperr (\<lambda>e. ErrFmt ''failed to fetch IDP groups for %q: %w'' [id_Name identity] (Some e))
       (FetchGroups E (id_Name identity))) (\<lambda>groups.
     go_return (SetIDPGroups (NewUser identity True) groups)))"

text \<open>\<^verbatim>\<open>u.ResourceTag()\<close>; the constructor of a user tag panics on an invalid name.\<close>

definition user_ResourceTag :: "'w externals \<Rightarrow> ofga_user \<Rightarrow> ('w, tag) io" where
  "user_ResourceTag E u = go_some ''invalid user tag'' (identity_ResourceTag E (u_Identity u))"

text \<open>A call on \<^verbatim>\<open>u.client\<close>, which dereferences it.\<close>

definition with_client :: "ofga_user \<Rightarrow> ('w, 'a) io \<Rightarrow> ('w, 'a) io" where
  "with_client u m = (if u_client u then m else go_panic ''nil pointer dereference'')"

definition err_too_many_groups :: err where
  "err_too_many_groups =
     Codef CodeUnauthorized (ErrFmt ''too many IDP groups in session: got %d, maximum is %d'' [] None)"

definition err_invalid_group :: "string \<Rightarrow> err" where
  "err_invalid_group grp =
     Codef CodeUnauthorized (ErrFmt ''invalid IDP group identifier in session: %q'' [grp] None)"

text \<open>The body of the loop over the groups.\<close>

definition contextual_tuple :: "'w externals \<Rightarrow> ofga_user \<Rightarrow> string \<Rightarrow> ('w, tup) io" where
  "contextual_tuple E u grp =
     (if \<not> IsValidIdPGroupId grp then go_err (err_invalid_group grp)
      else go_bind (user_ResourceTag E u) (\<lambda>t.
           go_bind (go_some ''invalid IDP group tag'' (NewIdPGroupTag grp)) (\<lambda>g.
           go_return \<lparr>Object = Some (ConvertTag t), Relation = MemberRelation, Target = Some (ConvertTag g)\<rparr>)))"

definition ContextualTuples :: "'w externals \<Rightarrow> ofga_user \<Rightarrow> ('w, tup list) io" where
  "ContextualTuples E u =
     (if length (u_IDPGroupIDs u) > maxContextualTuples then go_err err_too_many_groups
      else go_mapM (contextual_tuple E u) (u_IDPGroupIDs u))"

section \<open>Checks\<close>

definition checkRelation :: "'w externals \<Rightarrow> ofga_user \<Rightarrow> tag \<Rightarrow> string \<Rightarrow> ('w, bool) io" where
  "checkRelation E u resource relation =
     go_bind (ContextualTuples E u) (\<lambda>contextualTuples.
     go_bind (user_ResourceTag E u) (\<lambda>t.
     with_client u (OFGA_CheckRelation E
       \<lparr>Object = Some (ConvertTag t), Relation = relation, Target = Some (ConvertTag resource)\<rparr>
       True contextualTuples)))"

definition CheckRelation :: "'w externals \<Rightarrow> ofga_user \<Rightarrow> tag \<Rightarrow> string \<Rightarrow> ('w, bool) io" where
  "CheckRelation E u resource relation =
     go_bind (ContextualTuples E u) (\<lambda>contextualTuples.
     go_bind (user_ResourceTag E u) (\<lambda>t.
     with_client u (OFGA_CheckRelation E
       \<lparr>Object = Some (ConvertTag t), Relation = relation, Target = Some (ConvertGenericTag resource)\<rparr>
       True contextualTuples)))"

definition IsAdministrator :: "'w externals \<Rightarrow> ofga_user \<Rightarrow> tag \<Rightarrow> ('w, bool) io" where
  "IsAdministrator E u resource = checkRelation E u resource AdministratorRelation"

definition IsAllowedAddModelToController :: "'w externals \<Rightarrow> ofga_user \<Rightarrow> tag \<Rightarrow> ('w, bool) io" where
  "IsAllowedAddModelToController E u resource = checkRelation E u resource CanAddModelRelation"

definition IsAllowedAddModelToCloud :: "'w externals \<Rightarrow> ofga_user \<Rightarrow> tag \<Rightarrow> ('w, bool) io" where
  "IsAllowedAddModelToCloud E u resource = checkRelation E u resource CanAddModelRelation"

definition IsApplicationOfferConsumer :: "'w externals \<Rightarrow> ofga_user \<Rightarrow> tag \<Rightarrow> ('w, bool) io" where
  "IsApplicationOfferConsumer E u resource = checkRelation E u resource ConsumerRelation"

definition IsApplicationOfferReader :: "'w externals \<Rightarrow> ofga_user \<Rightarrow> tag \<Rightarrow> ('w, bool) io" where
  "IsApplicationOfferReader E u resource = checkRelation E u resource ReaderRelation"

definition IsModelReader :: "'w externals \<Rightarrow> ofga_user \<Rightarrow> tag \<Rightarrow> ('w, bool) io" where
  "IsModelReader E u resource = checkRelation E u resource ReaderRelation"

definition IsModelWriter :: "'w externals \<Rightarrow> ofga_user \<Rightarrow> tag \<Rightarrow> ('w, bool) io" where
  "IsModelWriter E u resource = checkRelation E u resource WriterRelation"

definition IsModelAdmin :: "'w externals \<Rightarrow> ofga_user \<Rightarrow> tag \<Rightarrow> ('w, bool) io" where
  "IsModelAdmin E u resource = checkRelation E u resource AdministratorRelation"

definition HasModelRelation :: "'w externals \<Rightarrow> ofga_user \<Rightarrow> tag \<Rightarrow> string \<Rightarrow> ('w, bool) io" where
  "HasModelRelation E u resource relation = checkRelation E u resource relation"

text \<open>
  The access getters ask for one relation after the other, strongest first, and return no
  relation as soon as a check fails.
\<close>

definition first_relation :: "('w, bool) io \<Rightarrow> string \<Rightarrow> ('w, string) io \<Rightarrow> ('w, string) io" where
  "first_relation check relation otherwise =
     go_bind (go_try check) (\<lambda>r. case r of
         Inl e \<Rightarrow> go_return NoRelation
       | Inr has \<Rightarrow> if has then go_return relation else otherwise)"

definition GetCloudAccess :: "'w externals \<Rightarrow> ofga_user \<Rightarrow> tag \<Rightarrow> ('w, string) io" where
  "GetCloudAccess E u resource =
     first_relation (IsAdministrator E u resource) AdministratorRelation
      (first_relation (IsAllowedAddModelToCloud E u resource) CanAddModelRelation
        (go_return NoRelation))"

definition GetAuditLogViewerAccess :: "'w externals \<Rightarrow> ofga_user \<Rightarrow> tag \<Rightarrow> ('w, string) io" where
  "GetAuditLogViewerAccess E u resource =
     first_relation (checkRelation E u resource AuditLogViewerRelation) AuditLogViewerRelation
       (go_return NoRelation)"

definition GetControllerAccess :: "'w externals \<Rightarrow> ofga_user \<Rightarrow> tag \<Rightarrow> ('w, string) io" where
  "GetControllerAccess E u resource =
     first_relation (IsAdministrator E u resource) AdministratorRelation (go_return NoRelation)"

definition GetModelAccess :: "'w externals \<Rightarrow> ofga_user \<Rightarrow> tag \<Rightarrow> ('w, string) io" where
  "GetModelAccess E u resource =
     first_relation (IsAdministrator E u resource) AdministratorRelation
      (first_relation (IsModelWriter E u resource) WriterRelation
       (first_relation (IsModelReader E u resource) ReaderRelation
         (go_return NoRelation)))"

definition GetApplicationOfferAccess :: "'w externals \<Rightarrow> ofga_user \<Rightarrow> tag \<Rightarrow> ('w, string) io" where
  "GetApplicationOfferAccess E u resource =
     first_relation (IsAdministrator E u resource) AdministratorRelation
      (first_relation (IsApplicationOfferConsumer E u resource) ConsumerRelation
       (first_relation (IsApplicationOfferReader E u resource) ReaderRelation
         (go_return NoRelation)))"

text \<open>\<open>relation\<close> stays the empty relation for a permission the switch does not know.\<close>

definition permission_relation :: "string \<Rightarrow> string" where
  "permission_relation permission =
     (if permission = SuperuserAccess \<or> permission = AdminAccess then AdministratorRelation
      else if permission = WriteAccess then WriterRelation
      else if permission = ReadAccess then ReaderRelation
      else if permission = ConsumeAccess then ConsumerRelation
      else if permission = ''add-cloud'' then CanAddModelRelation
      else NoRelation)"

definition user_CheckPermission :: "'w externals \<Rightarrow> ofga_user \<Rightarrow> string \<Rightarrow> string \<Rightarrow> ('w, unit) io" where
  "user_CheckPermission E u resourceTag permission =
     (if \<not> u_client u then go_err (Codef CodeUnauthorized (ErrNew ''cannot check permission''))
      else go_bind (go_sum (names_ParseTag E resourceTag)) (\<lambda>resource.
       let relation = permission_relation permission in
       go_bind (ContextualTuples E u) (\<lambda>contextualTuples.
       go_bind (user_ResourceTag E u) (\<lambda>t.
       go_bind (OFGA_CheckRelation E
         \<lparr>Object = Some (ConvertTag t), Relation = relation, Target = Some (ConvertGenericTag resource)\<rparr>
         True contextualTuples) (\<lambda>allowed.
       if \<not> allowed
       then go_err (Codef CodeUnauthorized
              (ErrFmt ''user %q not allowed %q to %q'' [u_Name u, permission, resourceTag] None))
       else go_return ())))))"

section \<open>Changes\<close>

definition set_user_access :: "'w externals \<Rightarrow> ofga_user \<Rightarrow> tag \<Rightarrow> string \<Rightarrow> ('w, unit) io" where
  "set_user_access E u resource relation =
     go_bind (user_ResourceTag E u) (\<lambda>t.
     with_client u (setResourceAccess E (Some t) (Some resource) relation))"

definition unset_user_access :: "'w externals \<Rightarrow> ofga_user \<Rightarrow> tag \<Rightarrow> string \<Rightarrow> ('w, unit) io" where
  "unset_user_access E u resource relation =
     go_bind (user_ResourceTag E u) (\<lambda>t.
     with_client u (unsetResourceAccess E (Some t) (Some resource) relation))"

definition SetModelAccess :: "'w externals \<Rightarrow> ofga_user \<Rightarrow> tag \<Rightarrow> string \<Rightarrow> ('w, unit) io" where
  "SetModelAccess E u resource relation = set_user_access E u resource relation"

definition SetControllerAccess :: "'w externals \<Rightarrow> ofga_user \<Rightarrow> tag \<Rightarrow> string \<Rightarrow> ('w, unit) io" where
  "SetControllerAccess E u resource relation = set_user_access E u resource relation"

definition SetCloudAccess :: "'w externals \<Rightarrow> ofga_user \<Rightarrow> tag \<Rightarrow> string \<Rightarrow> ('w, unit) io" where
  "SetCloudAccess E u resource relation = set_user_access E u resource relation"

definition SetApplicationOfferAccess :: "'w externals \<Rightarrow> ofga_user \<Rightarrow> tag \<Rightarrow> string \<Rightarrow> ('w, unit) io" where
  "SetApplicationOfferAccess E u resource relation = set_user_access E u resource relation"

definition UnsetAuditLogViewerAccess :: "'w externals \<Rightarrow> ofga_user \<Rightarrow> tag \<Rightarrow> ('w, unit) io" where
  "UnsetAuditLogViewerAccess E u resource = unset_user_access E u resource AuditLogViewerRelation"

definition UnsetApplicationOfferAccess :: "'w externals \<Rightarrow> ofga_user \<Rightarrow> tag \<Rightarrow> string \<Rightarrow> ('w, unit) io" where
  "UnsetApplicationOfferAccess E u resource relation = unset_user_access E u resource relation"

text \<open>
  The loop over the pages of existing relations, and the deletion of those among \<open>relations\<close>
  that exist, in one request. The map \<^verbatim>\<open>existingRelations\<close> is only used as a set.
\<close>

primrec existing_relations :: "'w externals \<Rightarrow> nat \<Rightarrow> ofga_user \<Rightarrow> tup \<Rightarrow> int \<Rightarrow> string \<Rightarrow> string list \<Rightarrow> ('w, string list) io" where
  "existing_relations E 0 u query pageSize lastContinuationToken existing = go_nofuel"
| "existing_relations E (Suc fuel) u query pageSize lastContinuationToken existing =
     go_bind (with_client u (go_maperr (\<lambda>e. ErrFmt ''failed to retrieve existing relations: %w'' [] (Some e))
       (cofga_FindMatchingTuples E query pageSize lastContinuationToken))) (\<lambda>(timestampedTuples, continuationToken).
     let existing' = existing @ map Relation timestampedTuples in
     if continuationToken = '''' then go_return existing'
     else existing_relations E fuel u query pageSize continuationToken existing')"

definition unsetMultipleResourceAccesses ::
    "'w externals \<Rightarrow> nat \<Rightarrow> ofga_user \<Rightarrow> tag \<Rightarrow> string list \<Rightarrow> int \<Rightarrow> ('w, unit) io" where
  "unsetMultipleResourceAccesses E fuel u resource relations pageSize =
     go_bind (user_ResourceTag E u) (\<lambda>t.
     let tupleObject = ConvertTag t; tupleTarget = ConvertTag resource in
     go_bind (existing_relations E fuel u
       \<lparr>Object = Some tupleObject, Relation = '''', Target = Some tupleTarget\<rparr> pageSize '''' []) (\<lambda>existingRelations.
     let tuplesToRemove = map (\<lambda>relation. \<lparr>Object = Some tupleObject, Relation = relation, Target = Some tupleTarget\<rparr>)
           (filter (\<lambda>relation. relation \<in> set existingRelations) relations) in
     go_maperr (\<lambda>e. ErrFmt ''failed to remove relations: %w'' [] (Some e))
       (OFGA_RemoveRelation E tuplesToRemove)))"

definition UnsetModelAccess :: "'w externals \<Rightarrow> nat \<Rightarrow> ofga_user \<Rightarrow> tag \<Rightarrow> string list \<Rightarrow> ('w, unit) io" where
  "UnsetModelAccess E fuel u resource relations = unsetMultipleResourceAccesses E fuel u resource relations 0"

definition UnsetCloudAccess :: "'w externals \<Rightarrow> nat \<Rightarrow> ofga_user \<Rightarrow> tag \<Rightarrow> string list \<Rightarrow> ('w, unit) io" where
  "UnsetCloudAccess E fuel u resource relations = unsetMultipleResourceAccesses E fuel u resource relations 0"

section \<open>Lists\<close>

definition list_ids :: "'w externals \<Rightarrow> ofga_user \<Rightarrow> string \<Rightarrow> string \<Rightarrow> ('w, string list) io" where
  "list_ids E u relation kind =
     go_bind (ContextualTuples E u) (\<lambda>contextualTuples.
     go_bind (user_ResourceTag E u) (\<lambda>t.
     go_bind (with_client u (OFGA_ListObjects E (ConvertTag t) relation kind contextualTuples)) (\<lambda>entities.
     go_return (map ent_ID entities))))"

definition ListModels :: "'w externals \<Rightarrow> ofga_user \<Rightarrow> string \<Rightarrow> ('w, string list) io" where
  "ListModels E u relation = list_ids E u relation ModelTagKind"

definition ListApplicationOffers :: "'w externals \<Rightarrow> ofga_user \<Rightarrow> string \<Rightarrow> ('w, string list) io" where
  "ListApplicationOffers E u relation = list_ids E u relation ApplicationOfferTagKind"

text \<open>\<open>None\<close> is a \<^verbatim>\<open>User\<close> around a nil identity, which the loop builds where \<^verbatim>\<open>NewIdentity\<close> fails.\<close>

definition ListUsersWithAccess :: "'w externals \<Rightarrow> tag \<Rightarrow> string \<Rightarrow> ('w, ofga_user option list) io" where
  "ListUsersWithAccess E resource relation =
     go_bind (cofga_FindUsersByRelation E \<lparr>Object = None, Relation = relation, Target = Some (ConvertTag resource)\<rparr>) (\<lambda>entities.
     go_return (map (\<lambda>entity.
       let i = (if ent_ID entity = ''*'' then EveryoneUser else ent_ID entity) in
       case NewIdentity E i of Inl e \<Rightarrow> None | Inr identity \<Rightarrow> Some (NewUser identity True)) entities))"

section \<open>Facts\<close>

text \<open>The membership tuples a user brings along, and what the user may do with them.\<close>

definition idp_tuples :: "tag \<Rightarrow> ofga_user \<Rightarrow> tup list" where
  "idp_tuples t u = map (\<lambda>g. tag_tup t MemberRelation (Tag IdPGroupTagKind g)) (u_IDPGroupIDs u)"

definition can :: "tup set \<Rightarrow> ofga_user \<Rightarrow> tag \<Rightarrow> string \<Rightarrow> tag \<Rightarrow> bool" where
  "can S u t r resource \<longleftrightarrow> holds (S \<union> set (idp_tuples t u)) (ConvertTag t) r (ConvertTag resource)"

abbreviation user_tag :: "'w externals \<Rightarrow> ofga_user \<Rightarrow> tag option" where
  "user_tag E u \<equiv> identity_ResourceTag E (u_Identity u)"

lemma idp_tuples_NewUser [simp]: "idp_tuples t (NewUser i c) = []"
  by (simp add: idp_tuples_def NewUser_def)

lemma NewUser_simps [simp]:
  "u_Identity (NewUser i c) = i" "u_client (NewUser i c) = c" "u_JimmAdmin (NewUser i c) = False"
  "u_IDPGroupIDs (NewUser i c) = []"
  by (simp_all add: NewUser_def)

lemma user_tag_kind: "user_tag E u = Some t \<Longrightarrow> Kind t = UserTagKind"
  by (auto simp: identity_ResourceTag_def new_juju_tag_def)

lemma go_mapM_pure:
  "(\<And>x. x \<in> set xs \<Longrightarrow> f x = go_return (g x)) \<Longrightarrow> go_mapM f xs = go_return (map g xs)"
  by (induction xs) simp_all

lemma go_mapM_same_world:
  "(\<And>x. x \<in> set xs \<Longrightarrow> frame (\<lambda>w. w) (f x)) \<Longrightarrow> frame (\<lambda>w. w) (go_mapM f xs)"
  by (induction xs) (auto intro!: frame_intros)

text \<open>The contextual tuples, where the user's name makes a tag: one of three results.\<close>

definition bad_groups :: "ofga_user \<Rightarrow> bool" where
  "bad_groups u \<longleftrightarrow> length (u_IDPGroupIDs u) > maxContextualTuples
     \<or> (\<exists>g\<in>set (u_IDPGroupIDs u). \<not> IsValidIdPGroupId g)"

lemma NewIdPGroupTag_valid: "IsValidIdPGroupId g \<Longrightarrow> NewIdPGroupTag g = Some (Tag IdPGroupTagKind g)"
  by (simp add: NewIdPGroupTag_def)

lemma contextual_tuple_eq:
  assumes "user_tag E u = Some t"
  shows "contextual_tuple E u g = (if IsValidIdPGroupId g
    then go_return (tag_tup t MemberRelation (Tag IdPGroupTagKind g)) else go_err (err_invalid_group g))"
  using assms by (simp add: contextual_tuple_def user_ResourceTag_def NewIdPGroupTag_valid tag_tup_def mk_tup_def)

lemma ContextualTuples_good:
  assumes "user_tag E u = Some t" and "\<not> bad_groups u"
  shows "ContextualTuples E u = go_return (idp_tuples t u)"
  using assms go_mapM_pure [of "u_IDPGroupIDs u" "contextual_tuple E u"]
  by (auto simp: ContextualTuples_def bad_groups_def contextual_tuple_eq idp_tuples_def)

lemma go_mapM_err_at:
  assumes "\<And>x. x \<in> set xs \<Longrightarrow> f x = (if P x then go_return (g x) else go_err (h x))"
    and "\<exists>x\<in>set xs. \<not> P x"
  shows "\<exists>x\<in>set xs. \<not> P x \<and> go_mapM f xs = go_err (h x)"
  using assms
proof (induction xs)
  case (Cons x xs)
  show ?case
  proof (cases "P x")
    case True
    with Cons.IH Cons.prems obtain y where "y \<in> set xs" "\<not> P y" "go_mapM f xs = go_err (h y)" by auto
    with True Cons.prems(1) [of x] show ?thesis by auto
  qed (use Cons.prems(1) [of x] in auto)
qed simp

lemma ContextualTuples_bad:
  assumes "user_tag E u = Some t" and "bad_groups u"
  shows "\<exists>e. ContextualTuples E u = go_err e \<and> ErrorCode (Some e) = CodeUnauthorized"
proof (cases "length (u_IDPGroupIDs u) > maxContextualTuples")
  case True
  then show ?thesis by (simp add: ContextualTuples_def err_too_many_groups_def)
next
  case False
  with assms have "\<exists>g\<in>set (u_IDPGroupIDs u). \<not> IsValidIdPGroupId g" by (simp add: bad_groups_def)
  then obtain g where "go_mapM (contextual_tuple E u) (u_IDPGroupIDs u) = go_err (err_invalid_group g)"
    using go_mapM_err_at [of "u_IDPGroupIDs u" "contextual_tuple E u" IsValidIdPGroupId
        "\<lambda>g. tag_tup t MemberRelation (Tag IdPGroupTagKind g)" err_invalid_group]
      contextual_tuple_eq [OF assms(1)] by blast
  with False show ?thesis by (simp add: ContextualTuples_def err_invalid_group_def)
qed

lemma frame_user_ResourceTag [frame_intros]: "frame obs (user_ResourceTag E u)"
  by (simp add: user_ResourceTag_def frame_some)

lemma frame_ContextualTuples [frame_intros]: "frame obs (ContextualTuples E u)"
  unfolding ContextualTuples_def contextual_tuple_def by (intro frame_intros)

lemma frame_with_client [frame_intros]: "frame obs m \<Longrightarrow> frame obs (with_client u m)"
  by (simp add: with_client_def frame_panic)

lemma with_client_OkE:
  assumes "with_client u m w = (Ok x, w')"
  obtains "u_client u" and "m w = (Ok x, w')"
  using assms by (auto simp: with_client_def split: if_splits)

lemma ContextualTuples_OkE:
  assumes "ContextualTuples E u w = (Ok ts, w')" and "user_tag E u = Some t"
  obtains "\<not> bad_groups u" and "ts = idp_tuples t u" and "w' = w"
  using assms ContextualTuples_good [OF assms(2)] ContextualTuples_bad [OF assms(2)]
  by (cases "bad_groups u") auto

lemma user_ResourceTag_OkE:
  assumes "user_ResourceTag E u w = (Ok t, w')"
  obtains "user_tag E u = Some t" and "w' = w"
  using assms by (auto simp: user_ResourceTag_def elim: go_some_OkE)

lemma frame_first_relation [frame_intros]:
  "frame obs m \<Longrightarrow> frame obs k \<Longrightarrow> frame obs (first_relation m r k)"
  unfolding first_relation_def by (intro frame_intros)

lemma CheckRelation_eq: "CheckRelation E u resource relation = checkRelation E u resource relation"
  by (simp add: CheckRelation_def checkRelation_def)

lemmas check_defs = IsAdministrator_def IsAllowedAddModelToController_def IsAllowedAddModelToCloud_def
  IsApplicationOfferConsumer_def IsApplicationOfferReader_def IsModelReader_def IsModelWriter_def
  IsModelAdmin_def HasModelRelation_def CheckRelation_eq

lemmas get_access_defs = GetCloudAccess_def GetAuditLogViewerAccess_def GetControllerAccess_def
  GetModelAccess_def GetApplicationOfferAccess_def

lemmas set_access_defs = SetModelAccess_def SetControllerAccess_def SetCloudAccess_def
  SetApplicationOfferAccess_def UnsetAuditLogViewerAccess_def UnsetApplicationOfferAccess_def
  UnsetModelAccess_def UnsetCloudAccess_def

text \<open>The direct relations \<open>rs\<close> of one tag to a resource.\<close>

definition direct_tuples :: "tag \<Rightarrow> string list \<Rightarrow> tag \<Rightarrow> tup set" where
  "direct_tuples t rs resource = (\<lambda>r. tag_tup t r resource) ` set rs"

context openfga_service
begin

lemma check_client_frame [frame_intros]: "frame store (OFGA_CheckRelation E x trace ctx)"
  by (simp add: OFGA_CheckRelation_def check_frame check_tracing_frame)

lemma check_client_ok:
  "OFGA_CheckRelation E x trace ctx w = (Ok b, w') \<Longrightarrow> b = check_holds (store w \<union> set ctx) x"
  by (auto simp: OFGA_CheckRelation_def check_ok check_tracing_ok split: if_splits)

lemma checkRelation_frame [frame_intros]: "frame store (checkRelation E u resource relation)"
  unfolding checkRelation_def by (intro frame_intros)

lemma checkRelation_ok:
  assumes "checkRelation E u resource relation w = (Ok b, w')"
  obtains t where "user_tag E u = Some t" and "store w' = store w" and "u_client u" and "\<not> bad_groups u"
    and "b = can (store w) u t relation resource"
proof -
  from assms obtain ts w1 t w2 where c: "ContextualTuples E u w = (Ok ts, w1)"
    and t: "user_ResourceTag E u w1 = (Ok t, w2)"
    and k: "with_client u (OFGA_CheckRelation E \<lparr>Object = Some (ConvertTag t), Relation = relation,
        Target = Some (ConvertTag resource)\<rparr> True ts) w2 = (Ok b, w')"
    unfolding checkRelation_def by (elim go_bind_OkE)
  from t have tag: "user_tag E u = Some t" "w2 = w1" by (auto elim: user_ResourceTag_OkE)
  from c tag have ctx: "\<not> bad_groups u" "ts = idp_tuples t u" "w1 = w" by (auto elim: ContextualTuples_OkE)
  from k have "u_client u" and b: "b = check_holds (store w2 \<union> set ts) \<lparr>Object = Some (ConvertTag t),
      Relation = relation, Target = Some (ConvertTag resource)\<rparr>"
    by (auto elim!: with_client_OkE dest: check_client_ok)
  then show ?thesis
    using that [of t] tag ctx frameD [OF checkRelation_frame assms] by (simp add: check_holds_def can_def)
qed

lemma checkRelation_total:
  assumes "user_tag E u = Some t" and "u_client u"
  shows "fst (checkRelation E u resource relation w) \<notin> {NoFuel} \<union> range Panic"
proof (cases "bad_groups u")
  case True
  then show ?thesis using ContextualTuples_bad [OF assms(1)] by (auto simp: checkRelation_def go_simps)
next
  case False
  then show ?thesis using ContextualTuples_good [OF assms(1)] assms check_tracing_total
    by (simp add: checkRelation_def user_ResourceTag_def with_client_def OFGA_CheckRelation_def)
qed

lemma set_user_access_ok:
  assumes "set_user_access E u resource relation w = (Ok x, w')"
  obtains t where "user_tag E u = Some t" and "store w' = insert (tag_tup t relation resource) (store w)"
  using assms unfolding set_user_access_def
  by (elim go_bind_OkE user_ResourceTag_OkE with_client_OkE) (auto dest: setResourceAccess_ok)

lemma unset_user_access_ok:
  assumes "unset_user_access E u resource relation w = (Ok x, w')"
  obtains t where "user_tag E u = Some t" and "store w' = store w - {tag_tup t relation resource}"
  using assms unfolding unset_user_access_def
  by (elim go_bind_OkE user_ResourceTag_OkE with_client_OkE) (auto dest: unsetResourceAccess_ok)

lemma existing_relations_frame: "frame store (existing_relations E fuel u p n tok ex)"
  by (induction fuel arbitrary: tok ex)
    (auto intro!: frame_intros read_frame simp: Let_def split: prod.split)

lemma existing_relations_ok:
  assumes "existing_relations E fuel u p n tok ex w = (Ok rs, w')"
  shows "set ex \<union> Relation ` remaining w p tok \<subseteq> set rs"
  using assms
proof (induction fuel arbitrary: tok ex w)
  case (Suc fuel)
  from Suc.prems obtain ts ct w1 where r: "cofga_FindMatchingTuples E p n tok w = (Ok (ts, ct), w1)"
    and k: "(if ct = '''' then go_return (ex @ map Relation ts)
       else existing_relations E fuel u p n ct (ex @ map Relation ts)) w1 = (Ok rs, w')"
    by (auto elim!: go_bind_OkE with_client_OkE simp: Let_def)
  have same: "remaining w1 p ct = remaining w p ct"
    by (rule remaining_store) (rule frameD [OF read_frame r])
  show ?case
  proof (cases "ct = ''''")
    case True
    then show ?thesis using k read_ok [OF r] by auto
  next
    case False
    with k have "existing_relations E fuel u p n ct (ex @ map Relation ts) w1 = (Ok rs, w')" by simp
    from Suc.IH [OF this] False read_ok [OF r] same show ?thesis by auto
  qed
qed simp

lemma existing_relations_total:
  assumes "card (remaining w p tok) < fuel" and "u_client u"
  shows "fst (existing_relations E fuel u p n tok ex w) \<notin> {NoFuel} \<union> range Panic"
  using assms(1)
proof (induction fuel arbitrary: tok ex w)
  case (Suc fuel)
  obtain r w1 where q: "cofga_FindMatchingTuples E p n tok w = (r, w1)" by fastforce
  have fin: "finite (remaining w p tok)"
    using finite_subset [OF remaining_sub] finite_store by simp
  show ?case
  proof (cases r)
    case (Ok y)
    obtain ts ct where y: "y = (ts, ct)" by (cases y)
    note page = read_ok [OF q [unfolded Ok y]]
    have same: "remaining w1 p ct = remaining w p ct"
      by (rule remaining_store) (rule frameD [OF read_frame q])
    show ?thesis
    proof (cases "ct = ''''")
      case True
      then show ?thesis using q Ok y assms(2)
        by (auto simp: go_bind_def go_maperr_def with_client_def go_simps)
    next
      case False
      from page False have "remaining w p ct \<subset> remaining w p tok" by (cases ts) auto
      then have "card (remaining w p ct) < card (remaining w p tok)" using fin by (simp add: psubset_card_mono)
      then have "card (remaining w1 p ct) < fuel" using Suc.prems same by simp
      from Suc.IH [OF this] show ?thesis using q Ok y False assms(2)
        by (simp add: go_bind_def go_maperr_def with_client_def)
    qed
  qed (use q assms(2) read_total [of p n tok w] in \<open>auto simp: go_bind_def go_maperr_def with_client_def\<close>)
qed simp

lemma unsetMultiple_ok:
  assumes "unsetMultipleResourceAccesses E fuel u resource rs n w = (Ok x, w')"
  obtains t where "user_tag E u = Some t" and "store w' = store w - direct_tuples t rs resource"
proof -
  from assms obtain t ex w1 where t: "user_tag E u = Some t"
    and ex: "existing_relations E fuel u (mk_tup (ConvertTag t) '''' (ConvertTag resource)) n '''' [] w = (Ok ex, w1)"
    and rm: "OFGA_RemoveRelation E (map (\<lambda>r. mk_tup (ConvertTag t) r (ConvertTag resource))
        (filter (\<lambda>r. r \<in> set ex) rs)) w1 = (Ok x, w')"
    unfolding unsetMultipleResourceAccesses_def
    by (auto elim!: go_bind_OkE user_ResourceTag_OkE simp: Let_def mk_tup_def)
  let ?p = "mk_tup (ConvertTag t) '''' (ConvertTag resource)"
  have same: "store w1 = store w" by (rule frameD [OF existing_relations_frame ex])
  have "tag_tup t r resource \<in> store w \<Longrightarrow> r \<in> set ex" for r
    using existing_relations_ok [OF ex] remaining_start [of w ?p]
    by (force simp: tup_matches_def mk_tup_def tag_tup_def)
  moreover have "store w' = store w - {tag_tup t r resource | r. r \<in> set rs \<and> r \<in> set ex}"
    using remove_ok [OF rm [unfolded OFGA_RemoveRelation_def]] same by (auto simp: tag_tup_def)
  ultimately show ?thesis using that [OF t] by (auto simp: direct_tuples_def)
qed

lemma unsetMultiple_err:
  assumes "unsetMultipleResourceAccesses E fuel u resource rs n w = (q, w')" and "\<And>x. q \<noteq> Ok x"
  shows "store w' = store w"
proof -
  show ?thesis
  proof (cases "user_tag E u")
    case None
    then show ?thesis using assms(1) by (auto simp: unsetMultipleResourceAccesses_def user_ResourceTag_def go_simps)
  next
    case (Some t)
    obtain q1 w1 where ex: "existing_relations E fuel u (mk_tup (ConvertTag t) '''' (ConvertTag resource)) n '''' [] w = (q1, w1)"
      by fastforce
    have same: "store w1 = store w" by (rule frameD [OF existing_relations_frame ex])
    show ?thesis
    proof (cases q1)
      case (Ok rs')
      let ?ts = "map (\<lambda>r. mk_tup (ConvertTag t) r (ConvertTag resource)) (filter (\<lambda>r. r \<in> set rs') rs)"
      from Ok Some ex assms(1) have "go_maperr (\<lambda>e. ErrFmt ''failed to remove relations: %w'' [] (Some e))
          (OFGA_RemoveRelation E ?ts) w1 = (q, w')"
        by (simp add: unsetMultipleResourceAccesses_def user_ResourceTag_def go_bind_def Let_def mk_tup_def)
      then show ?thesis using same assms(2)
        by (cases rule: remove_cases [of ?ts w1]) (auto simp: OFGA_RemoveRelation_def go_maperr_def)
    qed (use Some ex assms(1) same in
        \<open>auto simp: unsetMultipleResourceAccesses_def user_ResourceTag_def go_bind_def Let_def mk_tup_def\<close>)
  qed
qed

lemma unsetMultiple_total:
  assumes "user_tag E u = Some t" and "u_client u" and "card (store w) < fuel"
  shows "fst (unsetMultipleResourceAccesses E fuel u resource rs n w) \<notin> {NoFuel} \<union> range Panic"
proof -
  let ?p = "mk_tup (ConvertTag t) '''' (ConvertTag resource)"
  have "card (remaining w ?p '''') < fuel"
    using assms(3) card_mono [OF finite_store, of "remaining w ?p ''''" w] remaining_sub [of w ?p "''''"] by force
  note ex = existing_relations_total [OF this assms(2), of n "[]"]
  obtain q w1 where e: "existing_relations E fuel u ?p n '''' [] w = (q, w1)" by fastforce
  have ts: "fst (OFGA_RemoveRelation E ts w1) \<notin> {NoFuel} \<union> range Panic" for ts
    using remove_total by (simp add: OFGA_RemoveRelation_def)
  have "fst (go_maperr f (OFGA_RemoveRelation E ts) w1) \<notin> {NoFuel} \<union> range Panic" for ts f
    using ts [of ts] by (cases "OFGA_RemoveRelation E ts w1"; cases "fst (OFGA_RemoveRelation E ts w1)")
      (auto simp: go_maperr_def)
  then show ?thesis using ex e assms(1)
    by (cases q) (auto simp: unsetMultipleResourceAccesses_def user_ResourceTag_def go_bind_def Let_def mk_tup_def)
qed

lemma set_user_access_atomic [atomic_intros]: "atomic store (set_user_access E u resource relation)"
proof -
  have "atomic store (setResourceAccess E (Some t) (Some resource) relation)" for t
    unfolding atomic_def
    by (intro allI impI) (rule setResourceAccess_cases [of t resource relation], auto)
  then show ?thesis
    unfolding set_user_access_def with_client_def
    by (intro atomic_bind atomic_if frame_intros) (auto intro: atomic_frame frame_intros)
qed

lemma unset_user_access_atomic [atomic_intros]: "atomic store (unset_user_access E u resource relation)"
proof -
  have "atomic store (unsetResourceAccess E (Some t) (Some resource) relation)" for t
    unfolding atomic_def
    by (intro allI impI) (rule unsetResourceAccess_cases [of t resource relation], auto)
  then show ?thesis
    unfolding unset_user_access_def with_client_def
    by (intro atomic_bind atomic_if frame_intros) (auto intro: atomic_frame frame_intros)
qed

lemma unsetMultiple_atomic [atomic_intros]:
  "atomic store (unsetMultipleResourceAccesses E fuel u resource rs n)"
  unfolding atomic_def using unsetMultiple_err by blast

end

end
