(* ===== verification/Access_Ladder.thy ===== *)
theory Access_Ladder
  imports OFGA_User
begin

text \<open>
  What the kinds of resources have in common: the access levels of a kind form a ladder in the
  authorisation model, strongest first, each level implying the next. The locale states the laws
  of a ladder; models, clouds, application offers and controllers are its instances. What the
  access getters of \<^verbatim>\<open>internal/openfga/user.go\<close> return is described once, for every ladder.
\<close>

section \<open>Walking down the levels\<close>

fun access_of :: "(string \<Rightarrow> ('w, bool) io) \<Rightarrow> string list \<Rightarrow> ('w, string) io" where
  "access_of check [] = go_return NoRelation"
| "access_of check (r # rs) = first_relation (check r) r (access_of check rs)"

definition model_levels :: "string list" where
  "model_levels = [AdministratorRelation, WriterRelation, ReaderRelation]"

definition cloud_levels :: "string list" where
  "cloud_levels = [AdministratorRelation, CanAddModelRelation]"

definition offer_levels :: "string list" where
  "offer_levels = [AdministratorRelation, ConsumerRelation, ReaderRelation]"

definition controller_levels :: "string list" where
  "controller_levels = [AdministratorRelation]"

lemmas levels_defs = model_levels_def cloud_levels_def offer_levels_def controller_levels_def

lemma get_access_is_access_of:
  "GetModelAccess E u t = access_of (checkRelation E u t) model_levels"
  "GetCloudAccess E u t = access_of (checkRelation E u t) cloud_levels"
  "GetApplicationOfferAccess E u t = access_of (checkRelation E u t) offer_levels"
  "GetControllerAccess E u t = access_of (checkRelation E u t) controller_levels"
  by (simp_all add: get_access_defs check_defs levels_defs)

text \<open>\<open>at_least levels r r'\<close>: level \<open>r\<close> is \<open>r'\<close> or stands above it.\<close>

definition at_least :: "string list \<Rightarrow> string \<Rightarrow> string \<Rightarrow> bool" where
  "at_least levels r r' \<longleftrightarrow> (\<exists>i j. i \<le> j \<and> j < length levels \<and> levels ! i = r \<and> levels ! j = r')"

lemma at_least_refl: "r \<in> set levels \<Longrightarrow> at_least levels r r"
  by (auto simp: at_least_def in_set_conv_nth)

lemma at_least_mem: "at_least levels r r' \<Longrightarrow> r \<in> set levels \<and> r' \<in> set levels"
  by (auto simp: at_least_def)

lemma at_least_Cons: "at_least (x # xs) r r' \<longleftrightarrow> (r = x \<and> r' \<in> set (x # xs)) \<or> at_least xs r r'"
proof
  assume "at_least (x # xs) r r'"
  then obtain i j where ij: "i \<le> j" "j < Suc (length xs)" "(x # xs) ! i = r" "(x # xs) ! j = r'"
    by (auto simp: at_least_def)
  show "(r = x \<and> r' \<in> set (x # xs)) \<or> at_least xs r r'"
  proof (cases i)
    case 0
    then show ?thesis using ij by (cases j) auto
  next
    case (Suc k)
    then show ?thesis using ij by (cases j) (auto simp: at_least_def)
  qed
next
  assume "(r = x \<and> r' \<in> set (x # xs)) \<or> at_least xs r r'"
  then show "at_least (x # xs) r r'"
  proof
    assume "r = x \<and> r' \<in> set (x # xs)"
    then obtain j where "j < length (x # xs)" "(x # xs) ! j = r'" "r = x" by (metis in_set_conv_nth)
    then show ?thesis unfolding at_least_def by (intro exI [of _ 0] exI [of _ j]) simp
  next
    assume "at_least xs r r'"
    then obtain i j where "i \<le> j" "j < length xs" "xs ! i = r" "xs ! j = r'" by (auto simp: at_least_def)
    then show ?thesis unfolding at_least_def by (intro exI [of _ "Suc i"] exI [of _ "Suc j"]) simp
  qed
qed

lemma at_least_Nil [simp]: "\<not> at_least [] r r'"
  by (simp add: at_least_def)

lemma at_least_model:
  "at_least model_levels r r' \<longleftrightarrow> r = AdministratorRelation \<and> r' \<in> {AdministratorRelation, WriterRelation, ReaderRelation}
     \<or> r = WriterRelation \<and> r' \<in> {WriterRelation, ReaderRelation} \<or> r = ReaderRelation \<and> r' = ReaderRelation"
  by (auto simp: model_levels_def at_least_Cons)

lemma at_least_cloud:
  "at_least cloud_levels r r' \<longleftrightarrow> r = AdministratorRelation \<and> r' \<in> {AdministratorRelation, CanAddModelRelation}
     \<or> r = CanAddModelRelation \<and> r' = CanAddModelRelation"
  by (auto simp: cloud_levels_def at_least_Cons)

lemma at_least_offer:
  "at_least offer_levels r r' \<longleftrightarrow> r = AdministratorRelation \<and> r' \<in> {AdministratorRelation, ConsumerRelation, ReaderRelation}
     \<or> r = ConsumerRelation \<and> r' \<in> {ConsumerRelation, ReaderRelation} \<or> r = ReaderRelation \<and> r' = ReaderRelation"
  by (auto simp: offer_levels_def at_least_Cons)

section \<open>The laws of a ladder\<close>

text \<open>A resource to which only ordinary users are related, each of them directly.\<close>

definition direct_only :: "tup set \<Rightarrow> entity \<Rightarrow> bool" where
  "direct_only S t \<longleftrightarrow> (\<forall>x\<in>S. Target x = Some t \<longrightarrow> (\<exists>v. Object x = Some v \<and> is_user v \<and> ent_ID v \<noteq> ''*''))"

lemma direct_onlyD: "direct_only S t \<Longrightarrow> mk_tup e r t \<in> S \<Longrightarrow> is_user e \<and> ent_ID e \<noteq> ''*''"
  by (auto simp: direct_only_def mk_tup_def)

locale access_ladder =
  fixes kind :: string and levels :: "string list"
  assumes levels_assignable: "set levels \<subseteq> set (access_relations kind)"
    and levels_no_relation: "NoRelation \<notin> set levels"
    and levels_top: "levels \<noteq> []" "hd levels = AdministratorRelation"
    and levels_step: "Suc i < length levels \<Longrightarrow> implied_by kind (levels ! Suc i) (levels ! i)"
    and levels_only: "implied_by kind r r' \<Longrightarrow> r \<in> set levels \<Longrightarrow> at_least levels r' r \<and> r' \<noteq> r"
    and levels_order: "at_least levels a b \<Longrightarrow> at_least levels b c \<Longrightarrow> at_least levels a c"
begin

lemma holds_down:
  assumes "holds S u (levels ! i) t" and "ent_Kind t = kind" and "i \<le> j" and "j < length levels"
  shows "holds S u (levels ! j) t"
  using assms(3,4)
proof (induction j rule: dec_induct)
  case base
  then show ?case using assms(1) by simp
next
  case (step n)
  then have "holds S u (levels ! n) t" by simp
  with step.prems levels_step [of n] assms(2) show ?case by (auto intro: holds.implied)
qed

lemma holds_at_least:
  "holds S u r t \<Longrightarrow> ent_Kind t = kind \<Longrightarrow> at_least levels r r' \<Longrightarrow> holds S u r' t"
  unfolding at_least_def using holds_down by metis

text \<open>A direct tuple on a user gives its level and every weaker one.\<close>

lemma direct_gives:
  assumes "mk_tup u r t \<in> S" and "is_user u" and "ent_Kind t = kind" and "at_least levels r r'"
  shows "holds S u r' t"
proof -
  have "r \<in> set levels" using assms(4) by (auto simp: at_least_def)
  then have "assignable (ent_Kind t) r u"
    using levels_assignable assms(2,3) by (auto simp: assignable_def grantee_def)
  with assms(1,2) have "holds S u r t" by (blast intro: holds.direct)
  then show ?thesis using assms(3,4) by (rule holds_at_least)
qed

lemma direct_tag_gives:
  "tag_tup a r res \<in> S \<Longrightarrow> Kind a = UserTagKind \<Longrightarrow> Kind res = kind \<Longrightarrow> at_least levels r r'
    \<Longrightarrow> holds S (ConvertTag a) r' (ConvertTag res)"
  by (rule direct_gives) (simp_all add: tag_tup_def is_user_def)

text \<open>
  The other direction: where a resource of the kind has only direct tuples on ordinary users,
  a user has a level exactly through a direct tuple of that level or a stronger one.
\<close>

lemma level_only_direct:
  assumes "holds S u r t" and "ent_Kind t = kind" and "r \<in> set levels"
    and "direct_only S t"
  shows "\<exists>r'. at_least levels r' r \<and> mk_tup u r' t \<in> S"
  using assms
proof (induction rule: holds.induct)
  case (direct u r t')
  then show ?case using at_least_refl by blast
next
  case (everyone e r t' u)
  then show ?case using direct_onlyD [of S t' e r] by (auto simp: is_wildcard_def)
next
  case (userset g r t' u)
  then show ?case using direct_onlyD [of S t' g r] by auto
next
  case (implied t' r r' u)
  then have "at_least levels r' r" using levels_only by simp
  moreover from this have "r' \<in> set levels" unfolding at_least_def by auto
  ultimately show ?case using implied.IH implied.prems levels_order by blast
next
  case (inherited p link t' u)
  then show ?case using direct_onlyD [of S t' p link] by (auto simp: inherited_over_def is_user_def)
qed

end

interpretation model_access: access_ladder ModelTagKind model_levels
proof unfold_locales
  show "implied_by ModelTagKind (model_levels ! Suc i) (model_levels ! i)" if "Suc i < length model_levels" for i
    using that by (auto simp: model_levels_def implied_by_def less_Suc_eq)
qed (auto simp: access_relations_def at_least_model implied_by_def, auto simp: model_levels_def)

interpretation cloud_access: access_ladder CloudTagKind cloud_levels
proof unfold_locales
  show "implied_by CloudTagKind (cloud_levels ! Suc i) (cloud_levels ! i)" if "Suc i < length cloud_levels" for i
    using that by (auto simp: cloud_levels_def implied_by_def less_Suc_eq)
qed (auto simp: access_relations_def at_least_cloud implied_by_def, auto simp: cloud_levels_def)

interpretation offer_access: access_ladder ApplicationOfferTagKind offer_levels
proof unfold_locales
  show "implied_by ApplicationOfferTagKind (offer_levels ! Suc i) (offer_levels ! i)" if "Suc i < length offer_levels" for i
    using that by (auto simp: offer_levels_def implied_by_def less_Suc_eq)
qed (auto simp: access_relations_def at_least_offer implied_by_def, auto simp: offer_levels_def)

interpretation controller_access: access_ladder ControllerTagKind controller_levels
  by unfold_locales
    (auto simp: access_relations_def at_least_Cons implied_by_def controller_levels_def)

section \<open>What the getters return\<close>

text \<open>No check of OpenFGA fails.\<close>

definition checks_reliable :: "'w externals \<Rightarrow> bool" where
  "checks_reliable E \<longleftrightarrow> (\<forall>x ctx w e w'. cofga_CheckRelationWithTracing E x ctx w \<noteq> (Err e, w'))"

lemma first_relation_OkE:
  assumes "first_relation m r k w = (Ok x, w')"
  obtains (failed) e where "m w = (Err e, w')" and "x = NoRelation"
    | (yes) "m w = (Ok True, w')" and "x = r"
    | (no) w1 where "m w = (Ok False, w1)" and "k w1 = (Ok x, w')"
  using assms unfolding first_relation_def
  by (elim go_bind_OkE) (auto elim!: go_try_OkE split: sum.splits if_splits)

context openfga_service
begin

lemma access_of_frame [frame_intros]: "frame store (access_of (checkRelation E u resource) levels)"
  by (induction levels) (auto intro: frame_intros)

lemma access_of_ok:
  assumes "access_of (checkRelation E u resource) levels w = (Ok r, w')" and "r \<noteq> NoRelation"
  obtains t i where "user_tag E u = Some t" and "i < length levels" and "levels ! i = r"
    and "can (store w) u t r resource" and "\<And>k. k < i \<Longrightarrow> \<not> can (store w) u t (levels ! k) resource"
  using assms
proof (induction levels arbitrary: w thesis)
  case Nil
  then show ?case by simp
next
  case (Cons l levels)
  from Cons.prems(2) have "first_relation (checkRelation E u resource l) l
      (access_of (checkRelation E u resource) levels) w = (Ok r, w')" by simp
  then show ?case
  proof (cases rule: first_relation_OkE)
    case (failed e)
    then show ?thesis using Cons.prems(3) by simp
  next
    case yes
    from yes(1) obtain t where "user_tag E u = Some t" "can (store w) u t l resource"
      by (auto elim: checkRelation_ok)
    then show ?thesis using Cons.prems(1) [of t 0] yes(2) by simp
  next
    case (no w1)
    from no(1) obtain t where t: "user_tag E u = Some t" "store w1 = store w" "\<not> can (store w) u t l resource"
      by (auto elim: checkRelation_ok)
    from Cons.IH [OF _ no(2) Cons.prems(3)] obtain t' i where i: "user_tag E u = Some t'" "i < length levels"
      "levels ! i = r" "can (store w1) u t' r resource" "\<And>k. k < i \<Longrightarrow> \<not> can (store w1) u t' (levels ! k) resource"
      by blast
    have "\<not> can (store w) u t ((l # levels) ! k) resource" if "k < Suc i" for k
      using that i t by (cases k) auto
    then show ?thesis using Cons.prems(1) [of t "Suc i"] i t by auto
  qed
qed

lemma reliable_check:
  assumes "checks_reliable E" and "user_tag E u = Some t" and "\<not> bad_groups u" and "u_client u"
  shows "checkRelation E u resource relation w \<noteq> (Err e, w')"
  using assms ContextualTuples_good [OF assms(2,3)]
  by (simp add: checkRelation_def user_ResourceTag_def with_client_def OFGA_CheckRelation_def checks_reliable_def)

lemma access_of_none:
  assumes "access_of (checkRelation E u resource) levels w = (Ok NoRelation, w')"
    and "checks_reliable E" and "user_tag E u = Some t" and "\<not> bad_groups u" and "u_client u"
    and "NoRelation \<notin> set levels" and "r \<in> set levels"
  shows "\<not> can (store w) u t r resource"
  using assms(1,6,7)
proof (induction levels arbitrary: w)
  case (Cons l levels)
  from Cons.prems(1) have "first_relation (checkRelation E u resource l) l
      (access_of (checkRelation E u resource) levels) w = (Ok NoRelation, w')" by simp
  then show ?case
  proof (cases rule: first_relation_OkE)
    case (failed e)
    then show ?thesis using reliable_check [OF assms(2-5)] by blast
  next
    case yes
    then show ?thesis using Cons.prems(2) by simp
  next
    case (no w1)
    from no(1) have "store w1 = store w" "\<not> can (store w) u t l resource"
      using assms(3) by (auto elim: checkRelation_ok)
    then show ?thesis using Cons.IH [OF no(2)] Cons.prems by auto
  qed
qed simp

lemma access_of_total:
  assumes "user_tag E u = Some t" and "u_client u"
  shows "fst (access_of (checkRelation E u resource) levels w) \<in> range Ok"
proof (induction levels arbitrary: w)
  case Nil
  then show ?case by (simp add: go_simps)
next
  case (Cons l levels)
  obtain q w1 where q: "checkRelation E u resource l w = (q, w1)" by fastforce
  then show ?case using checkRelation_total [OF assms, of resource l w] Cons.IH [of w1]
    by (cases q) (auto simp: first_relation_def go_bind_def go_try_def go_simps)
qed

end


text \<open>Users of the in-memory instance, by name.\<close>

definition mem_user :: "string \<Rightarrow> ofga_user" where
  "mem_user n = NewUser (empty_identity\<lparr>id_Name := n\<rparr>) True"

lemma mem_user_simps [simp]:
  "user_tag mem_externals (mem_user n) = Some (Tag UserTagKind n)" "u_client (mem_user n)"
  "\<not> bad_groups (mem_user n)" "idp_tuples t (mem_user n) = []" "u_Name (mem_user n) = n"
  "u_JimmAdmin (mem_user n) = False"
  by (simp_all add: mem_user_def identity_ResourceTag_def new_juju_tag_def bad_groups_def maxContextualTuples_def)

lemma mem_reliable [simp]: "checks_reliable mem_externals"
  by (simp add: checks_reliable_def)

lemma mem_store_tag_tup [simp]:
  "mem_store (tag_tup a r b # w) = insert (tag_tup a r b) (mem_store w)" "mem_store [] = {}"
  by (auto simp: mem_store_def tag_tup_def mk_tup_def)

lemma is_user_ConvertTag [simp]: "is_user (ConvertTag (Tag UserTagKind n))"
  by (simp add: is_user_def)


end
