(* ===== verification/Db_Store.thy ===== *)
theory Db_Store
  imports External
begin

text \<open>
  The package \<^verbatim>\<open>internal/db\<close>, as far as permissions, logins and the entity managers use it:
  \<^verbatim>\<open>db.go\<close> (readiness, transactions), \<^verbatim>\<open>errors.go\<close>, and the methods on groups, roles,
  identities, controllers, models, application offers, clouds and user mappings. A method that
  fills in the row it is given returns the row. The SQL behind gorm is a parameter: a query is a
  list of conditions on a table. Metrics and log lines are left out, and so is the preloading of
  associations, except for the columns named in \<open>Db_Model\<close>.
\<close>

record database =
  db_configured :: bool
  db_migrated :: bool
  db_handle :: handle

section \<open>Errors and readiness\<close>

definition pgUniqueViolation :: string where
  "pgUniqueViolation = ''23505''"

fun SQLState :: "err \<Rightarrow> string option" where
  "SQLState (ErrExt m c i q w) = q"
| "SQLState _ = None"

definition dbError :: "err \<Rightarrow> err" where
  "dbError e =
     (let code = ErrorCode (Some e);
          code = (if e = ErrRecordNotFound then CodeNotFound else code);
          code = (case SQLState e of
              Some q \<Rightarrow> if q = pgUniqueViolation then CodeAlreadyExists else code
            | None \<Rightarrow> code)
      in Codef code (ErrFmt ''%w'' [] (Some e)))"

definition err_not_configured :: err where
  "err_not_configured = Codef CodeServerConfiguration (ErrNew ''database not configured'')"

definition err_upgrade :: err where
  "err_upgrade = Codef CodeUpgradeInProgress (ErrNew ''upgrade in progress'')"

definition ready :: "database \<Rightarrow> ('w, unit) io" where
  "ready d =
     (if \<not> db_configured d then go_err err_not_configured
      else if \<not> db_migrated d then go_err err_upgrade
      else go_return ())"

definition Transaction :: "'w externals \<Rightarrow> database \<Rightarrow> (database \<Rightarrow> ('w, group_entry) io) \<Rightarrow> ('w, group_entry) io" where
  "Transaction E d f =
     go_bind (ready d) (\<lambda>_. gorm_Transaction E (\<lambda>tx. f (d\<lparr>db_handle := tx\<rparr>)))"

text \<open>\<^verbatim>\<open>if err := ... ; err != nil { return dbError(err) }\<close>, and the renaming of a missing row.\<close>

definition db_do :: "('w, 'a) io \<Rightarrow> ('w, 'a) io" where
  "db_do m = go_maperr dbError m"

definition not_found_as :: "err \<Rightarrow> err \<Rightarrow> err" where
  "not_found_as nf e = (let e' = dbError e in if ErrorCode (Some e') = CodeNotFound then nf else e')"

definition err_not_found :: "string \<Rightarrow> err" where
  "err_not_found msg = Codef CodeNotFound (ErrNew msg)"

definition limit_opt :: "int \<Rightarrow> nat option" where
  "limit_opt n = (if n > 0 then Some (nat n) else None)"

definition match_cond :: "string list \<Rightarrow> string \<Rightarrow> cond list" where
  "match_cond columns match = (if match \<noteq> '''' then [WhereLike columns (''%'' @ match @ ''%'')] else [])"

section \<open>Groups\<close>

definition db_AddGroup :: "'w externals \<Rightarrow> database \<Rightarrow> string \<Rightarrow> ('w, group_entry) io" where
  "db_AddGroup E d name =
     go_bind (ready d) (\<lambda>_. go_bind (go_lift (newUUID E)) (\<lambda>uuid.
       db_do (gorm_Create (tbl_groups E) (db_handle d) \<lparr>ge_ID = 0, ge_Name = name, ge_UUID = uuid\<rparr>)))"

definition db_CountGroups :: "'w externals \<Rightarrow> database \<Rightarrow> ('w, nat) io" where
  "db_CountGroups E d = go_bind (ready d) (\<lambda>_. db_do (gorm_Count (tbl_groups E) (db_handle d)))"

definition db_GetGroup :: "'w externals \<Rightarrow> database \<Rightarrow> group_entry \<Rightarrow> ('w, group_entry) io" where
  "db_GetGroup E d grp =
     go_bind (ready d) (\<lambda>_.
     if ge_UUID grp = '''' \<and> ge_Name grp = '''' then go_err (ErrNew ''must specify uuid or name'')
     else db_do (gorm_First (tbl_groups E) (db_handle d)
       ((if ge_ID grp \<noteq> 0 then [WhereID (ge_ID grp)] else [])
        @ (if ge_UUID grp \<noteq> '''' then [WhereEq ''uuid'' (ge_UUID grp)] else [])
        @ (if ge_Name grp \<noteq> '''' then [WhereEq ''name'' (ge_Name grp)] else [])) grp))"

definition db_ListGroups :: "'w externals \<Rightarrow> database \<Rightarrow> int \<Rightarrow> int \<Rightarrow> string \<Rightarrow> ('w, group_entry list) io" where
  "db_ListGroups E d limit offset match =
     go_bind (ready d) (\<lambda>_. db_do (gorm_Find (tbl_groups E) (db_handle d)
       (match_cond [''name'', ''uuid''] match) ''name asc'' (limit_opt limit) (limit_opt offset)))"

definition db_UpdateGroupName :: "'w externals \<Rightarrow> database \<Rightarrow> string \<Rightarrow> string \<Rightarrow> ('w, unit) io" where
  "db_UpdateGroupName E d uuid name =
     (if uuid = '''' then go_err (ErrNew ''uuid must be specified'')
      else go_bind (ready d) (\<lambda>_.
        go_bind (go_lift (gorm_Update (tbl_groups E) (db_handle d) [WhereEq ''uuid'' uuid] ''name'' name)) (\<lambda>rows.
        if rows = 0 then go_err (err_not_found ''group not found'') else go_return ())))"

definition db_RemoveGroup :: "'w externals \<Rightarrow> database \<Rightarrow> group_entry \<Rightarrow> ('w, unit) io" where
  "db_RemoveGroup E d grp =
     (if ge_ID grp = 0 \<and> ge_UUID grp = '''' then go_err (err_not_found ''neither UUID or ID specified'')
      else go_bind (ready d) (\<lambda>_. db_do (gorm_Delete (tbl_groups E) (db_handle d) [] grp)))"

section \<open>Roles\<close>

definition db_AddRole :: "'w externals \<Rightarrow> database \<Rightarrow> string \<Rightarrow> ('w, role_entry) io" where
  "db_AddRole E d name =
     go_bind (ready d) (\<lambda>_. go_bind (go_lift (newUUID E)) (\<lambda>uuid.
       db_do (gorm_Create (tbl_roles E) (db_handle d) \<lparr>re_ID = 0, re_Name = name, re_UUID = uuid\<rparr>)))"

definition db_GetRole :: "'w externals \<Rightarrow> database \<Rightarrow> role_entry \<Rightarrow> ('w, role_entry) io" where
  "db_GetRole E d role =
     go_bind (ready d) (\<lambda>_.
     if re_UUID role = '''' \<and> re_Name role = '''' then go_err (ErrNew ''must specify uuid or name'')
     else db_do (gorm_First (tbl_roles E) (db_handle d)
       ((if re_ID role \<noteq> 0 then [WhereID (re_ID role)] else [])
        @ (if re_UUID role \<noteq> '''' then [WhereEq ''uuid'' (re_UUID role)] else [])
        @ (if re_Name role \<noteq> '''' then [WhereEq ''name'' (re_Name role)] else [])) role))"

definition db_UpdateRoleName :: "'w externals \<Rightarrow> database \<Rightarrow> string \<Rightarrow> string \<Rightarrow> ('w, unit) io" where
  "db_UpdateRoleName E d oldName name =
     (if oldName = '''' then go_err (ErrNew ''name must be specified'')
      else go_bind (ready d) (\<lambda>_.
        go_bind (go_lift (gorm_Update (tbl_roles E) (db_handle d) [WhereEq ''name'' oldName] ''name'' name)) (\<lambda>rows.
        if rows = 0 then go_err (err_not_found ''role not found'') else go_return ())))"

definition db_RemoveRole :: "'w externals \<Rightarrow> database \<Rightarrow> role_entry \<Rightarrow> ('w, unit) io" where
  "db_RemoveRole E d role =
     (if re_ID role = 0 \<and> re_UUID role = '''' then go_err (err_not_found ''neither role UUID or ID specified'')
      else go_bind (ready d) (\<lambda>_. db_do (gorm_Delete (tbl_roles E) (db_handle d) [] role)))"

definition db_ListRoles :: "'w externals \<Rightarrow> database \<Rightarrow> int \<Rightarrow> int \<Rightarrow> string \<Rightarrow> ('w, role_entry list) io" where
  "db_ListRoles E d limit offset match =
     go_bind (ready d) (\<lambda>_. db_do (gorm_Find (tbl_roles E) (db_handle d)
       (match_cond [''name'', ''uuid''] match) ''name asc'' (limit_opt limit) (limit_opt offset)))"

definition db_CountRoles :: "'w externals \<Rightarrow> database \<Rightarrow> ('w, nat) io" where
  "db_CountRoles E d = go_bind (ready d) (\<lambda>_. db_do (gorm_Count (tbl_roles E) (db_handle d)))"

section \<open>Identities\<close>

definition err_identity_name :: err where
  "err_identity_name = err_not_found (''invalid identity name'' @ [CHR 32, CHR 34, CHR 34])"

definition GetIdentity :: "'w externals \<Rightarrow> database \<Rightarrow> identity \<Rightarrow> ('w, identity) io" where
  "GetIdentity E d u =
     (if id_Name u = '''' then go_err err_identity_name
      else go_bind (ready d) (\<lambda>_.
       go_bind (gorm_CreateDoNothing (tbl_identities E) (db_handle d) u) (\<lambda>(u', rows).
       if rows > 0 then go_return u'
       else gorm_First (tbl_identities E) (db_handle d) [WhereEq ''name'' (id_Name u')] u')))"

definition db_FetchIdentity :: "'w externals \<Rightarrow> database \<Rightarrow> identity \<Rightarrow> ('w, identity) io" where
  "db_FetchIdentity E d u =
     (if id_Name u = '''' then go_err err_identity_name
      else go_bind (ready d) (\<lambda>_.
       gorm_First (tbl_identities E) (db_handle d) [WhereEq ''name'' (id_Name u)] u))"

definition UpdateIdentity :: "'w externals \<Rightarrow> database \<Rightarrow> identity \<Rightarrow> ('w, identity) io" where
  "UpdateIdentity E d u =
     go_bind (ready d) (\<lambda>_.
     if id_Name u = '''' then go_err err_identity_name
     else gorm_Save (tbl_identities E) (db_handle d)
       [''ApplicationOffers'', ''Clouds'', ''CloudCredentials'', ''Models''] u)"

definition db_ListIdentities :: "'w externals \<Rightarrow> database \<Rightarrow> int \<Rightarrow> int \<Rightarrow> string \<Rightarrow> ('w, identity list) io" where
  "db_ListIdentities E d limit offset match =
     go_bind (ready d) (\<lambda>_. db_do (gorm_Find (tbl_identities E) (db_handle d)
       (match_cond [''name''] match) ''name asc'' (limit_opt limit) (limit_opt offset)))"

definition db_CountIdentities :: "'w externals \<Rightarrow> database \<Rightarrow> ('w, nat) io" where
  "db_CountIdentities E d = go_bind (ready d) (\<lambda>_. gorm_Count (tbl_identities E) (db_handle d))"

section \<open>Controllers\<close>

definition db_AddController :: "'w externals \<Rightarrow> database \<Rightarrow> controller \<Rightarrow> ('w, controller) io" where
  "db_AddController E d c = go_bind (ready d) (\<lambda>_. db_do (gorm_Create (tbl_controllers E) (db_handle d) c))"

definition GetController :: "'w externals \<Rightarrow> database \<Rightarrow> controller \<Rightarrow> ('w, controller) io" where
  "GetController E d c =
     go_bind (ready d) (\<lambda>_.
     go_bind (if ctl_UUID c \<noteq> '''' then go_return [WhereEq ''uuid'' (ctl_UUID c)]
              else if ctl_Name c \<noteq> '''' then go_return [WhereEq ''name'' (ctl_Name c)]
              else go_err (Codef CodeBadRequest (ErrNew ''controller UUID or name must be provided''))) (\<lambda>conds.
     go_maperr (not_found_as (err_not_found ''controller not found''))
       (gorm_First (tbl_controllers E) (db_handle d) conds c)))"

definition db_UpdateController :: "'w externals \<Rightarrow> database \<Rightarrow> controller \<Rightarrow> ('w, controller) io" where
  "db_UpdateController E d c =
     (if ctl_ID c = 0 then go_err (err_not_found ''controller not found'')
      else go_bind (ready d) (\<lambda>_.
        db_do (gorm_Save (tbl_controllers E) (db_handle d) [''CloudRegions'', ''Models''] c)))"

definition ForEachController :: "'w externals \<Rightarrow> database \<Rightarrow> (controller \<Rightarrow> 's \<Rightarrow> ('w, 's) io) \<Rightarrow> 's \<Rightarrow> ('w, 's) io" where
  "ForEachController E d f s =
     go_bind (ready d) (\<lambda>_.
     go_bind (db_do (gorm_Find (tbl_controllers E) (db_handle d) [] ''name asc'' None None)) (\<lambda>controllers.
     go_fold f controllers s))"

definition CountControllers :: "'w externals \<Rightarrow> database \<Rightarrow> ('w, nat) io" where
  "CountControllers E d = go_bind (ready d) (\<lambda>_. db_do (gorm_Count (tbl_controllers E) (db_handle d)))"

section \<open>Models\<close>

definition db_AddModel :: "'w externals \<Rightarrow> database \<Rightarrow> model \<Rightarrow> ('w, model) io" where
  "db_AddModel E d m = go_bind (ready d) (\<lambda>_. db_do (gorm_Create (tbl_models E) (db_handle d) m))"

definition GetModel :: "'w externals \<Rightarrow> database \<Rightarrow> model \<Rightarrow> ('w, model) io" where
  "GetModel E d m =
     go_bind (ready d) (\<lambda>_.
     go_bind (ready d) (\<lambda>_.
     go_bind (case mdl_UUID m of
         Some uuid \<Rightarrow> go_return (WhereEq ''uuid'' uuid
           # (if mdl_ControllerID m \<noteq> 0 then [WhereController (mdl_ControllerID m)] else []))
       | None \<Rightarrow>
         if mdl_ID m \<noteq> 0 then go_return [WhereID (mdl_ID m)]
         else if mdl_OwnerIdentityName m \<noteq> '''' \<and> mdl_Name m \<noteq> ''''
           then go_return [WhereEq ''owner_identity_name'' (mdl_OwnerIdentityName m), WhereEq ''name'' (mdl_Name m)]
         else if mdl_ControllerID m \<noteq> 0 then go_return [WhereController (mdl_ControllerID m)]
         else go_err (Codef CodeBadRequest (ErrNew ''missing id or uuid''))) (\<lambda>conds.
     go_maperr (not_found_as (err_not_found ''model not found''))
       (gorm_First (tbl_models E) (db_handle d) conds m))))"

definition db_UpdateModel :: "'w externals \<Rightarrow> database \<Rightarrow> model \<Rightarrow> ('w, model) io" where
  "db_UpdateModel E d m = go_bind (ready d) (\<lambda>_. db_do (gorm_Save (tbl_models E) (db_handle d) [] m))"

definition DeleteModel :: "'w externals \<Rightarrow> database \<Rightarrow> model \<Rightarrow> ('w, unit) io" where
  "DeleteModel E d m =
     go_bind (ready d) (\<lambda>_.
     go_bind (case mdl_UUID m of
         Some uuid \<Rightarrow> go_return [WhereEq ''uuid'' uuid]
       | None \<Rightarrow> if mdl_ID m \<noteq> 0 then go_return [WhereID (mdl_ID m)]
                 else go_err (Codef CodeBadRequest (ErrNew ''missing id or uuid''))) (\<lambda>conds.
     db_do (gorm_Delete (tbl_models E) (db_handle d) conds m)))"

definition ForEachModel :: "'w externals \<Rightarrow> database \<Rightarrow> (model \<Rightarrow> 's \<Rightarrow> ('w, 's) io) \<Rightarrow> 's \<Rightarrow> ('w, 's) io" where
  "ForEachModel E d f s =
     go_bind (ready d) (\<lambda>_.
     go_bind (db_do (gorm_Find (tbl_models E) (db_handle d) [] '''' None None)) (\<lambda>models.
     go_fold f models s))"

definition GetModelsByUUID :: "'w externals \<Rightarrow> database \<Rightarrow> string list \<Rightarrow> ('w, model list) io" where
  "GetModelsByUUID E d modelUUIDs =
     go_bind (ready d) (\<lambda>_.
     go_maperr (\<lambda>e. let e' = dbError e in
         if ErrorCode (Some e') = CodeNotFound then err_not_found ''model not found'' else dbError e')
       (gorm_Find (tbl_models E) (db_handle d) [WhereIn ''uuid'' modelUUIDs] '''' None None))"

section \<open>Application offers, clouds, user mappings\<close>

definition AddApplicationOffer :: "'w externals \<Rightarrow> database \<Rightarrow> application_offer \<Rightarrow> ('w, application_offer) io" where
  "AddApplicationOffer E d offer = go_bind (ready d) (\<lambda>_. db_do (gorm_Create (tbl_offers E) (db_handle d) offer))"

definition GetApplicationOffer :: "'w externals \<Rightarrow> database \<Rightarrow> application_offer \<Rightarrow> ('w, application_offer) io" where
  "GetApplicationOffer E d offer =
     go_bind (ready d) (\<lambda>_.
     go_bind (if ao_UUID offer \<noteq> '''' then go_return [WhereEq ''uuid'' (ao_UUID offer)]
              else if ao_URL offer \<noteq> '''' then go_return [WhereEq ''url'' (ao_URL offer)]
              else go_err (ErrNew ''missing offer UUID or URL'')) (\<lambda>conds.
     go_maperr (not_found_as (err_not_found ''application offer not found''))
       (gorm_First (tbl_offers E) (db_handle d) conds offer)))"

definition DeleteApplicationOffer :: "'w externals \<Rightarrow> database \<Rightarrow> application_offer \<Rightarrow> ('w, unit) io" where
  "DeleteApplicationOffer E d offer =
     go_bind (ready d) (\<lambda>_. db_do (gorm_Delete (tbl_offers E) (db_handle d) [] offer))"

definition err_cloud :: "Code \<Rightarrow> string \<Rightarrow> string \<Rightarrow> err" where
  "err_cloud code fmt name = Codef code (ErrFmt fmt [name] None)"

definition db_AddCloud :: "'w externals \<Rightarrow> database \<Rightarrow> cloud \<Rightarrow> ('w, cloud) io" where
  "db_AddCloud E d c =
     go_bind (ready d) (\<lambda>_.
     go_maperr (\<lambda>e. let e' = dbError e in
         if ErrorCode (Some e') = CodeAlreadyExists then err_cloud CodeAlreadyExists ''cloud %q already exists'' (cld_Name c) else e')
       (gorm_Create (tbl_clouds E) (db_handle d) c))"

definition GetCloud :: "'w externals \<Rightarrow> database \<Rightarrow> cloud \<Rightarrow> ('w, cloud) io" where
  "GetCloud E d c =
     go_bind (ready d) (\<lambda>_.
     go_maperr (not_found_as (err_cloud CodeNotFound ''cloud %q not found'' (cld_Name c)))
       (gorm_First (tbl_clouds E) (db_handle d) [WhereEq ''name'' (cld_Name c)] c))"

definition GetClouds :: "'w externals \<Rightarrow> database \<Rightarrow> ('w, cloud list) io" where
  "GetClouds E d = go_bind (ready d) (\<lambda>_. gorm_Find (tbl_clouds E) (db_handle d) [] '''' None None)"

definition DeleteCloud :: "'w externals \<Rightarrow> database \<Rightarrow> cloud \<Rightarrow> ('w, unit) io" where
  "DeleteCloud E d c = go_bind (ready d) (\<lambda>_. db_do (gorm_Delete (tbl_clouds E) (db_handle d) [] c))"

definition AddUserMapping :: "'w externals \<Rightarrow> database \<Rightarrow> user_mapping \<Rightarrow> ('w, user_mapping) io" where
  "AddUserMapping E d m = go_bind (ready d) (\<lambda>_. db_do (gorm_Create (tbl_user_mappings E) (db_handle d) m))"

definition GetUserMapping :: "'w externals \<Rightarrow> database \<Rightarrow> user_mapping \<Rightarrow> ('w, user_mapping) io" where
  "GetUserMapping E d m =
     go_bind (ready d) (\<lambda>_.
     go_bind (case um_ModelUUID m of
         Some uuid \<Rightarrow>
           if um_LocalUser m \<noteq> ''''
           then go_return [WhereEq ''model_uuid'' uuid, WhereEq ''local_user'' (um_LocalUser m)]
           else go_err (Codef CodeBadRequest (ErrNew ''missing local user''))
       | None \<Rightarrow> go_err (Codef CodeBadRequest (ErrNew ''missing model UUID''))) (\<lambda>conds.
     go_maperr (not_found_as (err_not_found ''user mapping not found''))
       (gorm_First (tbl_user_mappings E) (db_handle d) conds m)))"

definition DeleteUserMapping :: "'w externals \<Rightarrow> database \<Rightarrow> user_mapping \<Rightarrow> ('w, unit) io" where
  "DeleteUserMapping E d m = go_bind (ready d) (\<lambda>_. db_do (gorm_Delete (tbl_user_mappings E) (db_handle d) [] m))"

definition DeleteUserMappingsByModelUUID :: "'w externals \<Rightarrow> database \<Rightarrow> string \<Rightarrow> ('w, unit) io" where
  "DeleteUserMappingsByModelUUID E d modelUUID =
     go_bind (ready d) (\<lambda>_.
     db_do (gorm_Delete (tbl_user_mappings E) (db_handle d) [WhereEq ''model_uuid'' modelUUID] empty_user_mapping))"

section \<open>Frames\<close>

text \<open>A table none of whose operations changes what \<open>obs\<close> observes.\<close>

definition table_frame :: "('w \<Rightarrow> 'o) \<Rightarrow> ('w, 'row) gorm_table \<Rightarrow> bool" where
  "table_frame obs T \<longleftrightarrow>
     (\<forall>h r. frame obs (gorm_Create T h r)) \<and> (\<forall>h r. frame obs (gorm_CreateDoNothing T h r))
   \<and> (\<forall>h cs r. frame obs (gorm_First T h cs r)) \<and> (\<forall>h cs ord l off. frame obs (gorm_Find T h cs ord l off))
   \<and> (\<forall>h. frame obs (gorm_Count T h)) \<and> (\<forall>h cs col val w. obs (snd (gorm_Update T h cs col val w)) = obs w)
   \<and> (\<forall>h cs r. frame obs (gorm_Delete T h cs r)) \<and> (\<forall>h om r. frame obs (gorm_Save T h om r))"

lemma table_frameD:
  assumes "table_frame obs T"
  shows "frame obs (gorm_Create T h r)" "frame obs (gorm_CreateDoNothing T h r)"
    "frame obs (gorm_First T h cs r)" "frame obs (gorm_Find T h cs ord l off)" "frame obs (gorm_Count T h)"
    "frame obs (gorm_Delete T h cs r)" "frame obs (gorm_Save T h om r)"
    "obs (snd (gorm_Update T h cs col val w)) = obs w"
  using assms by (simp_all add: table_frame_def)

lemma frame_ready [frame_intros]: "frame obs (ready d)"
  unfolding ready_def by (intro frame_intros)

lemma frame_db_do [frame_intros]: "frame obs m \<Longrightarrow> frame obs (db_do m)"
  unfolding db_do_def by (intro frame_intros)

text \<open>
  OpenFGA together with the database, the clock, the source of UUIDs and the identity provider:
  the other services do not touch OpenFGA, a transaction touches it only through its body, and a
  row of the table of identities keeps the name it is created or looked up with.
\<close>

locale jimm_services = openfga_service E store remaining
  for E :: "'w externals" and store :: "'w \<Rightarrow> tup set" and remaining :: "'w \<Rightarrow> tup \<Rightarrow> string \<Rightarrow> tup set" +
  assumes groups_table: "table_frame store (tbl_groups E)"
    and roles_table: "table_frame store (tbl_roles E)"
    and identities_table: "table_frame store (tbl_identities E)"
    and controllers_table: "table_frame store (tbl_controllers E)"
    and models_table: "table_frame store (tbl_models E)"
    and offers_table: "table_frame store (tbl_offers E)"
    and clouds_table: "table_frame store (tbl_clouds E)"
    and mappings_table: "table_frame store (tbl_user_mappings E)"
    and fetch_frame: "frame store (FetchGroups E name)"
    and uuid_frame: "store (snd (newUUID E w)) = store w"
    and now_frame: "store (snd (NowFunc E w)) = store w"
    and transaction_frame: "(\<And>h. frame store (body h)) \<Longrightarrow> frame store (gorm_Transaction E body)"
    and identity_create:
      "gorm_CreateDoNothing (tbl_identities E) h i w = (Ok (i', n), w') \<Longrightarrow> id_Name i' = id_Name i"
    and identity_first:
      "gorm_First (tbl_identities E) h [WhereEq ''name'' name] i w = (Ok i', w') \<Longrightarrow> id_Name i' = name"
    and identity_save:
      "gorm_Save (tbl_identities E) h om i w = (Ok i', w') \<Longrightarrow> i' = i"
begin

lemmas table_frames [frame_intros] =
  table_frameD(1-7) [OF groups_table] table_frameD(1-7) [OF roles_table]
  table_frameD(1-7) [OF identities_table] table_frameD(1-7) [OF controllers_table]
  table_frameD(1-7) [OF models_table] table_frameD(1-7) [OF offers_table]
  table_frameD(1-7) [OF clouds_table] table_frameD(1-7) [OF mappings_table] fetch_frame

lemma update_frames [frame_intros]:
  "store (snd (gorm_Update (tbl_groups E) h cs col val w)) = store w"
  "store (snd (gorm_Update (tbl_roles E) h cs col val w)) = store w"
  using table_frameD(8) [OF groups_table] table_frameD(8) [OF roles_table] by blast+

lemma group_frames [frame_intros]:
  "frame store (db_AddGroup E d name)" "frame store (db_CountGroups E d)" "frame store (db_GetGroup E d g)"
  "frame store (db_ListGroups E d l off m)" "frame store (db_UpdateGroupName E d uuid name)"
  "frame store (db_RemoveGroup E d g)"
  unfolding db_AddGroup_def db_CountGroups_def db_GetGroup_def db_ListGroups_def db_UpdateGroupName_def
    db_RemoveGroup_def
  by (intro frame_intros uuid_frame)+

lemma role_frames [frame_intros]:
  "frame store (db_AddRole E d name)" "frame store (db_CountRoles E d)" "frame store (db_GetRole E d r)"
  "frame store (db_ListRoles E d l off m)" "frame store (db_UpdateRoleName E d old name)"
  "frame store (db_RemoveRole E d r)"
  unfolding db_AddRole_def db_CountRoles_def db_GetRole_def db_ListRoles_def db_UpdateRoleName_def
    db_RemoveRole_def
  by (intro frame_intros uuid_frame)+

lemma identity_frames [frame_intros]:
  "frame store (GetIdentity E d i)" "frame store (db_FetchIdentity E d i)" "frame store (UpdateIdentity E d i)"
  "frame store (db_ListIdentities E d l off m)" "frame store (db_CountIdentities E d)"
  unfolding GetIdentity_def db_FetchIdentity_def UpdateIdentity_def db_ListIdentities_def db_CountIdentities_def
  by (intro frame_intros)+

lemma resource_frames [frame_intros]:
  "frame store (GetController E d c)" "frame store (GetModel E d m)" "frame store (GetApplicationOffer E d a)"
  "frame store (GetCloud E d k)" "frame store (GetUserMapping E d um)" "frame store (CountControllers E d)"
  unfolding GetController_def GetModel_def GetApplicationOffer_def GetCloud_def GetUserMapping_def
    CountControllers_def
  by (intro frame_intros)+

lemma Transaction_frame [frame_intros]:
  "(\<And>d'. frame store (f d')) \<Longrightarrow> frame store (Transaction E d f)"
  unfolding Transaction_def by (intro frame_intros transaction_frame)

lemma GetIdentity_ok:
  assumes "GetIdentity E d i w = (Ok i', w')"
  shows "id_Name i' = id_Name i" and "store w' = store w" and "id_Name i \<noteq> ''''"
proof -
  show "store w' = store w" using frameD [OF identity_frames(1) assms] .
  show "id_Name i \<noteq> ''''" using assms by (auto simp: GetIdentity_def)
  then show "id_Name i' = id_Name i"
    using assms by (auto simp: GetIdentity_def elim!: go_bind_OkE split: if_splits)
      (metis identity_create identity_first)+
qed

lemma FetchIdentity_ok:
  "db_FetchIdentity E d i w = (Ok i', w') \<Longrightarrow> id_Name i' = id_Name i"
  by (auto simp: db_FetchIdentity_def elim!: go_bind_OkE dest!: identity_first split: if_splits)

lemma UpdateIdentity_ok: "UpdateIdentity E d i w = (Ok i', w') \<Longrightarrow> i' = i"
  by (auto simp: UpdateIdentity_def elim!: go_bind_OkE dest!: identity_save split: if_splits)

end

lemma no_table_simps:
  "gorm_CreateDoNothing no_table h r = go_return (r, 1)" "gorm_First no_table h cs r = go_err ErrRecordNotFound"
  "gorm_Save no_table h om r = go_return r" "gorm_Create no_table h r = go_return r"
  by (simp_all add: no_table_def)

lemma mem_table_frames [simp]:
  "table_frame obs no_table" "table_frame obs mem_groups" "table_frame obs mem_offers" "table_frame obs mem_controllers"
  "table_frame obs mem_models" "table_frame obs mem_clouds"
  by (simp_all add: table_frame_def mem_clouds_def no_table_def mem_groups_def mem_offers_def mem_controllers_def mem_models_def frame_return frame_err)

interpretation memj: jimm_services mem_externals mem_store mem_remaining
  by unfold_locales (auto simp: no_table_simps go_simps intro: frame_intros)

end
