(* ===== verification/Tag_Resolver.thy ===== *)
theory Tag_Resolver
  imports Db_Store
begin

text \<open>
  The files \<^verbatim>\<open>internal/jimm/permissions/permissionmanager.go\<close> and \<^verbatim>\<open>tagresolver.go\<close>: the
  permission manager, and the translation between the tags users write (with names) and the
  entities OpenFGA stores (with UUIDs). The two regular expressions are written out as the
  functions that Go's leftmost-first matching computes for them.
\<close>

record perm_manager =
  pm_store :: database
  pm_jimmUUID :: string
  pm_jimmTag :: tag

text \<open>\<open>None\<close> and \<open>False\<close> are nil arguments.\<close>

definition NewManager :: "database option \<Rightarrow> bool \<Rightarrow> string \<Rightarrow> tag \<Rightarrow> bool \<Rightarrow> err + perm_manager" where
  "NewManager store authSvc uuid jimmTag groupFetcher = (case store of
       None \<Rightarrow> Inl (ErrNew ''permission store cannot be nil'')
     | Some d \<Rightarrow>
         if \<not> authSvc then Inl (ErrNew ''permission authorisation service cannot be nil'')
         else if \<not> groupFetcher then Inl (ErrNew ''permission group fetcher cannot be nil'')
         else Inr \<lparr>pm_store = d, pm_jimmUUID = uuid, pm_jimmTag = jimmTag\<rparr>)"

section \<open>From OpenFGA to the user\<close>

definition tag_to_string :: "entity \<Rightarrow> string \<Rightarrow> string \<Rightarrow> string" where
  "tag_to_string t kind i = kind @ ''-'' @ i @ (if ent_Relation t \<noteq> '''' then ''#'' @ ent_Relation t else '''')"

definition fetch_failed :: "string \<Rightarrow> string \<Rightarrow> err \<Rightarrow> err" where
  "fetch_failed fmt i e = ErrFmt fmt [i] (Some e)"

definition ToJAASTag :: "'w externals \<Rightarrow> perm_manager \<Rightarrow> entity \<Rightarrow> bool \<Rightarrow> ('w, string) io" where
  "ToJAASTag E j t resolveUUIDs =
     (if \<not> resolveUUIDs then go_return (tag_to_string t (ent_Kind t) (ent_ID t))
      else if ent_Kind t = UserTagKind then go_return (tag_to_string t UserTagKind (ent_ID t))
      else if ent_Kind t = ControllerTagKind then
        (if ent_ID t = Id (pm_jimmTag j) then go_return ''controller-jimm''
         else go_bind (go_maperr (fetch_failed ''failed to fetch controller information: %s: %w'' (ent_ID t))
             (GetController E (pm_store j) (empty_controller\<lparr>ctl_UUID := ent_ID t\<rparr>))) (\<lambda>controller.
           go_return (tag_to_string t ControllerTagKind (ctl_Name controller))))
      else if ent_Kind t = ModelTagKind then
        go_bind (go_maperr (fetch_failed ''failed to fetch model information: %s: %w'' (ent_ID t))
           (GetModel E (pm_store j) (empty_model\<lparr>mdl_UUID := Some (ent_ID t)\<rparr>))) (\<lambda>model.
        go_return (tag_to_string t ModelTagKind (mdl_OwnerIdentityName model @ ''/'' @ mdl_Name model)))
      else if ent_Kind t = ApplicationOfferTagKind then
        go_bind (go_maperr (fetch_failed ''failed to fetch application offer information: %s: %w'' (ent_ID t))
           (GetApplicationOffer E (pm_store j) (empty_offer\<lparr>ao_UUID := ent_ID t\<rparr>))) (\<lambda>ao.
        go_return (tag_to_string t ApplicationOfferTagKind (ao_URL ao)))
      else if ent_Kind t = GroupTagKind then
        go_bind (go_maperr (fetch_failed ''failed to fetch group information: %s: %w'' (ent_ID t))
           (db_GetGroup E (pm_store j) (empty_group\<lparr>ge_UUID := ent_ID t\<rparr>))) (\<lambda>grp.
        go_return (tag_to_string t GroupTagKind (ge_Name grp)))
      else if ent_Kind t = IdPGroupTagKind then go_return (tag_to_string t IdPGroupTagKind (ent_ID t))
      else if ent_Kind t = RoleTagKind then
        go_bind (go_maperr (fetch_failed ''failed to fetch role information: %s: %w'' (ent_ID t))
           (db_GetRole E (pm_store j) (empty_role\<lparr>re_UUID := ent_ID t\<rparr>))) (\<lambda>role.
        go_return (tag_to_string t RoleTagKind (re_Name role)))
      else if ent_Kind t = CloudTagKind then
        go_bind (go_maperr (fetch_failed ''failed to fetch cloud information: %s: %w'' (ent_ID t))
           (GetCloud E (pm_store j) (empty_cloud\<lparr>cld_Name := ent_ID t\<rparr>))) (\<lambda>cloud.
        go_return (tag_to_string t CloudTagKind (cld_Name cloud)))
      else go_err (ErrFmt ''unexpected tag kind: %v'' [ent_Kind t] None))"

section \<open>The regular expressions\<close>

text \<open>
  \<^verbatim>\<open>([a-zA-Z0-9]*)(?:-)([^#]+)(?:#([a-zA-Z]+)|\z)\<close> at the start of a string: as a dash is not
  alphanumeric and a hash sign is not in the second class, each repetition has only its longest
  match; an unmatched third group is the empty string. \<open>find_uri\<close> looks for the leftmost start.
\<close>

definition match_uri :: "string \<Rightarrow> (string \<times> string \<times> string) option" where
  "match_uri s = (case dropWhile is_alnum s of
       [] \<Rightarrow> None
     | c # r \<Rightarrow>
         if c \<noteq> CHR ''-'' \<or> takeWhile (\<lambda>x. x \<noteq> CHR ''#'') r = [] then None
         else (case dropWhile (\<lambda>x. x \<noteq> CHR ''#'') r of
             [] \<Rightarrow> Some (takeWhile is_alnum s, takeWhile (\<lambda>x. x \<noteq> CHR ''#'') r, '''')
           | h # r' \<Rightarrow>
               if takeWhile is_alpha r' = [] then None
               else Some (takeWhile is_alnum s, takeWhile (\<lambda>x. x \<noteq> CHR ''#'') r, takeWhile is_alpha r')))"

fun find_uri :: "string \<Rightarrow> (string \<times> string \<times> string) option" where
  "find_uri [] = None"
| "find_uri (x # xs) = (case match_uri (x # xs) of Some m \<Rightarrow> Some m | None \<Rightarrow> find_uri xs)"

text \<open>
  \<^verbatim>\<open>(.+)/(.+)\<close>: the first line with a slash that has something on both sides; of several such
  slashes, the last.
\<close>

definition match_owner_line :: "string \<Rightarrow> (string \<times> string) option" where
  "match_owner_line l =
     (case filter (\<lambda>i. l ! i = CHR ''/'' \<and> 0 < i \<and> Suc i < length l) (rev [0..<length l]) of
        [] \<Rightarrow> None
      | i # _ \<Rightarrow> Some (take i l, drop (Suc i) l))"

fun first_some :: "('a \<Rightarrow> 'b option) \<Rightarrow> 'a list \<Rightarrow> 'b option" where
  "first_some f [] = None"
| "first_some f (x # xs) = (case f x of Some y \<Rightarrow> Some y | None \<Rightarrow> first_some f xs)"

definition match_owner_and_name :: "string \<Rightarrow> (string \<times> string) option" where
  "match_owner_and_name s = first_some match_owner_line (go_split (CHR 10) s)"

section \<open>From the user to OpenFGA\<close>

record tag_resolver =
  tr_resourceUUID :: string
  tr_trailer :: string
  tr_relation :: string

definition newTagResolver :: "'z libs_scheme \<Rightarrow> string \<Rightarrow> err + tag_resolver \<times> string" where
  "newTagResolver L t = (case find_uri t of
       None \<Rightarrow> Inl (Codef CodeBadRequest (ErrNew ''tag is not properly formatted''))
     | Some (tagKind, m2, m3) \<Rightarrow>
         (case ParseRelation m3 of
            Inl e \<Rightarrow> Inl (Codef CodeBadRequest (ErrNew ''failed to parse relation''))
          | Inr relation \<Rightarrow>
              Inr (\<lparr>tr_resourceUUID = (if uuid_Parse L m2 then m2 else ''''),
                    tr_trailer = (if uuid_Parse L m2 then '''' else m2),
                    tr_relation = relation\<rparr>, tagKind)))"

text \<open>A tag constructor that panics on an identifier it does not accept.\<close>

definition juju_tag :: "'w externals \<Rightarrow> string \<Rightarrow> string \<Rightarrow> ('w, tag) io" where
  "juju_tag E kind i = go_some ''invalid tag'' (new_juju_tag E kind i)"

definition with_relation :: "tag_resolver \<Rightarrow> ('w, tag) io \<Rightarrow> ('w, entity) io" where
  "with_relation t m = go_bind m (\<lambda>tg. go_return (ConvertTagWithRelation tg (tr_relation t)))"

text \<open>An error of the lookup is replaced, whatever it was.\<close>

definition or_err :: "err \<Rightarrow> ('w, 'a) io \<Rightarrow> ('w, 'a) io" where
  "or_err e m = go_maperr (\<lambda>_. e) m"

definition userTag :: "'w externals \<Rightarrow> tag_resolver \<Rightarrow> ('w, entity) io" where
  "userTag E t =
     (if \<not> IsValidUser E (tr_trailer t) then go_err (ErrNew ''invalid user'')
      else with_relation t (juju_tag E UserTagKind (tr_trailer t)))"

definition groupTag :: "'w externals \<Rightarrow> database \<Rightarrow> tag_resolver \<Rightarrow> ('w, entity) io" where
  "groupTag E d t =
     (if tr_resourceUUID t \<noteq> ''''
      then with_relation t (go_some ''invalid group tag'' (NewGroupTag (tr_resourceUUID t)))
      else go_bind (or_err (ErrFmt ''group %s not found'' [tr_trailer t] None)
             (db_GetGroup E d (empty_group\<lparr>ge_Name := tr_trailer t\<rparr>))) (\<lambda>entry.
           with_relation t (go_some ''invalid group tag'' (group_ResourceTag entry))))"

definition idpGroupTag :: "tag_resolver \<Rightarrow> ('w, entity) io" where
  "idpGroupTag t =
     (let idpGroupID = (if tr_trailer t = '''' then tr_resourceUUID t else tr_trailer t) in
      if \<not> IsValidIdPGroupId idpGroupID then go_err (ErrNew ''invalid idp group'')
      else go_return \<lparr>ent_Kind = IdPGroupTagKind, ent_ID = idpGroupID, ent_Relation = tr_relation t\<rparr>)"

definition controllerTag :: "'w externals \<Rightarrow> string \<Rightarrow> database \<Rightarrow> tag_resolver \<Rightarrow> ('w, entity) io" where
  "controllerTag E jimmUUID d t =
     (if tr_resourceUUID t \<noteq> '''' then with_relation t (juju_tag E ControllerTagKind (tr_resourceUUID t))
      else if tr_trailer t = ''jimm'' then with_relation t (juju_tag E ControllerTagKind jimmUUID)
      else go_bind (or_err (ErrNew ''controller not found'')
             (GetController E d (empty_controller\<lparr>ctl_Name := tr_trailer t\<rparr>))) (\<lambda>controller.
           with_relation t (go_some ''invalid tag'' (controller_ResourceTag E controller))))"

definition roleTag :: "'w externals \<Rightarrow> database \<Rightarrow> tag_resolver \<Rightarrow> ('w, entity) io" where
  "roleTag E d t =
     (if tr_resourceUUID t \<noteq> ''''
      then with_relation t (go_some ''invalid role tag'' (NewRoleTag (tr_resourceUUID t)))
      else go_bind (or_err (ErrFmt ''role %s not found'' [tr_trailer t] None)
             (db_GetRole E d (empty_role\<lparr>re_Name := tr_trailer t\<rparr>))) (\<lambda>entry.
           with_relation t (go_some ''invalid role tag'' (role_ResourceTag entry))))"

definition modelTag :: "'w externals \<Rightarrow> database \<Rightarrow> tag_resolver \<Rightarrow> ('w, entity) io" where
  "modelTag E d t =
     (if tr_resourceUUID t \<noteq> '''' then with_relation t (juju_tag E ModelTagKind (tr_resourceUUID t))
      else case match_owner_and_name (tr_trailer t) of
        None \<Rightarrow> go_err (ErrNew ''model name format incorrect, expected <model-owner>/<model-name>'')
      | Some (own, name) \<Rightarrow>
          go_bind (or_err (ErrNew ''model not found'')
             (GetModel E d (empty_model\<lparr>mdl_OwnerIdentityName := own, mdl_Name := name\<rparr>))) (\<lambda>model.
          with_relation t (go_some ''invalid tag'' (model_ResourceTag E model))))"

definition applicationOfferTag :: "'w externals \<Rightarrow> database \<Rightarrow> tag_resolver \<Rightarrow> ('w, entity) io" where
  "applicationOfferTag E d t =
     (if tr_resourceUUID t \<noteq> '''' then with_relation t (juju_tag E ApplicationOfferTagKind (tr_resourceUUID t))
      else go_bind (or_err (ErrNew ''application offer not found'')
             (GetApplicationOffer E d (empty_offer\<lparr>ao_URL := tr_trailer t\<rparr>))) (\<lambda>offer.
           with_relation t (go_some ''invalid tag'' (offer_ResourceTag E offer))))"

definition cloudTag :: "'w externals \<Rightarrow> database \<Rightarrow> tag_resolver \<Rightarrow> ('w, entity) io" where
  "cloudTag E d t =
     (if tr_resourceUUID t \<noteq> '''' then with_relation t (juju_tag E CloudTagKind (tr_resourceUUID t))
      else go_bind (or_err (ErrNew ''cloud not found'')
             (GetCloud E d (empty_cloud\<lparr>cld_Name := tr_trailer t\<rparr>))) (\<lambda>cloud.
           with_relation t (go_some ''invalid tag'' (cloud_ResourceTag E cloud))))"

definition resolveTag :: "'w externals \<Rightarrow> string \<Rightarrow> database \<Rightarrow> string \<Rightarrow> ('w, entity) io" where
  "resolveTag E jimmUUID d t = (case newTagResolver E t of
       Inl e \<Rightarrow> go_err (ErrFmt ''failed to setup tag resolver: %w'' [] (Some e))
     | Inr (resolver, tagKind) \<Rightarrow>
         if tagKind = UserTagKind then userTag E resolver
         else if tagKind = GroupTagKind then groupTag E d resolver
         else if tagKind = IdPGroupTagKind then idpGroupTag resolver
         else if tagKind = RoleTagKind then roleTag E d resolver
         else if tagKind = ControllerTagKind then controllerTag E jimmUUID d resolver
         else if tagKind = ModelTagKind then modelTag E d resolver
         else if tagKind = ApplicationOfferTagKind then applicationOfferTag E d resolver
         else if tagKind = CloudTagKind then cloudTag E d resolver
         else go_err (Codef CodeBadRequest (ErrFmt ''failed to map tag, unknown kind: %s'' [tagKind] None)))"

definition parseAndValidateTag :: "'w externals \<Rightarrow> perm_manager \<Rightarrow> string \<Rightarrow> ('w, entity) io" where
  "parseAndValidateTag E j key =
     (case go_splitN2 (CHR ''-'') key of
        [kind] \<Rightarrow> go_maperr (\<lambda>e. Codef CodeFailedToParseTupleKey (ErrFmt ''%w'' [] (Some e)))
                    (go_sum (BlankKindTag kind))
      | _ \<Rightarrow> go_maperr (\<lambda>e. Codef CodeFailedToResolveTupleResource (ErrFmt ''%w'' [] (Some e)))
               (resolveTag E (pm_jimmUUID j) (pm_store j) key))"

section \<open>Facts\<close>

lemma dropWhile_all [simp]: "list_all P xs \<Longrightarrow> dropWhile P (xs @ ys) = dropWhile P ys"
  by (induction xs) auto

lemma takeWhile_all [simp]: "list_all P xs \<Longrightarrow> takeWhile P (xs @ ys) = xs @ takeWhile P ys"
  by (induction xs) auto

lemma no_hash_all: "CHR ''#'' \<notin> set i \<Longrightarrow> list_all (\<lambda>x. x \<noteq> CHR ''#'') i"
  by (auto simp: list_all_iff)

lemma match_uri_plain:
  assumes "list_all is_alnum kind" and "i \<noteq> []" and "CHR ''#'' \<notin> set i"
  shows "match_uri (kind @ CHR ''-'' # i) = Some (kind, i, '''')"
proof -
  have tw: "takeWhile (\<lambda>x. x \<noteq> CHR ''#'') i = i" and dw: "dropWhile (\<lambda>x. x \<noteq> CHR ''#'') i = []"
    using assms(3) by (induction i) auto
  show ?thesis using assms by (simp add: match_uri_def tw dw)
qed

lemma match_uri_relation:
  assumes "list_all is_alnum kind" and "i \<noteq> []" and "CHR ''#'' \<notin> set i" and "list_all is_alpha rel" and "rel \<noteq> []"
  shows "match_uri (kind @ CHR ''-'' # i @ CHR ''#'' # rel) = Some (kind, i, rel)"
  using assms no_hash_all [OF assms(3)] takeWhile_all [of is_alpha rel "[]"]
  by (simp add: match_uri_def del: takeWhile_eq_all_conv)

lemma find_uri_match: "match_uri s = Some m \<Longrightarrow> find_uri s = Some m"
  by (cases s) (simp_all add: match_uri_def)

text \<open>A tag that a user can write for an entity: what \<^verbatim>\<open>ToJAASTag\<close> prints is read back.\<close>

definition writable :: "entity \<Rightarrow> bool" where
  "writable e \<longleftrightarrow> list_all is_alnum (ent_Kind e) \<and> ent_ID e \<noteq> '''' \<and> CHR ''#'' \<notin> set (ent_ID e)
     \<and> list_all is_alpha (ent_Relation e)"

lemma find_uri_tag_to_string:
  "writable e \<Longrightarrow> find_uri (tag_to_string e (ent_Kind e) (ent_ID e)) = Some (ent_Kind e, ent_ID e, ent_Relation e)"
  by (cases "ent_Relation e = ''''")
    (auto simp: writable_def tag_to_string_def intro!: find_uri_match match_uri_plain
      match_uri_relation [of _ _ "ent_Relation e", simplified])

lemma kinds_alnum:
  "list_all is_alnum UserTagKind" "list_all is_alnum IdPGroupTagKind" "list_all is_alnum GroupTagKind"
  "list_all is_alnum RoleTagKind" "list_all is_alnum ModelTagKind" "list_all is_alnum ControllerTagKind"
  "list_all is_alnum CloudTagKind" "list_all is_alnum ApplicationOfferTagKind"
  by (simp_all add: kind_defs char_class_defs)

lemma alnum_no_dash: "list_all is_alnum kind \<Longrightarrow> CHR ''-'' \<notin> set kind"
  using not_alnum_dash by (auto simp: list_all_iff)

lemma parse_written_tag:
  assumes "list_all is_alnum kind"
  shows "parseAndValidateTag E j (kind @ CHR ''-'' # r) =
    go_maperr (\<lambda>e. Codef CodeFailedToResolveTupleResource (ErrFmt ''%w'' [] (Some e)))
      (resolveTag E (pm_jimmUUID j) (pm_store j) (kind @ CHR ''-'' # r))"
  using alnum_no_dash [OF assms] by (simp add: parseAndValidateTag_def go_splitN2_def)

lemma IsValidIdPGroupId_bare: "g \<noteq> '''' \<Longrightarrow> CHR ''#'' \<notin> set g \<Longrightarrow> IsValidIdPGroupId g"
  by (simp add: IsValidIdPGroupId_iff count_list_0_iff) (metis hd_in_set last_in_set)

lemma match_owner_line_last_slash:
  assumes "own \<noteq> []" and "name \<noteq> []" and "CHR ''/'' \<notin> set name"
  shows "match_owner_line (own @ CHR ''/'' # name) = Some (own, name)"
proof -
  let ?l = "own @ CHR ''/'' # name" and ?n = "length own"
  let ?P = "\<lambda>i. ?l ! i = CHR ''/'' \<and> 0 < i \<and> Suc i < length ?l"
  have split: "[0..<length ?l] = [0..<?n] @ ?n # [Suc ?n..<length ?l]"
  proof -
    have "[0..<length ?l] = [0..<?n] @ [?n..<length ?l]"
      using upt_add_eq_append [of 0 ?n "Suc (length name)"] by simp
    moreover have "[?n..<length ?l] = ?n # [Suc ?n..<length ?l]" by (rule upt_conv_Cons) simp
    ultimately show ?thesis by metis
  qed
  have after: "\<not> ?P i" if "i \<in> set [Suc ?n..<length ?l]" for i
  proof -
    from that obtain k where k: "i = Suc ?n + k" "k < length name" by (auto simp: le_iff_add)
    then have "?l ! i = name ! k" by (simp add: nth_append)
    with k assms(3) show ?thesis by (metis nth_mem)
  qed
  have at: "?P ?n" using assms(1,2) by simp
  from after have "filter ?P (rev [Suc ?n..<length ?l]) = []" by (auto simp: filter_empty_conv)
  with at have "filter ?P (rev [0..<length ?l]) = ?n # filter ?P (rev [0..<?n])"
    unfolding split by simp
  then show ?thesis by (simp add: match_owner_line_def)
qed

lemma match_owner_and_name_line:
  assumes "own \<noteq> []" and "name \<noteq> []" and "CHR ''/'' \<notin> set name" and "CHR 10 \<notin> set own" and "CHR 10 \<notin> set name"
  shows "match_owner_and_name (own @ CHR ''/'' # name) = Some (own, name)"
  using assms match_owner_line_last_slash by (simp add: match_owner_and_name_def)

section \<open>Properties\<close>

text \<open>
  Round trip of tags: for a user, or a group of an identity provider, the text that
  \<^verbatim>\<open>ToJAASTag\<close> prints, with or without resolving UUIDs, is parsed back to the same entity,
  relation included, without touching the database.
\<close>

theorem jaas_tag_roundtrip:
  assumes "ent_Kind e = UserTagKind \<and> \<not> uuid_Parse E (ent_ID e) \<and> IsValidUser E (ent_ID e)
        \<and> names_NewTag E UserTagKind (ent_ID e) = Some (ent_ID e) \<and> ent_ID e \<noteq> EveryoneUser
      \<or> ent_Kind e = IdPGroupTagKind"
    and "ent_ID e \<noteq> ''''" and "CHR ''#'' \<notin> set (ent_ID e)"
    and "list_all is_alpha (ent_Relation e)" and "ent_Relation e \<in> set allRelations"
  shows "\<exists>s. ToJAASTag E j e resolve = go_return s \<and> parseAndValidateTag E j s = go_return e"
proof -
  let ?s = "tag_to_string e (ent_Kind e) (ent_ID e)"
  have kind: "ent_Kind e = UserTagKind \<or> ent_Kind e = IdPGroupTagKind" using assms(1) by blast
  then have alnum: "list_all is_alnum (ent_Kind e)" using kinds_alnum by metis
  have print: "ToJAASTag E j e resolve = go_return ?s" using kind by (auto simp: ToJAASTag_def)
  have uri: "find_uri ?s = Some (ent_Kind e, ent_ID e, ent_Relation e)"
    using alnum assms by (intro find_uri_tag_to_string) (simp add: writable_def)
  have rel: "ParseRelation (ent_Relation e) = Inr (ent_Relation e)" using assms(5) ParseRelation_iff by blast
  obtain k i r where e: "e = \<lparr>ent_Kind = k, ent_ID = i, ent_Relation = r\<rparr>" by (cases e)
  have "resolveTag E (pm_jimmUUID j) (pm_store j) ?s = go_return e"
  proof (cases "k = UserTagKind")
    case True
    then have "\<not> uuid_Parse E i" "IsValidUser E i" "names_NewTag E UserTagKind i = Some i" "i \<noteq> EveryoneUser"
      using assms(1) e by auto
    then show ?thesis using uri rel True e
      by (simp add: resolveTag_def newTagResolver_def userTag_def with_relation_def juju_tag_def new_juju_tag_def
          ConvertTagWithRelation_def ConvertTag_def ConvertGenericTag_def)
  next
    case False
    then have "k = IdPGroupTagKind" "IsValidIdPGroupId i" using kind assms(2,3) e IsValidIdPGroupId_bare by auto
    then show ?thesis using uri rel assms(2) e
      by (simp add: resolveTag_def newTagResolver_def idpGroupTag_def)
  qed
  moreover obtain r where "?s = ent_Kind e @ CHR ''-'' # r" by (simp add: tag_to_string_def)
  ultimately have "parseAndValidateTag E j ?s = go_return e"
    using parse_written_tag [OF alnum, of E j r] by simp
  with print show ?thesis by blast
qed

text \<open>The manager of the in-memory world.\<close>

definition mem_pm :: perm_manager where
  "mem_pm = \<lparr>pm_store = \<lparr>db_configured = True, db_migrated = True, db_handle = MainDB\<rparr>,
     pm_jimmUUID = ''j'', pm_jimmTag = Tag ControllerTagKind ''j''\<rparr>"

theorem jaas_tag_roundtrip_witness:
  "\<exists>s. ToJAASTag mem_externals mem_pm \<lparr>ent_Kind = IdPGroupTagKind, ent_ID = ''ops-team'', ent_Relation = MemberRelation\<rparr> True = go_return s
     \<and> parseAndValidateTag mem_externals mem_pm s =
         go_return \<lparr>ent_Kind = IdPGroupTagKind, ent_ID = ''ops-team'', ent_Relation = MemberRelation\<rparr>"
proof -
  have "list_all is_alpha MemberRelation" by code_simp
  moreover have "MemberRelation \<in> set allRelations" by (simp add: allRelations_def)
  ultimately show ?thesis
    using jaas_tag_roundtrip [of "\<lparr>ent_Kind = IdPGroupTagKind, ent_ID = ''ops-team'', ent_Relation = MemberRelation\<rparr>"]
    by simp
qed

text \<open>
  A model is found again under the tag JIMM prints for it: the text \<^verbatim>\<open>model-owner/name\<close> is
  resolved by a lookup with exactly that owner and that name, for every owner, even one with a
  slash, and every model name without a slash.
\<close>

theorem model_tag_lookup:
  assumes "own \<noteq> ''''" and "name \<noteq> ''''" and "CHR ''/'' \<notin> set name"
    and "CHR 10 \<notin> set (own @ name)" and "CHR ''#'' \<notin> set (own @ name)"
    and "\<not> uuid_Parse E (own @ ''/'' @ name)"
  shows "resolveTag E jimmUUID d (ModelTagKind @ ''-'' @ own @ ''/'' @ name) =
    go_bind (or_err (ErrNew ''model not found'')
       (GetModel E d (empty_model\<lparr>mdl_OwnerIdentityName := own, mdl_Name := name\<rparr>)))
     (\<lambda>model. go_bind (go_some ''invalid tag'' (model_ResourceTag E model)) (\<lambda>tg. go_return (ConvertTagWithRelation tg '''')))"
proof -
  have "find_uri (ModelTagKind @ CHR ''-'' # own @ CHR ''/'' # name) = Some (ModelTagKind, own @ CHR ''/'' # name, '''')"
    using assms(1,5) by (intro find_uri_match match_uri_plain kinds_alnum) auto
  moreover have "match_owner_and_name (own @ CHR ''/'' # name) = Some (own, name)"
    using assms by (intro match_owner_and_name_line) auto
  moreover have "ParseRelation '''' = Inr ''''" by (simp add: ParseRelation_def)
  ultimately show ?thesis using assms(1,6)
    by (simp add: resolveTag_def newTagResolver_def modelTag_def with_relation_def)
qed

theorem model_tag_lookup_witness:
  "resolveTag mem_externals ''j'' (pm_store mem_pm) (ModelTagKind @ ''-'' @ ''a/b@c'' @ ''/'' @ ''prod'') =
    go_bind (or_err (ErrNew ''model not found'')
       (GetModel mem_externals (pm_store mem_pm) (empty_model\<lparr>mdl_OwnerIdentityName := ''a/b@c'', mdl_Name := ''prod''\<rparr>)))
     (\<lambda>model. go_bind (go_some ''invalid tag'' (model_ResourceTag mem_externals model)) (\<lambda>tg. go_return (ConvertTagWithRelation tg '''')))"
  by (rule model_tag_lookup) (simp_all add: mem_defs)

text \<open>
  A group tag that names its group by a UUID which Google's parser accepts but which is not
  written in lower case with dashes makes the request panic: \<^verbatim>\<open>resolveTag\<close> hands the identifier
  to \<^verbatim>\<open>NewGroupTag\<close> unchecked, and likewise for roles.
\<close>

theorem unusual_uuid_panics:
  assumes "uuid_Parse E i" and "i \<noteq> ''''" and "CHR ''#'' \<notin> set i"
    and "\<not> IsValidGroupId i" and "\<not> IsValidRoleId i"
  shows "resolveTag E jimmUUID d (GroupTagKind @ ''-'' @ i) = go_panic ''invalid group tag''
    \<and> resolveTag E jimmUUID d (RoleTagKind @ ''-'' @ i) = go_panic ''invalid role tag''"
proof -
  have "find_uri (GroupTagKind @ CHR ''-'' # i) = Some (GroupTagKind, i, '''')"
    and "find_uri (RoleTagKind @ CHR ''-'' # i) = Some (RoleTagKind, i, '''')"
    using assms(2,3) by (intro find_uri_match match_uri_plain kinds_alnum; simp)+
  moreover have "ParseRelation '''' = Inr ''''" by (simp add: ParseRelation_def)
  ultimately show ?thesis using assms
    by (simp add: resolveTag_def newTagResolver_def groupTag_def roleTag_def with_relation_def
        NewGroupTag_def NewRoleTag_def IsValidGroupId_def IsValidRoleId_def)
qed

theorem unusual_uuid_panics_witness:
  "resolveTag (mem_externals\<lparr>uuid_Parse := (\<lambda>s. length s = 32)\<rparr>) ''j'' (pm_store mem_pm) (GroupTagKind @ ''-'' @ ''0A6B8F5E6F4C4D2B9A513C0F5D7E9B12'')
     = go_panic ''invalid group tag''"
proof -
  have "\<not> IsValidGroupId ''0A6B8F5E6F4C4D2B9A513C0F5D7E9B12''" and "\<not> IsValidRoleId ''0A6B8F5E6F4C4D2B9A513C0F5D7E9B12''"
    by code_simp+
  then show ?thesis
    using unusual_uuid_panics [of "mem_externals\<lparr>uuid_Parse := (\<lambda>s. length s = 32)\<rparr>" "''0A6B8F5E6F4C4D2B9A513C0F5D7E9B12''"]
    by simp
qed

end
