(* ===== verification/Perm_Access.thy ===== *)
theory Perm_Access
  imports Access_Ladder Tag_Resolver
begin

text \<open>
  The file \<^verbatim>\<open>internal/jimm/permissions/access.go\<close>: the translation of Juju's access levels to
  relations and back, what access a user has, and granting and revoking it. Every function of
  the file is here. A map that code fills in is returned with the result; the order in which Go
  ranges over a map is the order of the list that stands for it.
\<close>

section \<open>Access levels\<close>

definition ToOfferAccessString :: "string \<Rightarrow> string" where
  "ToOfferAccessString relation =
     (if relation = AdministratorRelation then AdminAccess
      else if relation = ConsumerRelation then ConsumeAccess
      else if relation = ReaderRelation then ReadAccess else '''')"

definition ToCloudAccessString :: "string \<Rightarrow> string" where
  "ToCloudAccessString relation =
     (if relation = AdministratorRelation then AdminAccess
      else if relation = CanAddModelRelation then AddModelAccess else '''')"

definition ToModelAccessString :: "string \<Rightarrow> string" where
  "ToModelAccessString relation =
     (if relation = AdministratorRelation then AdminAccess
      else if relation = WriterRelation then WriteAccess
      else if relation = ReaderRelation then ReadAccess else '''')"

definition ToControllerAccessString :: "string \<Rightarrow> string" where
  "ToControllerAccessString relation =
     (if relation = AdministratorRelation then SuperuserAccess else LoginAccess)"

definition ToControllerRelation :: "string \<Rightarrow> err + string" where
  "ToControllerRelation accessLevel =
     (if accessLevel = SuperuserAccess then Inr AdministratorRelation
      else Inl (ErrNew ''unknown controller access''))"

definition ToCloudRelation :: "string \<Rightarrow> err + string" where
  "ToCloudRelation accessLevel =
     (if accessLevel = AdminAccess then Inr AdministratorRelation
      else if accessLevel = AddModelAccess then Inr CanAddModelRelation
      else Inl (ErrNew ''unknown cloud access''))"

definition ToModelRelation :: "string \<Rightarrow> err + string" where
  "ToModelRelation accessLevel =
     (if accessLevel = AdminAccess then Inr AdministratorRelation
      else if accessLevel = WriteAccess then Inr WriterRelation
      else if accessLevel = ReadAccess then Inr ReaderRelation
      else Inl (ErrNew ''unknown model access''))"

definition ToOfferRelation :: "string \<Rightarrow> err + string" where
  "ToOfferRelation accessLevel =
     (if accessLevel = '''' then Inr NoRelation
      else if accessLevel = AdminAccess then Inr AdministratorRelation
      else if accessLevel = ConsumeAccess then Inr ConsumerRelation
      else if accessLevel = ReadAccess then Inr ReaderRelation
      else Inl (ErrNew ''unknown application offer access''))"

section \<open>What access a user has\<close>

definition GetUserControllerAccess :: "'w externals \<Rightarrow> perm_manager \<Rightarrow> ofga_user \<Rightarrow> tag \<Rightarrow> ('w, string) io" where
  "GetUserControllerAccess E j user controller =
     go_bind (GetControllerAccess E user controller) (\<lambda>accessLevel. go_return (ToControllerAccessString accessLevel))"

definition GetUserCloudAccess :: "'w externals \<Rightarrow> perm_manager \<Rightarrow> ofga_user \<Rightarrow> tag \<Rightarrow> ('w, string) io" where
  "GetUserCloudAccess E j user cloud =
     go_bind (GetCloudAccess E user cloud) (\<lambda>accessLevel. go_return (ToCloudAccessString accessLevel))"

definition GetUserModelAccess :: "'w externals \<Rightarrow> perm_manager \<Rightarrow> ofga_user \<Rightarrow> tag \<Rightarrow> ('w, string) io" where
  "GetUserModelAccess E j user model =
     go_bind (GetModelAccess E user model) (\<lambda>accessLevel. go_return (ToModelAccessString accessLevel))"

definition GetUserApplicationOfferAccess :: "'w externals \<Rightarrow> perm_manager \<Rightarrow> ofga_user \<Rightarrow> tag \<Rightarrow> ('w, string) io" where
  "GetUserApplicationOfferAccess E j user offer =
     go_bind (GetApplicationOfferAccess E user offer) (\<lambda>accessLevel. go_return (ToOfferAccessString accessLevel))"

definition GetJimmControllerAccess :: "'w externals \<Rightarrow> perm_manager \<Rightarrow> ofga_user \<Rightarrow> tag \<Rightarrow> ('w, string) io" where
  "GetJimmControllerAccess E j user t =
     (if u_Name user = Id t
      then go_return (if u_JimmAdmin user then SuperuserAccess else LoginAccess)
      else if \<not> u_JimmAdmin user then go_err err_unauthorized
      else go_bind (NewUserFromTag E t) (\<lambda>targetUser.
        go_bind (go_maperr (\<lambda>e. ErrFmt ''failed to check access rights: %w'' [] (Some e))
          (IsAdministrator E targetUser (pm_jimmTag j))) (\<lambda>isAdmin.
        go_return (if isAdmin then SuperuserAccess else LoginAccess))))"

section \<open>The audit log\<close>

text \<open>The identity of the user a request is about, fetched or created.\<close>

definition target_user :: "'w externals \<Rightarrow> perm_manager \<Rightarrow> tag \<Rightarrow> ('w, ofga_user) io" where
  "target_user E j ut =
     go_bind (GetIdentity E (pm_store j) (identity_SetTag empty_identity ut)) (\<lambda>i. go_return (NewUser i True))"

definition GrantAuditLogAccess :: "'w externals \<Rightarrow> perm_manager \<Rightarrow> ofga_user \<Rightarrow> tag \<Rightarrow> ('w, unit) io" where
  "GrantAuditLogAccess E j user targetUserTag =
     go_bind (GetControllerAccess E user (pm_jimmTag j)) (\<lambda>access.
     if access \<noteq> AdministratorRelation then go_err err_unauthorized
     else go_bind (target_user E j targetUserTag) (\<lambda>targetUser.
       SetControllerAccess E targetUser (pm_jimmTag j) AuditLogViewerRelation))"

definition RevokeAuditLogAccess :: "'w externals \<Rightarrow> perm_manager \<Rightarrow> ofga_user \<Rightarrow> tag \<Rightarrow> ('w, unit) io" where
  "RevokeAuditLogAccess E j user targetUserTag =
     go_bind (GetControllerAccess E user (pm_jimmTag j)) (\<lambda>access.
     if access \<noteq> AdministratorRelation then go_err err_unauthorized
     else go_bind (target_user E j targetUserTag) (\<lambda>targetUser.
       UnsetAuditLogViewerAccess E targetUser (pm_jimmTag j)))"

section \<open>Clouds\<close>

definition err_access :: "string \<Rightarrow> err" where
  "err_access access = Codef CodeBadRequest (ErrFmt ''failed to recognize given access: %q'' [access] None)"

definition wrapped :: "string \<Rightarrow> err \<Rightarrow> err" where
  "wrapped fmt e = ErrFmt fmt [] (Some e)"

text \<open>The switch in front of the write: is there nothing to grant?\<close>

definition cloud_grant_done :: "string \<Rightarrow> string \<Rightarrow> bool" where
  "cloud_grant_done targetRelation currentRelation =
     (if targetRelation = CanAddModelRelation then currentRelation \<noteq> NoRelation
      else if targetRelation = AdministratorRelation
        then \<not> (currentRelation = NoRelation \<or> currentRelation = CanAddModelRelation)
      else False)"

definition GrantCloudAccess :: "'w externals \<Rightarrow> perm_manager \<Rightarrow> ofga_user \<Rightarrow> tag \<Rightarrow> tag \<Rightarrow> string \<Rightarrow> ('w, unit) io" where
  "GrantCloudAccess E j user ct ut access = (case ToCloudRelation access of
       Inl e \<Rightarrow> go_err (err_access access)
     | Inr targetRelation \<Rightarrow>
         go_bind (IsAdministrator E user ct) (\<lambda>isCloudAdministrator.
         if \<not> isCloudAdministrator then go_err err_unauthorized
         else go_bind (target_user E j ut) (\<lambda>targetOfgaUser.
         go_bind (GetCloudAccess E targetOfgaUser ct) (\<lambda>currentRelation.
         if cloud_grant_done targetRelation currentRelation then go_return ()
         else go_maperr (wrapped ''failed to set cloud access: %w'')
                (SetCloudAccess E targetOfgaUser ct targetRelation)))))"

text \<open>The relations a revocation removes; \<open>None\<close> where there is nothing to do.\<close>

definition cloud_revocation :: "string \<Rightarrow> string \<Rightarrow> string list option" where
  "cloud_revocation targetRelation currentRelation =
     (if targetRelation = CanAddModelRelation then
        (if currentRelation = NoRelation then None else Some [CanAddModelRelation, AdministratorRelation])
      else if targetRelation = AdministratorRelation then
        (if currentRelation = NoRelation \<or> currentRelation = CanAddModelRelation then None
         else Some [AdministratorRelation])
      else Some [])"

definition RevokeCloudAccess :: "'w externals \<Rightarrow> nat \<Rightarrow> perm_manager \<Rightarrow> ofga_user \<Rightarrow> tag \<Rightarrow> tag \<Rightarrow> string \<Rightarrow> ('w, unit) io" where
  "RevokeCloudAccess E fuel j user ct ut access = (case ToCloudRelation access of
       Inl e \<Rightarrow> go_err (err_access access)
     | Inr targetRelation \<Rightarrow>
         go_bind (IsAdministrator E user ct) (\<lambda>isCloudAdministrator.
         if \<not> isCloudAdministrator then go_err err_unauthorized
         else go_bind (target_user E j ut) (\<lambda>targetOfgaUser.
         go_bind (GetCloudAccess E targetOfgaUser ct) (\<lambda>currentRelation.
         case cloud_revocation targetRelation currentRelation of
           None \<Rightarrow> go_return ()
         | Some relationsToRevoke \<Rightarrow>
             go_maperr (wrapped ''failed to unset cloud access: %w'')
               (UnsetCloudAccess E fuel targetOfgaUser ct relationsToRevoke)))))"

section \<open>Models\<close>

definition model_grant_done :: "string \<Rightarrow> string \<Rightarrow> bool" where
  "model_grant_done targetRelation currentRelation =
     (if targetRelation = ReaderRelation then currentRelation \<noteq> NoRelation
      else if targetRelation = WriterRelation
        then \<not> (currentRelation = NoRelation \<or> currentRelation = ReaderRelation)
      else if targetRelation = AdministratorRelation
        then \<not> (currentRelation = NoRelation \<or> currentRelation = ReaderRelation \<or> currentRelation = WriterRelation)
      else False)"

definition GrantModelAccess :: "'w externals \<Rightarrow> perm_manager \<Rightarrow> ofga_user \<Rightarrow> tag \<Rightarrow> tag \<Rightarrow> string \<Rightarrow> ('w, unit) io" where
  "GrantModelAccess E j user mt ut access = (case ToModelRelation access of
       Inl e \<Rightarrow> go_err (err_access access)
     | Inr targetRelation \<Rightarrow>
         go_bind (HasModelRelation E user mt AdministratorRelation) (\<lambda>modelAdmin.
         if \<not> modelAdmin then go_err err_unauthorized
         else go_bind (target_user E j ut) (\<lambda>targetOfgaUser.
         go_bind (GetModelAccess E targetOfgaUser mt) (\<lambda>currentRelation.
         if model_grant_done targetRelation currentRelation then go_return ()
         else go_maperr (wrapped ''failed to set model access: %w'')
                (SetModelAccess E targetOfgaUser mt targetRelation)))))"

text \<open>The relation a revocation leaves behind and the relations it removes.\<close>

definition model_revocation :: "string \<Rightarrow> string \<Rightarrow> (string \<times> string list) option" where
  "model_revocation targetRelation currentRelation =
     (if targetRelation = ReaderRelation then
        (if currentRelation = NoRelation then None
         else Some (NoRelation, [ReaderRelation, WriterRelation, AdministratorRelation]))
      else if targetRelation = WriterRelation then
        (if currentRelation = NoRelation \<or> currentRelation = ReaderRelation then None
         else Some (ReaderRelation, [WriterRelation, AdministratorRelation]))
      else if targetRelation = AdministratorRelation then
        (if currentRelation = NoRelation \<or> currentRelation = ReaderRelation \<or> currentRelation = WriterRelation then None
         else Some (WriterRelation, [AdministratorRelation]))
      else Some (NoRelation, []))"

definition RevokeModelAccess :: "'w externals \<Rightarrow> nat \<Rightarrow> perm_manager \<Rightarrow> ofga_user \<Rightarrow> tag \<Rightarrow> tag \<Rightarrow> string \<Rightarrow> ('w, unit) io" where
  "RevokeModelAccess E fuel j user mt ut access = (case ToModelRelation access of
       Inl e \<Rightarrow> go_err (err_access access)
     | Inr targetRelation \<Rightarrow>
         go_bind (HasModelRelation E user mt AdministratorRelation) (\<lambda>modelAdmin.
         if \<not> modelAdmin then go_err err_unauthorized
         else go_bind (target_user E j ut) (\<lambda>targetOfgaUser.
         go_bind (GetModelAccess E targetOfgaUser mt) (\<lambda>currentRelation.
         case model_revocation targetRelation currentRelation of
           None \<Rightarrow> go_return ()
         | Some (relationToSet, relationsToRevoke) \<Rightarrow>
             go_bind (if relationToSet \<noteq> NoRelation
                then go_maperr (wrapped ''failed to set model access: %w'')
                       (SetModelAccess E targetOfgaUser mt relationToSet)
                else go_return ()) (\<lambda>_.
             go_maperr (wrapped ''failed to unset model access: %w'')
               (UnsetModelAccess E fuel targetOfgaUser mt relationsToRevoke))))))"

section \<open>Application offers\<close>

definition determineAccessLevelAfterGrant :: "string \<Rightarrow> string \<Rightarrow> string" where
  "determineAccessLevelAfterGrant currentAccessLevel grantAccessLevel =
     (if currentAccessLevel = AdminAccess then AdminAccess
      else if currentAccessLevel = ConsumeAccess then
        (if grantAccessLevel = AdminAccess then AdminAccess else ConsumeAccess)
      else if currentAccessLevel = ReadAccess then
        (if grantAccessLevel = AdminAccess then AdminAccess
         else if grantAccessLevel = ConsumeAccess then ConsumeAccess else ReadAccess)
      else grantAccessLevel)"

text \<open>The offer a URL names, and its tag.\<close>

definition offer_by_url :: "'w externals \<Rightarrow> perm_manager \<Rightarrow> string \<Rightarrow> ('w, tag) io" where
  "offer_by_url E j offerURL =
     go_bind (GetApplicationOffer E (pm_store j) (empty_offer\<lparr>ao_URL := offerURL\<rparr>)) (\<lambda>offer.
     go_some ''invalid tag'' (offer_ResourceTag E offer))"

definition GrantOfferAccess :: "'w externals \<Rightarrow> perm_manager \<Rightarrow> ofga_user \<Rightarrow> string \<Rightarrow> tag \<Rightarrow> string \<Rightarrow> ('w, unit) io" where
  "GrantOfferAccess E j user offerURL ut access =
     go_bind (go_sum (NewIdentity E (Id ut))) (\<lambda>identity.
     go_bind (offer_by_url E j offerURL) (\<lambda>ot.
     go_bind (IsAdministrator E user ot) (\<lambda>isOfferAdmin.
     if \<not> isOfferAdmin then go_err err_unauthorized
     else let targetUser = NewUser identity True in
       go_bind (GetApplicationOfferAccess E targetUser ot) (\<lambda>currentRelation.
       let currentAccessLevel = ToOfferAccessString currentRelation;
           targetAccessLevel = determineAccessLevelAfterGrant currentAccessLevel access in
       if targetAccessLevel \<noteq> currentAccessLevel
       then go_bind (go_sum (ToOfferRelation targetAccessLevel)) (\<lambda>relation.
              SetApplicationOfferAccess E targetUser ot relation)
       else go_return ()))))"

definition still_has_access :: "string \<Rightarrow> string \<Rightarrow> bool" where
  "still_has_access targetRelation currentRelation =
     (if targetRelation = AdministratorRelation then currentRelation = AdministratorRelation
      else if targetRelation = ConsumerRelation
        then currentRelation = AdministratorRelation \<or> currentRelation = ConsumerRelation
      else if targetRelation = ReaderRelation
        then currentRelation = AdministratorRelation \<or> currentRelation = ConsumerRelation
          \<or> currentRelation = ReaderRelation
      else False)"

definition err_still_has_access :: err where
  "err_still_has_access =
     ErrNew ''unable to completely revoke given access due to other relations; try to remove them as well''"

definition RevokeOfferAccess :: "'w externals \<Rightarrow> perm_manager \<Rightarrow> ofga_user \<Rightarrow> string \<Rightarrow> tag \<Rightarrow> string \<Rightarrow> ('w, unit) io" where
  "RevokeOfferAccess E j user offerURL ut access =
     go_bind (go_sum (NewIdentity E (Id ut))) (\<lambda>identity.
     go_bind (offer_by_url E j offerURL) (\<lambda>ot.
     go_bind (IsAdministrator E user ot) (\<lambda>isOfferAdmin.
     if \<not> isOfferAdmin then go_err err_unauthorized
     else let targetUser = NewUser identity True in
       go_bind (go_sum (ToOfferRelation access)) (\<lambda>targetRelation.
       go_bind (go_maperr (wrapped ''failed to unset given access: %w'')
          (UnsetApplicationOfferAccess E targetUser ot targetRelation)) (\<lambda>_.
       go_bind (GetApplicationOfferAccess E targetUser ot) (\<lambda>currentRelation.
       if still_has_access targetRelation currentRelation then go_err err_still_has_access
       else go_return ()))))))"

section \<open>Permission checks with a cache\<close>

text \<open>
  A value of the map of desired permissions, the cache (\<open>None\<close> is a nil map, which panics when
  it is written to), and one check.
\<close>

datatype any_val = StrVal string | OtherVal

type_synonym perm_cache = "(string \<Rightarrow> string option) option"

record permission_check =
  pc_key :: string
  pc_value :: string
  pc_tag :: tag
  pc_relation :: string

definition cached :: "perm_cache \<Rightarrow> string \<Rightarrow> string option" where
  "cached m k = (case m of None \<Rightarrow> None | Some f \<Rightarrow> f k)"

text \<open>
  The first loop. \<open>Inl\<close> carries what the function returns at once: the map and the error.
\<close>

fun collect_checks :: "'z libs_scheme \<Rightarrow> perm_cache \<Rightarrow> (string \<times> any_val) list \<Rightarrow> (perm_cache \<times> err) + permission_check list" where
  "collect_checks L cachedPerms [] = Inr []"
| "collect_checks L cachedPerms ((key, val) # rest) =
     (if cached cachedPerms key \<noteq> None then collect_checks L cachedPerms rest
      else case val of
        OtherVal \<Rightarrow> Inl (None, ErrFmt ''failed to get permission assertion: expected %T, got %T'' [] None)
      | StrVal stringVal \<Rightarrow> (case names_ParseTag L key of
          Inl e \<Rightarrow> Inl (cachedPerms, ErrFmt ''failed to parse tag %s'' [key] None)
        | Inr t \<Rightarrow> (case ConvertJujuRelation stringVal of
            Inl e \<Rightarrow> Inl (cachedPerms, ErrFmt ''failed to parse relation %s: %w'' [stringVal] (Some e))
          | Inr relation \<Rightarrow> (case collect_checks L cachedPerms rest of
              Inl r \<Rightarrow> Inl r
            | Inr checks \<Rightarrow> Inr (\<lparr>pc_key = key, pc_value = stringVal, pc_tag = t, pc_relation = relation\<rparr> # checks)))))"

text \<open>\<^verbatim>\<open>strconv.Itoa\<close> for a non-negative number.\<close>

fun itoa :: "nat \<Rightarrow> string" where
  "itoa n = (if n < 10 then [''0123456789'' ! n] else itoa (n div 10) @ [''0123456789'' ! (n mod 10)])"

declare itoa.simps [simp del]

definition permission_batch :: "entity \<Rightarrow> tup list \<Rightarrow> permission_check list \<Rightarrow> tuple_with_id list" where
  "permission_batch u contextualTuples checks =
     map (\<lambda>(i, check).
       (\<lparr>Object = Some u, Relation = pc_relation check, Target = Some (ConvertGenericTag (pc_tag check))\<rparr>,
        itoa i, contextualTuples)) (enumerate 0 checks)"

text \<open>The last loop: the map is filled until a check was not allowed.\<close>

fun fill_cache :: "(string \<Rightarrow> bool option) \<Rightarrow> (nat \<times> permission_check) list \<Rightarrow> perm_cache \<Rightarrow> ('w, perm_cache \<times> err option) io" where
  "fill_cache allowed [] cachedPerms = go_return (cachedPerms, None)"
| "fill_cache allowed ((n, check) # rest) cachedPerms =
     (if allowed (itoa n) \<noteq> Some True
      then go_return (cachedPerms, Some (ErrFmt ''missing permission for %s:%s'' [pc_key check, pc_value check] None))
      else case cachedPerms of
        None \<Rightarrow> go_panic ''assignment to entry in nil map''
      | Some m \<Rightarrow> fill_cache allowed rest (Some (m(pc_key check \<mapsto> pc_value check))))"

text \<open>The errors of calls are returned together with the map.\<close>

definition with_cache :: "perm_cache \<Rightarrow> ('w, 'a) io \<Rightarrow> ('a \<Rightarrow> ('w, perm_cache \<times> err option) io) \<Rightarrow> ('w, perm_cache \<times> err option) io" where
  "with_cache cachedPerms m k =
     go_bind (go_try m) (\<lambda>r. case r of Inl e \<Rightarrow> go_return (cachedPerms, Some e) | Inr x \<Rightarrow> k x)"

definition CheckPermission :: "'w externals \<Rightarrow> perm_manager \<Rightarrow> ofga_user \<Rightarrow> perm_cache \<Rightarrow> (string \<times> any_val) list \<Rightarrow> ('w, perm_cache \<times> err option) io" where
  "CheckPermission E j user cachedPerms desiredPerms =
     (case collect_checks E cachedPerms desiredPerms of
        Inl (m, e) \<Rightarrow> go_return (m, Some e)
      | Inr checks \<Rightarrow>
          if checks = [] then go_return (cachedPerms, None)
          else with_cache cachedPerms (ContextualTuples E user) (\<lambda>contextualTuples.
            go_bind (user_ResourceTag E user) (\<lambda>t.
            with_cache cachedPerms
              (OFGA_BatchCheckRelations E (permission_batch (ConvertTag t) contextualTuples checks)) (\<lambda>allowed.
            fill_cache allowed (enumerate 0 checks) cachedPerms))))"

section \<open>Cleaning up\<close>

text \<open>Does the entity belong to something JIMM no longer has? Other errors do not count.\<close>

definition is_orphaned :: "'w externals \<Rightarrow> perm_manager \<Rightarrow> entity \<Rightarrow> ('w, bool) io" where
  "is_orphaned E j e =
     go_bind (go_try (ToJAASTag E j e True)) (\<lambda>r. case r of
         Inl er \<Rightarrow> go_return (ErrorCode (Some er) = CodeNotFound)
       | Inr _ \<Rightarrow> go_return False)"

definition deref :: "'a option \<Rightarrow> ('w, 'a) io" where
  "deref p = go_some ''nil pointer dereference'' p"

fun orphanedTuples :: "'w externals \<Rightarrow> perm_manager \<Rightarrow> tup list \<Rightarrow> ('w, tup list) io" where
  "orphanedTuples E j [] = go_return []"
| "orphanedTuples E j (x # xs) =
     go_bind (deref (Object x)) (\<lambda>ob.
     go_bind (is_orphaned E j ob) (\<lambda>orphan.
     go_bind (if orphan then go_return True
              else go_bind (deref (Target x)) (is_orphaned E j)) (\<lambda>orphan'.
     go_bind (orphanedTuples E j xs) (\<lambda>rest.
     go_return (if orphan' then x # rest else rest)))))"

text \<open>\<open>cancelled\<close> says after which round the context is done.\<close>

primrec cleanup_loop :: "'w externals \<Rightarrow> nat \<Rightarrow> perm_manager \<Rightarrow> (nat \<Rightarrow> bool) \<Rightarrow> string \<Rightarrow> ('w, unit) io" where
  "cleanup_loop E 0 j cancelled continuationToken = go_nofuel"
| "cleanup_loop E (Suc fuel) j cancelled continuationToken =
     go_bind (OFGA_ReadRelatedObjects E no_tup 20 continuationToken) (\<lambda>(tuples, ct).
     go_bind (orphanedTuples E j tuples) (\<lambda>orphaned.
     go_bind (if orphaned \<noteq> [] then go_bind (go_try (OFGA_RemoveRelation E orphaned)) (\<lambda>_. go_return ())
              else go_return ()) (\<lambda>_.
     if ct = '''' \<or> cancelled fuel then go_return () else cleanup_loop E fuel j cancelled ct)))"

definition OpenFGACleanup :: "'w externals \<Rightarrow> nat \<Rightarrow> perm_manager \<Rightarrow> (nat \<Rightarrow> bool) \<Rightarrow> ('w, unit) io" where
  "OpenFGACleanup E fuel j cancelled = cleanup_loop E fuel j cancelled ''''"

section \<open>Facts\<close>

text \<open>
  What a successful grant promises, for any kind of resource: the caller administers the
  resource, the target user has the relation afterwards, nothing was taken away, and nothing
  but that one relation of that one user may be new.
\<close>

definition granted :: "'w externals \<Rightarrow> ('w \<Rightarrow> tup set) \<Rightarrow> ofga_user \<Rightarrow> tag option \<Rightarrow> string \<Rightarrow> tag \<Rightarrow> 'w \<Rightarrow> 'w \<Rightarrow> bool" where
  "granted E store user target r res w w' \<longleftrightarrow>
     (\<exists>c t. user_tag E user = Some c \<and> can (store w) user c AdministratorRelation res \<and> target = Some t
        \<and> holds (store w') (ConvertTag t) r (ConvertTag res)
        \<and> store w \<subseteq> store w' \<and> store w' \<subseteq> insert (tag_tup t r res) (store w))"

text \<open>
  What a successful revocation of level \<open>r\<close> promises: the caller administers the resource, the
  target user has no direct relation of level \<open>r\<close> or above left, every tuple that is not a
  direct relation of that user to that resource is as it was, and none was added except the
  direct relations \<open>low\<close>, which a user who had level \<open>r\<close> is left with.
\<close>

definition revoked :: "'w externals \<Rightarrow> ('w \<Rightarrow> tup set) \<Rightarrow> ofga_user \<Rightarrow> tag option \<Rightarrow> string list \<Rightarrow> string \<Rightarrow> tag \<Rightarrow> string list \<Rightarrow> 'w \<Rightarrow> 'w \<Rightarrow> bool" where
  "revoked E store user target levels r res low w w' \<longleftrightarrow>
     (\<exists>c t. user_tag E user = Some c \<and> can (store w) user c AdministratorRelation res \<and> target = Some t
        \<and> (\<forall>r'. at_least levels r' r \<longrightarrow> tag_tup t r' res \<notin> store w')
        \<and> store w - direct_tuples t levels res \<subseteq> store w' \<and> store w' \<subseteq> store w \<union> direct_tuples t low res
        \<and> (holds (store w) (ConvertTag t) r (ConvertTag res) \<longrightarrow> direct_tuples t low res \<subseteq> store w'))"

context openfga_service
begin

lemma grant_tail:
  assumes run: "go_bind (access_of (checkRelation E tu res) levels) (\<lambda>cur. if done cur then go_return ()
      else go_maperr h (set_user_access E tu res r)) w = (Ok x, w')"
    and ladder: "access_ladder (Kind res) levels" and r: "r \<in> set levels" and idp: "\<And>t. idp_tuples t tu = []"
    and done_enough: "\<And>cur. cur \<in> insert NoRelation (set levels) \<Longrightarrow> done cur \<Longrightarrow> at_least levels cur r"
  obtains t where "user_tag E tu = Some t" and "holds (store w') (ConvertTag t) r (ConvertTag res)"
    and "store w \<subseteq> store w'" and "store w' \<subseteq> insert (tag_tup t r res) (store w)"
proof -
  from run obtain cur w1 where cur: "access_of (checkRelation E tu res) levels w = (Ok cur, w1)"
    and rest: "(if done cur then go_return () else go_maperr h (set_user_access E tu res r)) w1 = (Ok x, w')"
    by (elim go_bind_OkE)
  have same: "store w1 = store w" using frameD [OF access_of_frame cur] .
  show ?thesis
  proof (cases "done cur")
    case True
    then have w': "store w' = store w" using rest same by simp
    have mem: "cur \<in> insert NoRelation (set levels)" using access_of_ok [OF cur] nth_mem by (metis insertCI)
    with True done_enough have al: "at_least levels cur r" by blast
    then have "cur \<noteq> NoRelation" using access_ladder.levels_no_relation [OF ladder] at_least_mem by blast
    from access_of_ok [OF cur this] obtain t where t: "user_tag E tu = Some t" "can (store w) tu t cur res"
      by metis
    then have "holds (store w) (ConvertTag t) r (ConvertTag res)"
      using access_ladder.holds_at_least [OF ladder _ _ al] idp by (simp add: can_def)
    then show ?thesis using that [OF t(1)] w' by auto
  next
    case False
    then have "set_user_access E tu res r w1 = (Ok x, w')" using rest by simp
    then obtain t where t: "user_tag E tu = Some t" "store w' = insert (tag_tup t r res) (store w)"
      using same by (auto elim: set_user_access_ok)
    then have "holds (store w') (ConvertTag t) r (ConvertTag res)"
      using access_ladder.direct_tag_gives [OF ladder, of t r res] at_least_refl [OF r] user_tag_kind [OF t(1)]
      by auto
    then show ?thesis using that [OF t(1)] t(2) by auto
  qed
qed

lemma access_of_mem:
  "access_of (checkRelation E u res) levels w = (Ok cur, w') \<Longrightarrow> cur \<in> insert NoRelation (set levels)"
  using access_of_ok nth_mem by (metis insertCI)

text \<open>With reliable checks the returned level stands above every level the user has.\<close>

lemma access_of_strongest:
  assumes "access_of (checkRelation E u res) levels w = (Ok cur, w')" and "checks_reliable E"
    and "user_tag E u = Some t" and "\<not> bad_groups u" and "u_client u" and "NoRelation \<notin> set levels"
    and "at_least levels a b" and "can (store w) u t a res"
  shows "at_least levels cur b"
proof (cases "cur = NoRelation")
  case True
  then show ?thesis using access_of_none [OF assms(1) [unfolded True] assms(2-6)] assms(7,8) at_least_mem by blast
next
  case False
  from access_of_ok [OF assms(1) False] assms(3) obtain i where i: "i < length levels" "levels ! i = cur"
    "\<And>k. k < i \<Longrightarrow> \<not> can (store w) u t (levels ! k) res" by (metis option.inject)
  from assms(7) obtain m n where mn: "m \<le> n" "n < length levels" "levels ! m = a" "levels ! n = b"
    by (auto simp: at_least_def)
  have "i \<le> m" using i(3) [of m] mn assms(8) by (meson not_le)
  then show ?thesis unfolding at_least_def using i mn by (metis le_trans)
qed

lemma revoke_tail:
  assumes run: "go_bind (access_of (checkRelation E tu res) levels) (\<lambda>cur. case plan cur of None \<Rightarrow> go_return ()
      | Some (low, rs) \<Rightarrow> go_bind (if low \<noteq> NoRelation then go_maperr h (set_user_access E tu res low) else go_return ())
          (\<lambda>_. go_maperr h' (unsetMultipleResourceAccesses E fuel tu res rs n))) w = (Ok x, w')"
    and ladder: "access_ladder (Kind res) levels" and rel: "checks_reliable E"
    and tu: "u_client tu" "\<not> bad_groups tu" "\<And>t. idp_tuples t tu = []" and t: "user_tag E tu = Some t"
    and plan: "\<And>cur. cur \<in> insert NoRelation (set levels) \<Longrightarrow>
      plan cur = (if at_least levels cur r then Some (low, rs) else None)"
    and r: "r \<in> set levels" and rs: "set rs = {r'. at_least levels r' r}" and low: "\<not> at_least levels low r"
  shows "(\<forall>r'. at_least levels r' r \<longrightarrow> tag_tup t r' res \<notin> store w')
    \<and> store w - direct_tuples t levels res \<subseteq> store w'
    \<and> store w' \<subseteq> store w \<union> direct_tuples t (filter (\<lambda>l. l \<noteq> NoRelation) [low]) res
    \<and> (holds (store w) (ConvertTag t) r (ConvertTag res) \<longrightarrow>
        direct_tuples t (filter (\<lambda>l. l \<noteq> NoRelation) [low]) res \<subseteq> store w')"
proof -
  from run obtain cur w1 where cur: "access_of (checkRelation E tu res) levels w = (Ok cur, w1)"
    and rest: "(case plan cur of None \<Rightarrow> go_return ()
      | Some (low, rs) \<Rightarrow> go_bind (if low \<noteq> NoRelation then go_maperr h (set_user_access E tu res low) else go_return ())
          (\<lambda>_. go_maperr h' (unsetMultipleResourceAccesses E fuel tu res rs n))) w1 = (Ok x, w')"
    by (rule go_bind_OkE)
  note strongest = access_of_strongest [OF cur rel t tu(2,1) access_ladder.levels_no_relation [OF ladder]]
  have same: "store w1 = store w" using frameD [OF access_of_frame cur] .
  have tk: "Kind t = UserTagKind" using user_tag_kind [OF t] .
  show ?thesis
  proof (cases "at_least levels cur r")
    case False
    then have w': "store w' = store w" using rest plan [OF access_of_mem [OF cur]] same by simp
    have "tag_tup t r' res \<notin> store w" if "at_least levels r' r" for r'
    proof
      assume "tag_tup t r' res \<in> store w"
      then have "can (store w) tu t r' res"
        using access_ladder.direct_tag_gives [OF ladder _ tk] at_least_refl at_least_mem [OF that] tu(3)
        by (auto simp: can_def)
      with strongest [OF that] False show False by blast
    qed
    moreover have "\<not> holds (store w) (ConvertTag t) r (ConvertTag res)"
      using strongest [OF at_least_refl [OF r]] False tu(3) by (auto simp: can_def)
    ultimately show ?thesis using w' by auto
  next
    case True
    then have "plan cur = Some (low, rs)" using plan [OF access_of_mem [OF cur]] by simp
    with rest obtain w2 y where set: "(if low \<noteq> NoRelation then go_maperr h (set_user_access E tu res low) else go_return ()) w1 = (Ok y, w2)"
      and unset: "unsetMultipleResourceAccesses E fuel tu res rs n w2 = (Ok x, w')"
      by (auto elim: go_bind_OkE)
    have w2: "store w2 = store w \<union> direct_tuples t (filter (\<lambda>l. l \<noteq> NoRelation) [low]) res"
      using set same t by (auto simp: direct_tuples_def elim!: set_user_access_ok split: if_splits)
    have w': "store w' = store w2 - direct_tuples t rs res" using unset t by (auto elim: unsetMultiple_ok)
    have inj: "tag_tup t a res = tag_tup t b res \<longleftrightarrow> a = b" for a b by (simp add: tag_tup_def mk_tup_def)
    show ?thesis using w2 w' rs low at_least_mem inj by (auto simp: direct_tuples_def)
  qed
qed

lemma admin_check_ok:
  assumes "checkRelation E user res AdministratorRelation w = (Ok True, w1)"
  obtains c where "user_tag E user = Some c" and "can (store w) user c AdministratorRelation res"
    and "store w1 = store w"
  using assms by (auto elim: checkRelation_ok)

end

context jimm_services
begin

lemma target_user_frame [frame_intros]: "frame store (target_user E j ut)"
  unfolding target_user_def by (intro frame_intros)

lemma target_user_ok:
  assumes "target_user E j ut w = (Ok tu, w')"
  shows "store w' = store w" and "u_client tu" and "\<not> bad_groups tu" and "idp_tuples t tu = []"
    and "user_tag E tu = new_juju_tag E UserTagKind (Id ut)"
proof -
  from assms obtain i where i: "GetIdentity E (pm_store j) (identity_SetTag empty_identity ut) w = (Ok i, w')"
    and tu: "tu = NewUser i True"
    by (auto simp: target_user_def elim: go_bind_OkE)
  show "store w' = store w" using GetIdentity_ok(2) [OF i] .
  show "u_client tu" "\<not> bad_groups tu" "idp_tuples t tu = []"
    by (simp_all add: tu bad_groups_def)
  show "user_tag E tu = new_juju_tag E UserTagKind (Id ut)"
    using GetIdentity_ok(1) [OF i] by (simp add: tu identity_ResourceTag_def identity_SetTag_def)
qed

text \<open>The part the two grants by tag share.\<close>

lemma grant_by_admin:
  assumes run: "go_bind (checkRelation E user res AdministratorRelation) (\<lambda>admin.
      if \<not> admin then go_err err_unauthorized
      else go_bind (target_user E j ut) (\<lambda>tu.
        go_bind (access_of (checkRelation E tu res) levels) (\<lambda>cur. if done cur then go_return ()
          else go_maperr h (set_user_access E tu res r)))) w = (Ok x, w')"
    and ladder: "access_ladder (Kind res) levels" and r: "r \<in> set levels"
    and done_enough: "\<And>cur. cur \<in> insert NoRelation (set levels) \<Longrightarrow> done cur \<Longrightarrow> at_least levels cur r"
  shows "granted E store user (new_juju_tag E UserTagKind (Id ut)) r res w w'"
proof -
  from run obtain w1 where adm: "checkRelation E user res AdministratorRelation w = (Ok True, w1)"
    and rest: "go_bind (target_user E j ut) (\<lambda>tu. go_bind (access_of (checkRelation E tu res) levels)
      (\<lambda>cur. if done cur then go_return () else go_maperr h (set_user_access E tu res r))) w1 = (Ok x, w')"
    by (rule go_guard_OkE)
  from rest obtain tu w2 where tu: "target_user E j ut w1 = (Ok tu, w2)"
    and tail: "go_bind (access_of (checkRelation E tu res) levels) (\<lambda>cur. if done cur then go_return ()
          else go_maperr h (set_user_access E tu res r)) w2 = (Ok x, w')"
    by (rule go_bind_OkE)
  from adm obtain c where c: "user_tag E user = Some c" "can (store w) user c AdministratorRelation res"
    "store w1 = store w" by (rule admin_check_ok)
  have same: "store w2 = store w" using target_user_ok(1) [OF tu] c(3) by simp
  from grant_tail [OF tail ladder r target_user_ok(4) [OF tu] done_enough] obtain t
    where "user_tag E tu = Some t" "holds (store w') (ConvertTag t) r (ConvertTag res)"
      "store w2 \<subseteq> store w'" "store w' \<subseteq> insert (tag_tup t r res) (store w2)" .
  then show ?thesis using c same target_user_ok(5) [OF tu] by (auto simp: granted_def)
qed

lemma revoke_by_admin:
  assumes run: "go_bind (checkRelation E user res AdministratorRelation) (\<lambda>admin.
      if \<not> admin then go_err err_unauthorized
      else go_bind (target_user E j ut) (\<lambda>tu.
        go_bind (access_of (checkRelation E tu res) levels) (\<lambda>cur. case plan cur of None \<Rightarrow> go_return ()
        | Some (low, rs) \<Rightarrow> go_bind (if low \<noteq> NoRelation then go_maperr h (set_user_access E tu res low) else go_return ())
          (\<lambda>_. go_maperr h' (unsetMultipleResourceAccesses E fuel tu res rs n))))) w = (Ok x, w')"
    and t: "new_juju_tag E UserTagKind (Id ut) = Some t"
    and ladder: "access_ladder (Kind res) levels" and rel: "checks_reliable E"
    and plan: "\<And>cur. cur \<in> insert NoRelation (set levels) \<Longrightarrow>
      plan cur = (if at_least levels cur r then Some (low, rs) else None)"
    and r: "r \<in> set levels" and rs: "set rs = {r'. at_least levels r' r}" and low: "\<not> at_least levels low r"
  shows "revoked E store user (Some t) levels r res (filter (\<lambda>l. l \<noteq> NoRelation) [low]) w w'"
proof -
  from run obtain w1 where adm: "checkRelation E user res AdministratorRelation w = (Ok True, w1)"
    and rest: "go_bind (target_user E j ut) (\<lambda>tu.
        go_bind (access_of (checkRelation E tu res) levels) (\<lambda>cur. case plan cur of None \<Rightarrow> go_return ()
        | Some (low, rs) \<Rightarrow> go_bind (if low \<noteq> NoRelation then go_maperr h (set_user_access E tu res low) else go_return ())
          (\<lambda>_. go_maperr h' (unsetMultipleResourceAccesses E fuel tu res rs n)))) w1 = (Ok x, w')"
    by (rule go_guard_OkE)
  from rest obtain tu w2 where tu: "target_user E j ut w1 = (Ok tu, w2)"
    and tail: "go_bind (access_of (checkRelation E tu res) levels) (\<lambda>cur. case plan cur of None \<Rightarrow> go_return ()
        | Some (low, rs) \<Rightarrow> go_bind (if low \<noteq> NoRelation then go_maperr h (set_user_access E tu res low) else go_return ())
          (\<lambda>_. go_maperr h' (unsetMultipleResourceAccesses E fuel tu res rs n))) w2 = (Ok x, w')"
    by (rule go_bind_OkE)
  from adm obtain c where c: "user_tag E user = Some c" "can (store w) user c AdministratorRelation res"
    "store w1 = store w" by (rule admin_check_ok)
  have same: "store w2 = store w" using target_user_ok(1) [OF tu] c(3) by simp
  have "user_tag E tu = Some t" using target_user_ok(5) [OF tu] t by simp
  note revoke_tail [OF tail ladder rel target_user_ok(2-4) [OF tu] this plan r rs low, unfolded same]
  then show ?thesis unfolding revoked_def using c(1,2) by blast
qed

lemma offer_by_url_frame [frame_intros]: "frame store (offer_by_url E j url)"
  unfolding offer_by_url_def by (intro frame_intros)

lemma offer_by_url_kind: "offer_by_url E j url w = (Ok ot, w') \<Longrightarrow> Kind ot = ApplicationOfferTagKind"
  by (auto simp: offer_by_url_def offer_ResourceTag_def new_juju_tag_def elim!: go_bind_OkE go_some_OkE)

end

section \<open>Properties\<close>

lemma model_relation_levels: "ToModelRelation access = Inr r \<Longrightarrow> r \<in> set model_levels"
  by (auto simp: ToModelRelation_def model_levels_def split: if_splits)

lemma cloud_relation_levels: "ToCloudRelation access = Inr r \<Longrightarrow> r \<in> set cloud_levels"
  by (auto simp: ToCloudRelation_def cloud_levels_def split: if_splits)

lemma model_grant_done_enough:
  "r \<in> set model_levels \<Longrightarrow> cur \<in> insert NoRelation (set model_levels) \<Longrightarrow> model_grant_done r cur \<Longrightarrow> at_least model_levels cur r"
  by (auto simp: at_least_model model_grant_done_def) (auto simp: model_levels_def)

lemma cloud_grant_done_enough:
  "r \<in> set cloud_levels \<Longrightarrow> cur \<in> insert NoRelation (set cloud_levels) \<Longrightarrow> cloud_grant_done r cur \<Longrightarrow> at_least cloud_levels cur r"
  by (auto simp: at_least_cloud cloud_grant_done_def) (auto simp: cloud_levels_def)

lemmas grant_defs = GrantModelAccess_def GrantCloudAccess_def RevokeModelAccess_def RevokeCloudAccess_def
  check_defs get_access_is_access_of set_access_defs


text \<open>A world in which alice administers one resource.\<close>

definition mem_admin_of :: "tag \<Rightarrow> tup list" where
  "mem_admin_of res = [tag_tup (Tag UserTagKind ''alice'') AdministratorRelation res]"

lemma mem_target_user: "n \<noteq> '''' \<Longrightarrow> target_user mem_externals mem_pm (Tag UserTagKind n) w = (Ok (mem_user n), w)"
  by (simp add: target_user_def GetIdentity_def identity_SetTag_def ready_def mem_pm_def mem_user_def no_table_simps)

lemma mem_check:
  "checkRelation mem_externals (mem_user n) res r w =
     (Ok (holds (mem_store w) (ConvertTag (Tag UserTagKind n)) r (ConvertTag res)), w)"
  by (simp add: checkRelation_def ContextualTuples_good user_ResourceTag_def with_client_def OFGA_CheckRelation_def
      check_holds_def)

lemma mem_alice_admin:
  assumes "access_ladder (Kind res) levels"
  shows "holds (mem_store (mem_admin_of res)) (ConvertTag (Tag UserTagKind ''alice'')) AdministratorRelation (ConvertTag res)"
proof -
  have "AdministratorRelation \<in> set levels"
    using access_ladder.levels_top [OF assms] by (metis hd_in_set)
  then show ?thesis
    by (intro access_ladder.direct_tag_gives [OF assms, of _ AdministratorRelation]) (simp_all add: mem_admin_of_def at_least_refl)
qed

text \<open>Nobody but alice has anything in that world.\<close>

lemma mem_others_nothing:
  assumes "access_ladder (Kind res) levels" and "n \<noteq> ''alice''" and "r \<in> set levels"
  shows "\<not> holds (mem_store (mem_admin_of res)) (ConvertTag (Tag UserTagKind n)) r (ConvertTag res)"
proof
  assume h: "holds (mem_store (mem_admin_of res)) (ConvertTag (Tag UserTagKind n)) r (ConvertTag res)"
  have "direct_only (mem_store (mem_admin_of res)) (ConvertTag res)"
    by (simp add: direct_only_def mem_admin_of_def)
      (simp add: tag_tup_def mk_tup_def is_user_def ent_ID_ConvertTag EveryoneUser_def)
  from access_ladder.level_only_direct [OF assms(1) h _ assms(3) this]
  obtain r' where "tag_tup (Tag UserTagKind n) r' res = tag_tup (Tag UserTagKind ''alice'') AdministratorRelation res"
    by (auto simp: mem_admin_of_def tag_tup_def [of "Tag UserTagKind n", symmetric])
  then have "ent_ID (ConvertTag (Tag UserTagKind n)) = ent_ID (ConvertTag (Tag UserTagKind ''alice''))"
    by (simp add: tag_tup_def mk_tup_def)
  with assms(2) show False by (simp add: ent_ID_ConvertTag EveryoneUser_def split: if_splits)
qed

lemma access_of_False:
  assumes "\<And>l. l \<in> set levels \<Longrightarrow> check l w = (Ok False, w)"
  shows "access_of check levels w = (Ok NoRelation, w)"
  using assms by (induction levels) (simp_all add: first_relation_def go_bind_def go_try_def go_simps)


text \<open>
  Granting access to a cloud keeps the same promises as granting access to a model.
\<close>

theorem grant_cloud_access:
  assumes "jimm_services E store remaining" and "Kind ct = CloudTagKind"
    and "GrantCloudAccess E j user ct ut access w = (q, w')"
  shows "(q = Ok () \<longrightarrow> (\<exists>r. ToCloudRelation access = Inr r
        \<and> granted E store user (new_juju_tag E UserTagKind (Id ut)) r ct w w'))
    \<and> (q \<noteq> Ok () \<longrightarrow> store w' = store w)
    \<and> (checkRelation E user ct AdministratorRelation w = (Ok False, w1) \<and> ToCloudRelation access = Inr r
        \<longrightarrow> q = Err err_unauthorized)"
proof -
  note js = assms(1)
  note os = jimm_services.axioms(1) [OF js]
  have at: "atomic store (GrantCloudAccess E j user ct ut access)"
    unfolding grant_defs
    by (intro atomic_intros jimm_services.target_user_frame [OF js] openfga_service.checkRelation_frame [OF os]
        openfga_service.access_of_frame [OF os] openfga_service.set_user_access_atomic [OF os])
  have ok: "\<exists>r. ToCloudRelation access = Inr r \<and> granted E store user (new_juju_tag E UserTagKind (Id ut)) r ct w w'"
    if "q = Ok ()"
  proof (cases "ToCloudRelation access")
    case (Inr r)
    note r = cloud_relation_levels [OF Inr]
    have "access_ladder (Kind ct) cloud_levels" using cloud_access.access_ladder_axioms assms(2) by simp
    from jimm_services.grant_by_admin [OF js assms(3) [unfolded that grant_defs Inr sum.case] this r
        cloud_grant_done_enough [OF r]] Inr
    show ?thesis by blast
  qed (use that assms(3) in \<open>simp add: GrantCloudAccess_def\<close>)
  have "q = Err err_unauthorized"
    if "checkRelation E user ct AdministratorRelation w = (Ok False, w1)" "ToCloudRelation access = Inr r"
    using that assms(3) by (simp add: grant_defs go_bind_def go_simps)
  with ok atomic_unitD [OF at assms(3)] show ?thesis by blast
qed

theorem grant_cloud_access_witness:
  "GrantCloudAccess mem_externals mem_pm (mem_user ''bob'') (Tag CloudTagKind ''aws'') (Tag UserTagKind ''bob'') ''admin''
     (mem_admin_of (Tag CloudTagKind ''aws'')) = (Err err_unauthorized, mem_admin_of (Tag CloudTagKind ''aws''))"
proof -
  let ?c = "Tag CloudTagKind ''aws''" and ?b = "Tag UserTagKind ''bob''"
  let ?w = "mem_admin_of ?c"
  have lad: "access_ladder (Kind ?c) cloud_levels" using cloud_access.access_ladder_axioms by simp
  have r: "ToCloudRelation ''admin'' = Inr AdministratorRelation" by code_simp
  have no: "checkRelation mem_externals (mem_user ''bob'') ?c AdministratorRelation ?w = (Ok False, ?w)"
    by (simp add: mem_check mem_others_nothing [OF lad] cloud_levels_def)
  obtain q w' where run: "GrantCloudAccess mem_externals mem_pm (mem_user ''bob'') ?c ?b ''admin'' ?w = (q, w')" by fastforce
  moreover have "w' = ?w" using run r no by (simp add: GrantCloudAccess_def IsAdministrator_def go_bind_def go_simps)
  ultimately show ?thesis using grant_cloud_access [OF memj.jimm_services_axioms _ run] no r by auto
qed

end
