(* ===== verification/Access_Properties.thy ===== *)
theory Access_Properties
  imports Perm_Access
begin

text \<open>
  The properties of \<^verbatim>\<open>internal/jimm/permissions/access.go\<close> beyond granting: the access level
  strings, revocation, application offers, the audit log, and the permission check behind the
  login tokens.
\<close>

section \<open>Access level strings\<close>

text \<open>
  Access levels round trip: the level strings of models, clouds and application offers and
  the relations they stand for translate into each other without loss, every accepted string
  comes back unchanged, and the same holds for the one level of controllers that can be named.
\<close>

theorem access_strings_roundtrip:
  "(ToModelRelation a = Inr r \<longleftrightarrow> r \<in> set model_levels \<and> ToModelAccessString r = a)
   \<and> (ToCloudRelation a = Inr r \<longleftrightarrow> r \<in> set cloud_levels \<and> ToCloudAccessString r = a)
   \<and> (ToOfferRelation a = Inr r \<longleftrightarrow> r \<in> insert NoRelation (set offer_levels) \<and> ToOfferAccessString r = a)
   \<and> (ToControllerRelation a = Inr r \<longleftrightarrow> r \<in> set controller_levels \<and> ToControllerAccessString r = a)"
proof -
  have "AdminAccess \<noteq> ''''" "ConsumeAccess \<noteq> ''''" "ReadAccess \<noteq> ''''" "WriteAccess \<noteq> ''''" "AddModelAccess \<noteq> ''''"
    by (simp_all add: access_defs)
  then show ?thesis
    by (auto simp: ToModelRelation_def ToCloudRelation_def ToOfferRelation_def ToControllerRelation_def
        ToModelAccessString_def ToCloudAccessString_def ToOfferAccessString_def ToControllerAccessString_def
        levels_defs split: if_splits)
qed

section \<open>Revoking\<close>

definition model_left :: "string \<Rightarrow> string" where
  "model_left r = (if r = AdministratorRelation then WriterRelation
     else if r = WriterRelation then ReaderRelation else NoRelation)"

lemma model_revocation_plan:
  assumes "r \<in> set model_levels"
  shows "\<exists>rs. set rs = {r'. at_least model_levels r' r} \<and> (\<forall>cur\<in>insert NoRelation (set model_levels).
    model_revocation r cur = (if at_least model_levels cur r then Some (model_left r, rs) else None))"
proof -
  from assms consider "r = AdministratorRelation" | "r = WriterRelation" | "r = ReaderRelation"
    by (auto simp: model_levels_def)
  then show ?thesis
  proof cases
    case 1
    then show ?thesis
      by (intro exI [of _ "[AdministratorRelation]"])
        (auto simp: model_revocation_def at_least_model model_left_def, auto simp: model_levels_def)
  next
    case 2
    then show ?thesis
      by (intro exI [of _ "[WriterRelation, AdministratorRelation]"])
        (auto simp: model_revocation_def at_least_model model_left_def, auto simp: model_levels_def)
  next
    case 3
    then show ?thesis
      by (intro exI [of _ "[ReaderRelation, WriterRelation, AdministratorRelation]"])
        (auto simp: model_revocation_def at_least_model model_left_def, auto simp: model_levels_def)
  qed
qed


lemma mem_unset_ok:
  "\<exists>w'. unsetMultipleResourceAccesses mem_externals (Suc k) (mem_user n) res rs m w = (Ok (), w')"
  by (simp add: unsetMultipleResourceAccesses_def user_ResourceTag_def with_client_def OFGA_RemoveRelation_def
      go_bind_def go_maperr_def go_simps Let_def)

lemma mem_set_ok:
  "\<exists>w'. set_user_access mem_externals (mem_user n) res r w = (Ok (), w')"
  by (simp add: set_user_access_def user_ResourceTag_def with_client_def setResourceAccess_def OFGA_AddRelation_def
      mem_add_def go_bind_def go_try_def go_simps)


lemma cloud_revocation_plan:
  assumes "r \<in> set cloud_levels"
  shows "\<exists>rs. set rs = {r'. at_least cloud_levels r' r} \<and> (\<forall>cur\<in>insert NoRelation (set cloud_levels).
    map_option (Pair NoRelation) (cloud_revocation r cur) = (if at_least cloud_levels cur r then Some (NoRelation, rs) else None))"
proof -
  from assms consider "r = AdministratorRelation" | "r = CanAddModelRelation" by (auto simp: cloud_levels_def)
  then show ?thesis
  proof cases
    case 1
    then show ?thesis
      by (intro exI [of _ "[AdministratorRelation]"])
        (auto simp: cloud_revocation_def at_least_cloud, auto simp: cloud_levels_def)
  next
    case 2
    then show ?thesis
      by (intro exI [of _ "[CanAddModelRelation, AdministratorRelation]"])
        (auto simp: cloud_revocation_def at_least_cloud, auto simp: cloud_levels_def)
  qed
qed

lemma cloud_revoke_shape:
  "(case cloud_revocation r cur of None \<Rightarrow> go_return ()
      | Some rs \<Rightarrow> go_maperr h' (unsetMultipleResourceAccesses E fuel tu ct rs n)) =
   (case map_option (Pair NoRelation) (cloud_revocation r cur) of None \<Rightarrow> go_return ()
    | Some (low, rs) \<Rightarrow> go_bind (if low \<noteq> NoRelation then go_maperr (\<lambda>e. e) (set_user_access E tu ct low) else go_return ())
        (\<lambda>_. go_maperr h' (unsetMultipleResourceAccesses E fuel tu ct rs n)))"
  by (simp split: option.split)

text \<open>
  Revoking access to a cloud, when no check of OpenFGA fails, keeps the corresponding
  promises: only an administrator of the cloud succeeds, no direct relation of the revoked level
  or above is left to the target user, no tuple is added, and every other tuple is untouched.
\<close>

theorem revoke_cloud_access:
  assumes "jimm_services E store remaining" and "Kind ct = CloudTagKind" and "checks_reliable E"
    and "new_juju_tag E UserTagKind (Id ut) = Some t"
    and "RevokeCloudAccess E fuel j user ct ut access w = (Ok (), w')"
  shows "\<exists>r. ToCloudRelation access = Inr r \<and> revoked E store user (Some t) cloud_levels r ct [] w w'"
proof (cases "ToCloudRelation access")
  case (Inr r)
  note r = cloud_relation_levels [OF Inr]
  from cloud_revocation_plan [OF r] obtain rs where rs: "set rs = {r'. at_least cloud_levels r' r}"
    and plan: "\<And>cur. cur \<in> insert NoRelation (set cloud_levels) \<Longrightarrow> map_option (Pair NoRelation) (cloud_revocation r cur)
      = (if at_least cloud_levels cur r then Some (NoRelation, rs) else None)"
    by blast
  have lad: "access_ladder (Kind ct) cloud_levels" using cloud_access.access_ladder_axioms assms(2) by simp
  have low: "\<not> at_least cloud_levels NoRelation r" using cloud_access.levels_no_relation at_least_mem by blast
  note run = assms(5) [unfolded grant_defs Inr sum.case cloud_revoke_shape]
  from jimm_services.revoke_by_admin [OF assms(1) run assms(4) lad assms(3) plan r rs low] Inr
  show ?thesis by simp
qed (use assms(5) in \<open>simp add: RevokeCloudAccess_def\<close>)

theorem revoke_cloud_access_witness:
  "\<exists>w'. RevokeCloudAccess mem_externals 1 mem_pm (mem_user ''alice'') (Tag CloudTagKind ''aws'') (Tag UserTagKind ''alice'') ''add-model''
       (mem_admin_of (Tag CloudTagKind ''aws'')) = (Ok (), w')
     \<and> tag_tup (Tag UserTagKind ''alice'') AdministratorRelation (Tag CloudTagKind ''aws'') \<notin> mem_store w'"
proof -
  let ?c = "Tag CloudTagKind ''aws''" and ?a = "Tag UserTagKind ''alice''"
  let ?w = "mem_admin_of ?c"
  have lad: "access_ladder (Kind ?c) cloud_levels" using cloud_access.access_ladder_axioms by simp
  note adm = mem_alice_admin [OF lad]
  have r: "ToCloudRelation ''add-model'' = Inr CanAddModelRelation" by code_simp
  have cur: "access_of (checkRelation mem_externals (mem_user ''alice'') ?c) cloud_levels ?w = (Ok AdministratorRelation, ?w)"
    using adm by (simp add: cloud_levels_def first_relation_def mem_check go_bind_def go_try_def go_simps)
  obtain w' where w': "unsetMultipleResourceAccesses mem_externals (Suc 0) (mem_user ''alice'') ?c
      [CanAddModelRelation, AdministratorRelation] 0 ?w = (Ok (), w')"
    using mem_unset_ok by blast
  have run: "RevokeCloudAccess mem_externals 1 mem_pm (mem_user ''alice'') ?c ?a ''add-model'' ?w = (Ok (), w')"
    using adm by (simp add: RevokeCloudAccess_def check_defs get_access_is_access_of set_access_defs r mem_check
        mem_target_user cur cloud_revocation_def w' go_bind_def go_maperr_def)
  have "new_juju_tag mem_externals UserTagKind (Id ?a) = Some ?a" by (simp add: new_juju_tag_def)
  from revoke_cloud_access [OF memj.jimm_services_axioms _ _ this run] r
  have "revoked mem_externals mem_store (mem_user ''alice'') (Some ?a) cloud_levels CanAddModelRelation ?c [] ?w w'"
    by auto
  then show ?thesis using run by (auto simp: revoked_def at_least_cloud)
qed

text \<open>
  A revocation reports success without revoking anything when OpenFGA fails to say which
  access the target user has: the getter turns the failed check into no relation, and there is
  then nothing to revoke. (The administrator's own check and the lookup of the user succeed.)
\<close>

theorem revoke_ignores_failed_check:
  assumes "checkRelation E user mt AdministratorRelation w = (Ok True, w1)"
    and "target_user E j ut w1 = (Ok tu, w2)"
    and "checkRelation E tu mt AdministratorRelation w2 = (Err e, w3)"
    and "ToModelRelation access = Inr r" and "ToCloudRelation access' = Inr r'"
  shows "RevokeModelAccess E fuel j user mt ut access w = (Ok (), w3)
    \<and> RevokeCloudAccess E fuel j user mt ut access' w = (Ok (), w3)"
proof -
  have fail: "first_relation (checkRelation E tu mt AdministratorRelation) AdministratorRelation k w2 = (Ok NoRelation, w3)" for k
    using assms(3) by (simp add: first_relation_def go_bind_def go_try_def go_simps)
  have "model_revocation r NoRelation = None"
    using model_relation_levels [OF assms(4)] by (auto simp: model_revocation_def model_levels_def)
  moreover have "cloud_revocation r' NoRelation = None"
    using cloud_relation_levels [OF assms(5)] by (auto simp: cloud_revocation_def cloud_levels_def)
  ultimately show ?thesis using assms
    by (simp add: RevokeModelAccess_def RevokeCloudAccess_def check_defs GetModelAccess_def GetCloudAccess_def fail
        go_bind_def go_simps)
qed

text \<open>The in-memory OpenFGA, failing every check about one user.\<close>

definition mem_failing :: "tup list externals" where
  "mem_failing = mem_externals\<lparr>cofga_CheckRelationWithTracing := (\<lambda>x ctx w.
     (if Object x = Some (ConvertTag (Tag UserTagKind ''bob'')) then Err (ErrNew ''timeout'') else Ok True, w))\<rparr>"

theorem revoke_ignores_failed_check_witness:
  "RevokeModelAccess mem_failing 1 mem_pm (mem_user ''alice'') (Tag ModelTagKind ''m'') (Tag UserTagKind ''bob'') ''read''
     [tag_tup (Tag UserTagKind ''bob'') AdministratorRelation (Tag ModelTagKind ''m'')] =
   (Ok (), [tag_tup (Tag UserTagKind ''bob'') AdministratorRelation (Tag ModelTagKind ''m'')])"
proof -
  have tag: "user_tag mem_failing (mem_user n) = Some (Tag UserTagKind n)" for n
    by (simp add: mem_failing_def mem_user_def identity_ResourceTag_def new_juju_tag_def)
  have ne: "ConvertTag (Tag UserTagKind ''alice'') \<noteq> ConvertTag (Tag UserTagKind ''bob'')"
    by (simp add: ConvertTag_record EveryoneUser_def)
  have chk: "checkRelation mem_failing (mem_user n) res r w = (if ConvertTag (Tag UserTagKind n) = ConvertTag (Tag UserTagKind ''bob'')
      then Err (ErrNew ''timeout'') else Ok True, w)" for n res r w
    by (simp add: checkRelation_def ContextualTuples_good [OF tag] user_ResourceTag_def tag with_client_def OFGA_CheckRelation_def)
      (simp add: mem_failing_def)
  have tu: "target_user mem_failing mem_pm (Tag UserTagKind ''bob'') w = (Ok (mem_user ''bob''), w)" for w
    by (simp add: target_user_def GetIdentity_def identity_SetTag_def ready_def mem_pm_def mem_user_def no_table_simps mem_failing_def)
  have "ToModelRelation ''read'' = Inr ReaderRelation" and "ToCloudRelation ''admin'' = Inr AdministratorRelation" by code_simp+
  then show ?thesis
    using revoke_ignores_failed_check [of mem_failing "mem_user ''alice''"] chk ne tu by simp
qed

section \<open>Application offers\<close>

lemma offer_relation_levels: "ToOfferRelation access = Inr r \<Longrightarrow> r \<noteq> NoRelation \<Longrightarrow> r \<in> set offer_levels"
  by (auto simp: ToOfferRelation_def offer_levels_def split: if_splits)

text \<open>The level after a grant is the stronger of the current and the granted one.\<close>

lemma determine_access_level:
  assumes "cur \<in> insert NoRelation (set offer_levels)" and "ToOfferRelation access = Inr r" and "r \<noteq> NoRelation"
  shows "determineAccessLevelAfterGrant (ToOfferAccessString cur) access =
    (if at_least offer_levels cur r then ToOfferAccessString cur else access)"
    and "at_least offer_levels cur r \<longleftrightarrow>
      determineAccessLevelAfterGrant (ToOfferAccessString cur) access = ToOfferAccessString cur"
proof -
  have ne: "AdminAccess \<noteq> ''''" "ConsumeAccess \<noteq> ''''" "ReadAccess \<noteq> ''''" by (simp_all add: access_defs)
  have cur: "cur = NoRelation \<or> cur = AdministratorRelation \<or> cur = ConsumerRelation \<or> cur = ReaderRelation"
    using assms(1) by (auto simp: offer_levels_def)
  from assms consider "access = AdminAccess \<and> r = AdministratorRelation" | "access = ConsumeAccess \<and> r = ConsumerRelation"
    | "access = ReadAccess \<and> r = ReaderRelation"
    by (auto simp: ToOfferRelation_def split: if_splits)
  then have "determineAccessLevelAfterGrant (ToOfferAccessString cur) access =
      (if at_least offer_levels cur r then ToOfferAccessString cur else access)
    \<and> (at_least offer_levels cur r \<longleftrightarrow> determineAccessLevelAfterGrant (ToOfferAccessString cur) access = ToOfferAccessString cur)"
    using cur ne
    by cases (auto simp: at_least_offer determineAccessLevelAfterGrant_def ToOfferAccessString_def)
  then show "determineAccessLevelAfterGrant (ToOfferAccessString cur) access =
      (if at_least offer_levels cur r then ToOfferAccessString cur else access)"
    and "at_least offer_levels cur r \<longleftrightarrow>
      determineAccessLevelAfterGrant (ToOfferAccessString cur) access = ToOfferAccessString cur" by blast+
qed

lemma offer_head_OkE:
  assumes "go_bind (go_sum (NewIdentity E n)) (\<lambda>i. go_bind (offer_by_url E j url) (\<lambda>ot.
      go_bind (checkRelation E user ot AdministratorRelation) (\<lambda>b. if \<not> b then go_err e else k i ot))) w = (Ok x, w')"
  obtains i ot w1 w2 where "NewIdentity E n = Inr i" and "offer_by_url E j url w = (Ok ot, w1)"
    and "checkRelation E user ot AdministratorRelation w1 = (Ok True, w2)" and "k i ot w2 = (Ok x, w')"
proof -
  from assms obtain i v where i: "go_sum (NewIdentity E n) w = (Ok i, v)" and r: "go_bind (offer_by_url E j url) (\<lambda>ot.
      go_bind (checkRelation E user ot AdministratorRelation) (\<lambda>b. if \<not> b then go_err e else k i ot)) v = (Ok x, w')"
    by (rule go_bind_OkE)
  from r obtain ot w1 where ot: "offer_by_url E j url v = (Ok ot, w1)"
    and r2: "go_bind (checkRelation E user ot AdministratorRelation) (\<lambda>b. if \<not> b then go_err e else k i ot) w1 = (Ok x, w')"
    by (rule go_bind_OkE)
  from r2 obtain w2 where "checkRelation E user ot AdministratorRelation w1 = (Ok True, w2)" "k i ot w2 = (Ok x, w')"
    by (rule go_guard_OkE)
  with i ot that show ?thesis by (auto elim: go_sum_OkE)
qed


lemma mem_offer: "url \<noteq> '''' \<Longrightarrow> offer_by_url mem_externals mem_pm url w = (Ok (Tag ApplicationOfferTagKind ''off''), w)"
  by (simp add: offer_by_url_def GetApplicationOffer_def empty_offer_def ready_def mem_pm_def mem_offers_def
      offer_ResourceTag_def new_juju_tag_def)

lemma mem_identity_tag: "NewIdentity mem_externals n = Inr i \<Longrightarrow> identity_ResourceTag mem_externals i = Some (Tag UserTagKind (id_Name i))"
  by (simp add: identity_ResourceTag_def new_juju_tag_def)

lemma mem_NewIdentity_bob:
  "\<exists>i. NewIdentity mem_externals ''bob'' = Inr i \<and> identity_ResourceTag mem_externals i = Some (Tag UserTagKind ''bob'')"
proof -
  have "set ''bob'' \<inter> set unsafe_chars = {}" by (simp add: unsafe_chars_def)
  then obtain i where "NewIdentity mem_externals ''bob'' = Inr i" "id_Name i = ''bob''"
    using NewIdentity_safe_name [of "''bob''" mem_externals] by auto
  then show ?thesis using mem_identity_tag by metis
qed

lemma mem_check_new:
  assumes "identity_ResourceTag mem_externals i = Some (Tag UserTagKind n)"
  shows "checkRelation mem_externals (NewUser i True) res r w =
    (Ok (holds (mem_store w) (ConvertTag (Tag UserTagKind n)) r (ConvertTag res)), w)"
  using assms ContextualTuples_good [of mem_externals "NewUser i True" "Tag UserTagKind n"]
  by (simp add: checkRelation_def user_ResourceTag_def with_client_def OFGA_CheckRelation_def check_holds_def
      bad_groups_def maxContextualTuples_def)

lemma mem_set_new:
  assumes "identity_ResourceTag mem_externals i = Some t"
  shows "set_user_access mem_externals (NewUser i True) res r w = (Ok (), w @ [tag_tup t r res])"
  using assms
  by (simp add: set_user_access_def user_ResourceTag_def with_client_def setResourceAccess_def OFGA_AddRelation_def
      mem_add_def go_bind_def go_try_def go_simps tag_tup_def mk_tup_def)


lemma still_has_access_iff:
  "r \<in> set offer_levels \<Longrightarrow> cur \<in> insert NoRelation (set offer_levels) \<Longrightarrow> still_has_access r cur \<longleftrightarrow> at_least offer_levels cur r"
  by (auto simp: at_least_offer still_has_access_def)

text \<open>
  Revoking access to an application offer: when no check of OpenFGA fails and the call
  succeeds, the caller administers the offer, exactly the direct relation of that level is gone,
  and the target user does not have the level any more, directly or indirectly.
\<close>

theorem revoke_offer_access:
  assumes "jimm_services E store remaining" and "checks_reliable E"
    and "ToOfferRelation access = Inr r" and "r \<noteq> NoRelation"
    and "RevokeOfferAccess E j user url ut access w = (Ok (), w')"
  shows "\<exists>i ot c t. NewIdentity E (Id ut) = Inr i \<and> identity_ResourceTag E i = Some t
    \<and> user_tag E user = Some c \<and> can (store w) user c AdministratorRelation ot
    \<and> store w' = store w - {tag_tup t r ot} \<and> \<not> holds (store w') (ConvertTag t) r (ConvertTag ot)"
proof -
  note js = assms(1)
  note os = jimm_services.axioms(1) [OF js]
  note run0 = assms(5) [unfolded RevokeOfferAccess_def check_defs get_access_is_access_of set_access_defs
      Let_def [of "NewUser _ True"] assms(3) go_sum_simps go_bind_return]
  from offer_head_OkE [OF run0] obtain i ot w1 w2 where i: "NewIdentity E (Id ut) = Inr i"
    and ot: "offer_by_url E j url w = (Ok ot, w1)"
    and adm: "checkRelation E user ot AdministratorRelation w1 = (Ok True, w2)"
    and tail: "go_bind (go_maperr (wrapped ''failed to unset given access: %w'') (unset_user_access E (NewUser i True) ot r))
      (\<lambda>_. go_bind (access_of (checkRelation E (NewUser i True) ot) offer_levels) (\<lambda>cur.
        if still_has_access r cur then go_err err_still_has_access else go_return ())) w2 = (Ok (), w')"
    by blast
  have s1: "store w1 = store w" using frameD [OF jimm_services.offer_by_url_frame [OF js] ot] .
  from openfga_service.admin_check_ok [OF os adm] obtain c where c: "user_tag E user = Some c"
    "can (store w1) user c AdministratorRelation ot" "store w2 = store w1" .
  from tail obtain w3 cur where un: "unset_user_access E (NewUser i True) ot r w2 = (Ok (), w3)"
    and cur: "access_of (checkRelation E (NewUser i True) ot) offer_levels w3 = (Ok cur, w')"
    and no: "\<not> still_has_access r cur"
    by (auto elim!: go_bind_OkE split: if_splits)
  from openfga_service.unset_user_access_ok [OF os un] obtain t where t: "user_tag E (NewUser i True) = Some t"
    and w3: "store w3 = store w2 - {tag_tup t r ot}" .
  have w': "store w' = store w3" using frameD [OF openfga_service.access_of_frame [OF os] cur] .
  note r = offer_relation_levels [OF assms(3,4)]
  have "\<not> at_least offer_levels cur r"
    using no still_has_access_iff [OF r openfga_service.access_of_mem [OF os cur]] by simp
  then have "\<not> can (store w3) (NewUser i True) t r ot"
    using openfga_service.access_of_strongest [OF os cur assms(2) t _ _ offer_access.levels_no_relation at_least_refl [OF r]]
    by (auto simp: bad_groups_def maxContextualTuples_def)
  then show ?thesis using i t c s1 w3 w' by (auto simp: can_def)
qed

theorem revoke_offer_access_witness:
  "\<exists>w'. RevokeOfferAccess mem_externals mem_pm (mem_user ''alice'') ''x/y.z'' (Tag UserTagKind ''bob'') ''read''
       (mem_admin_of (Tag ApplicationOfferTagKind ''off'')) = (Ok (), w')
     \<and> (\<exists>ot. \<not> holds (mem_store w') (ConvertTag (Tag UserTagKind ''bob'')) ReaderRelation (ConvertTag ot))"
proof -
  let ?o = "Tag ApplicationOfferTagKind ''off''" and ?b = "Tag UserTagKind ''bob''"
  let ?w = "mem_admin_of ?o"
  have lad: "access_ladder (Kind ?o) offer_levels" using offer_access.access_ladder_axioms by simp
  have r: "ToOfferRelation ''read'' = Inr ReaderRelation" "\<not> still_has_access ReaderRelation NoRelation" by code_simp+
  from mem_NewIdentity_bob obtain i where i: "NewIdentity mem_externals ''bob'' = Inr i"
    "identity_ResourceTag mem_externals i = Some ?b" by blast
  have none: "access_of (checkRelation mem_externals (NewUser i True) ?o) offer_levels ?w = (Ok NoRelation, ?w)"
    by (rule access_of_False) (simp add: mem_check_new [OF i(2)] mem_others_nothing [OF lad])
  have un: "unset_user_access mem_externals (NewUser i True) ?o ReaderRelation ?w = (Ok (), ?w)"
    using i(2) by (simp add: unset_user_access_def user_ResourceTag_def with_client_def unsetResourceAccess_def
        OFGA_RemoveRelation_def go_bind_def go_try_def go_simps mem_admin_of_def tag_tup_def mk_tup_def)
  have run: "RevokeOfferAccess mem_externals mem_pm (mem_user ''alice'') ''x/y.z'' ?b ''read'' ?w = (Ok (), ?w)"
    using mem_alice_admin [OF lad]
    by (simp add: RevokeOfferAccess_def check_defs get_access_is_access_of set_access_defs i mem_offer mem_check none r un
        Let_def go_bind_def go_maperr_def go_simps)
  have "\<exists>ot. \<not> holds (mem_store ?w) (ConvertTag ?b) ReaderRelation (ConvertTag ot)"
    using revoke_offer_access [OF memj.jimm_services_axioms mem_reliable r(1) _ run] i by auto
  then show ?thesis using run by (intro exI [of _ ?w] conjI)
qed

section \<open>The audit log\<close>

text \<open>
  Access to JIMM's audit log: only an administrator of JIMM grants or revokes it; a
  successful grant adds exactly the audit log relation of the target user to JIMM, a successful
  revocation removes exactly that one, and a call that fails changes nothing.
\<close>

theorem audit_log_access:
  assumes "jimm_services E store remaining"
    and "GrantAuditLogAccess E j user ut w = (q, w1)" and "RevokeAuditLogAccess E j user ut w = (q', w2)"
  shows "(q = Ok () \<longrightarrow> (\<exists>c t. user_tag E user = Some c \<and> can (store w) user c AdministratorRelation (pm_jimmTag j)
        \<and> new_juju_tag E UserTagKind (Id ut) = Some t
        \<and> store w1 = insert (tag_tup t AuditLogViewerRelation (pm_jimmTag j)) (store w)))
    \<and> (q' = Ok () \<longrightarrow> (\<exists>c t. user_tag E user = Some c \<and> can (store w) user c AdministratorRelation (pm_jimmTag j)
        \<and> new_juju_tag E UserTagKind (Id ut) = Some t
        \<and> store w2 = store w - {tag_tup t AuditLogViewerRelation (pm_jimmTag j)}))
    \<and> (q \<noteq> Ok () \<longrightarrow> store w1 = store w) \<and> (q' \<noteq> Ok () \<longrightarrow> store w2 = store w)"
proof -
  note js = assms(1)
  note os = jimm_services.axioms(1) [OF js]
  let ?j = "pm_jimmTag j"
  have at: "atomic store (GrantAuditLogAccess E j user ut)" "atomic store (RevokeAuditLogAccess E j user ut)"
    unfolding GrantAuditLogAccess_def RevokeAuditLogAccess_def get_access_is_access_of set_access_defs
    by (intro atomic_intros jimm_services.target_user_frame [OF js] openfga_service.access_of_frame [OF os]
        openfga_service.set_user_access_atomic [OF os] openfga_service.unset_user_access_atomic [OF os])+
  have head: "\<exists>c tu v. user_tag E user = Some c \<and> can (store w) user c AdministratorRelation ?j
      \<and> user_tag E tu = new_juju_tag E UserTagKind (Id ut) \<and> store v = store w \<and> k tu v = (Ok (), w')"
    if run: "go_bind (access_of (checkRelation E user ?j) controller_levels) (\<lambda>access. if access \<noteq> AdministratorRelation
      then go_err err_unauthorized else go_bind (target_user E j ut) k) w = (Ok (), w')" for k w'
  proof -
    from run obtain u where acc: "access_of (checkRelation E user ?j) controller_levels w = (Ok AdministratorRelation, u)"
      and rest: "go_bind (target_user E j ut) k u = (Ok (), w')"
      by (rule go_bind_OkE) (auto split: if_splits)
    from rest obtain tu v where tu: "target_user E j ut u = (Ok tu, v)" and k: "k tu v = (Ok (), w')" by (rule go_bind_OkE)
    have "store v = store w"
      using jimm_services.target_user_ok(1) [OF js tu] frameD [OF openfga_service.access_of_frame [OF os] acc] by simp
    moreover from openfga_service.access_of_ok [OF os acc] obtain c
      where "user_tag E user = Some c" "can (store w) user c AdministratorRelation ?j" by auto
    ultimately show ?thesis using jimm_services.target_user_ok(5) [OF js tu] k by metis
  qed
  have "\<exists>c t. user_tag E user = Some c \<and> can (store w) user c AdministratorRelation ?j
        \<and> new_juju_tag E UserTagKind (Id ut) = Some t \<and> store w1 = insert (tag_tup t AuditLogViewerRelation ?j) (store w)"
    if "q = Ok ()"
    using head [OF assms(2) [unfolded that GrantAuditLogAccess_def get_access_is_access_of set_access_defs]]
    by (elim exE conjE openfga_service.set_user_access_ok [OF os]) (metis option.inject)
  moreover have "\<exists>c t. user_tag E user = Some c \<and> can (store w) user c AdministratorRelation ?j
        \<and> new_juju_tag E UserTagKind (Id ut) = Some t \<and> store w2 = store w - {tag_tup t AuditLogViewerRelation ?j}"
    if "q' = Ok ()"
    using head [OF assms(3) [unfolded that RevokeAuditLogAccess_def get_access_is_access_of set_access_defs]]
    by (elim exE conjE openfga_service.unset_user_access_ok [OF os]) (metis option.inject)
  ultimately show ?thesis using atomic_unitD [OF at(1) assms(2)] atomic_unitD [OF at(2) assms(3)] by blast
qed

theorem audit_log_access_witness:
  "\<exists>w1. GrantAuditLogAccess mem_externals mem_pm (mem_user ''alice'') (Tag UserTagKind ''bob'')
       (mem_admin_of (Tag ControllerTagKind ''j'')) = (Ok (), w1)
     \<and> tag_tup (Tag UserTagKind ''bob'') AuditLogViewerRelation (Tag ControllerTagKind ''j'') \<in> mem_store w1"
proof -
  let ?j = "Tag ControllerTagKind ''j''" and ?b = "Tag UserTagKind ''bob''"
  let ?w = "mem_admin_of ?j"
  have lad: "access_ladder (Kind ?j) controller_levels" using controller_access.access_ladder_axioms by simp
  have cur: "access_of (checkRelation mem_externals (mem_user ''alice'') ?j) controller_levels ?w = (Ok AdministratorRelation, ?w)"
    using mem_alice_admin [OF lad] by (simp add: controller_levels_def first_relation_def mem_check go_bind_def go_try_def go_simps)
  have j: "pm_jimmTag mem_pm = ?j" by (simp add: mem_pm_def)
  obtain w1 where set: "set_user_access mem_externals (mem_user ''bob'') ?j AuditLogViewerRelation ?w = (Ok (), w1)"
    using mem_set_ok by blast
  obtain q' w2 where rev: "RevokeAuditLogAccess mem_externals mem_pm (mem_user ''alice'') ?b ?w = (q', w2)" by fastforce
  have run: "GrantAuditLogAccess mem_externals mem_pm (mem_user ''alice'') ?b ?w = (Ok (), w1)"
    by (simp add: GrantAuditLogAccess_def get_access_is_access_of set_access_defs j cur mem_target_user set go_bind_def)
  have "new_juju_tag mem_externals UserTagKind (Id ?b) = Some ?b" by (simp add: new_juju_tag_def)
  with audit_log_access [OF memj.jimm_services_axioms run rev] run j show ?thesis by auto
qed

end
