(* ===== verification/Perm_Check.thy ===== *)
theory Perm_Check
  imports Access_Properties
begin

text \<open>
  The permission check behind Juju login tokens, \<^verbatim>\<open>CheckPermission\<close> of
  \<^verbatim>\<open>internal/jimm/permissions/access.go\<close>, on top of the batched check of
  \<^verbatim>\<open>internal/openfga/openfga.go\<close>: the correlation identifiers are distinct, so the answers of
  the batches belong to the right questions, and what enters the cache was allowed.
\<close>

section \<open>Correlation identifiers\<close>

lemma digit_inj: "d < 10 \<Longrightarrow> e < 10 \<Longrightarrow> ''0123456789'' ! d = ''0123456789'' ! e \<longleftrightarrow> d = e"
  by (rule nth_eq_iff_index_eq) (simp_all)

lemma itoa_nonempty [simp]: "itoa n \<noteq> []"
  by (subst itoa.simps) simp

lemma itoa_inject: "itoa n = itoa m \<Longrightarrow> n = m"
proof (induction n arbitrary: m rule: itoa.induct)
  case (1 n)
  show ?case
  proof (cases "n < 10")
    case True
    then have "m < 10" using 1(2) itoa_nonempty [of "m div 10"]
      by (subst (asm) (1 2) itoa.simps) (auto split: if_splits simp: Cons_eq_append_conv)
    with True 1(2) show ?thesis by (simp add: itoa.simps [of n] itoa.simps [of m] digit_inj)
  next
    case False
    then have "\<not> m < 10" using 1(2) itoa_nonempty [of "n div 10"]
      by (subst (asm) (1 2) itoa.simps) (auto split: if_splits simp: append_eq_Cons_conv)
    with False 1(2) have "itoa (n div 10) = itoa (m div 10)" "n mod 10 = m mod 10"
      by (simp_all add: itoa.simps [of n] itoa.simps [of m] digit_inj)
    then show ?thesis using 1(1) False by (metis div_mult_mod_eq)
  qed
qed

lemma distinct_itoa: "distinct (map (\<lambda>(i, x). itoa i) (enumerate k xs))"
proof -
  have "map (\<lambda>(i, x). itoa i) (enumerate k xs) = map itoa [k..<k + length xs]"
    using map_fst_enumerate [of k xs] by (metis (no_types, lifting) case_prod_unfold comp_apply map_eq_conv map_map)
  then show ?thesis by (simp add: distinct_map inj_on_def itoa_inject)
qed

section \<open>Batches\<close>

lemma map_drop_take_distinct:
  assumes "distinct (map f xs)"
  shows "distinct (map f (take n xs))" and "distinct (map f (drop n xs))"
    and "f ` set (take n xs) \<inter> f ` set (drop n xs) = {}"
proof -
  have "distinct (map f (take n xs @ drop n xs))" using assms by simp
  then show "distinct (map f (take n xs))" and "distinct (map f (drop n xs))"
    and "f ` set (take n xs) \<inter> f ` set (drop n xs) = {}"
    unfolding map_append distinct_append by auto
qed

context openfga_service
begin

lemma batch_loop_frame [frame_intros]: "frame store (batch_loop E xs results)"
proof (induction "length xs" arbitrary: xs results rule: less_induct)
  case less
  show ?case
  proof (cases xs)
    case (Cons t ts)
    have "frame store (batch_loop E (drop BatchCheckSize xs) r)" for r
      by (rule less) (simp add: Cons BatchCheckSize_def)
    then show ?thesis by (auto simp: Cons intro!: frame_intros batch_frame)
  qed (simp add: frame_return)
qed

lemma batch_loop_ok:
  assumes "batch_loop E xs results w = (Ok m, w')" and "distinct (map (fst \<circ> snd) xs)"
    and "\<And>i. i \<in> (fst \<circ> snd) ` set xs \<Longrightarrow> results i = None"
  shows "(\<forall>(x, i, ctx)\<in>set xs. m i = Some True \<longrightarrow> check_holds (store w \<union> set ctx) x)
    \<and> (\<forall>i. i \<notin> (fst \<circ> snd) ` set xs \<longrightarrow> m i = results i)"
  using assms
proof (induction "length xs" arbitrary: xs results w rule: less_induct)
  case less
  show ?case
  proof (cases xs)
    case Nil
    then show ?thesis using less.prems by simp
  next
    case (Cons t ts)
    let ?f = "fst \<circ> snd" and ?a = "take BatchCheckSize xs" and ?b = "drop BatchCheckSize xs"
    from less.prems(1) Cons obtain res w1 where b: "cofga_BatchCheckRelations E ?a w = (Ok res, w1)"
      and rest: "batch_loop E ?b (results ++ res) w1 = (Ok m, w')"
      by (auto elim: go_bind_OkE)
    note dist = map_drop_take_distinct [OF less.prems(2), of BatchCheckSize]
    have same: "store w1 = store w" using frameD [OF batch_frame b] .
    have sets: "set xs = set ?a \<union> set ?b" by (metis append_take_drop_id set_append)
    have dom: "res i = None" if "i \<notin> ?f ` set ?a" for i using batch_ids [OF b] that by blast
    have "length ?b < length xs" by (simp add: Cons BatchCheckSize_def)
    moreover have "(results ++ res) i = None" if i: "i \<in> ?f ` set ?b" for i
    proof -
      have "i \<notin> ?f ` set ?a" using i dist(3) by blast
      then have "res i = None" by (rule dom)
      moreover have "i \<in> ?f ` set xs" unfolding sets using i by blast
      then have "results i = None" by (rule less.prems(3))
      ultimately show ?thesis by (simp add: map_add_def)
    qed
    ultimately have ih: "\<forall>(x, i, ctx)\<in>set ?b. m i = Some True \<longrightarrow> check_holds (store w1 \<union> set ctx) x"
      "\<forall>i. i \<notin> ?f ` set ?b \<longrightarrow> m i = (results ++ res) i"
      using less.hyps [OF _ rest dist(2)] by blast+
    have "check_holds (store w \<union> set ctx) x" if "(x, i, ctx) \<in> set xs" "m i = Some True" for x i ctx
    proof (cases "(x, i, ctx) \<in> set ?b")
      case True
      then show ?thesis using ih(1) that(2) same by auto
    next
      case False
      then have a: "(x, i, ctx) \<in> set ?a" using that(1) sets by blast
      then have "i \<in> ?f ` set ?a" by force
      then have "i \<notin> ?f ` set ?b" and "i \<in> ?f ` set xs" using dist(3) sets by blast+
      then have "m i = (results ++ res) i" and "results i = None" using ih(2) less.prems(3) by simp_all
      then have "res i = Some True" using that(2) by (simp add: map_add_def split: option.splits)
      then show ?thesis using batch_ok [OF b dist(1) a] by blast
    qed
    moreover have "m i = results i" if "i \<notin> ?f ` set xs" for i
    proof -
      from that have "i \<notin> ?f ` set ?a" and "i \<notin> ?f ` set ?b" unfolding sets by blast+
      then show ?thesis using ih(2) dom [of i] by (simp add: map_add_def)
    qed
    ultimately show ?thesis by blast
  qed
qed

end

section \<open>Filling the cache\<close>

lemma collect_checks_mem:
  "collect_checks L c desired = Inr checks \<Longrightarrow> check \<in> set checks \<Longrightarrow>
     (pc_key check, StrVal (pc_value check)) \<in> set desired \<and> names_ParseTag L (pc_key check) = Inr (pc_tag check)
     \<and> ConvertJujuRelation (pc_value check) = Inr (pc_relation check) \<and> cached c (pc_key check) = None"
proof (induction L c desired arbitrary: checks rule: collect_checks.induct)
  case (2 L c key val rest)
  show ?case
  proof (cases "cached c key")
    case None
    with 2(3) obtain v t r cs where v: "val = StrVal v" and t: "names_ParseTag L key = Inr t"
      and r: "ConvertJujuRelation v = Inr r" and cs: "collect_checks L c rest = Inr cs"
      and checks: "checks = \<lparr>pc_key = key, pc_value = v, pc_tag = t, pc_relation = r\<rparr> # cs"
      by (auto split: any_val.splits sum.splits)
    then show ?thesis using 2(2) [OF _ v t r cs] 2(4) None by auto
  qed (use 2 in auto)
qed simp

lemma collect_checks_covers:
  "collect_checks L c desired = Inr checks \<Longrightarrow> (k, v) \<in> set desired \<Longrightarrow> cached c k = None \<Longrightarrow> k \<in> pc_key ` set checks"
proof (induction L c desired arbitrary: checks rule: collect_checks.induct)
  case (2 L c key val rest)
  show ?case
  proof (cases "cached c key")
    case None
    with 2(3) obtain v t r cs where v: "val = StrVal v" and t: "names_ParseTag L key = Inr t"
      and r: "ConvertJujuRelation v = Inr r" and cs: "collect_checks L c rest = Inr cs"
      and checks: "checks = \<lparr>pc_key = key, pc_value = v, pc_tag = t, pc_relation = r\<rparr> # cs"
      by (auto split: any_val.splits sum.splits)
    then show ?thesis using 2(2) [OF _ v t r cs] 2(4,5) None by auto
  qed (use 2 in auto)
qed simp

lemma collect_checks_nil_map: "collect_checks L c desired = Inl (m, e) \<Longrightarrow> m = None \<or> m = c"
  by (induction L c desired rule: collect_checks.induct) (auto split: if_splits any_val.splits sum.splits)

lemma fill_cache_ok:
  assumes "fill_cache allowed checks (Some m) w = (Ok (m', e), w')"
  shows "w' = w \<and> (\<exists>f. m' = Some f \<and> (\<forall>k v. f k = Some v \<longrightarrow> m k = Some v
      \<or> (\<exists>(n, c)\<in>set checks. pc_key c = k \<and> pc_value c = v \<and> allowed (itoa n) = Some True))
    \<and> dom m \<subseteq> dom f \<and> (e = None \<longrightarrow> pc_key ` snd ` set checks \<subseteq> dom f))"
  using assms
proof (induction checks arbitrary: m)
  case (Cons nc checks)
  obtain n c where nc: "nc = (n, c)" by (cases nc)
  show ?case
  proof (cases "allowed (itoa n) = Some True")
    case True
    with Cons.prems nc have run: "fill_cache allowed checks (Some (m(pc_key c \<mapsto> pc_value c))) w = (Ok (m', e), w')" by simp
    from Cons.IH [OF run] obtain f where f: "w' = w" "m' = Some f"
      "\<And>k v. f k = Some v \<Longrightarrow> (m(pc_key c \<mapsto> pc_value c)) k = Some v
        \<or> (\<exists>(n, c)\<in>set checks. pc_key c = k \<and> pc_value c = v \<and> allowed (itoa n) = Some True)"
      "dom (m(pc_key c \<mapsto> pc_value c)) \<subseteq> dom f" "e = None \<longrightarrow> pc_key ` snd ` set checks \<subseteq> dom f"
      by blast
    have "m k = Some v \<or> (\<exists>(n, c)\<in>set (nc # checks). pc_key c = k \<and> pc_value c = v \<and> allowed (itoa n) = Some True)"
      if "f k = Some v" for k v
      using f(3) [OF that] True nc by (auto split: if_splits)
    then show ?thesis using f nc by auto
  qed (use Cons.prems nc in auto)
qed auto

definition cache_step :: "'w externals \<Rightarrow> ofga_user \<Rightarrow> perm_cache \<Rightarrow> permission_check list \<Rightarrow> ('w, perm_cache \<times> err option) io" where
  "cache_step E user c checks =
     with_cache c (ContextualTuples E user) (\<lambda>contextualTuples.
       go_bind (user_ResourceTag E user) (\<lambda>t.
       with_cache c (OFGA_BatchCheckRelations E (permission_batch (ConvertTag t) contextualTuples checks)) (\<lambda>allowed.
       fill_cache allowed (enumerate 0 checks) c)))"

lemma with_cache_OkE:
  assumes "with_cache c m k w = (Ok y, w')"
  obtains (failed) er where "m w = (Err er, w')" and "y = (c, Some er)"
    | (passed) x w1 where "m w = (Ok x, w1)" and "k x w1 = (Ok y, w')"
  using assms by (auto simp: with_cache_def go_bind_def go_try_def split: prod.splits outcome.splits)

lemma permission_batch_ids:
  "map (fst \<circ> snd) (permission_batch u ctx checks) = map (\<lambda>(i, x). itoa i) (enumerate 0 checks)"
  by (simp add: permission_batch_def comp_def case_prod_unfold)

lemma permission_batch_mem:
  "(n, c) \<in> set (enumerate 0 checks) \<Longrightarrow>
     (mk_tup u (pc_relation c) (ConvertTag (pc_tag c)), itoa n, ctx) \<in> set (permission_batch u ctx checks)"
  by (force simp: permission_batch_def mk_tup_def)

context openfga_service
begin

lemma cache_step_cases:
  assumes "cache_step E user (Some m) checks w = (Ok (m', e), w')" and "user_tag E user = Some t"
  obtains (failed) "m' = Some m" and "e \<noteq> None" and "store w' = store w"
    | (checked) allowed w1 where
      "batch_loop E (permission_batch (ConvertTag t) (idp_tuples t user) checks) Map.empty w = (Ok allowed, w1)"
      and "fill_cache allowed (enumerate 0 checks) (Some m) w1 = (Ok (m', e), w')"
proof (cases "bad_groups user")
  case True
  then show ?thesis using ContextualTuples_bad [OF assms(2)] assms(1) failed
    by (auto simp: cache_step_def with_cache_def)
next
  case False
  let ?b = "batch_loop E (permission_batch (ConvertTag t) (idp_tuples t user) checks) Map.empty"
  from False have "with_cache (Some m) ?b (\<lambda>allowed. fill_cache allowed (enumerate 0 checks) (Some m)) w = (Ok (m', e), w')"
    using ContextualTuples_good [OF assms(2)] assms
    by (simp add: cache_step_def with_cache_def user_ResourceTag_def OFGA_BatchCheckRelations_def)
  then show ?thesis
  proof (cases rule: with_cache_OkE)
    case (failed er)
    then show ?thesis using frameD [OF batch_loop_frame failed(1)] that(1) by auto
  next
    case (passed allowed w1)
    then show ?thesis using that(2) by simp
  qed
qed

lemma cache_step_sound:
  assumes "cache_step E user (Some m) checks w = (Ok (m', e), w')" and "user_tag E user = Some t"
  shows "store w' = store w \<and> (\<exists>f. m' = Some f \<and> dom m \<subseteq> dom f
    \<and> (e = None \<longrightarrow> pc_key ` set checks \<subseteq> dom f)
    \<and> (\<forall>k v. f k = Some v \<longrightarrow> m k = Some v \<or> (\<exists>c\<in>set checks. pc_key c = k \<and> pc_value c = v
        \<and> can (store w) user t (pc_relation c) (pc_tag c))))"
  using assms
proof (cases rule: cache_step_cases)
  case failed
  then show ?thesis by auto
next
  case (checked allowed w1)
  let ?P = "permission_batch (ConvertTag t) (idp_tuples t user) checks"
  have dist: "distinct (map (fst \<circ> snd) ?P)" by (simp only: permission_batch_ids distinct_itoa)
  have right: "can (store w) user t (pc_relation c) (pc_tag c)"
    if "(n, c) \<in> set (enumerate 0 checks)" "allowed (itoa n) = Some True" for n c
    using batch_loop_ok [OF checked(1) dist] permission_batch_mem [OF that(1), of "ConvertTag t" "idp_tuples t user"] that(2)
    by (fastforce simp: check_holds_def mk_tup_def can_def)
  have mem: "c \<in> set checks" if "(n, c) \<in> set (enumerate 0 checks)" for n c
    using that by (metis in_set_enumerate_eq nth_mem add.commute add.left_neutral diff_zero fst_conv snd_conv)
  have keys: "snd ` set (enumerate 0 checks) = set checks" by (metis list.set_map map_snd_enumerate)
  from fill_cache_ok [OF checked(2)] obtain f where f: "w' = w1" "m' = Some f" "dom m \<subseteq> dom f"
    "e = None \<longrightarrow> pc_key ` snd ` set (enumerate 0 checks) \<subseteq> dom f"
    "\<And>k v. f k = Some v \<Longrightarrow> m k = Some v \<or>
       (\<exists>(n, c)\<in>set (enumerate 0 checks). pc_key c = k \<and> pc_value c = v \<and> allowed (itoa n) = Some True)"
    by blast
  have "m k = Some v \<or> (\<exists>c\<in>set checks. pc_key c = k \<and> pc_value c = v \<and> can (store w) user t (pc_relation c) (pc_tag c))"
    if "f k = Some v" for k v using f(5) [OF that] right mem by fast
  then show ?thesis using f(1-4) keys frameD [OF batch_loop_frame checked(1)] by simp
qed

end

lemma CheckPermission_ok:
  assumes "openfga_service E store remaining" and "user_tag E user = Some t"
    and "CheckPermission E j user (Some m) desired w = (Ok (m', e), w')"
  shows "store w' = store w
    \<and> (m' = None \<longrightarrow> e \<noteq> None)
    \<and> (\<forall>f. m' = Some f \<longrightarrow> dom m \<subseteq> dom f
        \<and> (e = None \<longrightarrow> fst ` set desired \<subseteq> dom f)
        \<and> (\<forall>k v. f k = Some v \<longrightarrow> m k = Some v \<or> (k, StrVal v) \<in> set desired \<and> (\<exists>res r.
            names_ParseTag E k = Inr res \<and> ConvertJujuRelation v = Inr r \<and> can (store w) user t r res)))"
proof (cases "collect_checks E (Some m) desired")
  case (Inl p)
  then show ?thesis using assms(3) collect_checks_nil_map [of E "Some m" desired]
    by (cases p) (auto simp: CheckPermission_def)
next
  case (Inr checks)
  have covers: "k \<in> dom m \<or> k \<in> pc_key ` set checks" if "(k, v) \<in> set desired" for k v
    using collect_checks_covers [OF Inr that] by (auto simp: cached_def)
  show ?thesis
  proof (cases "checks = []")
    case True
    then show ?thesis using assms(3) Inr covers by (force simp: CheckPermission_def)
  next
    case False
    then have "cache_step E user (Some m) checks w = (Ok (m', e), w')"
      using assms(3) Inr by (simp add: CheckPermission_def cache_step_def)
    from openfga_service.cache_step_sound [OF assms(1) this assms(2)]
    obtain f where f: "store w' = store w" "m' = Some f" "dom m \<subseteq> dom f" "e = None \<longrightarrow> pc_key ` set checks \<subseteq> dom f"
      "\<And>k v. f k = Some v \<Longrightarrow> m k = Some v \<or> (\<exists>c\<in>set checks. pc_key c = k \<and> pc_value c = v
        \<and> can (store w) user t (pc_relation c) (pc_tag c))" by blast
    have "m k = Some v \<or> (k, StrVal v) \<in> set desired \<and> (\<exists>res r. names_ParseTag E k = Inr res
        \<and> ConvertJujuRelation v = Inr r \<and> can (store w) user t r res)" if "f k = Some v" for k v
      using f(5) [OF that] collect_checks_mem [OF Inr] by blast
    moreover have "fst ` set desired \<subseteq> dom f" if "e = None"
    proof
      fix k
      assume "k \<in> fst ` set desired"
      then have "k \<in> dom m \<or> k \<in> pc_key ` set checks" using covers by force
      then show "k \<in> dom f" using f(3,4) that by blast
    qed
    ultimately show ?thesis using f(1-3) by simp
  qed
qed

text \<open>
  C22. \<^verbatim>\<open>CheckPermission\<close> never writes an unearned permission: every entry of the returned map was
  in the cache before or is a desired permission whose relation the user has, identity-provider
  groups included; nothing cached is dropped; and when no error is returned every desired key is
  in the map. On the error path with a value that is not a string the map is lost (nil).
\<close>

theorem check_permission_sound:
  assumes "openfga_service E store remaining" and "user_tag E user = Some t"
    and "CheckPermission E j user (Some m) desired w = (Ok (m', e), w')"
  shows "store w' = store w
    \<and> (m' = None \<longrightarrow> e \<noteq> None)
    \<and> (\<forall>f. m' = Some f \<longrightarrow> dom m \<subseteq> dom f
        \<and> (e = None \<longrightarrow> fst ` set desired \<subseteq> dom f)
        \<and> (\<forall>k v. f k = Some v \<longrightarrow> m k = Some v \<or> (k, StrVal v) \<in> set desired \<and> (\<exists>res r.
            names_ParseTag E k = Inr res \<and> ConvertJujuRelation v = Inr r \<and> can (store w) user t r res)))"
  using CheckPermission_ok [OF assms] .

lemma mem_check_permission:
  "CheckPermission mem_externals mem_pm (mem_user ''alice'') (Some Map.empty) [(''model-m'', StrVal AdminAccess)]
     (mem_admin_of (Tag ''model'' ''m'')) = (Ok (Some [''model-m'' \<mapsto> AdminAccess], None), mem_admin_of (Tag ''model'' ''m''))"
proof -
  let ?t = "Tag ''model'' ''m''"
  have parse: "names_ParseTag mem_externals ''model-m'' = Inr ?t" by (simp, code_simp)
  have rel: "ConvertJujuRelation AdminAccess = Inr AdministratorRelation" by (simp add: ConvertJujuRelation_def)
  have checks: "collect_checks mem_externals (Some Map.empty) [(''model-m'', StrVal AdminAccess)] =
      Inr [\<lparr>pc_key = ''model-m'', pc_value = AdminAccess, pc_tag = ?t, pc_relation = AdministratorRelation\<rparr>]"
    by (simp add: parse rel cached_def del: mem_externals_simps)
  have "access_ladder (Kind ?t) model_levels" using model_access.access_ladder_axioms by (simp add: ModelTagKind_def)
  then show ?thesis using mem_alice_admin [of ?t]
    unfolding CheckPermission_def checks
    by (simp add: with_cache_def ContextualTuples_good user_ResourceTag_def
        OFGA_BatchCheckRelations_def permission_batch_def BatchCheckSize_def mem_batch check_holds_def
        go_bind_def go_try_def go_simps)
qed

theorem check_permission_sound_witness:
  "\<exists>f. CheckPermission mem_externals mem_pm (mem_user ''alice'') (Some Map.empty) [(''model-m'', StrVal AdminAccess)]
     (mem_admin_of (Tag ''model'' ''m'')) = (Ok (Some f, None), mem_admin_of (Tag ''model'' ''m''))
   \<and> f ''model-m'' \<noteq> None"
  using check_permission_sound [OF mem.openfga_service_axioms mem_user_simps(1) mem_check_permission]
    mem_check_permission by auto

text \<open>
  The cache is keyed by resource only: when every desired resource has an entry, of whatever
  level, \<^verbatim>\<open>CheckPermission\<close> succeeds at once, asks OpenFGA nothing and leaves the level in the
  map as it was. A session with a cached read permission on a model that asks for admin on it is
  answered without an error, although the comment says an error is returned if a desired
  permission is missing.
\<close>

theorem cached_permission_not_checked:
  assumes "\<forall>(k, v)\<in>set desired. m k \<noteq> None"
  shows "CheckPermission E j user (Some m) desired w = (Ok (Some m, None), w)"
proof -
  have "collect_checks E (Some m) desired = Inr []"
    using assms by (induction E "Some m" desired rule: collect_checks.induct) (auto simp: cached_def)
  then show ?thesis by (simp add: CheckPermission_def go_return_def)
qed

theorem cached_permission_not_checked_witness:
  "CheckPermission mem_externals mem_pm (mem_user ''bob'') (Some [''model-m'' \<mapsto> ReadAccess])
     [(''model-m'', StrVal AdminAccess)] [] = (Ok (Some [''model-m'' \<mapsto> ReadAccess], None), [])"
  by (rule cached_permission_not_checked) simp

end
