(* ===== verification/Perm_Relations.thy ===== *)
theory Perm_Relations
  imports Perm_Check
begin

text \<open>
  The file \<^verbatim>\<open>internal/jimm/permissions/relations.go\<close>: the API that manages and queries relations
  directly. A request names its object and target by strings, which are resolved to OpenFGA
  tuples; a user who is not an administrator of JIMM may then manage only access grants on the
  resources he administers. Writes are cut into batches of the size OpenFGA accepts. The paged
  listings are in \<open>Perm_Listing\<close>.
\<close>

section \<open>Requests\<close>

record relationship_tuple =
  rt_Object :: string
  rt_Relation :: string
  rt_TargetObject :: string

definition BATCH_SIZE_OPENFGA :: nat where
  "BATCH_SIZE_OPENFGA = 100"

definition resourceAdminRelations :: "string list" where
  "resourceAdminRelations = [AdministratorRelation, ReaderRelation, WriterRelation, ConsumerRelation,
     CanAddModelRelation, AuditLogViewerRelation]"

definition grantableObjectKinds :: "string list" where
  "grantableObjectKinds = [UserTagKind, GroupTagKind, IdPGroupTagKind, RoleTagKind]"

definition parse_tag_error :: "'z libs_scheme \<Rightarrow> string \<Rightarrow> string \<Rightarrow> err \<Rightarrow> err" where
  "parse_tag_error L msg key e = Codef CodeFailedToParseTupleKey (ErrFmt ''%s %s: %s'' [msg, key, err_text L e] None)"

definition parseTuple :: "'w externals \<Rightarrow> perm_manager \<Rightarrow> relationship_tuple \<Rightarrow> ('w, tup) io" where
  "parseTuple E j tuple = (case ParseRelation (rt_Relation tuple) of
       Inl e \<Rightarrow> go_err (Codef CodeBadRequest (ErrFmt ''%w'' [] (Some e)))
     | Inr relation \<Rightarrow>
         if rt_TargetObject tuple = '''' then go_err (Codef CodeBadRequest (ErrNew ''target object not specified''))
         else go_bind (go_maperr (parse_tag_error E ''failed to parse tuple target object key'' (rt_TargetObject tuple))
               (parseAndValidateTag E j (rt_TargetObject tuple))) (\<lambda>target.
           go_bind (if rt_Object tuple \<noteq> ''''
              then go_bind (go_maperr (parse_tag_error E ''failed to parse tuple object key'' (rt_Object tuple))
                     (parseAndValidateTag E j (rt_Object tuple))) (\<lambda>objectTag. go_return (Some objectTag))
              else go_return None) (\<lambda>object.
           go_return \<lparr>Object = object, Relation = relation, Target = Some target\<rparr>)))"

definition parseTuples :: "'w externals \<Rightarrow> perm_manager \<Rightarrow> relationship_tuple list \<Rightarrow> ('w, tup list) io" where
  "parseTuples E j tuples = go_mapM (parseTuple E j) tuples"

section \<open>Authority\<close>

definition err_openfga :: "err \<Rightarrow> err" where
  "err_openfga e = Codef CodeOpenFGARequestFailed (ErrFmt ''%w'' [] (Some e))"

definition authorizeRelationTargetAdmin :: "'w externals \<Rightarrow> perm_manager \<Rightarrow> ofga_user \<Rightarrow> tup \<Rightarrow> ('w, unit) io" where
  "authorizeRelationTargetAdmin E j user tuple =
     (if u_JimmAdmin user then go_return ()
      else if Relation tuple \<notin> set resourceAdminRelations then go_err err_unauthorized
      else case Object tuple of
        None \<Rightarrow> go_err (Codef CodeBadRequest (ErrNew ''object not specified''))
      | Some ob \<Rightarrow>
          if ent_Kind ob \<notin> set grantableObjectKinds then go_err err_unauthorized
          else go_bind (deref (Target tuple)) (\<lambda>target.
            if ent_Kind target \<in> {ControllerTagKind, ModelTagKind, ApplicationOfferTagKind, CloudTagKind}
            then go_bind (ContextualTuples E user) (\<lambda>contextualTuples.
                 go_bind (user_ResourceTag E user) (\<lambda>t.
                 go_bind (go_maperr err_openfga (OFGA_CheckRelation E
                   \<lparr>Object = Some (ConvertTag t), Relation = AdministratorRelation, Target = Target tuple\<rparr>
                   False contextualTuples)) (\<lambda>allowed.
                 if allowed then go_return () else go_err err_unauthorized)))
            else go_err err_unauthorized))"

section \<open>Changes\<close>

text \<open>The log itself is output; that it reads the object of each tuple is not.\<close>

definition logUserUpdates :: "tup list \<Rightarrow> ('w, unit) io" where
  "logUserUpdates tuples = go_foreach (\<lambda>tuple.
     go_bind (deref (Object tuple)) (\<lambda>ob.
     if ent_Kind ob = UserTagKind then go_bind (deref (Target tuple)) (\<lambda>target. go_return ()) else go_return ())) tuples"

function relation_batches :: "(tup list \<Rightarrow> ('w, unit) io) \<Rightarrow> tup list \<Rightarrow> ('w, unit) io" where
  "relation_batches write [] = go_return ()"
| "relation_batches write (t # ts) =
     go_bind (go_maperr err_openfga (write (take BATCH_SIZE_OPENFGA (t # ts)))) (\<lambda>_.
     go_bind (logUserUpdates (take BATCH_SIZE_OPENFGA (t # ts))) (\<lambda>_.
     relation_batches write (drop BATCH_SIZE_OPENFGA (t # ts))))"
  by pat_completeness auto
termination
  by (relation "measure (\<lambda>(write, ts). length ts)") (simp_all add: BATCH_SIZE_OPENFGA_def)

definition pm_AddRelation :: "'w externals \<Rightarrow> perm_manager \<Rightarrow> ofga_user \<Rightarrow> relationship_tuple list \<Rightarrow> ('w, unit) io" where
  "pm_AddRelation E j user tuples =
     go_bind (parseTuples E j tuples) (\<lambda>parsedTuples.
     go_bind (go_foreach (authorizeRelationTargetAdmin E j user) parsedTuples) (\<lambda>_.
     relation_batches (OFGA_AddRelation E) parsedTuples))"

definition pm_RemoveRelation :: "'w externals \<Rightarrow> perm_manager \<Rightarrow> ofga_user \<Rightarrow> relationship_tuple list \<Rightarrow> ('w, unit) io" where
  "pm_RemoveRelation E j user tuples =
     go_bind (parseTuples E j tuples) (\<lambda>parsedTuples.
     go_bind (go_foreach (authorizeRelationTargetAdmin E j user) parsedTuples) (\<lambda>_.
     relation_batches (OFGA_RemoveRelation E) parsedTuples))"

section \<open>Checks\<close>

definition checks_user :: "ofga_user \<Rightarrow> tup \<Rightarrow> bool" where
  "checks_user user parsedTuple = (case Object parsedTuple of
       None \<Rightarrow> False
     | Some ob \<Rightarrow> ent_Kind ob = UserTagKind \<and> ent_ID ob = u_Name user)"

definition parseAndAuthorizeRelationCheck ::
    "'w externals \<Rightarrow> perm_manager \<Rightarrow> ofga_user \<Rightarrow> relationship_tuple \<Rightarrow> ('w, tup) io" where
  "parseAndAuthorizeRelationCheck E j user tuple =
     go_bind (parseTuple E j tuple) (\<lambda>parsedTuple.
     if \<not> checks_user user parsedTuple
     then go_bind (authorizeRelationTargetAdmin E j user parsedTuple) (\<lambda>_. go_return parsedTuple)
     else go_return parsedTuple)"

text \<open>The membership tuples a single check is made with: those of the user it is about.\<close>

definition check_context :: "'w externals \<Rightarrow> ofga_user \<Rightarrow> tup \<Rightarrow> ('w, tup list) io" where
  "check_context E user parsedTuple = (case Object parsedTuple of
       Some ob \<Rightarrow>
         if ent_Kind ob = UserTagKind \<and> u_Name user \<noteq> ent_ID ob
         then go_bind (juju_tag E UserTagKind (ent_ID ob)) (\<lambda>tg.
              go_bind (NewUserFromTag E tg) (\<lambda>targetUser. ContextualTuples E targetUser))
         else ContextualTuples E user
     | None \<Rightarrow> ContextualTuples E user)"

definition pm_CheckRelation :: "'w externals \<Rightarrow> perm_manager \<Rightarrow> ofga_user \<Rightarrow> relationship_tuple \<Rightarrow> bool \<Rightarrow> ('w, bool) io" where
  "pm_CheckRelation E j user tuple trace =
     go_bind (parseAndAuthorizeRelationCheck E j user tuple) (\<lambda>parsedTuple.
     go_bind (check_context E user parsedTuple) (\<lambda>contextualTuples.
     go_maperr err_openfga (OFGA_CheckRelation E parsedTuple trace contextualTuples)))"

text \<open>
  The batch: a request that does not parse or is not allowed keeps its error in its own result;
  the others are checked together, under their position as correlation identifier, all with the
  caller's own membership tuples.
\<close>

record check_result =
  cr_Allowed :: bool
  cr_Error :: "err option"

fun authorize_checks :: "'w externals \<Rightarrow> perm_manager \<Rightarrow> ofga_user \<Rightarrow> (nat \<times> relationship_tuple) list
    \<Rightarrow> ('w, (nat \<times> (err + tup)) list) io" where
  "authorize_checks E j user [] = go_return []"
| "authorize_checks E j user ((i, tuple) # rest) =
     go_bind (go_try (parseAndAuthorizeRelationCheck E j user tuple)) (\<lambda>r.
     go_bind (authorize_checks E j user rest) (\<lambda>rs. go_return ((i, r) # rs)))"

definition check_batch :: "tup list \<Rightarrow> (nat \<times> (err + tup)) list \<Rightarrow> tuple_with_id list" where
  "check_batch contextualTuples rs = concat (map (\<lambda>(i, r). case r of
       Inl e \<Rightarrow> [] | Inr x \<Rightarrow> [(x, itoa i, contextualTuples)]) rs)"

definition check_results :: "(string \<Rightarrow> bool option) \<Rightarrow> (nat \<times> (err + tup)) list \<Rightarrow> check_result list" where
  "check_results allowed rs = map (\<lambda>(i, r). case r of
       Inl e \<Rightarrow> \<lparr>cr_Allowed = False, cr_Error = Some e\<rparr>
     | Inr x \<Rightarrow> \<lparr>cr_Allowed = (allowed (itoa i) = Some True), cr_Error = None\<rparr>) rs"

definition failed_results :: "err \<Rightarrow> (nat \<times> (err + tup)) list \<Rightarrow> check_result list" where
  "failed_results er rs = map (\<lambda>(i, r). case r of
       Inl e \<Rightarrow> \<lparr>cr_Allowed = False, cr_Error = Some e\<rparr>
     | Inr x \<Rightarrow> \<lparr>cr_Allowed = False, cr_Error = Some (err_openfga er)\<rparr>) rs"

definition pm_CheckRelations :: "'w externals \<Rightarrow> perm_manager \<Rightarrow> ofga_user \<Rightarrow> relationship_tuple list \<Rightarrow> ('w, check_result list) io" where
  "pm_CheckRelations E j user tuples =
     go_bind (if tuples \<noteq> [] then ContextualTuples E user else go_return []) (\<lambda>contextualTuples.
     go_bind (authorize_checks E j user (enumerate 0 tuples)) (\<lambda>rs.
     if check_batch contextualTuples rs = [] then go_return (check_results Map.empty rs)
     else go_bind (go_try (OFGA_BatchCheckRelations E (check_batch contextualTuples rs))) (\<lambda>r. case r of
         Inl e \<Rightarrow> go_return (failed_results e rs)
       | Inr allowed \<Rightarrow> go_return (check_results allowed rs))))"

section \<open>Facts\<close>

text \<open>
  Which relations a user may manage: an administrator of JIMM any, anybody else an access grant,
  to a user, group or role, on a resource he administers himself or through his groups.
\<close>

definition may_manage :: "tup set \<Rightarrow> ofga_user \<Rightarrow> tag \<Rightarrow> tup \<Rightarrow> bool" where
  "may_manage S user t x \<longleftrightarrow> u_JimmAdmin user
     \<or> Relation x \<in> {AdministratorRelation, ReaderRelation, WriterRelation, ConsumerRelation, CanAddModelRelation,
           AuditLogViewerRelation}
       \<and> (\<exists>ob target. Object x = Some ob \<and> ent_Kind ob \<in> {UserTagKind, GroupTagKind, IdPGroupTagKind, RoleTagKind}
           \<and> Target x = Some target
           \<and> ent_Kind target \<in> {ControllerTagKind, ModelTagKind, ApplicationOfferTagKind, CloudTagKind}
           \<and> holds (S \<union> set (idp_tuples t user)) (ConvertTag t) AdministratorRelation target)"

lemma frame_deref [frame_intros]: "frame obs (deref p)"
  by (simp add: deref_def frame_some)

lemma frame_logUserUpdates: "frame obs (logUserUpdates xs)"
  unfolding logUserUpdates_def by (intro frame_intros)

text \<open>Whatever happens, a whole number of batches was written, and all of them on success.\<close>

lemma relation_batches_prefix:
  assumes wr: "\<And>ts w q w'. put ts w = (q, w') \<Longrightarrow> obs w' = (if q = Ok () then F (obs w) ts else obs w)"
    and F: "\<And>S a b. F (F S a) b = F S (a @ b)" "\<And>S. F S [] = S"
    and run: "relation_batches put xs w = (q, w')"
  shows "\<exists>k. obs w' = F (obs w) (take (k * BATCH_SIZE_OPENFGA) xs)
    \<and> (q = Ok () \<longrightarrow> take (k * BATCH_SIZE_OPENFGA) xs = xs)"
  using run
proof (induction "length xs" arbitrary: xs w rule: less_induct)
  case less
  let ?B = BATCH_SIZE_OPENFGA
  show ?case
  proof (cases xs)
    case Nil
    then show ?thesis using less.prems F by (auto simp: go_simps)
  next
    case (Cons t ts)
    obtain q1 w1 where q1: "put (take ?B xs) w = (q1, w1)" by fastforce
    obtain q2 w2 where q2: "logUserUpdates (take ?B xs) w1 = (q2, w2)" by fastforce
    have w2: "obs w2 = obs w1" by (rule frameD [OF frame_logUserUpdates q2])
    note w1 = wr [OF q1]
    show ?thesis
    proof (cases "q1 = Ok () \<and> q2 = Ok ()")
      case True
      with less.prems Cons q1 q2 have rest: "relation_batches put (drop ?B xs) w2 = (q, w')"
        by (simp add: go_bind_def go_maperr_def)
      have "length (drop ?B xs) < length xs" by (simp add: Cons BATCH_SIZE_OPENFGA_def)
      from less.hyps [OF this rest] obtain k where k: "obs w' = F (obs w2) (take (k * ?B) (drop ?B xs))"
        "q = Ok () \<longrightarrow> take (k * ?B) (drop ?B xs) = drop ?B xs" by blast
      have split: "take (Suc k * ?B) xs = take ?B xs @ take (k * ?B) (drop ?B xs)" by (simp add: take_add)
      show ?thesis
        using k w1 w2 True F(1) by (intro exI [of _ "Suc k"]) (auto simp: split simp del: mult_Suc take_drop)
    next
      case False
      with less.prems Cons q1 q2 w1 w2 have "obs w' = F (obs w) (take (of_bool (q1 = Ok ()) * ?B) xs) \<and> q \<noteq> Ok ()"
        by (cases q1; cases q2) (auto simp: go_bind_def go_maperr_def F(2))
      then show ?thesis by blast
    qed
  qed
qed

context jimm_services
begin

lemma resolver_frames [frame_intros]:
  "frame store (userTag E r)" "frame store (groupTag E d r)" "frame store (idpGroupTag r)" "frame store (roleTag E d r)"
  "frame store (controllerTag E uuid d r)" "frame store (modelTag E d r)" "frame store (applicationOfferTag E d r)"
  "frame store (cloudTag E d r)"
  unfolding userTag_def groupTag_def idpGroupTag_def roleTag_def controllerTag_def modelTag_def
    applicationOfferTag_def cloudTag_def with_relation_def or_err_def juju_tag_def
  by (intro frame_intros)+

lemma resolveTag_frame [frame_intros]: "frame store (resolveTag E uuid d t)"
  unfolding resolveTag_def by (intro frame_intros)

lemma parseAndValidateTag_frame [frame_intros]: "frame store (parseAndValidateTag E j key)"
  unfolding parseAndValidateTag_def by (cases "go_splitN2 (CHR ''-'') key") (auto split: list.split intro!: frame_intros)

lemma parseTuple_frame [frame_intros]: "frame store (parseTuple E j x)"
  unfolding parseTuple_def by (intro frame_intros)

lemma parseTuples_frame [frame_intros]: "frame store (parseTuples E j xs)"
  unfolding parseTuples_def by (intro frame_intros)

lemma authorize_frame [frame_intros]: "frame store (authorizeRelationTargetAdmin E j user x)"
  unfolding authorizeRelationTargetAdmin_def by (intro frame_intros check_client_frame)

lemma authorize_ok:
  assumes "authorizeRelationTargetAdmin E j user x w = (Ok u, w')" and "user_tag E user = Some t"
  shows "may_manage (store w) user t x"
proof (cases "u_JimmAdmin user")
  case False
  with assms(1) obtain ob where rel: "Relation x \<in> set resourceAdminRelations" and ob: "Object x = Some ob"
      "ent_Kind ob \<in> set grantableObjectKinds"
    by (auto simp: authorizeRelationTargetAdmin_def split: if_splits option.splits)
  with False assms(1) obtain tg where tg: "Target x = Some tg"
      "ent_Kind tg \<in> {ControllerTagKind, ModelTagKind, ApplicationOfferTagKind, CloudTagKind}"
    and run: "go_bind (ContextualTuples E user) (\<lambda>ctx. go_bind (user_ResourceTag E user) (\<lambda>t.
        go_bind (go_maperr err_openfga (OFGA_CheckRelation E
          \<lparr>Object = Some (ConvertTag t), Relation = AdministratorRelation, Target = Some tg\<rparr> False ctx)) (\<lambda>allowed.
        if allowed then go_return () else go_err err_unauthorized))) w = (Ok u, w')"
    by (auto simp: authorizeRelationTargetAdmin_def deref_def split: if_splits elim!: go_bind_OkE go_some_OkE)
  from run obtain ctx w1 where ctx: "ContextualTuples E user w = (Ok ctx, w1)" and run1: "go_bind (user_ResourceTag E user) (\<lambda>t.
        go_bind (go_maperr err_openfga (OFGA_CheckRelation E
          \<lparr>Object = Some (ConvertTag t), Relation = AdministratorRelation, Target = Some tg\<rparr> False ctx)) (\<lambda>allowed.
        if allowed then go_return () else go_err err_unauthorized)) w1 = (Ok u, w')"
    by (rule go_bind_OkE)
  from ctx assms(2) have c: "ctx = idp_tuples t user" "w1 = w" by (auto elim: ContextualTuples_OkE)
  from run1 assms(2) obtain w2 where "OFGA_CheckRelation E
      \<lparr>Object = Some (ConvertTag t), Relation = AdministratorRelation, Target = Some tg\<rparr> False ctx w1 = (Ok True, w2)"
    by (auto simp: user_ResourceTag_def elim!: go_bind_OkE split: if_splits)
  from check_client_ok [OF this] have "holds (store w \<union> set (idp_tuples t user)) (ConvertTag t) AdministratorRelation tg"
    by (simp add: check_holds_def c)
  then show ?thesis using rel ob tg
    by (auto simp: may_manage_def resourceAdminRelations_def grantableObjectKinds_def)
qed (simp add: may_manage_def)

lemma authorize_all_frame: "frame store (go_foreach (authorizeRelationTargetAdmin E j user) xs)"
  by (intro frame_intros)

lemma authorize_all_ok:
  assumes "go_foreach (authorizeRelationTargetAdmin E j user) xs w = (Ok u, w')" and "user_tag E user = Some t"
  shows "\<forall>x\<in>set xs. may_manage (store w) user t x"
  using assms(1)
proof (induction xs arbitrary: w)
  case (Cons x xs)
  from Cons.prems obtain u1 w1 where x: "authorizeRelationTargetAdmin E j user x w = (Ok u1, w1)"
    and rest: "go_foreach (authorizeRelationTargetAdmin E j user) xs w1 = (Ok u, w')"
    by (auto elim: go_bind_OkE)
  from Cons.IH [OF rest] authorize_ok [OF x assms(2)] frameD [OF authorize_frame x] show ?case by simp
qed simp

text \<open>A change of relations, however the batches are written: who may make it and what it leaves.\<close>

lemma managed_change:
  assumes run: "go_bind (parseTuples E j tuples) (\<lambda>xs.
      go_bind (go_foreach (authorizeRelationTargetAdmin E j user) xs) (\<lambda>_. relation_batches put xs)) w = (q, w')"
    and t: "user_tag E user = Some t"
    and put: "\<And>ts w q w'. put ts w = (q, w') \<Longrightarrow> store w' = (if q = Ok () then F (store w) ts else store w)"
    and F: "\<And>S a b. F (F S a) b = F S (a @ b)" "\<And>S. F S [] = S"
  shows "store w' = store w \<and> q \<noteq> Ok ()
    \<or> (\<exists>xs w1 k. parseTuples E j tuples w = (Ok xs, w1) \<and> (\<forall>x\<in>set xs. may_manage (store w) user t x)
        \<and> store w' = F (store w) (take (k * BATCH_SIZE_OPENFGA) xs)
        \<and> (q = Ok () \<longrightarrow> take (k * BATCH_SIZE_OPENFGA) xs = xs))"
proof -
  obtain q1 w1 where p: "parseTuples E j tuples w = (q1, w1)" by fastforce
  have w1: "store w1 = store w" by (rule frameD [OF parseTuples_frame p])
  show ?thesis
  proof (cases q1)
    case (Ok xs)
    obtain q2 w2 where a: "go_foreach (authorizeRelationTargetAdmin E j user) xs w1 = (q2, w2)" by fastforce
    have w2: "store w2 = store w1" by (rule frameD [OF authorize_all_frame a])
    show ?thesis
    proof (cases q2)
      case (Ok u)
      with run p \<open>q1 = Ok xs\<close> a have "relation_batches put xs w2 = (q, w')" by (simp add: go_bind_def)
      from relation_batches_prefix [of put store F, OF put F this] obtain k where
        "store w' = F (store w2) (take (k * BATCH_SIZE_OPENFGA) xs)" "q = Ok () \<longrightarrow> take (k * BATCH_SIZE_OPENFGA) xs = xs"
        by blast
      then show ?thesis using authorize_all_ok [OF a [unfolded Ok] t] p \<open>q1 = Ok xs\<close> w1 w2 by auto
    qed (use run p \<open>q1 = Ok xs\<close> a w1 w2 in \<open>auto simp: go_bind_def\<close>)
  qed (use run p w1 in \<open>auto simp: go_bind_def\<close>)
qed

end

text \<open>
  C1. Adding relations through the API. Either nothing changed in OpenFGA and the call did not
  succeed, or every tuple of the request was resolved, the caller may manage every one of them
  (an administrator of JIMM anything, anybody else only access grants to users, groups or roles
  on resources he administers, never the links between controllers, models and offers), and
  exactly a whole number of batches of the request was added, the whole request on success.
\<close>

theorem add_relation_authorised:
  assumes "jimm_services E store remaining" and "user_tag E user = Some t"
    and "pm_AddRelation E j user tuples w = (q, w')"
  shows "store w' = store w \<and> q \<noteq> Ok ()
    \<or> (\<exists>xs w1 k. parseTuples E j tuples w = (Ok xs, w1) \<and> (\<forall>x\<in>set xs. may_manage (store w) user t x)
        \<and> store w' = store w \<union> set (take (k * BATCH_SIZE_OPENFGA) xs)
        \<and> (q = Ok () \<longrightarrow> take (k * BATCH_SIZE_OPENFGA) xs = xs))"
proof -
  have os: "openfga_service E store remaining" using assms(1) by (rule jimm_services.axioms)
  have put: "store w' = (if q = Ok () then store w \<union> set ts else store w)"
    if "OFGA_AddRelation E ts w = (q, w')" for ts w q w'
    using that openfga_service.add_cases [OF os, of ts w] unfolding OFGA_AddRelation_def
    by (metis Pair_inject outcome.distinct(1))
  show ?thesis
    by (rule jimm_services.managed_change [OF assms(1) assms(3) [unfolded pm_AddRelation_def] assms(2) put]) auto
qed

text \<open>
  C2. Removing relations through the API, with the same authority and the same granularity: what
  a call removes is a whole number of batches of a request every tuple of which the caller may
  manage.
\<close>

theorem remove_relation_authorised:
  assumes "jimm_services E store remaining" and "user_tag E user = Some t"
    and "pm_RemoveRelation E j user tuples w = (q, w')"
  shows "store w' = store w \<and> q \<noteq> Ok ()
    \<or> (\<exists>xs w1 k. parseTuples E j tuples w = (Ok xs, w1) \<and> (\<forall>x\<in>set xs. may_manage (store w) user t x)
        \<and> store w' = store w - set (take (k * BATCH_SIZE_OPENFGA) xs)
        \<and> (q = Ok () \<longrightarrow> take (k * BATCH_SIZE_OPENFGA) xs = xs))"
proof -
  have os: "openfga_service E store remaining" using assms(1) by (rule jimm_services.axioms)
  have put: "store w' = (if q = Ok () then store w - set ts else store w)"
    if "OFGA_RemoveRelation E ts w = (q, w')" for ts w q w'
    using that openfga_service.remove_cases [OF os, of ts w] unfolding OFGA_RemoveRelation_def
    by (metis Pair_inject outcome.distinct(1))
  show ?thesis
    by (rule jimm_services.managed_change [OF assms(1) assms(3) [unfolded pm_RemoveRelation_def] assms(2) put]) auto
qed

text \<open>In the in-memory world alice, who administers JIMM's controller, lets bob read the audit log.\<close>

definition bob_reads_log :: relationship_tuple where
  "bob_reads_log = \<lparr>rt_Object = ''user-bob'', rt_Relation = AuditLogViewerRelation, rt_TargetObject = ''controller-jimm''\<rparr>"

lemma mem_uuid [simp]: "\<not> uuid_Parse mem_externals s"
  by (simp add: mem_defs)

lemma mem_parse_tags:
  "parseAndValidateTag mem_externals mem_pm ''user-bob'' = go_return (ConvertTag (Tag UserTagKind ''bob''))"
  "parseAndValidateTag mem_externals mem_pm ''controller-jimm'' = go_return (ConvertTag (Tag ControllerTagKind ''j''))"
proof -
  have uri: "find_uri ''user-bob'' = Some (''user'', ''bob'', '''')" "find_uri ''controller-jimm'' = Some (''controller'', ''jimm'', '''')"
    by code_simp+
  have dash: "go_splitN2 (CHR ''-'') ''user-bob'' = [''user'', ''bob'']"
    "go_splitN2 (CHR ''-'') ''controller-jimm'' = [''controller'', ''jimm'']"
    by code_simp+
  have kinds: "''user'' = UserTagKind" "''controller'' = ControllerTagKind" by (simp_all add: kind_defs)
  have rel: "ParseRelation '''' = Inr ''''" by (simp add: ParseRelation_def)
  show "parseAndValidateTag mem_externals mem_pm ''user-bob'' = go_return (ConvertTag (Tag UserTagKind ''bob''))"
    "parseAndValidateTag mem_externals mem_pm ''controller-jimm'' = go_return (ConvertTag (Tag ControllerTagKind ''j''))"
    unfolding parseAndValidateTag_def resolveTag_def newTagResolver_def uri dash
    by (simp_all add: kinds rel userTag_def controllerTag_def with_relation_def juju_tag_def new_juju_tag_def
        mem_uuid mem_pm_def ConvertTagWithRelation_def ConvertTag_record)
qed

lemma mem_parse_request:
  "parseTuples mem_externals mem_pm [bob_reads_log] =
     go_return [tag_tup (Tag UserTagKind ''bob'') AuditLogViewerRelation (Tag ControllerTagKind ''j'')]"
proof -
  have "ParseRelation AuditLogViewerRelation = Inr AuditLogViewerRelation" by code_simp
  then show ?thesis
    by (simp add: parseTuples_def parseTuple_def bob_reads_log_def mem_parse_tags tag_tup_def mk_tup_def)
qed

lemma mem_authorized:
  "authorizeRelationTargetAdmin mem_externals mem_pm (mem_user ''alice'')
     (tag_tup (Tag UserTagKind ''bob'') AuditLogViewerRelation (Tag ControllerTagKind ''j''))
     (mem_admin_of (Tag ControllerTagKind ''j'')) = (Ok (), mem_admin_of (Tag ControllerTagKind ''j''))"
proof -
  let ?c = "Tag ControllerTagKind ''j''"
  have "access_ladder (Kind ?c) controller_levels" using controller_access.access_ladder_axioms by simp
  from mem_alice_admin [OF this] show ?thesis
    by (simp add: authorizeRelationTargetAdmin_def tag_tup_def mk_tup_def resourceAdminRelations_def
        grantableObjectKinds_def deref_def ContextualTuples_good user_ResourceTag_def OFGA_CheckRelation_def
        check_holds_def go_bind_def go_maperr_def go_simps)
qed

lemma mem_log_ok: "logUserUpdates [tag_tup a r b] = go_return ()"
  by (simp add: logUserUpdates_def tag_tup_def mk_tup_def deref_def)

lemma mem_add_tag: "mem_add [tag_tup a r b] w = (Ok (), w @ [tag_tup a r b])"
  by (simp add: mem_add_def tag_tup_def mk_tup_def)

theorem add_relation_authorised_witness:
  "\<exists>w'. pm_AddRelation mem_externals mem_pm (mem_user ''alice'') [bob_reads_log]
       (mem_admin_of (Tag ControllerTagKind ''j'')) = (Ok (), w')
     \<and> tag_tup (Tag UserTagKind ''bob'') AuditLogViewerRelation (Tag ControllerTagKind ''j'') \<in> mem_store w'"
proof -
  let ?x = "tag_tup (Tag UserTagKind ''bob'') AuditLogViewerRelation (Tag ControllerTagKind ''j'')"
  let ?w = "mem_admin_of (Tag ControllerTagKind ''j'')"
  have run: "pm_AddRelation mem_externals mem_pm (mem_user ''alice'') [bob_reads_log] ?w = (Ok (), ?w @ [?x])"
    by (simp add: pm_AddRelation_def mem_parse_request mem_authorized mem_log_ok BATCH_SIZE_OPENFGA_def
        OFGA_AddRelation_def mem_add_tag go_bind_def go_maperr_def go_simps)
  from add_relation_authorised [OF memj.jimm_services_axioms mem_user_simps(1) run]
  obtain xs w1 k where xs: "parseTuples mem_externals mem_pm [bob_reads_log] ?w = (Ok xs, w1)"
    and st: "mem_store (?w @ [?x]) = mem_store ?w \<union> set (take (k * BATCH_SIZE_OPENFGA) xs)" "take (k * BATCH_SIZE_OPENFGA) xs = xs"
    by blast
  from xs have "xs = [?x]" by (simp add: mem_parse_request)
  then show ?thesis using st run by (intro exI [of _ "?w @ [?x]"]) simp
qed

theorem remove_relation_authorised_witness:
  "\<exists>w'. pm_RemoveRelation mem_externals mem_pm (mem_user ''alice'') [bob_reads_log]
       (mem_admin_of (Tag ControllerTagKind ''j'')) = (Ok (), w')
     \<and> tag_tup (Tag UserTagKind ''bob'') AuditLogViewerRelation (Tag ControllerTagKind ''j'') \<notin> mem_store w'"
proof -
  let ?x = "tag_tup (Tag UserTagKind ''bob'') AuditLogViewerRelation (Tag ControllerTagKind ''j'')"
  let ?w = "mem_admin_of (Tag ControllerTagKind ''j'')"
  obtain w' where run: "pm_RemoveRelation mem_externals mem_pm (mem_user ''alice'') [bob_reads_log] ?w = (Ok (), w')"
    by (simp add: pm_RemoveRelation_def mem_parse_request mem_authorized mem_log_ok BATCH_SIZE_OPENFGA_def
        OFGA_RemoveRelation_def go_bind_def go_maperr_def go_simps)
  from remove_relation_authorised [OF memj.jimm_services_axioms mem_user_simps(1) run]
  obtain xs w1 k where xs: "parseTuples mem_externals mem_pm [bob_reads_log] ?w = (Ok xs, w1)"
    and st: "mem_store w' = mem_store ?w - set (take (k * BATCH_SIZE_OPENFGA) xs)" "take (k * BATCH_SIZE_OPENFGA) xs = xs"
    by blast
  from xs have "xs = [?x]" by (simp add: mem_parse_request)
  then show ?thesis using st run by (intro exI [of _ w']) simp
qed

section \<open>Checks\<close>

context jimm_services
begin

lemma parse_check_frame [frame_intros]: "frame store (parseAndAuthorizeRelationCheck E j user x)"
  unfolding parseAndAuthorizeRelationCheck_def by (intro frame_intros)

lemma parse_check_ok:
  assumes "parseAndAuthorizeRelationCheck E j user x w = (Ok y, w')" and "user_tag E user = Some t"
  shows "(\<exists>w1. parseTuple E j x w = (Ok y, w1)) \<and> (checks_user user y \<or> may_manage (store w) user t y)"
proof -
  from assms(1) obtain w1 where p: "parseTuple E j x w = (Ok y, w1)"
    and a: "checks_user user y \<or> (\<exists>u w2. authorizeRelationTargetAdmin E j user y w1 = (Ok u, w2))"
    unfolding parseAndAuthorizeRelationCheck_def by (auto elim!: go_bind_OkE split: if_splits)
  then show ?thesis using authorize_ok [OF _ assms(2)] frameD [OF parseTuple_frame p] by metis
qed

lemma NewUserFromTag_frame [frame_intros]: "frame store (NewUserFromTag E tg)"
  unfolding NewUserFromTag_def by (intro frame_intros)

lemma check_context_frame [frame_intros]: "frame store (check_context E user x)"
  unfolding check_context_def juju_tag_def by (intro frame_intros)

lemma authorize_checks_frame [frame_intros]: "frame store (authorize_checks E j user xs)"
  by (induction xs) (auto intro!: frame_intros)

lemma authorize_checks_ok:
  assumes "authorize_checks E j user xs w = (Ok rs, w')" and "user_tag E user = Some t"
  shows "list_all2 (\<lambda>(i, x) (i', r). i' = i \<and> (\<forall>y. r = Inr y \<longrightarrow>
      (\<exists>w1 w2. parseTuple E j x w1 = (Ok y, w2)) \<and> (checks_user user y \<or> may_manage (store w) user t y))) xs rs"
  using assms(1)
proof (induction xs arbitrary: rs w)
  case (Cons p xs)
  obtain k x where p: "p = (k, x)" by (cases p)
  from Cons.prems [unfolded p authorize_checks.simps] show ?case
  proof (cases rule: go_try_bindE)
    case (failed e w1)
    from failed(2) obtain rs' where "authorize_checks E j user xs w1 = (Ok rs', w')" "rs = (k, Inl e) # rs'"
      by (auto elim!: go_bind_OkE)
    with Cons.IH [of w1 rs'] frameD [OF parse_check_frame failed(1)] p show ?thesis by simp
  next
    case (succeeded y w1)
    from succeeded(2) obtain rs' where "authorize_checks E j user xs w1 = (Ok rs', w')" "rs = (k, Inr y) # rs'"
      by (auto elim!: go_bind_OkE)
    with Cons.IH [of w1 rs'] frameD [OF parse_check_frame succeeded(1)] parse_check_ok [OF succeeded(1) assms(2)] p
    show ?thesis by auto
  qed
qed simp

end

text \<open>
  The memberships a question is to be answered with: those of the session if it is about the
  caller or not about a user at all, else those the identity provider reports for that user.
\<close>

definition member_context :: "'w externals \<Rightarrow> ofga_user \<Rightarrow> tag \<Rightarrow> tup \<Rightarrow> tup list \<Rightarrow> bool" where
  "member_context E user t y ctx \<longleftrightarrow>
     (if \<exists>ob. Object y = Some ob \<and> ent_Kind ob = UserTagKind \<and> ent_ID ob \<noteq> u_Name user
      then \<exists>ob tg target w1 w2 w3. Object y = Some ob \<and> new_juju_tag E UserTagKind (ent_ID ob) = Some tg
             \<and> NewUserFromTag E tg w1 = (Ok target, w2) \<and> ContextualTuples E target w2 = (Ok ctx, w3)
      else ctx = idp_tuples t user)"


lemma mem_parse_tuple:
  "parseTuple mem_externals mem_pm bob_reads_log =
     go_return (tag_tup (Tag UserTagKind ''bob'') AuditLogViewerRelation (Tag ControllerTagKind ''j''))"
proof -
  have "ParseRelation AuditLogViewerRelation = Inr AuditLogViewerRelation" by code_simp
  then show ?thesis by (simp add: parseTuple_def bob_reads_log_def mem_parse_tags tag_tup_def mk_tup_def)
qed

lemma bob_checks_himself: "checks_user (mem_user ''bob'') (tag_tup (Tag UserTagKind ''bob'') r res)"
  by (simp add: checks_user_def tag_tup_def mk_tup_def ent_ID_ConvertTag EveryoneUser_def)

lemma bob_context: "check_context mem_externals (mem_user ''bob'') (tag_tup (Tag UserTagKind ''bob'') r res) = go_return []"
  by (simp add: check_context_def ContextualTuples_good tag_tup_def mk_tup_def ent_ID_ConvertTag EveryoneUser_def)

lemma bob_may_ask:
  "parseAndAuthorizeRelationCheck mem_externals mem_pm (mem_user ''bob'') bob_reads_log =
     go_return (tag_tup (Tag UserTagKind ''bob'') AuditLogViewerRelation (Tag ControllerTagKind ''j''))"
  by (simp add: parseAndAuthorizeRelationCheck_def mem_parse_tuple bob_checks_himself)

lemma log_reader_holds:
  "check_holds (mem_store [tag_tup (Tag UserTagKind n) AuditLogViewerRelation (Tag ControllerTagKind c)])
     (tag_tup (Tag UserTagKind n) AuditLogViewerRelation (Tag ControllerTagKind c))"
  unfolding check_holds_def tag_tup_def mk_tup_def
  by simp (rule holds.direct, simp_all add: mem_store_def mk_tup_def assignable_def access_relations_def grantee_def)


lemma check_batch_ids:
  "map (fst \<circ> snd) (check_batch ctx rs) = map (itoa \<circ> fst) (filter (\<lambda>(i, r). \<exists>y. r = Inr y) rs)"
  by (induction rs) (auto simp: check_batch_def split: sum.splits)

lemma check_batch_mem: "(i, Inr y) \<in> set rs \<Longrightarrow> (y, itoa i, ctx) \<in> set (check_batch ctx rs)"
  by (force simp: check_batch_def)

lemma check_batch_distinct:
  assumes "distinct (map fst rs)"
  shows "distinct (map (fst \<circ> snd) (check_batch ctx rs))"
proof -
  have "distinct (map itoa (map fst (filter P rs)))" for P
    unfolding distinct_map [of itoa] using distinct_map_filter [OF assms] itoa_inject by (metis inj_onI)
  then show ?thesis by (simp only: check_batch_ids map_map)
qed

lemma no_result_allowed:
  "i < length rs \<Longrightarrow> \<not> cr_Allowed (check_results Map.empty rs ! i)" "i < length rs \<Longrightarrow> \<not> cr_Allowed (failed_results e rs ! i)"
  by (auto simp: check_results_def failed_results_def split: prod.splits sum.splits)



text \<open>
  A check about everybody panics. The name \<^verbatim>\<open>everyone@external\<close> stands for all users and is
  stored as the identifier \<open>*\<close>; \<^verbatim>\<open>CheckRelation\<close> takes that identifier for the name of another
  user and hands it to the constructor of user tags, which panics on names it does not accept.
  The only conditions are that the request parses and that the caller may ask: here, an
  administrator of JIMM.
\<close>

theorem check_everyone_panics:
  assumes "IsValidUser E EveryoneUser" and "names_NewTag E UserTagKind EveryoneUser = Some EveryoneUser"
    and "names_NewTag E UserTagKind ''*'' = None" and "\<not> uuid_Parse E EveryoneUser"
    and "u_JimmAdmin user" and "u_Name user \<noteq> ''*''"
    and "ParseRelation r = Inr r'" and "target \<noteq> ''''"
    and "parseAndValidateTag E j target w = (Ok e, w')"
  shows "pm_CheckRelation E j user \<lparr>rt_Object = UserTagKind @ ''-'' @ EveryoneUser, rt_Relation = r, rt_TargetObject = target\<rparr> trace w
    = (Panic ''invalid tag'', w')"
proof -
  let ?o = "UserTagKind @ ''-'' @ EveryoneUser"
  have uri: "find_uri ?o = Some (UserTagKind, EveryoneUser, '''')" by code_simp
  have rel: "ParseRelation '''' = Inr ''''" by (simp add: ParseRelation_def)
  have "resolveTag E (pm_jimmUUID j) (pm_store j) ?o = go_return \<lparr>ent_Kind = UserTagKind, ent_ID = ''*'', ent_Relation = ''''\<rparr>"
    using assms(1-4) unfolding resolveTag_def newTagResolver_def uri
    by (simp add: rel userTag_def with_relation_def juju_tag_def new_juju_tag_def ConvertTagWithRelation_def ConvertTag_record)
  then have ob: "parseAndValidateTag E j ?o = go_return \<lparr>ent_Kind = UserTagKind, ent_ID = ''*'', ent_Relation = ''''\<rparr>"
    using parse_written_tag [OF kinds_alnum(1), of E j EveryoneUser] by simp
  show ?thesis
    using assms(3-9)
    by (simp add: pm_CheckRelation_def parseAndAuthorizeRelationCheck_def parseTuple_def ob [simplified] checks_user_def
        authorizeRelationTargetAdmin_def check_context_def juju_tag_def new_juju_tag_def go_bind_def go_maperr_def go_simps)
qed

definition strict_externals :: "tup list externals" where
  "strict_externals = mem_externals\<lparr>names_NewTag := (\<lambda>k i. if i = ''*'' then None else Some i)\<rparr>"

theorem check_everyone_panics_witness:
  "pm_CheckRelation strict_externals mem_pm ((mem_user ''alice'')\<lparr>u_JimmAdmin := True\<rparr>)
     \<lparr>rt_Object = UserTagKind @ ''-'' @ EveryoneUser, rt_Relation = ''reader'', rt_TargetObject = ''model''\<rparr> False []
   = (Panic ''invalid tag'', [])"
proof -
  have "go_splitN2 (CHR ''-'') ''model'' = [''model'']" by code_simp
  then have target: "parseAndValidateTag strict_externals mem_pm ''model'' [] =
      (Ok \<lparr>ent_Kind = ModelTagKind, ent_ID = '''', ent_Relation = ''''\<rparr>, [])"
    by (simp add: parseAndValidateTag_def BlankKindTag_def ModelTagKind_def [symmetric] go_simps)
  have "ParseRelation ''reader'' = Inr ''reader''" by code_simp
  then show ?thesis using target
    by (intro check_everyone_panics [where r' = "''reader''"]) (simp_all add: strict_externals_def EveryoneUser_def)
qed

end
