(* ===== verification/Entitlement.thy ===== *)
theory Entitlement
  imports Go_Json Ofga_Names
begin

text \<open>
  The file \<^verbatim>\<open>internal/common/pagination/entitlement.go\<close>: tokens that page through the relations of
  an object, kind of resource by kind of resource. A token is a kind and OpenFGA's own
  continuation token, as JSON in base 64.
\<close>

definition entitlementResources :: "string list" where
  "entitlementResources = [ControllerTagKind, CloudTagKind, ModelTagKind, ApplicationOfferTagKind,
     GroupTagKind, IdPGroupTagKind, RoleTagKind]"

datatype EntitlementToken = EntitlementToken (token_String: string)

definition NewEntitlementToken :: "string \<Rightarrow> EntitlementToken" where
  "NewEntitlementToken tok = EntitlementToken tok"

record comboToken =
  ct_Kind :: string
  ct_OpenFGAToken :: string

definition bytes_of :: "string \<Rightarrow> bytes" where
  "bytes_of s = map of_char s"

definition string_of :: "bytes \<Rightarrow> string" where
  "string_of bs = map char_of bs"

definition MarshalToken :: "comboToken \<Rightarrow> err + string" where
  "MarshalToken c =
     (if ct_Kind c = '''' then Inl (ErrNew ''marshal entitlement token: kind not specified'')
      else Inr (EncodeToString (string_of (json_marshal
        [(bytes_of ''kind'', bytes_of (ct_Kind c)), (bytes_of ''token'', bytes_of (ct_OpenFGAToken c))]))))"

definition UnmarshalToken :: "string \<Rightarrow> err + comboToken" where
  "UnmarshalToken tok = (case DecodeString tok of
       Inl e \<Rightarrow> Inl (ErrFmt ''failed to decode token: %w'' [] (Some e))
     | Inr out \<Rightarrow> (case json_unmarshal [bytes_of ''kind'', bytes_of ''token''] (bytes_of out) of
         Inl e \<Rightarrow> Inl (ErrFmt ''failed to unmarshal token: %w'' [] (Some e))
       | Inr m \<Rightarrow> Inr \<lparr>ct_Kind = string_of (m (bytes_of ''kind'')), ct_OpenFGAToken = string_of (m (bytes_of ''token''))\<rparr>))"

definition DecodeEntitlementToken :: "EntitlementToken \<Rightarrow> err + string \<times> string" where
  "DecodeEntitlementToken tok =
     (if token_String tok = '''' then Inr ('''', hd entitlementResources)
      else (case UnmarshalToken (token_String tok) of
        Inl e \<Rightarrow> Inl (ErrFmt ''failed to decode pagination token: %w'' [] (Some e))
      | Inr ct \<Rightarrow> Inr (ct_OpenFGAToken ct, ct_Kind ct)))"

definition err_next_resource :: err where
  "err_next_resource = ErrNew ''failed to generate next entitlement token: unable to determine next resource''"

definition NextEntitlementToken :: "string \<Rightarrow> string \<Rightarrow> err + EntitlementToken" where
  "NextEntitlementToken kind openFGAToken =
     (let marshal = (\<lambda>k. case MarshalToken \<lparr>ct_Kind = k, ct_OpenFGAToken = openFGAToken\<rparr> of
          Inl e \<Rightarrow> Inl (ErrFmt ''failed to generate next entitlement token: %w'' [] (Some e))
        | Inr res \<Rightarrow> Inr (EntitlementToken res)) in
      if openFGAToken = ''''
      then (case index_of kind entitlementResources of
          None \<Rightarrow> Inl err_next_resource
        | Some i \<Rightarrow> if i = length entitlementResources - 1 then Inr (EntitlementToken '''')
                    else marshal (entitlementResources ! (i + 1)))
      else marshal kind)"

section \<open>Facts\<close>

lemma bytes_of_roundtrip [simp]: "string_of (bytes_of s) = s"
  by (simp add: string_of_def bytes_of_def comp_def)

lemma bytes_of_eq_iff [simp]: "bytes_of s = bytes_of t \<longleftrightarrow> s = t"
  by (metis bytes_of_roundtrip)

lemma string_of_roundtrip: "\<forall>b\<in>set bs. b < 256 \<Longrightarrow> bytes_of (string_of bs) = bs"
  by (induction bs) (auto simp: string_of_def bytes_of_def)

definition ascii_string :: "string \<Rightarrow> bool" where
  "ascii_string s \<longleftrightarrow> (\<forall>c\<in>set s. of_char c < (128 :: nat))"

lemma ascii_bytes_of [simp]: "ascii (bytes_of s) \<longleftrightarrow> ascii_string s"
  by (simp add: ascii_def bytes_of_def ascii_string_def)

lemma esc_byte_small: "b < 128 \<Longrightarrow> \<forall>x\<in>set (esc_byte b). x < 256"
  by (auto simp: esc_byte_def hexd_def)

lemma esc_small: "ascii s \<Longrightarrow> \<forall>x\<in>set (esc s). x < 256"
  by (induction s) (use esc_byte_small in \<open>auto simp: ascii_def\<close>)

lemma json_marshal_small: "\<forall>(k, v)\<in>set kvs. ascii k \<and> ascii v \<Longrightarrow> \<forall>x\<in>set (json_marshal kvs). x < 256"
proof -
  assume "\<forall>(k, v)\<in>set kvs. ascii k \<and> ascii v"
  then have "\<forall>x\<in>set (json_fields kvs). x < 256"
    by (induction kvs rule: json_fields.induct) (auto simp: json_string_def dest: esc_small)
  then show ?thesis by (auto simp: json_marshal_def)
qed

lemma ascii_kinds: "k \<in> set entitlementResources \<Longrightarrow> k \<noteq> '''' \<and> ascii_string k"
  unfolding entitlementResources_def by (elim set_ConsD [elim_format] disjE) (auto, (code_simp)+)

lemma token_fields: "ascii_string ''kind''" "ascii_string ''token''" "bytes_of ''kind'' \<noteq> bytes_of ''token''"
  by code_simp+

lemma UnmarshalToken_Marshal:
  assumes "MarshalToken c = Inr tok" and "ascii_string (ct_Kind c)" and "ascii_string (ct_OpenFGAToken c)"
  shows "UnmarshalToken tok = Inr c" and "tok \<noteq> ''''"
proof -
  let ?kvs = "[(bytes_of ''kind'', bytes_of (ct_Kind c)), (bytes_of ''token'', bytes_of (ct_OpenFGAToken c))]"
  have ascii: "\<forall>(k, v)\<in>set ?kvs. ascii k \<and> ascii v" using assms(2,3) token_fields(1,2) by simp
  from assms(1) have tok: "tok = EncodeToString (string_of (json_marshal ?kvs))" by (simp add: MarshalToken_def split: if_splits)
  have "bytes_of (string_of (json_marshal ?kvs)) = json_marshal ?kvs"
    using json_marshal_small [OF ascii] by (rule string_of_roundtrip)
  moreover have "json_unmarshal [bytes_of ''kind'', bytes_of ''token''] (json_marshal ?kvs) =
      Inr ((\<lambda>_. [])(bytes_of ''kind'' := bytes_of (ct_Kind c), bytes_of ''token'' := bytes_of (ct_OpenFGAToken c)))"
    using json_parse_marshal [of ?kvs] ascii by (simp add: json_unmarshal_def field_of_def)
  ultimately show "UnmarshalToken tok = Inr c" using token_fields(3) by (simp add: UnmarshalToken_def tok)
  show "tok \<noteq> ''''" by (simp add: tok string_of_def json_marshal_def)
qed

text \<open>The kinds that come after a kind.\<close>

definition kinds_after :: "string \<Rightarrow> string list" where
  "kinds_after kind = tl (dropWhile (\<lambda>k. k \<noteq> kind) entitlementResources)"

lemma index_of_mem:
  "x \<in> set xs \<Longrightarrow> \<exists>i. index_of x xs = Some i \<and> i < length xs \<and> dropWhile (\<lambda>y. y \<noteq> x) xs = drop i xs \<and> xs ! i = x"
  by (induction xs) auto

lemma distinct_resources: "distinct entitlementResources"
  by code_simp

lemma dropWhile_nth: "distinct xs \<Longrightarrow> i < length xs \<Longrightarrow> dropWhile (\<lambda>y. y \<noteq> xs ! i) xs = drop i xs"
  using index_of_mem [of "xs ! i" xs] by (metis index_of_nth nth_mem option.inject)

lemma kinds_after_nth: "i < length entitlementResources \<Longrightarrow> kinds_after (entitlementResources ! i) = drop (Suc i) entitlementResources"
  by (simp add: kinds_after_def dropWhile_nth [OF distinct_resources] drop_Suc tl_drop)

lemma kinds_after_first: "kinds_after (hd entitlementResources) = tl entitlementResources"
  using kinds_after_nth [of 0] by (simp add: entitlementResources_def)

lemma NextEntitlementToken_ok:
  assumes "kind \<in> set entitlementResources" and "ascii_string tok"
  obtains (same) e where "NextEntitlementToken kind tok = Inr e" and "tok \<noteq> ''''" and "token_String e \<noteq> ''''"
      and "DecodeEntitlementToken e = Inr (tok, kind)"
    | (last) "NextEntitlementToken kind tok = Inr (EntitlementToken '''')" and "tok = ''''" and "kinds_after kind = []"
    | (another) e k ks where "NextEntitlementToken kind tok = Inr e" and "tok = ''''" and "token_String e \<noteq> ''''"
      and "DecodeEntitlementToken e = Inr ('''', k)" and "kinds_after kind = k # ks" and "kinds_after k = ks"
      and "k \<in> set entitlementResources"
proof -
  have marshal: "\<exists>res. MarshalToken \<lparr>ct_Kind = k, ct_OpenFGAToken = tok\<rparr> = Inr res \<and> res \<noteq> ''''
      \<and> DecodeEntitlementToken (EntitlementToken res) = Inr (tok, k)" if "k \<in> set entitlementResources" for k
  proof -
    note k = ascii_kinds [OF that]
    then obtain res where res: "MarshalToken \<lparr>ct_Kind = k, ct_OpenFGAToken = tok\<rparr> = Inr res" by (simp add: MarshalToken_def)
    show ?thesis using UnmarshalToken_Marshal [OF res] res k assms(2) by (simp add: DecodeEntitlementToken_def)
  qed
  show ?thesis
  proof (cases "tok = ''''")
    case False
    from marshal [OF assms(1)] obtain res where "MarshalToken \<lparr>ct_Kind = kind, ct_OpenFGAToken = tok\<rparr> = Inr res"
      "res \<noteq> ''''" "DecodeEntitlementToken (EntitlementToken res) = Inr (tok, kind)" by blast
    then show ?thesis using False by (intro same [of "EntitlementToken res"]) (simp_all add: NextEntitlementToken_def)
  next
    case True
    from index_of_mem [OF assms(1)] obtain i where i: "index_of kind entitlementResources = Some i"
      "i < length entitlementResources" "entitlementResources ! i = kind" by blast
    show ?thesis
    proof (cases "i = length entitlementResources - 1")
      case last_i: True
      then show ?thesis using i True kinds_after_nth [OF i(2)] by (intro last) (simp_all add: NextEntitlementToken_def)
    next
      case False
      then have j: "Suc i < length entitlementResources" using i(2) by simp
      let ?k = "entitlementResources ! Suc i"
      from marshal [of ?k] j obtain res where "MarshalToken \<lparr>ct_Kind = ?k, ct_OpenFGAToken = tok\<rparr> = Inr res"
        "res \<noteq> ''''" "DecodeEntitlementToken (EntitlementToken res) = Inr (tok, ?k)" by auto
      moreover have "kinds_after kind = ?k # kinds_after ?k"
        using kinds_after_nth [OF i(2)] kinds_after_nth [OF j] i(3) j by (metis Cons_nth_drop_Suc)
      ultimately show ?thesis using i True False j
        by (intro another [of "EntitlementToken res" ?k "kinds_after ?k"]) (simp_all add: NextEntitlementToken_def)
    qed
  qed
qed

section \<open>Properties\<close>

text \<open>
  C34. What a page token says is read back: the token made for a kind and a continuation token of
  OpenFGA decodes to both; at the end of a kind the token starts the next kind, and only the end
  of the last kind gives the empty token, which a client would send to start again. Continuation
  tokens are ASCII.
\<close>

theorem entitlement_token_roundtrip:
  assumes "kind \<in> set entitlementResources" and "ascii_string tok"
  shows "\<exists>e. NextEntitlementToken kind tok = Inr e
    \<and> (tok \<noteq> '''' \<longrightarrow> DecodeEntitlementToken e = Inr (tok, kind))
    \<and> (tok = '''' \<and> kind \<noteq> last entitlementResources \<longrightarrow> (\<exists>i. entitlementResources ! i = kind \<and>
         DecodeEntitlementToken e = Inr ('''', entitlementResources ! Suc i)))
    \<and> (token_String e = '''' \<longleftrightarrow> tok = '''' \<and> kind = last entitlementResources)"
proof -
  have last_iff: "kinds_after kind = [] \<longleftrightarrow> kind = last entitlementResources"
  proof -
    from index_of_mem [OF assms(1)] obtain i where i: "i < length entitlementResources" "entitlementResources ! i = kind" by blast
    have ne: "entitlementResources \<noteq> []" by (simp add: entitlementResources_def)
    have "kinds_after kind = [] \<longleftrightarrow> i = length entitlementResources - 1" using kinds_after_nth [OF i(1)] i by auto
    also have "\<dots> \<longleftrightarrow> kind = last entitlementResources"
      using i ne nth_eq_iff_index_eq [OF distinct_resources, of i "length entitlementResources - 1"] by (simp add: last_conv_nth)
    finally show ?thesis .
  qed
  from assms show ?thesis
  proof (cases rule: NextEntitlementToken_ok)
    case (another e k ks)
    from index_of_mem [OF assms(1)] obtain i where i: "i < length entitlementResources" "entitlementResources ! i = kind" by blast
    have "entitlementResources ! Suc i = k"
      using kinds_after_nth [OF i(1)] another(5) i(2) by (metis list.sel(1) hd_drop_conv_nth drop_eq_Nil list.distinct(1) not_le)
    then show ?thesis using another last_iff i(2) by (metis list.distinct(1))
  qed (use last_iff in auto)
qed

theorem entitlement_token_roundtrip_witness:
  "\<exists>e. NextEntitlementToken ModelTagKind ''bWFy'' = Inr e \<and> DecodeEntitlementToken e = Inr (''bWFy'', ModelTagKind)"
proof -
  have "ModelTagKind \<in> set entitlementResources" by (simp add: entitlementResources_def)
  moreover have "ascii_string ''bWFy''" by code_simp
  ultimately show ?thesis using entitlement_token_roundtrip [of ModelTagKind "''bWFy''"] by auto
qed

end
