(* ===== verification/Pagination.thy ===== *)
theory Pagination
  imports Go_Prelude
begin

text \<open>
  The file \<^verbatim>\<open>internal/common/pagination/pagination.go\<close>: how the size and number of a page a client
  asks for become the limit and offset of a query. Go's \<^verbatim>\<open>int\<close> has 64 bits and its products
  wrap around, which is written out with \<open>go_int\<close>.
\<close>

section \<open>Filters\<close>

definition defaultOffsetFilterPageSize :: int where "defaultOffsetFilterPageSize = 50"
definition maxOffsetFilterPageSize :: int where "maxOffsetFilterPageSize = 200"
definition defaultOpenFGAPageSize :: int where "defaultOpenFGAPageSize = 50"
definition maxOpenFGAPageSize :: int where "maxOpenFGAPageSize = 100"

lemmas page_size_defs = defaultOffsetFilterPageSize_def maxOffsetFilterPageSize_def
  defaultOpenFGAPageSize_def maxOpenFGAPageSize_def

record limit_offset =
  lo_limit :: int
  lo_offset :: int

definition NewOffsetFilter :: "int \<Rightarrow> int \<Rightarrow> limit_offset" where
  "NewOffsetFilter limit offset =
     (let limit' = (if limit \<le> 0 then defaultOffsetFilterPageSize else limit);
          limit'' = (if limit' > maxOffsetFilterPageSize then maxOffsetFilterPageSize else limit');
          offset' = (if offset < 0 then 0 else offset)
      in \<lparr>lo_limit = limit'', lo_offset = offset'\<rparr>)"

definition Limit :: "limit_offset \<Rightarrow> int" where
  "Limit l = lo_limit l"

definition Offset :: "limit_offset \<Rightarrow> int" where
  "Offset l = lo_offset l"

text \<open>The size, the page and the offset both constructors start from; \<open>None\<close> is a nil pointer.\<close>

definition page_start :: "int option \<Rightarrow> int option \<Rightarrow> int \<times> int \<times> int" where
  "page_start sizeP pageP = (case (sizeP, pageP) of
       (Some sz, Some page) \<Rightarrow> (sz, page, go_int (sz * page))
     | _ \<Rightarrow> (- 1, 0, 0))"

definition CreatePagination :: "int option \<Rightarrow> int option \<Rightarrow> int \<Rightarrow> int \<times> int option \<times> limit_offset" where
  "CreatePagination sizeP pageP total_records = (case page_start sizeP pageP of (pageSize, currentPage, offset) \<Rightarrow>
     (currentPage,
      (if go_int (go_int (currentPage + 1) * pageSize) < total_records then Some (go_int (currentPage + 1)) else None),
      NewOffsetFilter pageSize offset))"

definition CreatePaginationWithoutTotal :: "int option \<Rightarrow> int option \<Rightarrow> int \<times> int \<times> limit_offset" where
  "CreatePaginationWithoutTotal sizeP pageP = (case page_start sizeP pageP of (pageSize, currentPage, offset) \<Rightarrow>
     (currentPage, go_int (pageSize + 1), NewOffsetFilter (go_int (pageSize + 1)) offset))"

record openfga_page =
  op_limit :: int
  op_token :: string

definition NewOpenFGAFilter :: "int \<Rightarrow> string \<Rightarrow> openfga_page" where
  "NewOpenFGAFilter limit token =
     (let limit' = (if limit \<le> 0 then defaultOpenFGAPageSize else limit);
          limit'' = (if limit' > maxOpenFGAPageSize then maxOpenFGAPageSize else limit')
      in \<lparr>op_limit = limit'', op_token = token\<rparr>)"

section \<open>Properties\<close>

text \<open>The records a page shows, by position.\<close>

definition in_page :: "limit_offset \<Rightarrow> int \<Rightarrow> bool" where
  "in_page f i \<longleftrightarrow> Offset f \<le> i \<and> i < Offset f + Limit f"

lemma Limit_bounds: "1 \<le> Limit (NewOffsetFilter l off)" "Limit (NewOffsetFilter l off) \<le> 200"
  by (simp_all add: Limit_def NewOffsetFilter_def page_size_defs)

lemma Offset_bound: "0 \<le> Offset (NewOffsetFilter l off)"
  by (simp add: Offset_def NewOffsetFilter_def)

text \<open>
  C37. Whatever a client asks for, also where the product of size and page overflows: the limit of
  a query is between 1 and 200 (100 for OpenFGA) and its offset is not negative.
\<close>

theorem page_bounds:
  "(case CreatePagination sizeP pageP total_records of (_, _, f) \<Rightarrow> 1 \<le> Limit f \<and> Limit f \<le> 200 \<and> 0 \<le> Offset f)
   \<and> (case CreatePaginationWithoutTotal sizeP pageP of (_, _, f) \<Rightarrow> 1 \<le> Limit f \<and> Limit f \<le> 200 \<and> 0 \<le> Offset f)
   \<and> 1 \<le> op_limit (NewOpenFGAFilter n tok) \<and> op_limit (NewOpenFGAFilter n tok) \<le> 100
   \<and> op_token (NewOpenFGAFilter n tok) = tok"
  by (simp add: CreatePagination_def CreatePaginationWithoutTotal_def Limit_bounds Offset_bound split: prod.split)
    (simp add: NewOpenFGAFilter_def page_size_defs)

lemma CreatePagination_plain:
  assumes "0 < s" and "0 \<le> p" and "(p + 1) * s < 2 ^ 63"
  shows "CreatePagination (Some s) (Some p) total_records =
    (p, if (p + 1) * s < total_records then Some (p + 1) else None, NewOffsetFilter s (s * p))"
proof -
  have b1: "p + 1 \<le> (p + 1) * s" using assms(1,2) by simp
  have b2: "0 \<le> s * p" "s * p \<le> (p + 1) * s" using assms(1,2) by (simp_all add: algebra_simps)
  have "go_int (p + 1) = p + 1" by (rule go_int_id) (use b1 assms in linarith)+
  moreover have "go_int ((p + 1) * s) = (p + 1) * s" by (rule go_int_id) (use b1 assms in linarith)+
  moreover have "go_int (s * p) = s * p" by (rule go_int_id) (use b2 assms in linarith)+
  ultimately show ?thesis by (simp add: CreatePagination_def page_start_def)
qed

lemma mult_div_window:
  fixes s :: int
  assumes "0 < s"
  shows "s * p \<le> i \<and> i < s * p + s \<longleftrightarrow> i div s = p"
proof
  assume "s * p \<le> i \<and> i < s * p + s"
  then show "i div s = p" using int_div_pos_eq [of i s p "i - s * p"] by simp
next
  assume "i div s = p"
  then have "i = s * p + i mod s" by (metis mult_div_mod_eq)
  then show "s * p \<le> i \<and> i < s * p + s" using pos_mod_sign [OF assms, of i] pos_mod_bound [OF assms, of i] by linarith
qed

lemma div_greater_iff:
  fixes s :: int
  assumes "0 < s"
  shows "p < i div s \<longleftrightarrow> (p + 1) * s \<le> i"
proof -
  have "(i + (- (p + 1)) * s) div s = - (p + 1) + i div s" by (rule div_mult_self1) (use assms in simp)
  then have "p < i div s \<longleftrightarrow> 0 \<le> (i + (- (p + 1)) * s) div s" by linarith
  also have "\<dots> \<longleftrightarrow> 0 \<le> i + (- (p + 1)) * s" using assms by (rule pos_imp_zdiv_nonneg_iff)
  also have "\<dots> \<longleftrightarrow> (p + 1) * s \<le> i" by (simp add: algebra_simps)
  finally show ?thesis .
qed

lemma page_offset: "0 < s \<Longrightarrow> 0 \<le> p \<Longrightarrow> Offset (NewOffsetFilter s (s * p)) = s * p"
  unfolding Offset_def NewOffsetFilter_def Let_def using mult_nonneg_nonneg [of s p] by (auto simp del: mult_nonneg_nonneg)

text \<open>
  C36. For a size the server accepts the pages partition the records: the record at position \<open>i\<close>
  is on page \<open>i div size\<close> and on no other, and there is a next page if and only if there are
  records after this one.
\<close>

theorem pages_partition:
  assumes "1 \<le> s" and "s \<le> 200" and "0 \<le> p" and "(p + 1) * s < 2 ^ 63" and "0 \<le> total_records"
  shows "\<exists>next f. CreatePagination (Some s) (Some p) total_records = (p, next, f)
    \<and> (\<forall>i. in_page f i \<longleftrightarrow> i div s = p)
    \<and> (next = Some (p + 1) \<and> (\<exists>i<total_records. i div s > p) \<or> next = None \<and> \<not> (\<exists>i<total_records. i div s > p))"
proof -
  have pos: "0 < s" using assms(1) by simp
  have "in_page (NewOffsetFilter s (s * p)) i \<longleftrightarrow> i div s = p" for i
    unfolding mult_div_window [OF pos, symmetric]
    using assms(1,2) page_offset [OF pos assms(3)] by (simp add: in_page_def NewOffsetFilter_def Limit_def page_size_defs)
  moreover have "(\<exists>i<total_records. i div s > p) \<longleftrightarrow> (p + 1) * s < total_records"
    unfolding div_greater_iff [OF pos] by (metis order.strict_trans1 order.refl)
  ultimately show ?thesis unfolding CreatePagination_plain [OF pos assms(3,4)] by simp
qed

theorem pages_partition_witness:
  "\<exists>f. CreatePagination (Some 50) (Some 1) 120 = (1, Some 2, f) \<and> in_page f 99"
proof -
  have "\<exists>i<120 :: int. i div 50 > 1" by (rule exI [of _ 119]) simp
  then show ?thesis using pages_partition [of 50 1 120] by auto
qed

text \<open>
  For a size above the maximum only the limit is cut down, not the offset of the pages: the
  records at positions that are 200 or more into a page of the requested size are on no page at
  all.
\<close>

theorem oversized_pages_skip:
  assumes "200 < s" and "0 \<le> i" and "200 \<le> i mod s" and "0 \<le> p" and "(p + 1) * s < 2 ^ 63"
  shows "\<not> in_page (snd (snd (CreatePagination (Some s) (Some p) total_records))) i"
proof -
  have pos: "0 < s" using assms(1) by simp
  have split: "i = s * (i div s) + i mod s" by simp
  show ?thesis
  proof
    assume "in_page (snd (snd (CreatePagination (Some s) (Some p) total_records))) i"
    then have i: "s * p \<le> i" "i < s * p + 200" unfolding CreatePagination_plain [OF pos assms(4,5)]
      using assms(1) page_offset [OF pos assms(4)] by (simp_all add: in_page_def NewOffsetFilter_def Limit_def page_size_defs)
    then have "s * p \<le> i \<and> i < s * p + s" using assms(1) by linarith
    then have "i div s = p" using mult_div_window [OF pos] by blast
    then show False using i split assms(3) by simp
  qed
qed

theorem oversized_pages_skip_witness:
  "\<not> in_page (snd (snd (CreatePagination (Some 500) (Some 0) 1000))) 300"
  using oversized_pages_skip [of 500 300 0] by simp

end
