(* ===== verification/Perm_Listing.thy ===== *)
theory Perm_Listing
  imports Perm_Relations Entitlement Pagination
begin

text \<open>
  The paged listings of \<^verbatim>\<open>internal/jimm/permissions/relations.go\<close> and \<^verbatim>\<open>internal/db/resource.go\<close>. A page
  of the relations of an object goes through the kinds of resources one after the other until it
  is full; the loop ends when OpenFGA says so and takes fuel.
\<close>

section \<open>Relations of an object\<close>

text \<open>\<^verbatim>\<open>int32\<close>.\<close>

definition go_int32 :: "int \<Rightarrow> int" where
  "go_int32 x = (x + 2 ^ 31) mod 2 ^ 32 - 2 ^ 31"

lemma go_int32_id: "- (2 ^ 31) \<le> x \<Longrightarrow> x < 2 ^ 31 \<Longrightarrow> go_int32 x = x"
  by (simp add: go_int32_def)

primrec page_loop :: "'w externals \<Rightarrow> perm_manager \<Rightarrow> nat \<Rightarrow> tup \<Rightarrow> int \<Rightarrow> tup list \<Rightarrow> EntitlementToken \<Rightarrow> ('w, tup list \<times> EntitlementToken) io" where
  "page_loop E j 0 = (\<lambda>tuple pageSize responseTuples nextToken. go_nofuel)"
| "page_loop E j (Suc fuel) = (\<lambda>tuple pageSize responseTuples nextToken.
     go_bind (go_sum (DecodeEntitlementToken nextToken)) (\<lambda>(continuationToken, kind).
     go_bind (parseAndValidateTag E j kind) (\<lambda>target.
     go_bind (OFGA_ReadRelatedObjects E (tuple\<lparr>Target := Some target\<rparr>) pageSize continuationToken) (\<lambda>(t, nextContinuationToken).
     go_bind (go_sum (NextEntitlementToken kind nextContinuationToken)) (\<lambda>nextToken.
     let responseTuples = responseTuples @ t;
         pageSize = go_int32 (pageSize - go_int32 (int (length t))) in
     if pageSize \<le> 0 \<or> token_String nextToken = '''' then go_return (responseTuples, nextToken)
     else page_loop E j fuel (tuple\<lparr>Target := Some target\<rparr>) pageSize responseTuples nextToken)))))"

definition getObjectRelationsPage :: "'w externals \<Rightarrow> nat \<Rightarrow> perm_manager \<Rightarrow> string \<Rightarrow> string \<Rightarrow> int \<Rightarrow> EntitlementToken \<Rightarrow> ('w, tup list \<times> EntitlementToken) io" where
  "getObjectRelationsPage E fuel j object relation pageSize entitlementToken =
     go_bind (parseAndValidateTag E j object) (\<lambda>ob.
     page_loop E j fuel \<lparr>Object = Some ob, Relation = relation, Target = None\<rparr> pageSize [] entitlementToken)"

definition listObjectRelations :: "'w externals \<Rightarrow> nat \<Rightarrow> perm_manager \<Rightarrow> ofga_user \<Rightarrow> string \<Rightarrow> string \<Rightarrow> int \<Rightarrow> EntitlementToken \<Rightarrow> ('w, tup list \<times> EntitlementToken) io" where
  "listObjectRelations E fuel j user object relation pageSize entitlementToken =
     (if \<not> u_JimmAdmin user then go_err err_unauthorized
      else go_bind (getObjectRelationsPage E fuel j object relation pageSize entitlementToken) (\<lambda>(responseTuples, nextToken).
        if int (length responseTuples) = pageSize \<and> token_String nextToken \<noteq> ''''
        then go_bind (go_maperr (wrapped ''error getting next page to verify it cointains something: %w'')
            (getObjectRelationsPage E fuel j object relation 1 nextToken)) (\<lambda>(more, _).
          go_return (responseTuples, if more = [] then EntitlementToken '''' else nextToken))
        else go_return (responseTuples, nextToken)))"

definition ListObjectRelations :: "'w externals \<Rightarrow> nat \<Rightarrow> perm_manager \<Rightarrow> ofga_user \<Rightarrow> string \<Rightarrow> int \<Rightarrow> EntitlementToken \<Rightarrow> ('w, tup list \<times> EntitlementToken) io" where
  "ListObjectRelations E fuel j user object pageSize entitlementToken =
     listObjectRelations E fuel j user object '''' pageSize entitlementToken"

definition ListRelationshipTuples :: "'w externals \<Rightarrow> nat \<Rightarrow> perm_manager \<Rightarrow> ofga_user \<Rightarrow> relationship_tuple \<Rightarrow> int \<Rightarrow> string \<Rightarrow> ('w, tup list \<times> string) io" where
  "ListRelationshipTuples E fuel j user tuple pageSize continuationToken =
     (if \<not> u_JimmAdmin user then go_err err_unauthorized
      else if rt_TargetObject tuple = '''' \<and> rt_Object tuple \<noteq> ''''
      then (case ParseRelation (rt_Relation tuple) of
          Inl e \<Rightarrow> go_err (Codef CodeBadRequest (ErrFmt ''%w'' [] (Some e)))
        | Inr relation \<Rightarrow>
            go_bind (listObjectRelations E fuel j user (rt_Object tuple) relation pageSize (NewEntitlementToken continuationToken))
              (\<lambda>(tuples, tok). go_return (tuples, token_String tok)))
      else go_bind (if rt_TargetObject tuple \<noteq> '''' then parseTuple E j tuple else go_return no_tup) (\<lambda>parsedTuple.
        OFGA_ReadRelatedObjects E parsedTuple pageSize continuationToken))"

section \<open>Resources\<close>

record resource =
  rs_Type :: string
  rs_ID :: "string option"
  rs_Name :: string
  rs_ParentId :: "string option"
  rs_ParentName :: string
  rs_ParentType :: string

text \<open>
  The query that is built: over which tables, with which prefix of the name, from where and how
  many. The database runs it.
\<close>

datatype resource_table = ApplicationOffersTable | CloudsTable | ControllersTable | ModelsTable

record resource_query =
  rq_tables :: "resource_table list"
  rq_namePrefix :: string
  rq_order :: "string list"
  rq_offset :: int
  rq_limit :: int

definition buildQuery :: "int \<Rightarrow> int \<Rightarrow> string \<Rightarrow> string \<Rightarrow> err + resource_query" where
  "buildQuery offset limit namePrefixFilter typeFilter =
     (let query = (\<lambda>tables order. \<lparr>rq_tables = tables, rq_namePrefix = namePrefixFilter, rq_order = order,
          rq_offset = offset, rq_limit = limit\<rparr>) in
      if typeFilter = '''' then Inr (query [ApplicationOffersTable, CloudsTable, ControllersTable, ModelsTable] [''type'', ''id''])
      else if typeFilter = ''controllers'' then Inr (query [ControllersTable] [''id''])
      else if typeFilter = ''clouds'' then Inr (query [CloudsTable] [''id''])
      else if typeFilter = ''application_offers'' then Inr (query [ApplicationOffersTable] [''id''])
      else if typeFilter = ''models'' then Inr (query [ModelsTable] [''id''])
      else Inl (ErrNew ''this entityType does not exist''))"

definition db_ListResources :: "(handle \<Rightarrow> resource_query \<Rightarrow> ('w, resource list) io) \<Rightarrow> database \<Rightarrow> int \<Rightarrow> int \<Rightarrow> string \<Rightarrow> string \<Rightarrow> ('w, resource list) io" where
  "db_ListResources run d limit offset namePrefixFilter typeFilter =
     go_bind (ready d) (\<lambda>_.
     go_bind (go_sum (buildQuery offset limit namePrefixFilter typeFilter)) (\<lambda>query.
     db_do (run (db_handle d) query)))"

definition pm_ListResources :: "(handle \<Rightarrow> resource_query \<Rightarrow> ('w, resource list) io) \<Rightarrow> perm_manager \<Rightarrow> ofga_user \<Rightarrow> limit_offset \<Rightarrow> string \<Rightarrow> string \<Rightarrow> ('w, resource list) io" where
  "pm_ListResources run j user filt namePrefixFilter typeFilter =
     (if \<not> u_JimmAdmin user then go_err err_unauthorized
      else db_ListResources run (pm_store j) (Limit filt) (Offset filt) namePrefixFilter typeFilter)"

section \<open>What a page holds\<close>

text \<open>The continuation tokens of OpenFGA are ASCII.\<close>

definition ascii_tokens :: "'w externals \<Rightarrow> bool" where
  "ascii_tokens E \<longleftrightarrow> (\<forall>p n tok w ts ct w'. cofga_FindMatchingTuples E p n tok w = (Ok (ts, ct), w') \<longrightarrow> ascii_string ct)"

definition blank :: "string \<Rightarrow> entity" where
  "blank k = \<lparr>ent_Kind = k, ent_ID = '''', ent_Relation = ''''\<rparr>"

lemma parse_kind_only: "k \<in> set entitlementResources \<Longrightarrow> parseAndValidateTag E j k = go_return (blank k)"
proof -
  assume k: "k \<in> set entitlementResources"
  have "\<forall>k\<in>set entitlementResources. go_splitN2 (CHR ''-'') k = [k]" by code_simp
  with k have "go_splitN2 (CHR ''-'') k = [k]" by blast
  moreover have "BlankKindTag k = Inr (blank k)" using k by (auto simp: entitlementResources_def BlankKindTag_def blank_def)
  ultimately show ?thesis by (simp add: parseAndValidateTag_def)
qed

text \<open>A token that names a kind of resource.\<close>

definition valid_token :: "EntitlementToken \<Rightarrow> bool" where
  "valid_token tok \<longleftrightarrow> (\<exists>ct kind. DecodeEntitlementToken tok = Inr (ct, kind) \<and> kind \<in> set entitlementResources)"

context openfga_service
begin

text \<open>What is still to be listed from a kind and a continuation token on.\<close>

definition listing :: "'w \<Rightarrow> tup \<Rightarrow> string \<Rightarrow> string \<Rightarrow> tup set" where
  "listing w p kind tok = remaining w (p\<lparr>Target := Some (blank kind)\<rparr>) tok
     \<union> (\<Union>k\<in>set (kinds_after kind). {x \<in> store w. tup_matches (p\<lparr>Target := Some (blank k)\<rparr>) x})"

definition after_token :: "'w \<Rightarrow> tup \<Rightarrow> EntitlementToken \<Rightarrow> tup set" where
  "after_token w p tok = (case DecodeEntitlementToken tok of Inr (ct, kind) \<Rightarrow> listing w p kind ct | Inl e \<Rightarrow> {})"

lemma listing_store:
  assumes "store w = store w'"
  shows "listing w p kind tok = listing w' p kind tok"
  using remaining_store [OF assms, of "p\<lparr>Target := Some (blank kind)\<rparr>" tok] assms by (simp add: listing_def)

lemma after_token_store:
  assumes "store w = store w'"
  shows "after_token w p tok = after_token w' p tok"
  unfolding after_token_def using listing_store [OF assms] by (simp split: sum.split)

lemma listing_next:
  assumes "kinds_after kind = k # ks" and "kinds_after k = ks"
  shows "listing w p kind tok = remaining w (p\<lparr>Target := Some (blank kind)\<rparr>) tok \<union> listing w p k ''''"
  using assms remaining_start by (auto simp: listing_def)

text \<open>One round of the loop.\<close>

lemma page_round:
  assumes "ascii_tokens E" and "DecodeEntitlementToken tok = Inr (ct, kind)" and "kind \<in> set entitlementResources"
  obtains (err) e w1 where "page_loop E j (Suc fuel) p n acc tok w = (Err e, w1)" and "store w1 = store w"
    | (page) ts nxt w1 where
      "page_loop E j (Suc fuel) p n acc tok w =
         (if go_int32 (n - go_int32 (int (length ts))) \<le> 0 \<or> token_String nxt = '''' then (Ok (acc @ map adapted ts, nxt), w1)
          else page_loop E j fuel (p\<lparr>Target := Some (blank kind)\<rparr>) (go_int32 (n - go_int32 (int (length ts)))) (acc @ map adapted ts) nxt w1)"
      and "store w1 = store w"
      and "listing w p kind ct = set ts \<union> (if token_String nxt = '''' then {} else after_token w p nxt)"
      and "token_String nxt \<noteq> '''' \<Longrightarrow> valid_token nxt \<and> (\<exists>ct' kind'. DecodeEntitlementToken nxt = Inr (ct', kind')
        \<and> (kind' = kind \<and> ts \<noteq> [] \<and> set ts \<inter> remaining w (p\<lparr>Target := Some (blank kind)\<rparr>) ct' = {}
            \<and> remaining w (p\<lparr>Target := Some (blank kind)\<rparr>) ct = set ts \<union> remaining w (p\<lparr>Target := Some (blank kind)\<rparr>) ct'
          \<or> length (kinds_after kind') < length (kinds_after kind)))"
proof -
  let ?p = "p\<lparr>Target := Some (blank kind)\<rparr>"
  show ?thesis
  proof (cases rule: read_cases [of ?p n ct w])
    case err: (err e w1)
    then show ?thesis using assms(2,3) by (intro that(1) [of e w1]) (simp_all add: parse_kind_only go_bind_def)
  next
    case (ok ts ct' w1)
    have ascii: "ascii_string ct'" using assms(1) ok(3) unfolding ascii_tokens_def by blast
    note read = read_ok [OF ok(3)]
    have run: "page_loop E j (Suc fuel) p n acc tok w =
         (if go_int32 (n - go_int32 (int (length ts))) \<le> 0 \<or> token_String nxt = '''' then (Ok (acc @ map adapted ts, nxt), w1)
          else page_loop E j fuel ?p (go_int32 (n - go_int32 (int (length ts)))) (acc @ map adapted ts) nxt w1)"
      if "NextEntitlementToken kind ct' = Inr nxt" for nxt
      using assms(2,3) ok(1) that by (simp add: parse_kind_only go_bind_def Let_def go_simps)
    from assms(3) ascii show ?thesis
    proof (cases rule: NextEntitlementToken_ok)
      case (same nxt)
      have "listing w p kind ct = set ts \<union> listing w p kind ct'" using read same(2) by (auto simp: listing_def)
      then show ?thesis using same read run [OF same(1)] ok(2) assms(3)
        by (intro that(2) [of ts nxt w1]) (auto simp: after_token_def valid_token_def)
    next
      case last
      have "listing w p kind ct = set ts" using read last(2,3) by (simp add: listing_def)
      then show ?thesis using run [OF last(1)] ok(2) by (intro that(2) [of ts "EntitlementToken ''''" w1]) simp_all
    next
      case (another nxt k ks)
      have "listing w p kind ct = set ts \<union> listing w p k ''''"
        using read another(2) listing_next [OF another(5,6), of w p ct] by simp
      then show ?thesis using another run [OF another(1)] ok(2)
        by (intro that(2) [of ts nxt w1]) (auto simp: after_token_def valid_token_def)
    qed
  qed
qed

lemma listing_target [simp]: "listing w (p\<lparr>Target := t\<rparr>) kind tok = listing w p kind tok"
  by (simp add: listing_def)

lemma after_token_target [simp]: "after_token w (p\<lparr>Target := t\<rparr>) tok = after_token w p tok"
  by (simp add: after_token_def split: sum.split)

text \<open>
  A page has the first part of what is to be listed and its token stands for the rest. An empty
  token means that nothing is left, and so does a page that is neither full nor at its end.
\<close>

lemma page_loop_ok:
  assumes "ascii_tokens E" and "valid_token tok" and "page_loop E j fuel p n acc tok w = (Ok (ts, nxt), w')"
  shows "store w' = store w \<and> (\<exists>raw. ts = acc @ map adapted raw
      \<and> after_token w p tok = set raw \<union> (if token_String nxt = '''' then {} else after_token w p nxt))
    \<and> (token_String nxt \<noteq> '''' \<longrightarrow> valid_token nxt \<and> (n > 0 \<longrightarrow> n < 2 ^ 31 \<longrightarrow> ts \<noteq> []))"
  using assms(2,3)
proof (induction fuel arbitrary: tok p n acc w)
  case 0
  then show ?case by (simp add: go_simps)
next
  case (Suc fuel)
  from Suc.prems(1) obtain ct kind where tok: "DecodeEntitlementToken tok = Inr (ct, kind)" "kind \<in> set entitlementResources"
    by (auto simp: valid_token_def)
  then have here: "after_token w p tok = listing w p kind ct" by (simp add: after_token_def)
  from assms(1) tok show ?case
  proof (cases rule: page_round [where j = j and fuel = fuel and p = p and n = n and acc = acc and w = w])
    case (err e w1)
    then show ?thesis using Suc.prems(2) by simp
  next
    case (page ts1 nxt1 w1)
    let ?n = "go_int32 (n - go_int32 (int (length ts1)))"
    show ?thesis
    proof (cases "?n \<le> 0 \<or> token_String nxt1 = ''''")
      case True
      then have res: "ts = acc @ map adapted ts1" "nxt = nxt1" "w' = w1" using Suc.prems(2) page(1) by simp_all
      moreover have "ts1 \<noteq> []" if "?n \<le> 0" "n > 0" "n < 2 ^ 31" 
        using that go_int32_id [of n] go_int32_id [of 0] by auto
      ultimately show ?thesis using page True here by auto
    next
      case False
      then have run: "page_loop E j fuel (p\<lparr>Target := Some (blank kind)\<rparr>) ?n (acc @ map adapted ts1) nxt1 w1 = (Ok (ts, nxt), w')"
        and valid: "valid_token nxt1" using Suc.prems(2) page(1,4) by simp_all
      have bound: "?n < 2 ^ 31" by (simp add: go_int32_def)
      from Suc.IH [OF valid run] obtain raw where raw: "ts = (acc @ map adapted ts1) @ map adapted raw" "store w' = store w1"
          "after_token w1 p nxt1 = set raw \<union> (if token_String nxt = '''' then {} else after_token w1 p nxt)"
        and rest: "token_String nxt \<noteq> '''' \<longrightarrow> valid_token nxt \<and> ts \<noteq> []"
        using False bound unfolding after_token_target de_Morgan_disj linorder_not_le by blast
      have "after_token w p tok = set (ts1 @ raw) \<union> (if token_String nxt = '''' then {} else after_token w p nxt)"
        using here page(2,3) raw(3) False after_token_store [OF page(2)] by auto
      then show ?thesis using raw rest page(2) by (intro conjI exI [of _ "ts1 @ raw"]) auto
    qed
  qed
qed

text \<open>The loop ends: every round lists something or finishes a kind.\<close>

lemma finite_listing: "finite (listing w p kind tok)"
  using finite_store [of w] remaining_sub [of w "p\<lparr>Target := Some (blank kind)\<rparr>" tok]
  by (auto simp: listing_def intro: finite_subset)

lemma page_loop_ends:
  assumes "ascii_tokens E" and "DecodeEntitlementToken tok = Inr (ct, kind)" and "kind \<in> set entitlementResources"
    and "card (remaining w (p\<lparr>Target := Some (blank kind)\<rparr>) ct) + (card (store w) + 1) * length (kinds_after kind) < fuel"
  shows "fst (page_loop E j fuel p n acc tok w) \<notin> {NoFuel} \<union> range Panic"
  using assms(2-4)
proof (induction fuel arbitrary: tok p n acc w ct kind)
  case (Suc fuel)
  from assms(1) Suc.prems(1,2) show ?case
  proof (cases rule: page_round [where j = j and fuel = fuel and p = p and n = n and acc = acc and w = w])
    case (page ts nxt w1)
    show ?thesis
    proof (cases "go_int32 (n - go_int32 (int (length ts))) \<le> 0 \<or> token_String nxt = ''''")
      case False
      then obtain ct' kind' where nxt: "DecodeEntitlementToken nxt = Inr (ct', kind')" "kind' \<in> set entitlementResources"
        and prog: "kind' = kind \<and> ts \<noteq> [] \<and> set ts \<inter> remaining w (p\<lparr>Target := Some (blank kind)\<rparr>) ct' = {}
            \<and> remaining w (p\<lparr>Target := Some (blank kind)\<rparr>) ct = set ts \<union> remaining w (p\<lparr>Target := Some (blank kind)\<rparr>) ct'
          \<or> length (kinds_after kind') < length (kinds_after kind)"
        using page(4) by (auto simp: valid_token_def)
      let ?R = "\<lambda>k t. remaining w (p\<lparr>Target := Some (blank k)\<rparr>) t" and ?N = "card (store w)"
      have sub: "?R k t \<subseteq> store w" for k t using remaining_sub by blast
      from prog have "card (?R kind' ct') + (?N + 1) * length (kinds_after kind') < fuel"
      proof
        assume same: "kind' = kind \<and> ts \<noteq> [] \<and> set ts \<inter> ?R kind ct' = {} \<and> ?R kind ct = set ts \<union> ?R kind ct'"
        then obtain x where "x \<in> set ts" "x \<notin> ?R kind ct'" "?R kind ct = set ts \<union> ?R kind ct'" by (cases ts) auto
        then have "?R kind ct' \<subset> ?R kind ct" by blast
        then have "card (?R kind ct') < card (?R kind ct)"
          using finite_subset [OF sub finite_store] by (intro psubset_card_mono) auto
        then show ?thesis using same Suc.prems(3) by simp
      next
        assume less: "length (kinds_after kind') < length (kinds_after kind)"
        have "card (?R kind' ct') \<le> ?N" by (rule card_mono [OF finite_store sub])
        moreover have "(?N + 1) * Suc (length (kinds_after kind')) \<le> (?N + 1) * length (kinds_after kind)"
          using less by (intro mult_le_mono) auto
        ultimately show ?thesis using Suc.prems(3) by simp
      qed
      then have "card (remaining w1 (p\<lparr>Target := Some (blank kind')\<rparr>) ct') + (card (store w1) + 1) * length (kinds_after kind') < fuel"
        using page(2) remaining_store [OF page(2), of "p\<lparr>Target := Some (blank kind')\<rparr>" ct'] by simp
      then show ?thesis using False Suc.IH [OF nxt, of w1 "p\<lparr>Target := Some (blank kind)\<rparr>"] page(1) by simp
    qed (use page(1) in auto)
  qed auto
qed simp

lemma kinds_after_bound: "kind \<in> set entitlementResources \<Longrightarrow> length (kinds_after kind) \<le> 6"
  using kinds_after_nth by (auto simp: in_set_conv_nth) (simp add: entitlementResources_def)

lemma getObjectRelationsPage_ends:
  assumes "ascii_tokens E" and "\<And>w. \<exists>w'. parseAndValidateTag E j object w = (Ok ob, w') \<and> store w' = store w"
    and "valid_token tok" and "(card (store w) + 1) * 7 \<le> fuel"
  shows "fst (getObjectRelationsPage E fuel j object rel n tok w) \<notin> {NoFuel} \<union> range Panic"
proof -
  from assms(2) obtain w1 where w1: "parseAndValidateTag E j object w = (Ok ob, w1)" "store w1 = store w" by blast
  from assms(3) obtain ct kind where tok: "DecodeEntitlementToken tok = Inr (ct, kind)" "kind \<in> set entitlementResources"
    by (auto simp: valid_token_def)
  let ?p = "\<lparr>Object = Some ob, Relation = rel, Target = None\<rparr>"
  have "card (remaining w1 (?p\<lparr>Target := Some (blank kind)\<rparr>) ct) \<le> card (store w1)"
    using remaining_sub by (intro card_mono [OF finite_store]) blast
  moreover have "(card (store w1) + 1) * length (kinds_after kind) \<le> (card (store w1) + 1) * 6"
    using kinds_after_bound [OF tok(2)] by (rule mult_le_mono2)
  ultimately have "card (remaining w1 (?p\<lparr>Target := Some (blank kind)\<rparr>) ct) + (card (store w1) + 1) * length (kinds_after kind) < fuel"
    using assms(4) w1(2) by simp
  from page_loop_ends [OF assms(1) tok this] show ?thesis
    by (simp add: getObjectRelationsPage_def go_bind_def w1)
qed

lemma getObjectRelationsPage_ok:
  assumes "ascii_tokens E" and "\<And>w. \<exists>w'. parseAndValidateTag E j object w = (Ok ob, w') \<and> store w' = store w"
    and "valid_token tok" and "getObjectRelationsPage E fuel j object rel n tok w = (Ok (ts, nxt), w')"
    and "p = \<lparr>Object = Some ob, Relation = rel, Target = None\<rparr>"
  shows "store w' = store w" and "\<exists>raw. ts = map adapted raw
      \<and> after_token w p tok = set raw \<union> (if token_String nxt = '''' then {} else after_token w p nxt)"
    and "token_String nxt \<noteq> '''' \<Longrightarrow> valid_token nxt" and "token_String nxt \<noteq> '''' \<Longrightarrow> n = 1 \<Longrightarrow> ts \<noteq> []"
proof -
  from assms(2) obtain w1 where w1: "parseAndValidateTag E j object w = (Ok ob, w1)" "store w1 = store w" by blast
  then have "page_loop E j fuel p n [] tok w1 = (Ok (ts, nxt), w')"
    using assms(4,5) by (simp add: getObjectRelationsPage_def go_bind_def)
  note loop = page_loop_ok [OF assms(1,3) this]
  show "store w' = store w" using loop w1(2) by simp
  show "\<exists>raw. ts = map adapted raw \<and> after_token w p tok = set raw \<union> (if token_String nxt = '''' then {} else after_token w p nxt)"
    using loop after_token_store [OF w1(2)] by auto
  show "token_String nxt \<noteq> '''' \<Longrightarrow> valid_token nxt" and "token_String nxt \<noteq> '''' \<Longrightarrow> n = 1 \<Longrightarrow> ts \<noteq> []"
    using loop by auto
qed

lemma listObjectRelations_ok:
  assumes "ascii_tokens E" and "\<And>w. \<exists>w'. parseAndValidateTag E j object w = (Ok ob, w') \<and> store w' = store w"
    and "valid_token tok" and "listObjectRelations E fuel j user object rel n tok w = (Ok (ts, nxt), w')"
    and "p = \<lparr>Object = Some ob, Relation = rel, Target = None\<rparr>"
  shows "u_JimmAdmin user \<and> store w' = store w \<and> (token_String nxt \<noteq> '''' \<longrightarrow> valid_token nxt) \<and> (\<exists>raw. ts = map adapted raw
      \<and> after_token w p tok = set raw \<union> (if token_String nxt = '''' then {} else after_token w p nxt))"
proof -
  note page = getObjectRelationsPage_ok [OF assms(1,2)]
  have admin: "u_JimmAdmin user" using assms(4) by (auto simp: listObjectRelations_def split: if_splits)
  with assms(4) obtain ts1 nxt1 w1 where one: "getObjectRelationsPage E fuel j object rel n tok w = (Ok (ts1, nxt1), w1)"
    and k: "(if int (length ts1) = n \<and> token_String nxt1 \<noteq> ''''
        then go_bind (go_maperr (wrapped ''error getting next page to verify it cointains something: %w'')
            (getObjectRelationsPage E fuel j object rel 1 nxt1)) (\<lambda>(more, _).
          go_return (ts1, if more = [] then EntitlementToken '''' else nxt1))
        else go_return (ts1, nxt1)) w1 = (Ok (ts, nxt), w')"
    unfolding listObjectRelations_def by (auto elim: go_bind_OkE)
  note p1 = page [OF assms(3) one assms(5)]
  show ?thesis
  proof (cases "int (length ts1) = n \<and> token_String nxt1 \<noteq> ''''")
    case False
    then have "ts = ts1" "nxt = nxt1" "w' = w1" using k by auto
    then show ?thesis using p1 admin by blast
  next
    case True
    with k obtain more nxt2 where two: "getObjectRelationsPage E fuel j object rel 1 nxt1 w1 = (Ok (more, nxt2), w')"
      and res: "ts = ts1" "nxt = (if more = [] then EntitlementToken '''' else nxt1)" by (auto elim: go_bind_OkE)
    note p2 = page [OF p1(3) two assms(5)]
    have "after_token w p nxt1 = {}" if "more = []"
      using that p2(2,4) True after_token_store [OF p1(1)] by (cases "token_String nxt2 = ''''") auto
    then show ?thesis using p1 p2(1) res True admin by (cases "more = []") auto
  qed
qed

end

text \<open>A client that asks for one page after the other.\<close>

primrec all_pages :: "'w externals \<Rightarrow> nat \<Rightarrow> perm_manager \<Rightarrow> ofga_user \<Rightarrow> string \<Rightarrow> int \<Rightarrow> nat \<Rightarrow> EntitlementToken \<Rightarrow> ('w, tup list) io" where
  "all_pages E fuel j user object n 0 = (\<lambda>tok. go_nofuel)"
| "all_pages E fuel j user object n (Suc rounds) = (\<lambda>tok.
     go_bind (ListObjectRelations E fuel j user object n tok) (\<lambda>(ts, nxt).
     if token_String nxt = '''' then go_return ts
     else go_bind (all_pages E fuel j user object n rounds nxt) (\<lambda>rest. go_return (ts @ rest))))"

context openfga_service
begin

lemma all_pages_ok:
  assumes "ascii_tokens E" and "\<And>w. \<exists>w'. parseAndValidateTag E j object w = (Ok ob, w') \<and> store w' = store w"
    and "valid_token tok" and "all_pages E fuel j user object n rounds tok w = (Ok ts, w')"
    and "p = \<lparr>Object = Some ob, Relation = '''', Target = None\<rparr>"
  shows "u_JimmAdmin user \<and> store w' = store w \<and> set ts = adapted ` after_token w p tok"
  using assms(3,4)
proof (induction rounds arbitrary: tok w ts)
  case (Suc rounds)
  from Suc.prems(2) obtain ts1 nxt w1 where one: "listObjectRelations E fuel j user object '''' n tok w = (Ok (ts1, nxt), w1)"
    and k: "(if token_String nxt = '''' then go_return ts1
     else go_bind (all_pages E fuel j user object n rounds nxt) (\<lambda>rest. go_return (ts1 @ rest))) w1 = (Ok ts, w')"
    by (auto simp: ListObjectRelations_def elim: go_bind_OkE)
  from listObjectRelations_ok [OF assms(1,2) Suc.prems(1) one assms(5)] obtain raw where admin: "u_JimmAdmin user"
    and s: "store w1 = store w" and v: "token_String nxt \<noteq> '''' \<longrightarrow> valid_token nxt" and raw: "ts1 = map adapted raw"
      "after_token w p tok = set raw \<union> (if token_String nxt = '''' then {} else after_token w p nxt)" by blast
  show ?case
  proof (cases "token_String nxt = ''''")
    case True
    then show ?thesis using k admin s raw by simp
  next
    case False
    with k obtain rest where rest: "all_pages E fuel j user object n rounds nxt w1 = (Ok rest, w')" "ts = ts1 @ rest"
      by (auto elim: go_bind_OkE)
    have "store w' = store w1" "set rest = adapted ` after_token w1 p nxt" using Suc.IH [OF _ rest(1)] v False by auto
    then show ?thesis using rest(2) raw False s admin after_token_store [OF s] by (simp add: image_Un)
  qed
qed (simp add: go_simps)

lemma listing_start:
  "after_token w \<lparr>Object = Some ob, Relation = '''', Target = None\<rparr> (EntitlementToken '''') =
     {x \<in> store w. Object x = Some ob \<and> (\<exists>t. Target x = Some t \<and> ent_Kind t \<in> set entitlementResources)}"
proof -
  let ?p = "\<lparr>Object = Some ob, Relation = '''', Target = None\<rparr>"
  have all: "set entitlementResources = insert (hd entitlementResources) (set (kinds_after (hd entitlementResources)))"
    unfolding kinds_after_first by (simp add: entitlementResources_def)
  have "after_token w ?p (EntitlementToken '''') = listing w ?p (hd entitlementResources) ''''"
    by (simp add: after_token_def DecodeEntitlementToken_def)
  also have "\<dots> = (\<Union>k\<in>set entitlementResources. {x \<in> store w. tup_matches (?p\<lparr>Target := Some (blank k)\<rparr>) x})"
    unfolding listing_def remaining_start all by blast
  also have "\<dots> = {x \<in> store w. Object x = Some ob \<and> (\<exists>t. Target x = Some t \<and> ent_Kind t \<in> set entitlementResources)}"
    by (auto simp: tup_matches_def blank_def split: option.splits)
  finally show ?thesis .
qed

end

section \<open>Properties\<close>

text \<open>
  C24. Listing everything an object is related to, page by page, from the empty token until the
  empty token comes back: only an administrator of JIMM succeeds, nothing is changed, and the
  pages together are exactly the tuples of the object with a resource, whatever the size of the
  pages, with the public user shown under its JIMM name. No tuple is lost at the end of a page or
  between two kinds of resources.
\<close>

theorem object_listing_complete:
  assumes "openfga_service E store remaining" and "ascii_tokens E"
    and "\<And>w. \<exists>w'. parseAndValidateTag E j object w = (Ok ob, w') \<and> store w' = store w"
    and "all_pages E fuel j user object n rounds (EntitlementToken '''') w = (Ok ts, w')"
  shows "u_JimmAdmin user \<and> store w' = store w \<and> set ts =
    adapted ` {x \<in> store w. Object x = Some ob \<and> (\<exists>t. Target x = Some t \<and> ent_Kind t \<in> set entitlementResources)}"
proof -
  have "valid_token (EntitlementToken '''')" by (simp add: valid_token_def DecodeEntitlementToken_def entitlementResources_def)
  from openfga_service.all_pages_ok [OF assms(1-3) this assms(4) refl] openfga_service.listing_start [OF assms(1)]
  show ?thesis by simp
qed

text \<open>
  A page is always answered: with seven rounds per stored tuple as fuel the loop over kinds and
  continuation tokens comes back, with a page or with an error of OpenFGA.
\<close>

theorem object_listing_ends:
  assumes "openfga_service E store remaining" and "ascii_tokens E"
    and "\<And>w. \<exists>w'. parseAndValidateTag E j object w = (Ok ob, w') \<and> store w' = store w"
    and "valid_token tok" and "(card (store w) + 1) * 7 \<le> fuel"
  shows "fst (ListObjectRelations E fuel j user object n tok w) \<in> range Ok \<union> range Err"
proof -
  have ends: "fst (getObjectRelationsPage E fuel j object '''' m t w1) \<notin> {NoFuel} \<union> range Panic"
    if "valid_token t" "store w1 = store w" for m t w1
    using openfga_service.getObjectRelationsPage_ends [OF assms(1-3) that(1)] that(2) assms(5) by simp
  show ?thesis
  proof (cases "u_JimmAdmin user")
    case True
    obtain q w1 where one: "getObjectRelationsPage E fuel j object '''' n tok w = (q, w1)" by fastforce
    have q: "q \<notin> {NoFuel} \<union> range Panic" using ends [OF assms(4) refl, of n] one by simp
    show ?thesis
    proof (cases q)
      case (Ok r)
      obtain ts nxt where r: "r = (ts, nxt)" by (cases r)
      note p1 = openfga_service.getObjectRelationsPage_ok [OF assms(1-4) one [unfolded Ok r] refl]
      obtain q2 w2 where two: "getObjectRelationsPage E fuel j object '''' 1 nxt w1 = (q2, w2)" by fastforce
      have "q2 \<notin> {NoFuel} \<union> range Panic" if "token_String nxt \<noteq> ''''"
        using ends [OF p1(3) [OF that] p1(1), of 1] two by simp
      then show ?thesis using True one two Ok r
        by (cases q2) (auto simp: ListObjectRelations_def listObjectRelations_def go_bind_def go_maperr_def go_simps split: prod.splits)
    qed (use True one q in \<open>auto simp: ListObjectRelations_def listObjectRelations_def go_bind_def\<close>)
  qed (simp add: ListObjectRelations_def listObjectRelations_def go_simps)
qed

text \<open>In the in-memory world bob administers the model m; an administrator of JIMM asks for it.\<close>

definition mem_admin :: ofga_user where
  "mem_admin = (mem_user ''admin'')\<lparr>u_JimmAdmin := True\<rparr>"

lemma mem_ascii: "ascii_tokens mem_externals"
  by (simp add: ascii_tokens_def ascii_string_def)

lemma mem_resolves:
  "\<exists>w'. parseAndValidateTag mem_externals mem_pm ''user-bob'' w = (Ok (ConvertTag (Tag UserTagKind ''bob'')), w') \<and> mem_store w' = mem_store w"
  by (simp add: mem_parse_tags)

text \<open>A page that is large enough for everything ends with the empty token.\<close>

lemma mem_page_loop:
  assumes "DecodeEntitlementToken tok = Inr ('''', kind)" and "kind \<in> set entitlementResources"
    and "int (length w * Suc (length (kinds_after kind))) < n" and "n < 2 ^ 31" and "length (kinds_after kind) < fuel"
  shows "\<exists>ts. page_loop mem_externals j fuel p n acc tok w = (Ok (ts, EntitlementToken ''''), w)"
  using assms
proof (induction fuel arbitrary: tok kind p n acc)
  case (Suc fuel)
  let ?p = "p\<lparr>Target := Some (blank kind)\<rparr>"
  let ?ts = "map adapted (mem_find ?p w)"
  have read: "OFGA_ReadRelatedObjects mem_externals ?p n '''' w = (Ok (?ts, ''''), w)"
    by (rule mem.read_found) simp
  have len: "length ?ts \<le> length w" by (simp add: mem_find_def)
  moreover have "length w \<le> length w * Suc (length (kinds_after kind))" by simp
  ultimately have "int (length ?ts) < n" using Suc.prems(3) by linarith
  then have n: "go_int32 (n - go_int32 (int (length ?ts))) = n - int (length ?ts)"
    using Suc.prems(4) by (simp add: go_int32_id)
  have run: "page_loop mem_externals j (Suc fuel) p n acc tok w =
      (if n - int (length ?ts) \<le> 0 \<or> token_String nxt = '''' then (Ok (acc @ ?ts, nxt), w)
       else page_loop mem_externals j fuel ?p (n - int (length ?ts)) (acc @ ?ts) nxt w)"
    if "NextEntitlementToken kind '''' = Inr nxt" for nxt
    using Suc.prems(1,2) read that n by (simp add: parse_kind_only go_bind_def Let_def go_simps)
  have "ascii_string ''''" by (simp add: ascii_string_def)
  with Suc.prems(2) show ?case
  proof (cases rule: NextEntitlementToken_ok)
    case last
    then show ?thesis using run by simp
  next
    case (another nxt k ks)
    have "int (length w * Suc (length (kinds_after k))) < n - int (length ?ts)" "n - int (length ?ts) < 2 ^ 31"
      using Suc.prems(3,4) another(5,6) len by simp_all
    moreover have "length (kinds_after k) < fuel" using Suc.prems(5) another(5,6) by simp
    ultimately show ?thesis using Suc.IH [OF another(4,7)] run [OF another(1)] another(3) \<open>int (length ?ts) < n\<close> by simp
  qed simp
qed simp

lemma mem_all_pages:
  "\<exists>ts. all_pages mem_externals 100 mem_pm mem_admin ''user-bob'' 10 1 (EntitlementToken '''') [x] = (Ok ts, [x])"
proof -
  have first: "DecodeEntitlementToken (EntitlementToken '''') = Inr ('''', hd entitlementResources)"
      "hd entitlementResources \<in> set entitlementResources" "length (kinds_after (hd entitlementResources)) = 6"
    unfolding kinds_after_first by (simp_all add: DecodeEntitlementToken_def entitlementResources_def)
  obtain ts where "page_loop mem_externals mem_pm 100 \<lparr>Object = Some (ConvertTag (Tag UserTagKind ''bob'')), Relation = '''', Target = None\<rparr>
      10 [] (EntitlementToken '''') [x] = (Ok (ts, EntitlementToken ''''), [x])"
    using mem_page_loop [OF first(1,2), of "[x]" 10 100] first(3) by fastforce
  then show ?thesis
    by (simp add: mem_parse_tags ListObjectRelations_def listObjectRelations_def getObjectRelationsPage_def go_bind_def mem_admin_def go_simps)
qed

lemma image_single: "A = {x} \<Longrightarrow> P x \<Longrightarrow> f x = x \<Longrightarrow> f ` {x \<in> A. P x} = {x}"
  by auto

theorem object_listing_complete_witness:
  "\<exists>ts w'. all_pages mem_externals 100 mem_pm mem_admin ''user-bob'' 10 1 (EntitlementToken '''')
       [tag_tup (Tag UserTagKind ''bob'') AdministratorRelation (Tag ModelTagKind ''m'')] = (Ok ts, w')
     \<and> set ts = {tag_tup (Tag UserTagKind ''bob'') AdministratorRelation (Tag ModelTagKind ''m'')}"
proof -
  let ?x = "tag_tup (Tag UserTagKind ''bob'') AdministratorRelation (Tag ModelTagKind ''m'')"
  obtain ts where run: "all_pages mem_externals 100 mem_pm mem_admin ''user-bob'' 10 1 (EntitlementToken '''') [?x] = (Ok ts, [?x])"
    using mem_all_pages by blast
  have stored: "mem_store [?x] = {?x}" by (auto simp: mem_store_def tag_tup_def mk_tup_def)
  have same: "adapted ?x = ?x" by (simp add: adapted_def is_public_def tag_tup_def mk_tup_def ent_ID_ConvertTag EveryoneUser_def)
  have listed: "Object ?x = Some (ConvertTag (Tag UserTagKind ''bob''))
      \<and> (\<exists>t. Target ?x = Some t \<and> ent_Kind t \<in> set entitlementResources)"
    by (simp add: tag_tup_def mk_tup_def ConvertTag_record entitlementResources_def)
  have "adapted ` {x \<in> mem_store [?x]. Object x = Some (ConvertTag (Tag UserTagKind ''bob''))
      \<and> (\<exists>t. Target x = Some t \<and> ent_Kind t \<in> set entitlementResources)} = {?x}"
    by (rule image_single [OF stored]) (rule listed, rule same)
  then show ?thesis using run object_listing_complete [OF mem.openfga_service_axioms mem_ascii mem_resolves run]
    by metis
qed

theorem object_listing_ends_witness:
  "fst (ListObjectRelations mem_externals 100 mem_pm mem_admin ''user-bob'' 10 (EntitlementToken '''') []) \<in> range Ok \<union> range Err"
proof (rule object_listing_ends [OF mem.openfga_service_axioms mem_ascii mem_resolves])
  show "valid_token (EntitlementToken '''')" by (simp add: valid_token_def DecodeEntitlementToken_def entitlementResources_def)
qed (simp add: mem_store_def)

end
