(* ===== verification/Entity_Managers.thy ===== *)
theory Entity_Managers
  imports Perm_Relations Pagination
begin

text \<open>
  The managers of groups, roles and identities: \<^verbatim>\<open>internal/jimm/group/group.go\<close>,
  \<^verbatim>\<open>internal/jimm/role/role.go\<close> and \<^verbatim>\<open>internal/jimm/identity/identity.go\<close>. Groups and roles are
  managed through the same operations, all reserved to administrators of JIMM; the locale
  \<open>entity_manager\<close> states that interface, and both managers are instances of it.
\<close>

section \<open>Groups\<close>

text \<open>
  A manager is the database and the OpenFGA client it holds; the client is the parameter \<open>E\<close>
  itself. \<open>None\<close> and \<open>False\<close> stand for nil pointers given to a constructor.
\<close>

definition NewGroupManager :: "database option \<Rightarrow> bool \<Rightarrow> err + database" where
  "NewGroupManager store authSvc = (case store of
       None \<Rightarrow> Inl (ErrNew ''group store cannot be nil'')
     | Some d \<Rightarrow> if \<not> authSvc then Inl (ErrNew ''group authorisation service cannot be nil'') else Inr d)"

definition mgr_AddGroup :: "'w externals \<Rightarrow> database \<Rightarrow> ofga_user \<Rightarrow> string \<Rightarrow> ('w, group_entry) io" where
  "mgr_AddGroup E j user name =
     (if \<not> u_JimmAdmin user then go_err err_unauthorized else db_AddGroup E j name)"

definition mgr_CountGroups :: "'w externals \<Rightarrow> database \<Rightarrow> ofga_user \<Rightarrow> ('w, nat) io" where
  "mgr_CountGroups E j user =
     (if \<not> u_JimmAdmin user then go_err err_unauthorized else db_CountGroups E j)"

definition getGroup :: "'w externals \<Rightarrow> database \<Rightarrow> ofga_user \<Rightarrow> group_entry \<Rightarrow> ('w, group_entry) io" where
  "getGroup E j user grp =
     (if \<not> u_JimmAdmin user then go_err err_unauthorized else db_GetGroup E j grp)"

definition GetGroupByUUID :: "'w externals \<Rightarrow> database \<Rightarrow> ofga_user \<Rightarrow> string \<Rightarrow> ('w, group_entry) io" where
  "GetGroupByUUID E j user uuid = getGroup E j user (empty_group\<lparr>ge_UUID := uuid\<rparr>)"

definition GetGroupByName :: "'w externals \<Rightarrow> database \<Rightarrow> ofga_user \<Rightarrow> string \<Rightarrow> ('w, group_entry) io" where
  "GetGroupByName E j user name = getGroup E j user (empty_group\<lparr>ge_Name := name\<rparr>)"

definition RenameGroup :: "'w externals \<Rightarrow> database \<Rightarrow> ofga_user \<Rightarrow> string \<Rightarrow> string \<Rightarrow> ('w, unit) io" where
  "RenameGroup E j user oldName newName =
     (if \<not> u_JimmAdmin user then go_err err_unauthorized
      else go_bind (Transaction E j (\<lambda>d.
         go_bind (db_GetGroup E d (empty_group\<lparr>ge_Name := oldName\<rparr>)) (\<lambda>grp.
         go_bind (db_UpdateGroupName E d (ge_UUID grp) newName) (\<lambda>_. go_return grp)))) (\<lambda>_. go_return ()))"

text \<open>Inside the transaction the code goes on using \<^verbatim>\<open>j.store\<close>, not the handle of the transaction.\<close>

definition mgr_RemoveGroup :: "'w externals \<Rightarrow> nat \<Rightarrow> database \<Rightarrow> ofga_user \<Rightarrow> string \<Rightarrow> ('w, unit) io" where
  "mgr_RemoveGroup E fuel j user name =
     (if \<not> u_JimmAdmin user then go_err err_unauthorized
      else go_bind (Transaction E j (\<lambda>d.
         go_bind (db_GetGroup E j (empty_group\<lparr>ge_Name := name\<rparr>)) (\<lambda>grp.
         go_bind (db_RemoveGroup E j grp) (\<lambda>_. go_return grp)))) (\<lambda>grp.
       go_bind (go_some ''invalid group tag'' (group_ResourceTag grp)) (\<lambda>tg. OFGA_RemoveGroup E fuel tg)))"

definition mgr_ListGroups :: "'w externals \<Rightarrow> database \<Rightarrow> ofga_user \<Rightarrow> limit_offset \<Rightarrow> string \<Rightarrow> ('w, group_entry list) io" where
  "mgr_ListGroups E j user page match =
     (if \<not> u_JimmAdmin user then go_err err_unauthorized else db_ListGroups E j (Limit page) (Offset page) match)"

section \<open>Roles\<close>

definition NewRoleManager :: "database option \<Rightarrow> bool \<Rightarrow> err + database" where
  "NewRoleManager store authSvc = (case store of
       None \<Rightarrow> Inl (ErrNew ''role store cannot be nil'')
     | Some d \<Rightarrow> if \<not> authSvc then Inl (ErrNew ''role authorisation service cannot be nil'') else Inr d)"

definition mgr_AddRole :: "'w externals \<Rightarrow> database \<Rightarrow> ofga_user \<Rightarrow> string \<Rightarrow> ('w, role_entry) io" where
  "mgr_AddRole E rm user roleName =
     (if \<not> u_JimmAdmin user then go_err err_unauthorized else db_AddRole E rm roleName)"

definition getRole :: "'w externals \<Rightarrow> database \<Rightarrow> ofga_user \<Rightarrow> role_entry \<Rightarrow> ('w, role_entry) io" where
  "getRole E rm user role =
     (if \<not> u_JimmAdmin user then go_err err_unauthorized else db_GetRole E rm role)"

definition GetRoleByUUID :: "'w externals \<Rightarrow> database \<Rightarrow> ofga_user \<Rightarrow> string \<Rightarrow> ('w, role_entry) io" where
  "GetRoleByUUID E rm user uuid = getRole E rm user (empty_role\<lparr>re_UUID := uuid\<rparr>)"

definition GetRoleByName :: "'w externals \<Rightarrow> database \<Rightarrow> ofga_user \<Rightarrow> string \<Rightarrow> ('w, role_entry) io" where
  "GetRoleByName E rm user name = getRole E rm user (empty_role\<lparr>re_Name := name\<rparr>)"

definition mgr_RemoveRole :: "'w externals \<Rightarrow> nat \<Rightarrow> database \<Rightarrow> ofga_user \<Rightarrow> string \<Rightarrow> ('w, unit) io" where
  "mgr_RemoveRole E fuel rm user roleName =
     (if \<not> u_JimmAdmin user then go_err err_unauthorized
      else go_bind (db_GetRole E rm (empty_role\<lparr>re_Name := roleName\<rparr>)) (\<lambda>re.
        go_bind (go_some ''invalid role tag'' (role_ResourceTag re)) (\<lambda>tg.
        go_bind (OFGA_RemoveRole E fuel tg) (\<lambda>_. db_RemoveRole E rm re))))"

definition RenameRole :: "'w externals \<Rightarrow> database \<Rightarrow> ofga_user \<Rightarrow> string \<Rightarrow> string \<Rightarrow> ('w, unit) io" where
  "RenameRole E rm user oldName newName =
     (if \<not> u_JimmAdmin user then go_err err_unauthorized else db_UpdateRoleName E rm oldName newName)"

definition mgr_ListRoles :: "'w externals \<Rightarrow> database \<Rightarrow> ofga_user \<Rightarrow> limit_offset \<Rightarrow> string \<Rightarrow> ('w, role_entry list) io" where
  "mgr_ListRoles E rm user page match =
     (if \<not> u_JimmAdmin user then go_err err_unauthorized else db_ListRoles E rm (Limit page) (Offset page) match)"

definition mgr_CountRoles :: "'w externals \<Rightarrow> database \<Rightarrow> ofga_user \<Rightarrow> ('w, nat) io" where
  "mgr_CountRoles E rm user =
     (if \<not> u_JimmAdmin user then go_err err_unauthorized else db_CountRoles E rm)"

section \<open>Identities\<close>

definition NewIdentityManager :: "database option \<Rightarrow> bool \<Rightarrow> err + database" where
  "NewIdentityManager store authSvc = (case store of
       None \<Rightarrow> Inl (ErrNew ''identity store cannot be nil'')
     | Some d \<Rightarrow> if \<not> authSvc then Inl (ErrNew ''identity authorisation service cannot be nil'') else Inr d)"

definition mgr_FetchIdentity :: "'w externals \<Rightarrow> database \<Rightarrow> string \<Rightarrow> ('w, ofga_user) io" where
  "mgr_FetchIdentity E j i =
     go_bind (go_sum (NewIdentity E i)) (\<lambda>identity.
     go_bind (db_FetchIdentity E j identity) (\<lambda>identity'. go_return (NewUser identity' True)))"

definition mgr_ListIdentities :: "'w externals \<Rightarrow> database \<Rightarrow> ofga_user \<Rightarrow> limit_offset \<Rightarrow> string \<Rightarrow> ('w, ofga_user list) io" where
  "mgr_ListIdentities E j user page match =
     (if \<not> u_JimmAdmin user then go_err err_unauthorized
      else go_bind (db_ListIdentities E j (Limit page) (Offset page) match) (\<lambda>identities.
        go_return (map (\<lambda>i. NewUser i True) identities)))"

definition mgr_CountIdentities :: "'w externals \<Rightarrow> database \<Rightarrow> ofga_user \<Rightarrow> ('w, nat) io" where
  "mgr_CountIdentities E j user =
     (if \<not> u_JimmAdmin user then go_err err_unauthorized else db_CountIdentities E j)"

section \<open>The interface of the managers\<close>

text \<open>
  The requests both managers answer, one manager as a table of operations, and a history of
  requests of any users, in any order, each of which is answered whatever became of the others.
\<close>

datatype entity_request = ReqAdd string | ReqGetByUUID string | ReqGetByName string
  | ReqRename string string | ReqRemove string | ReqList limit_offset string | ReqCount

record ('w, 'row) entity_ops =
  eo_Add :: "ofga_user \<Rightarrow> string \<Rightarrow> ('w, 'row) io"
  eo_GetByUUID :: "ofga_user \<Rightarrow> string \<Rightarrow> ('w, 'row) io"
  eo_GetByName :: "ofga_user \<Rightarrow> string \<Rightarrow> ('w, 'row) io"
  eo_Rename :: "ofga_user \<Rightarrow> string \<Rightarrow> string \<Rightarrow> ('w, unit) io"
  eo_Remove :: "ofga_user \<Rightarrow> string \<Rightarrow> ('w, unit) io"
  eo_List :: "ofga_user \<Rightarrow> limit_offset \<Rightarrow> string \<Rightarrow> ('w, 'row list) io"
  eo_Count :: "ofga_user \<Rightarrow> ('w, nat) io"

definition no_result :: "('w, 'a) io \<Rightarrow> ('w, unit) io" where
  "no_result m = go_bind m (\<lambda>_. go_return ())"

fun serve :: "('w, 'row) entity_ops \<Rightarrow> ofga_user \<Rightarrow> entity_request \<Rightarrow> ('w, unit) io" where
  "serve ops user (ReqAdd name) = no_result (eo_Add ops user name)"
| "serve ops user (ReqGetByUUID uuid) = no_result (eo_GetByUUID ops user uuid)"
| "serve ops user (ReqGetByName name) = no_result (eo_GetByName ops user name)"
| "serve ops user (ReqRename old new) = eo_Rename ops user old new"
| "serve ops user (ReqRemove name) = eo_Remove ops user name"
| "serve ops user (ReqList page match) = no_result (eo_List ops user page match)"
| "serve ops user ReqCount = no_result (eo_Count ops user)"

fun history :: "('w, 'row) entity_ops \<Rightarrow> (ofga_user \<times> entity_request) list \<Rightarrow> 'w \<Rightarrow> 'w" where
  "history ops [] w = w"
| "history ops ((user, req) # rest) w = history ops rest (snd (serve ops user req w))"

definition group_ops :: "'w externals \<Rightarrow> nat \<Rightarrow> database \<Rightarrow> ('w, group_entry) entity_ops" where
  "group_ops E fuel j = \<lparr>eo_Add = mgr_AddGroup E j, eo_GetByUUID = GetGroupByUUID E j, eo_GetByName = GetGroupByName E j,
     eo_Rename = RenameGroup E j, eo_Remove = mgr_RemoveGroup E fuel j, eo_List = mgr_ListGroups E j,
     eo_Count = mgr_CountGroups E j\<rparr>"

definition role_ops :: "'w externals \<Rightarrow> nat \<Rightarrow> database \<Rightarrow> ('w, role_entry) entity_ops" where
  "role_ops E fuel rm = \<lparr>eo_Add = mgr_AddRole E rm, eo_GetByUUID = GetRoleByUUID E rm, eo_GetByName = GetRoleByName E rm,
     eo_Rename = RenameRole E rm, eo_Remove = mgr_RemoveRole E fuel rm, eo_List = mgr_ListRoles E rm,
     eo_Count = mgr_CountRoles E rm\<rparr>"

locale entity_manager =
  fixes ops :: "('w, 'row) entity_ops" and store :: "'w \<Rightarrow> tup set"
  assumes refused: "\<not> u_JimmAdmin user \<Longrightarrow> serve ops user req = go_err err_unauthorized"
    and only_removal: "(\<And>name. req \<noteq> ReqRemove name) \<Longrightarrow> frame store (serve ops user req)"
    and removal_shrinks: "store (snd (serve ops user (ReqRemove name) w)) \<subseteq> store w"
begin

lemma serve_shrinks: "store (snd (serve ops user req w)) \<subseteq> store w"
proof (cases "\<exists>name. req = ReqRemove name")
  case False
  then have "frame store (serve ops user req)" by (intro only_removal) blast
  then show ?thesis by (simp add: frame_def)
qed (use removal_shrinks [of user _ w] in blast)

lemma history_shrinks: "store (history ops reqs w) \<subseteq> store w"
proof (induction reqs arbitrary: w)
  case (Cons r reqs)
  obtain user req where "r = (user, req)" by (cases r)
  then show ?case using Cons.IH [of "snd (serve ops user req w)"] serve_shrinks [of user req w] by auto
qed simp

lemma history_ignores_unprivileged:
  "history ops reqs w = history ops (filter (\<lambda>(user, req). u_JimmAdmin user) reqs) w"
proof (induction reqs arbitrary: w)
  case (Cons r reqs)
  obtain user req where r: "r = (user, req)" by (cases r)
  show ?case
  proof (cases "u_JimmAdmin user")
    case False
    then show ?thesis using Cons.IH r refused [OF False, of req] by (simp add: go_err_def)
  qed (use Cons.IH r in simp)
qed simp

lemma history_without_removal:
  assumes "\<And>user name. (user, ReqRemove name) \<in> set reqs \<Longrightarrow> \<not> u_JimmAdmin user"
  shows "store (history ops reqs w) = store w"
  using assms
proof (induction reqs arbitrary: w)
  case (Cons r reqs)
  obtain user req where r: "r = (user, req)" by (cases r)
  have "frame store (serve ops user req)"
  proof (cases "u_JimmAdmin user")
    case True
    then show ?thesis using Cons.prems r by (intro only_removal) auto
  qed (simp add: refused frame_err)
  then have "store (snd (serve ops user req w)) = store w" by (simp add: frame_def)
  then show ?case using Cons.IH [of "snd (serve ops user req w)"] Cons.prems r by auto
qed simp

end

section \<open>The managers implement it\<close>

lemma frame_no_result [frame_intros]: "frame obs m \<Longrightarrow> frame obs (no_result m)"
  unfolding no_result_def by (intro frame_intros)

lemma no_result_err [simp]: "no_result (go_err e) = go_err e"
  by (simp add: no_result_def)

lemmas group_manager_defs = mgr_AddGroup_def mgr_CountGroups_def getGroup_def GetGroupByUUID_def GetGroupByName_def
  RenameGroup_def mgr_RemoveGroup_def mgr_ListGroups_def

lemmas role_manager_defs = mgr_AddRole_def mgr_CountRoles_def getRole_def GetRoleByUUID_def GetRoleByName_def
  RenameRole_def mgr_RemoveRole_def mgr_ListRoles_def

lemma frame_shrinks: "frame obs m \<Longrightarrow> obs (snd (m w)) \<subseteq> obs w"
  by (simp add: frame_def)

lemma shrink_bind:
  assumes "\<And>w. obs (snd (m w)) \<subseteq> obs w" and "\<And>x w. obs (snd (f x w)) \<subseteq> obs w"
  shows "obs (snd (go_bind m f w)) \<subseteq> obs w"
  using assms(1) [of w] assms(2) by (auto simp: go_bind_def split: prod.splits outcome.splits) blast

context jimm_services
begin

lemma remove_entity_shrinks:
  "store (snd (OFGA_RemoveGroup E fuel g w)) \<subseteq> store w" "store (snd (OFGA_RemoveRole E fuel g w)) \<subseteq> store w"
proof -
  have one: "store (snd (removeTuples E fuel p w)) \<subseteq> store w" for p w
    using removeTuples_only [of fuel p w] by (metis prod.collapse)
  have two: "store (snd (remove_access_of E fuel e w)) \<subseteq> store w" for e w
    using remove_access_of_sub [of fuel e w] by (metis prod.collapse)
  show "store (snd (OFGA_RemoveGroup E fuel g w)) \<subseteq> store w" "store (snd (OFGA_RemoveRole E fuel g w)) \<subseteq> store w"
    unfolding OFGA_RemoveGroup_def OFGA_RemoveRole_def by (intro shrink_bind one two)+
qed

lemma remove_requests_shrink:
  "store (snd (mgr_RemoveGroup E fuel j user name w)) \<subseteq> store w"
  "store (snd (mgr_RemoveRole E fuel j user name w)) \<subseteq> store w"
proof -
  note fr = frame_shrinks [where obs = store]
  have tr: "frame store (Transaction E j (\<lambda>d. go_bind (db_GetGroup E j g) (\<lambda>grp. go_bind (db_RemoveGroup E j grp) (\<lambda>_. go_return grp))))"
    for g by (intro frame_intros)
  show "store (snd (mgr_RemoveGroup E fuel j user name w)) \<subseteq> store w"
    unfolding mgr_RemoveGroup_def
    by (simp add: frame_shrinks [OF frame_err]) (intro impI shrink_bind remove_entity_shrinks fr [OF tr] fr [OF frame_some])
  show "store (snd (mgr_RemoveRole E fuel j user name w)) \<subseteq> store w"
    unfolding mgr_RemoveRole_def
    by (simp add: frame_shrinks [OF frame_err])
      (intro impI shrink_bind remove_entity_shrinks fr [OF frame_some] fr [OF role_frames(3)] fr [OF role_frames(6)])
qed

end

sublocale jimm_services \<subseteq> groups: entity_manager "group_ops E fuel j" store for fuel j
proof
  fix user req
  show "serve (group_ops E fuel j) user req = go_err err_unauthorized" if "\<not> u_JimmAdmin user"
    using that by (cases req) (simp_all add: group_ops_def group_manager_defs)
  show "frame store (serve (group_ops E fuel j) user req)" if "\<And>name. req \<noteq> ReqRemove name"
    using that by (cases req) (auto simp: group_ops_def group_manager_defs intro!: frame_intros)
  show "store (snd (serve (group_ops E fuel j) user (ReqRemove name) w)) \<subseteq> store w" for name w
    using remove_requests_shrink by (simp add: group_ops_def)
qed

sublocale jimm_services \<subseteq> roles: entity_manager "role_ops E fuel j" store for fuel j
proof
  fix user req
  show "serve (role_ops E fuel j) user req = go_err err_unauthorized" if "\<not> u_JimmAdmin user"
    using that by (cases req) (simp_all add: role_ops_def role_manager_defs)
  show "frame store (serve (role_ops E fuel j) user req)" if "\<And>name. req \<noteq> ReqRemove name"
    using that by (cases req) (auto simp: role_ops_def role_manager_defs intro!: frame_intros)
  show "store (snd (serve (role_ops E fuel j) user (ReqRemove name) w)) \<subseteq> store w" for name w
    using remove_requests_shrink by (simp add: role_ops_def)
qed

context jimm_services
begin

lemmas group_histories = groups.history_ignores_unprivileged groups.history_shrinks groups.history_without_removal
lemmas role_histories = roles.history_ignores_unprivileged roles.history_shrinks roles.history_without_removal

end

section \<open>Properties\<close>

text \<open>
  C28. Groups and roles under any history of requests, by any users in any order. The requests of
  users who do not administer JIMM have no effect at all, on the database or on OpenFGA: the
  history ends in the same world as the one without them. No request ever adds a relation, and
  without a removal by an administrator of JIMM OpenFGA stays as it was.
\<close>

theorem managers_guarded:
  assumes "jimm_services E store remaining"
  shows "history (group_ops E fuel d) reqs w = history (group_ops E fuel d) (filter (\<lambda>(user, req). u_JimmAdmin user) reqs) w
    \<and> history (role_ops E fuel d) reqs' w = history (role_ops E fuel d) (filter (\<lambda>(user, req). u_JimmAdmin user) reqs') w
    \<and> store (history (group_ops E fuel d) reqs w) \<subseteq> store w \<and> store (history (role_ops E fuel d) reqs' w) \<subseteq> store w
    \<and> ((\<forall>user name. (user, ReqRemove name) \<in> set reqs \<longrightarrow> \<not> u_JimmAdmin user) \<longrightarrow>
         store (history (group_ops E fuel d) reqs w) = store w)
    \<and> ((\<forall>user name. (user, ReqRemove name) \<in> set reqs' \<longrightarrow> \<not> u_JimmAdmin user) \<longrightarrow>
         store (history (role_ops E fuel d) reqs' w) = store w)"
proof (intro conjI impI)
  show "history (group_ops E fuel d) reqs w = history (group_ops E fuel d) (filter (\<lambda>(user, req). u_JimmAdmin user) reqs) w"
    by (rule jimm_services.group_histories(1) [OF assms])
  show "history (role_ops E fuel d) reqs' w = history (role_ops E fuel d) (filter (\<lambda>(user, req). u_JimmAdmin user) reqs') w"
    by (rule jimm_services.role_histories(1) [OF assms])
  show "store (history (group_ops E fuel d) reqs w) \<subseteq> store w"
    by (rule jimm_services.group_histories(2) [OF assms])
  show "store (history (role_ops E fuel d) reqs' w) \<subseteq> store w"
    by (rule jimm_services.role_histories(2) [OF assms])
qed (use jimm_services.group_histories(3) [OF assms] jimm_services.role_histories(3) [OF assms] in blast)+

theorem managers_guarded_witness:
  "mem_store (history (group_ops mem_externals 1 (pm_store mem_pm)) [(mem_user ''bob'', ReqRemove ''staff''), (mem_user ''bob'', ReqCount)]
      (mem_admin_of (Tag GroupTagKind ''g''))) = mem_store (mem_admin_of (Tag GroupTagKind ''g''))"
  using managers_guarded [OF memj.jimm_services_axioms, of 1 "pm_store mem_pm"
      "[(mem_user ''bob'', ReqRemove ''staff''), (mem_user ''bob'', ReqCount)]" "mem_admin_of (Tag GroupTagKind ''g'')"]
  by simp

end
