(* ===== verification/Login.thy ===== *)
theory Login
  imports Entity_Managers
begin

text \<open>
  Logging in and the authority of application offers:
  \<^verbatim>\<open>internal/jimm/login/login.go\<close>, the reading of session groups in \<^verbatim>\<open>internal/auth/auth.go\<close>, and
  \<^verbatim>\<open>internal/jimm/offer/authorizer.go\<close>. The interface \<^verbatim>\<open>OAuthAuthenticator\<close>, behind which the
  identity provider stands, is a record of functions. A session token the library has verified
  is its subject and its claims.
\<close>

section \<open>Session groups\<close>

text \<open>A claim of a token as the JSON decoder of the token library leaves it.\<close>

datatype claim = ClaimString string | ClaimList "claim list" | ClaimOther

record session_token =
  jwt_Subject :: string
  jwt_Get :: "string \<Rightarrow> claim option"

definition SessionTokenGroupsClaimKey :: string where
  "SessionTokenGroupsClaimKey = ''groups''"

definition err_group_entry :: err where
  "err_group_entry = ErrFmt ''invalid group claim entry type at index %d: got %T'' [] None"

fun claim_groups :: "claim list \<Rightarrow> err + string list" where
  "claim_groups [] = Inr []"
| "claim_groups (ClaimString g # gs) = (case claim_groups gs of Inl e \<Rightarrow> Inl e | Inr rest \<Rightarrow> Inr (g # rest))"
| "claim_groups (_ # gs) = Inl err_group_entry"

definition SessionGroupsFromToken :: "session_token option \<Rightarrow> err + string list" where
  "SessionGroupsFromToken tok = (case tok of
       None \<Rightarrow> Inl (ErrNew ''token is nil'')
     | Some t \<Rightarrow> (case jwt_Get t SessionTokenGroupsClaimKey of
         None \<Rightarrow> Inr []
       | Some (ClaimList parsedGroups) \<Rightarrow> claim_groups parsedGroups
       | Some _ \<Rightarrow> Inl (ErrFmt ''invalid %q claim type %T'' [SessionTokenGroupsClaimKey] None)))"

section \<open>The login manager\<close>

text \<open>
  Device codes and OAuth tokens only pass through the manager. \<open>'d\<close> and \<open>'t\<close> are their types.
\<close>

record ('w, 'd, 't) oauth_authenticator =
  oa_Device :: "('w, 'd) io"
  oa_DeviceAccessToken :: "'d \<Rightarrow> ('w, 't) io"
  oa_VerifyAndExtractIdentityClaims :: "'t \<Rightarrow> ('w, string \<times> string list) io"
  oa_MintSessionTokenWithGroups :: "string \<Rightarrow> string list \<Rightarrow> err + string"
  oa_VerifySessionToken :: "string \<Rightarrow> err + session_token"
  oa_UpdateIdentity :: "string \<Rightarrow> 't \<Rightarrow> ('w, unit) io"
  oa_VerifyClientCredentials :: "string \<Rightarrow> string \<Rightarrow> ('w, string list) io"

record login_manager =
  lm_store :: database
  lm_jimmTag :: tag

definition NewLoginManager :: "database option \<Rightarrow> bool \<Rightarrow> bool \<Rightarrow> tag \<Rightarrow> err + login_manager" where
  "NewLoginManager store authSvc oAuthAuthenticator jimmTag = (case store of
       None \<Rightarrow> Inl (ErrNew ''login store cannot be nil'')
     | Some d \<Rightarrow>
         if \<not> authSvc then Inl (ErrNew ''login authorisation service cannot be nil'')
         else if \<not> oAuthAuthenticator then Inl (ErrNew ''oauth service cannot be nil'')
         else if Id jimmTag = '''' then Inl (ErrNew ''invalid jimm controller tag'')
         else Inr \<lparr>lm_store = d, lm_jimmTag = jimmTag\<rparr>)"

definition fatal_login :: "err \<Rightarrow> err" where
  "fatal_login e = Codef CodeFatalLoginError (ErrFmt ''%w'' [] (Some e))"

definition LoginDevice :: "('w, 'd, 't) oauth_authenticator \<Rightarrow> ('w, 'd) io" where
  "LoginDevice A = go_maperr
     (\<lambda>_. Codef CodeFatalLoginError (ErrNew ''oauth device login failed, check JIMM's log.'')) (oa_Device A)"

definition GetDeviceSessionToken :: "('w, 'd, 't) oauth_authenticator \<Rightarrow> 'd \<Rightarrow> ('w, string) io" where
  "GetDeviceSessionToken A deviceOAuthResponse =
     go_bind (oa_DeviceAccessToken A deviceOAuthResponse) (\<lambda>token.
     go_bind (oa_VerifyAndExtractIdentityClaims A token) (\<lambda>(email, groups).
     go_bind (oa_UpdateIdentity A email token) (\<lambda>_.
     go_sum (oa_MintSessionTokenWithGroups A email groups))))"

definition updateLastLogin :: "'w externals \<Rightarrow> login_manager \<Rightarrow> identity \<Rightarrow> ('w, identity) io" where
  "updateLastLogin E j identity =
     go_bind (go_lift (NowFunc E)) (\<lambda>now. UpdateIdentity E (lm_store j) (identity\<lparr>id_LastLogin := Some now\<rparr>))"

definition GetOrCreateIdentity :: "'w externals \<Rightarrow> login_manager \<Rightarrow> string \<Rightarrow> ('w, ofga_user) io" where
  "GetOrCreateIdentity E j identifier =
     go_bind (go_sum (NewIdentity E identifier)) (\<lambda>identity.
     go_bind (GetIdentity E (lm_store j) identity) (\<lambda>identity'.
     let ofgaUser = NewUser identity' True in
     go_bind (IsAdministrator E ofgaUser (lm_jimmTag j)) (\<lambda>isJimmAdmin.
     go_return (ofgaUser\<lparr>u_JimmAdmin := isJimmAdmin\<rparr>))))"

definition UserLogin :: "'w externals \<Rightarrow> login_manager \<Rightarrow> string \<Rightarrow> ('w, ofga_user) io" where
  "UserLogin E j identifier =
     go_bind (go_maperr (\<lambda>e. Codef CodeUnauthorized (ErrFmt ''%w'' [] (Some e)))
       (GetOrCreateIdentity E j identifier)) (\<lambda>ofgaUser.
     go_bind (updateLastLogin E j (u_Identity ofgaUser)) (\<lambda>identity.
     go_return (ofgaUser\<lparr>u_Identity := identity\<rparr>)))"

definition LoginClientCredentials ::
    "'w externals \<Rightarrow> ('w, 'd, 't) oauth_authenticator \<Rightarrow> login_manager \<Rightarrow> string \<Rightarrow> string \<Rightarrow> ('w, ofga_user) io" where
  "LoginClientCredentials E A j clientID clientSecret =
     go_bind (go_maperr fatal_login (go_sum (EnsureValidServiceAccountId E clientID))) (\<lambda>clientIdWithDomain.
     go_bind (go_maperr fatal_login (oa_VerifyClientCredentials A clientID clientSecret)) (\<lambda>groups.
     go_bind (go_maperr fatal_login (UserLogin E j clientIdWithDomain)) (\<lambda>user.
     go_return (SetIDPGroups user groups))))"

definition LoginWithSessionToken ::
    "'w externals \<Rightarrow> ('w, 'd, 't) oauth_authenticator \<Rightarrow> login_manager \<Rightarrow> string \<Rightarrow> ('w, ofga_user) io" where
  "LoginWithSessionToken E A j sessionToken =
     go_bind (go_maperr (\<lambda>e. if ErrorCode (Some e) = CodeSessionTokenInvalid then e else fatal_login e)
       (go_sum (oa_VerifySessionToken A sessionToken))) (\<lambda>jwtToken.
     go_bind (go_maperr fatal_login (go_sum (SessionGroupsFromToken (Some jwtToken)))) (\<lambda>groups.
     go_bind (go_maperr fatal_login (UserLogin E j (jwt_Subject jwtToken))) (\<lambda>user.
     go_return (SetIDPGroups user groups))))"

text \<open>\<open>groups\<close> are the session groups the HTTP layer has put into the context.\<close>

definition LoginWithSessionCookie :: "'w externals \<Rightarrow> login_manager \<Rightarrow> string list \<Rightarrow> string \<Rightarrow> ('w, ofga_user) io" where
  "LoginWithSessionCookie E j groups identityID =
     (if identityID = '''' then go_err (ErrNew ''missing cookie identity'')
      else go_bind (UserLogin E j identityID) (\<lambda>user. go_return (SetIDPGroups user groups)))"

section \<open>Consumers of application offers\<close>

definition NewOfferAuthorizer :: "database option \<Rightarrow> bool \<Rightarrow> err + database" where
  "NewOfferAuthorizer store authSvc = (case store of
       None \<Rightarrow> Inl (ErrNew ''group store cannot be nil'')
     | Some d \<Rightarrow> if \<not> authSvc then Inl (ErrNew ''group authorisation service cannot be nil'') else Inr d)"

definition resolveLocalUserToExternalUser :: "'w externals \<Rightarrow> database \<Rightarrow> string \<Rightarrow> tag \<Rightarrow> ('w, string) io" where
  "resolveLocalUserToExternalUser E d localUsername offerTag =
     go_bind (GetApplicationOffer E d (empty_offer\<lparr>ao_UUID := Id offerTag\<rparr>)) (\<lambda>offer.
     go_bind (GetUserMapping E d (empty_user_mapping\<lparr>
         um_ModelUUID := Some (case ao_ModelUUID offer of None \<Rightarrow> '''' | Some u \<Rightarrow> u), um_LocalUser := localUsername\<rparr>)) (\<lambda>userMapping.
     go_return (um_ExternalUserName userMapping)))"

text \<open>\<open>fetcher\<close>: is there an identity provider to ask for groups? An error of it is only logged.\<close>

definition offer_user :: "'w externals \<Rightarrow> bool \<Rightarrow> string \<Rightarrow> identity \<Rightarrow> ('w, ofga_user) io" where
  "offer_user E fetcher userIdentifier identity =
     (let user = NewUser identity True in
      if fetcher
      then go_bind (go_try (FetchGroups E userIdentifier)) (\<lambda>r. case r of
          Inl e \<Rightarrow> go_return user
        | Inr groups \<Rightarrow> go_return (SetIDPGroups user groups))
      else go_return user)"

definition IsUserConsumerForOffer :: "'w externals \<Rightarrow> database \<Rightarrow> bool \<Rightarrow> tag \<Rightarrow> tag \<Rightarrow> ('w, bool) io" where
  "IsUserConsumerForOffer E d fetcher ut offerTag =
     go_bind (if names_IsLocal E ut then resolveLocalUserToExternalUser E d (Id ut) offerTag
              else go_return (Id ut)) (\<lambda>userIdentifier.
     go_bind (go_sum (NewIdentity E userIdentifier)) (\<lambda>identity.
     go_bind (offer_user E fetcher userIdentifier identity) (\<lambda>user.
     IsApplicationOfferConsumer E user offerTag)))"

section \<open>Facts\<close>

context jimm_services
begin

lemma updateLastLogin_frame [frame_intros]: "frame store (updateLastLogin E j i)"
  unfolding updateLastLogin_def by (intro frame_intros now_frame)

lemma updateLastLogin_ok:
  "updateLastLogin E j i w = (Ok i', w') \<Longrightarrow> id_Name i' = id_Name i"
  by (auto simp: updateLastLogin_def go_lift_def elim!: go_bind_OkE dest!: UpdateIdentity_ok)

text \<open>Who is logged in, and with which authority.\<close>

lemma GetOrCreateIdentity_ok:
  assumes "GetOrCreateIdentity E j i w = (Ok u, w')"
  shows "store w' = store w \<and> (\<exists>ident t. NewIdentity E i = Inr ident \<and> u_Name u = id_Name ident \<and> user_tag E u = Some t
    \<and> u_client u \<and> u_IDPGroupIDs u = []
    \<and> u_JimmAdmin u = holds (store w) (ConvertTag t) AdministratorRelation (ConvertTag (lm_jimmTag j)))"
proof -
  from assms obtain ident i' w1 b where i: "NewIdentity E i = Inr ident" and g: "GetIdentity E (lm_store j) ident w = (Ok i', w1)"
    and a: "checkRelation E (NewUser i' True) (lm_jimmTag j) AdministratorRelation w1 = (Ok b, w')"
    and u: "u = (NewUser i' True)\<lparr>u_JimmAdmin := b\<rparr>"
    unfolding GetOrCreateIdentity_def check_defs Let_def by (auto elim!: go_bind_OkE go_sum_OkE)
  from a obtain t where "user_tag E (NewUser i' True) = Some t" "store w' = store w1"
    "b = can (store w1) (NewUser i' True) t AdministratorRelation (lm_jimmTag j)"
    by (rule checkRelation_ok)
  then show ?thesis using i u GetIdentity_ok [OF g] by (simp add: can_def)
qed

lemma UserLogin_ok:
  assumes "UserLogin E j i w = (Ok u, w')"
  shows "store w' = store w \<and> (\<exists>ident t. NewIdentity E i = Inr ident \<and> u_Name u = id_Name ident \<and> user_tag E u = Some t
    \<and> u_client u
    \<and> u_JimmAdmin u = holds (store w) (ConvertTag t) AdministratorRelation (ConvertTag (lm_jimmTag j)))"
proof -
  from assms obtain u1 w1 i' where g: "GetOrCreateIdentity E j i w = (Ok u1, w1)"
    and l: "updateLastLogin E j (u_Identity u1) w1 = (Ok i', w')" and u: "u = u1\<lparr>u_Identity := i'\<rparr>"
    unfolding UserLogin_def by (auto elim!: go_bind_OkE)
  then show ?thesis
    using GetOrCreateIdentity_ok [OF g] updateLastLogin_ok [OF l] frameD [OF updateLastLogin_frame l]
    by (auto simp: identity_ResourceTag_def)
qed

lemma resolveLocal_frame [frame_intros]: "frame store (resolveLocalUserToExternalUser E d n offer)"
  unfolding resolveLocalUserToExternalUser_def by (intro frame_intros)

lemma offer_user_ok:
  assumes "offer_user E fetcher name ident w = (Ok u, w')"
  shows "store w' = store w \<and> u_Identity u = ident \<and> u_client u
    \<and> (u_IDPGroupIDs u = [] \<or> fetcher \<and> FetchGroups E name w = (Ok (u_IDPGroupIDs u), w'))"
proof (cases fetcher)
  case True
  with assms have "go_bind (go_try (FetchGroups E name)) (\<lambda>r. case r of
          Inl e \<Rightarrow> go_return (NewUser ident True)
        | Inr groups \<Rightarrow> go_return (SetIDPGroups (NewUser ident True) groups)) w = (Ok u :: (err, _) outcome, w')"
    by (simp add: offer_user_def Let_def)
  then show ?thesis
  proof (cases rule: go_try_bindE)
    case (failed e w1)
    then show ?thesis using frameD [OF fetch_frame failed(1)] by simp
  next
    case (succeeded gs w1)
    then show ?thesis using frameD [OF fetch_frame succeeded(1)] True by (simp add: SetIDPGroups_def)
  qed
qed (use assms in \<open>simp add: offer_user_def\<close>)

end

section \<open>Properties\<close>

text \<open>
  C29. A login with a session token. It succeeds only with a token the authenticator has verified;
  the session is that of the token's subject, with the groups of the token's claim; OpenFGA is
  only read. The session counts as one of an administrator of JIMM if and only if the subject is
  one without the groups: the check is made before the groups of the token are known, so an
  administrator by virtue of a group of the identity provider is not recognised here.
\<close>

theorem session_token_login:
  assumes "jimm_services E store remaining" and "LoginWithSessionToken E A j tok w = (Ok user, w')"
  shows "store w' = store w \<and> (\<exists>jwt ident t. oa_VerifySessionToken A tok = Inr jwt
    \<and> NewIdentity E (jwt_Subject jwt) = Inr ident \<and> u_Name user = id_Name ident \<and> user_tag E user = Some t
    \<and> SessionGroupsFromToken (Some jwt) = Inr (u_IDPGroupIDs user)
    \<and> (u_JimmAdmin user \<longleftrightarrow> holds (store w) (ConvertTag t) AdministratorRelation (ConvertTag (lm_jimmTag j))))"
proof -
  from assms(2) obtain jwt groups u where jwt: "oa_VerifySessionToken A tok = Inr jwt"
    and groups: "SessionGroupsFromToken (Some jwt) = Inr groups" and u: "UserLogin E j (jwt_Subject jwt) w = (Ok u, w')"
    and user: "user = SetIDPGroups u groups"
    unfolding LoginWithSessionToken_def by (auto elim!: go_bind_OkE go_sum_OkE)
  from jimm_services.UserLogin_ok [OF assms(1) u] jwt groups user show ?thesis
    by (auto simp: SetIDPGroups_def)
qed

text \<open>An authenticator that takes any token for one of alice, a member of two groups.\<close>

definition mem_jwt :: session_token where
  "mem_jwt = \<lparr>jwt_Subject = ''alice'', jwt_Get = [SessionTokenGroupsClaimKey \<mapsto> ClaimList [ClaimString ''dev'', ClaimString ''ops'']]\<rparr>"

definition mem_oauth :: "(tup list, unit, unit) oauth_authenticator" where
  "mem_oauth = \<lparr>oa_Device = go_return (), oa_DeviceAccessToken = (\<lambda>_. go_return ()),
     oa_VerifyAndExtractIdentityClaims = (\<lambda>_. go_return (''alice'', [])),
     oa_MintSessionTokenWithGroups = (\<lambda>_ _. Inr ''tok''),
     oa_VerifySessionToken = (\<lambda>s. if s = '''' then Inl (Codef CodeSessionTokenInvalid (ErrNew ''expired'')) else Inr mem_jwt),
     oa_UpdateIdentity = (\<lambda>_ _. go_return ()), oa_VerifyClientCredentials = (\<lambda>_ _. go_return [])\<rparr>"

definition mem_login :: login_manager where
  "mem_login = \<lparr>lm_store = pm_store mem_pm, lm_jimmTag = Tag ControllerTagKind ''j''\<rparr>"

lemma mem_check_named:
  "checkRelation mem_externals (NewUser i True) res r w =
     (Ok (holds (mem_store w) (ConvertTag (Tag UserTagKind (id_Name i))) r (ConvertTag res)), w)"
  by (rule mem_check_new) (simp add: identity_ResourceTag_def new_juju_tag_def)

lemma mem_identity:
  assumes "n \<noteq> ''''" and "set n \<inter> set unsafe_chars = {}"
  obtains i where "NewIdentity mem_externals n = Inr i" and "id_Name i = n"
  using assms by (simp add: NewIdentity_def)

lemma mem_user_login:
  assumes "n \<noteq> ''''" and "set n \<inter> set unsafe_chars = {}"
  shows "\<exists>u. UserLogin mem_externals mem_login n w = (Ok u, w)"
proof -
  obtain i where "NewIdentity mem_externals n = Inr i" and "id_Name i = n" using mem_identity [OF assms] by blast
  then show ?thesis using assms(1)
    by (simp add: UserLogin_def GetOrCreateIdentity_def GetIdentity_def updateLastLogin_def UpdateIdentity_def check_defs
        mem_check_named ready_def mem_login_def mem_pm_def no_table_simps Let_def go_bind_def go_maperr_def go_simps)
qed

lemma alice_safe: "set ''alice'' \<inter> set unsafe_chars = {}"
  by (simp add: unsafe_chars_def)

theorem session_token_login_witness:
  "\<exists>user w'. LoginWithSessionToken mem_externals mem_oauth mem_login ''t'' (mem_admin_of (Tag ControllerTagKind ''j'')) = (Ok user, w')
     \<and> u_JimmAdmin user \<and> u_IDPGroupIDs user = [''dev'', ''ops'']"
proof -
  let ?w = "mem_admin_of (Tag ControllerTagKind ''j'')"
  obtain u where u: "UserLogin mem_externals mem_login ''alice'' ?w = (Ok u, ?w)"
    using mem_user_login [OF _ alice_safe] by blast
  have jwt: "oa_VerifySessionToken mem_oauth ''t'' = Inr mem_jwt" "jwt_Subject mem_jwt = ''alice''"
      "SessionGroupsFromToken (Some mem_jwt) = Inr [''dev'', ''ops'']"
    by (simp_all add: mem_oauth_def mem_jwt_def SessionGroupsFromToken_def)
  have run: "LoginWithSessionToken mem_externals mem_oauth mem_login ''t'' ?w = (Ok (SetIDPGroups u [''dev'', ''ops'']), ?w)"
    by (simp add: LoginWithSessionToken_def jwt u go_bind_def go_maperr_def go_simps)
  obtain i where i: "NewIdentity mem_externals ''alice'' = Inr i" "id_Name i = ''alice''"
    using mem_identity [OF _ alice_safe] by blast
  have lad: "access_ladder (Kind (Tag ControllerTagKind ''j'')) controller_levels"
    using controller_access.access_ladder_axioms by simp
  show ?thesis
    using session_token_login [OF memj.jimm_services_axioms run] run jwt i mem_alice_admin [OF lad]
    by (auto simp: mem_login_def identity_ResourceTag_def new_juju_tag_def)
qed

text \<open>
  The errors of a login with a session token: an invalid token is reported as such, unwrapped,
  so that the client logs in again; every other failure is a fatal login error.
\<close>

theorem session_token_errors:
  assumes "LoginWithSessionToken E A j tok w = (Err e, w')"
  shows "ErrorCode (Some e) = CodeFatalLoginError
    \<or> ErrorCode (Some e) = CodeSessionTokenInvalid \<and> oa_VerifySessionToken A tok = Inl e \<and> w' = w"
proof (cases "oa_VerifySessionToken A tok")
  case (Inl er)
  then show ?thesis using assms
    by (auto simp: LoginWithSessionToken_def fatal_login_def go_err_def split: if_splits)
next
  case (Inr jwt)
  show ?thesis
  proof (cases "SessionGroupsFromToken (Some jwt)")
    case (Inl er)
    then show ?thesis using assms Inr by (auto simp: LoginWithSessionToken_def fatal_login_def go_err_def)
  next
    case groups: (Inr gs)
    then show ?thesis using assms Inr
      by (auto simp: LoginWithSessionToken_def fatal_login_def go_bind_def go_maperr_def go_return_def
          split: prod.splits outcome.splits)
  qed
qed

theorem session_token_errors_witness:
  "\<exists>e. LoginWithSessionToken mem_externals mem_oauth mem_login '''' [] = (Err e, []) \<and> ErrorCode (Some e) \<noteq> CodeUnauthorized"
proof -
  let ?e = "Codef CodeSessionTokenInvalid (ErrNew ''expired'')"
  have run: "LoginWithSessionToken mem_externals mem_oauth mem_login '''' [] = (Err ?e, [])"
    by (simp add: LoginWithSessionToken_def mem_oauth_def go_simps)
  from session_token_errors [OF run] run show ?thesis by auto
qed



end
