(* ===== verification/Jimm_JWT.thy ===== *)
theory Jimm_JWT
  imports Errors
begin

text \<open>
  The package \<^verbatim>\<open>internal/jimmjwx\<close>: the keys JIMM signs its tokens with and publishes
  (\<^verbatim>\<open>jwks.go\<close>) and the tokens themselves (\<^verbatim>\<open>jwt.go\<close>). The library \<^verbatim>\<open>lestrrat-go/jwx\<close>, the PEM
  and x509 decoders and the file system are records of functions; the periodic refresh of the
  keys is a step relation.
\<close>

section \<open>The key set\<close>

text \<open>
  \<open>'set\<close> is \<^verbatim>\<open>jwk.Set\<close>, \<open>'key\<close> is \<^verbatim>\<open>jwk.Key\<close>, \<open>'priv\<close> an RSA private key and \<open>'any\<close> what the
  PKCS8 parser returns.
\<close>

record ('w, 'set, 'key, 'priv, 'any) jwk_lib =
  os_ReadFile :: "string \<Rightarrow> ('w, string) io"
  jwk_Parse :: "string \<Rightarrow> err + 'set"
  set_Len :: "'set \<Rightarrow> nat"
  set_Key :: "'set \<Rightarrow> nat \<Rightarrow> 'key option"
  jwk_PublicKeyOf :: "'priv \<Rightarrow> err + 'key"
  jwk_Equal :: "'key \<Rightarrow> 'key \<Rightarrow> bool"
  jwk_FromRaw :: "'priv \<Rightarrow> err + 'key"
  key_Set :: "'key \<Rightarrow> string \<Rightarrow> string \<Rightarrow> err + 'key"
  key_KeyID :: "'key \<Rightarrow> string"
  pem_Decode :: "string \<Rightarrow> string option"
  x509_ParsePKCS1PrivateKey :: "string \<Rightarrow> err + 'priv"
  x509_ParsePKCS8PrivateKey :: "string \<Rightarrow> err + 'any"
  as_rsa :: "'any \<Rightarrow> 'priv option"

record ('set, 'key) cachedJWKS =
  cj_set :: "'set option"
  cj_signingKey :: "'key option"

record ('set, 'key) jwks_service =
  jk_jwksPath :: string
  jk_privateKeyPath :: string
  jk_cached :: "('set, 'key) cachedJWKS"

text \<open>
  \<^verbatim>\<open>len(bytes.TrimSpace(content)) == 0\<close>: the content consists of white space of Unicode, in
  its UTF-8 encoding.
\<close>

fun only_space :: "nat list \<Rightarrow> bool" where
  "only_space [] = True"
| "only_space (b # bs) =
     (if b \<in> {9, 10, 11, 12, 13, 32} then only_space bs
      else case bs of
        [] \<Rightarrow> False
      | c # cs \<Rightarrow>
          if b = 194 \<and> c \<in> {133, 160} then only_space cs
          else (case cs of
            [] \<Rightarrow> False
          | d # ds \<Rightarrow>
              (b = 225 \<and> c = 154 \<and> d = 128
               \<or> b = 226 \<and> c = 128 \<and> (128 \<le> d \<and> d \<le> 138 \<or> d \<in> {168, 169, 175})
               \<or> b = 226 \<and> c = 129 \<and> d = 159
               \<or> b = 227 \<and> c = 128 \<and> d = 128) \<and> only_space ds))"

definition readRequiredFile :: "('w, 'set, 'key, 'priv, 'any) jwk_lib \<Rightarrow> string \<Rightarrow> string \<Rightarrow> ('w, string) io" where
  "readRequiredFile K path name =
     go_bind (go_maperr (\<lambda>e. ErrFmt ''read %s: %w'' [name] (Some e)) (os_ReadFile K path)) (\<lambda>content.
     if only_space (map of_char content) then go_err (ErrNew (name @ '' file is empty''))
     else go_return content)"

definition parseRSAPrivateKey :: "('w, 'set, 'key, 'priv, 'any) jwk_lib \<Rightarrow> string \<Rightarrow> err + 'priv" where
  "parseRSAPrivateKey K privateKeyPEM = (case pem_Decode K privateKeyPEM of
       None \<Rightarrow> Inl (ErrNew ''failed to decode jwks private key'')
     | Some bytes \<Rightarrow> (case x509_ParsePKCS1PrivateKey K bytes of
         Inr privateKey \<Rightarrow> Inr privateKey
       | Inl e \<Rightarrow> (case x509_ParsePKCS8PrivateKey K bytes of
           Inl pkcs8Err \<Rightarrow> Inl (ErrFmt ''parse jwks private key: %w'' [] (Some e))
         | Inr pkcs8Key \<Rightarrow> (case as_rsa K pkcs8Key of
             None \<Rightarrow> Inl (ErrNew ''jwks private key is not rsa'')
           | Some rsaKey \<Rightarrow> Inr rsaKey))))"

text \<open>The loop over the keys of the set, from index \<open>i\<close> on.\<close>

function matching_from :: "('w, 'set, 'key, 'priv, 'any) jwk_lib \<Rightarrow> 'set \<Rightarrow> 'key \<Rightarrow> nat \<Rightarrow> err + 'key" where
  "matching_from K keys signingKey i =
     (if i < set_Len K keys
      then (case set_Key K keys i of
          None \<Rightarrow> matching_from K keys signingKey (Suc i)
        | Some key \<Rightarrow> if jwk_Equal K key signingKey then Inr key else matching_from K keys signingKey (Suc i))
      else Inl (ErrNew ''jwks does not contain the public key for the provided private key''))"
  by pat_completeness auto
termination
  by (relation "measure (\<lambda>(K, keys, signingKey, i). set_Len K keys - i)") auto

declare matching_from.simps [simp del]

definition matchingPublicKey :: "('w, 'set, 'key, 'priv, 'any) jwk_lib \<Rightarrow> 'set \<Rightarrow> 'priv \<Rightarrow> err + 'key" where
  "matchingPublicKey K keys privateKey = (case jwk_PublicKeyOf K privateKey of
       Inl e \<Rightarrow> Inl (ErrFmt ''create jwk public key: %w'' [] (Some e))
     | Inr signingKey \<Rightarrow> matching_from K keys signingKey 0)"

definition loadJWKS :: "('w, 'set, 'key, 'priv, 'any) jwk_lib \<Rightarrow> string \<Rightarrow> string \<Rightarrow> ('w, ('set, 'key) cachedJWKS) io" where
  "loadJWKS K jwksPath privateKeyPath =
     go_bind (readRequiredFile K jwksPath ''jwks'') (\<lambda>rawJWKS.
     go_bind (go_maperr (\<lambda>e. ErrFmt ''parse jwks: %w'' [] (Some e)) (go_sum (jwk_Parse K rawJWKS))) (\<lambda>keys.
     if set_Len K keys = 0 then go_err (ErrNew ''jwks must contain at least one key'')
     else go_bind (readRequiredFile K privateKeyPath ''jwks private key'') (\<lambda>privateKeyPEM.
       go_bind (go_sum (parseRSAPrivateKey K privateKeyPEM)) (\<lambda>privateKey.
       go_bind (go_maperr (\<lambda>e. ErrFmt ''create jwks signing key: %w'' [] (Some e)) (go_sum (jwk_FromRaw K privateKey))) (\<lambda>k0.
       go_bind (go_sum (key_Set K k0 ''alg'' ''RS256'')) (\<lambda>k1.
       go_bind (go_sum (key_Set K k1 ''use'' ''sig'')) (\<lambda>k2.
       go_bind (go_sum (matchingPublicKey K keys privateKey)) (\<lambda>publicKey.
       go_bind (if key_KeyID K publicKey \<noteq> '''' then go_sum (key_Set K k2 ''kid'' (key_KeyID K publicKey))
                else go_return k2) (\<lambda>signingKey.
       go_return \<lparr>cj_set = Some keys, cj_signingKey = Some signingKey\<rparr>)))))))))"

definition NewJWKSService :: "('w, 'set, 'key, 'priv, 'any) jwk_lib \<Rightarrow> string \<Rightarrow> string \<Rightarrow> ('w, ('set, 'key) jwks_service) io" where
  "NewJWKSService K jwksPath privateKeyPath =
     (if jwksPath = '''' then go_err (ErrNew ''missing jwks path'')
      else if privateKeyPath = '''' then go_err (ErrNew ''missing jwks private key path'')
      else go_bind (loadJWKS K jwksPath privateKeyPath) (\<lambda>material.
        go_return \<lparr>jk_jwksPath = jwksPath, jk_privateKeyPath = privateKeyPath, jk_cached = material\<rparr>))"

definition jwks_Get :: "('set, 'key) jwks_service \<Rightarrow> ('w, 'set) io" where
  "jwks_Get s = (case cj_set (jk_cached s) of None \<Rightarrow> go_err (ErrNew ''missing jwks'') | Some x \<Rightarrow> go_return x)"

definition jwks_SigningKey :: "('set, 'key) jwks_service \<Rightarrow> ('w, 'key option) io" where
  "jwks_SigningKey s = (case cj_signingKey (jk_cached s) of
     None \<Rightarrow> go_err (ErrNew ''missing signing key'') | Some k \<Rightarrow> go_return (Some k))"

text \<open>A refresh never fails: what could not be loaded is logged and the cached keys stay.\<close>

definition refresh :: "('w, 'set, 'key, 'priv, 'any) jwk_lib \<Rightarrow> ('set, 'key) jwks_service \<Rightarrow> ('w, ('set, 'key) jwks_service) io" where
  "refresh K s =
     go_bind (go_try (loadJWKS K (jk_jwksPath s) (jk_privateKeyPath s))) (\<lambda>r. case r of
       Inl e \<Rightarrow> go_return s
     | Inr material \<Rightarrow> go_return (s\<lparr>jk_cached := material\<rparr>))"

text \<open>
  \<^verbatim>\<open>refreshLoop\<close> beside the rest of the world, which changes the files as it likes. A state is
  the service, the world and whether the context of the loop is still alive.
\<close>

inductive refreshLoop :: "('w, 'set, 'key, 'priv, 'any) jwk_lib
    \<Rightarrow> ('set, 'key) jwks_service \<times> 'w \<times> bool \<Rightarrow> ('set, 'key) jwks_service \<times> 'w \<times> bool \<Rightarrow> bool"
  for K where
  tick: "refresh K s w = (Ok s', w') \<Longrightarrow> refreshLoop K (s, w, True) (s', w', True)"
| cancelled: "refreshLoop K (s, w, True) (s, w, False)"
| elsewhere: "refreshLoop K (s, w, alive) (s, w', alive)"

inductive jwks_reachable :: "('w, 'set, 'key, 'priv, 'any) jwk_lib
    \<Rightarrow> ('set, 'key) jwks_service \<times> 'w \<times> bool \<Rightarrow> bool"
  for K where
  started: "NewJWKSService K p q w = (Ok s, w') \<Longrightarrow> jwks_reachable K (s, w', True)"
| step: "jwks_reachable K c \<Longrightarrow> refreshLoop K c c' \<Longrightarrow> jwks_reachable K c'"

section \<open>Tokens\<close>

type_synonym access_map = "(string \<Rightarrow> string option) option"

datatype claim_value = CString string | CStrings "string list" | CAccess access_map | CTime int

record ('w, 'key, 'tok) jwt_lib =
  uuid_NewRandom :: "('w, string) io"
  time_Now :: "'w \<Rightarrow> int \<times> 'w"
  jwt_Build :: "(string \<times> claim_value) list \<Rightarrow> err + 'tok"
  jwt_Sign :: "'tok \<Rightarrow> 'key \<Rightarrow> err + string"

record ('w, 'key) jwt_service =
  js_Host :: string
  js_Expiry :: int
  js_JWKS :: "('w, 'key option) io option"

record jwt_params =
  jp_Controller :: string
  jp_User :: string
  jp_Access :: access_map
  jp_ExtraClaims :: "(string \<times> string) list"
  jp_Expiry :: int

definition accessClaim :: string where
  "accessClaim = ''access''"

definition token_expiry :: "('w, 'key) jwt_service \<Rightarrow> jwt_params \<Rightarrow> int" where
  "token_expiry j p = (if jp_Expiry p \<noteq> 0 then jp_Expiry p else js_Expiry j)"

text \<open>The calls on the builder, in order: a later call for the same claim replaces the value.\<close>

definition standard_claims :: "('w, 'key) jwt_service \<Rightarrow> jwt_params \<Rightarrow> string \<Rightarrow> int \<Rightarrow> (string \<times> claim_value) list" where
  "standard_claims j p jti now =
     [(''aud'', CStrings [jp_Controller p]), (''sub'', CString (jp_User p)), (''iss'', CString (js_Host j)),
      (''jti'', CString jti), (accessClaim, CAccess (jp_Access p)), (''exp'', CTime (now + token_expiry j p))]"

fun extra_claims :: "(string \<times> string) list \<Rightarrow> err + (string \<times> claim_value) list" where
  "extra_claims [] = Inr []"
| "extra_claims ((k, v) # rest) =
     (if k = accessClaim then Inl (ErrNew ''access is a reserved claim'')
      else map_sum id ((#) (k, CString v)) (extra_claims rest))"

definition NewJWT :: "('w, 'key, 'tok) jwt_lib \<Rightarrow> ('w, 'key) jwt_service \<Rightarrow> jwt_params \<Rightarrow> ('w, string) io" where
  "NewJWT X j params =
     go_bind (uuid_NewRandom X) (\<lambda>jti.
     case js_JWKS j of
       None \<Rightarrow> go_err (ErrNew ''missing signing key provider'')
     | Some getKey \<Rightarrow>
         go_bind getKey (\<lambda>k. case k of
           None \<Rightarrow> go_err (ErrNew ''missing signing key'')
         | Some signingKey \<Rightarrow>
             go_bind (go_lift (time_Now X)) (\<lambda>now.
             go_bind (go_sum (extra_claims (jp_ExtraClaims params))) (\<lambda>extra.
             go_bind (go_sum (jwt_Build X (standard_claims j params jti now @ extra))) (\<lambda>token.
             go_sum (jwt_Sign X token signingKey))))))"

section \<open>Facts on the key set\<close>

inductive_simps refreshLoop_iff: "refreshLoop K (s, w, alive) c'"

lemma matching_from_ok:
  "matching_from K keys pub i = Inr pk \<Longrightarrow> \<exists>n. i \<le> n \<and> n < set_Len K keys \<and> set_Key K keys n = Some pk \<and> jwk_Equal K pk pub"
proof (induction K keys pub i rule: matching_from.induct)
  case (1 K keys pub i)
  from 1(3) have i: "i < set_Len K keys" by (subst (asm) matching_from.simps) (auto split: if_splits)
  show ?case
  proof (cases "\<exists>key. set_Key K keys i = Some key \<and> jwk_Equal K key pub")
    case True
    then show ?thesis using 1(3) i by (subst (asm) matching_from.simps) auto
  next
    case False
    then have "matching_from K keys pub (Suc i) = Inr pk"
      using 1(3) i by (subst (asm) matching_from.simps) (auto split: option.splits)
    then have "\<exists>n. Suc i \<le> n \<and> n < set_Len K keys \<and> set_Key K keys n = Some pk \<and> jwk_Equal K pk pub"
      using 1(1,2) i False by (cases "set_Key K keys i") auto
    then show ?thesis by (metis Suc_leD)
  qed
qed

text \<open>
  What is relied on of the JOSE library. \<open>private_of\<close> is the private key inside a signing key and
  \<open>verify\<close> the check of a signature: setting a field keeps the private key, setting the key
  identifier sets it, and a signature is verified by every public key that equals the one of the
  private key it was made with.
\<close>

definition jose_ok :: "('w, 'set, 'key, 'priv, 'any) jwk_lib \<Rightarrow> ('w, 'key, 'tok) jwt_lib \<Rightarrow> ('key \<Rightarrow> 'priv) \<Rightarrow> ('key \<Rightarrow> string \<Rightarrow> bool) \<Rightarrow> bool" where
  "jose_ok K X private_of verify \<longleftrightarrow>
     (\<forall>p k. jwk_FromRaw K p = Inr k \<longrightarrow> private_of k = p)
   \<and> (\<forall>k f v k'. key_Set K k f v = Inr k' \<longrightarrow> private_of k' = private_of k \<and> (f = ''kid'' \<longrightarrow> key_KeyID K k' = v))
   \<and> (\<forall>t k tok pub pk. jwt_Sign X t k = Inr tok \<longrightarrow> jwk_PublicKeyOf K (private_of k) = Inr pub
        \<longrightarrow> jwk_Equal K pk pub \<longrightarrow> verify pk tok)"

text \<open>The set that is published has the public key of the key that signs, under its identifier.\<close>

definition matched :: "('w, 'set, 'key, 'priv, 'any) jwk_lib \<Rightarrow> ('key \<Rightarrow> 'priv) \<Rightarrow> ('set, 'key) cachedJWKS \<Rightarrow> bool" where
  "matched K private_of c \<longleftrightarrow> (\<exists>keys k i pk pub. cj_set c = Some keys \<and> cj_signingKey c = Some k
     \<and> i < set_Len K keys \<and> set_Key K keys i = Some pk \<and> jwk_PublicKeyOf K (private_of k) = Inr pub
     \<and> jwk_Equal K pk pub \<and> (key_KeyID K pk \<noteq> '''' \<longrightarrow> key_KeyID K k = key_KeyID K pk))"

lemma loadJWKS_matched:
  assumes "jose_ok K X private_of verify" and "loadJWKS K p q w = (Ok c, w')"
  shows "matched K private_of c"
proof -
  from assms(2) obtain keys priv k0 k1 k2 pk k where load: "jwk_FromRaw K priv = Inr k0"
      "key_Set K k0 ''alg'' ''RS256'' = Inr k1" "key_Set K k1 ''use'' ''sig'' = Inr k2"
      "matchingPublicKey K keys priv = Inr pk" "c = \<lparr>cj_set = Some keys, cj_signingKey = Some k\<rparr>"
    and kid: "if key_KeyID K pk \<noteq> '''' then key_Set K k2 ''kid'' (key_KeyID K pk) = Inr k else k = k2"
    unfolding loadJWKS_def by (auto elim!: go_bind_OkE go_sum_OkE split: if_splits)
  have "private_of k2 = priv" using assms(1) load(1-3) unfolding jose_ok_def by metis
  then have k: "private_of k = priv" "key_KeyID K pk \<noteq> '''' \<longrightarrow> key_KeyID K k = key_KeyID K pk"
    using assms(1) kid unfolding jose_ok_def by (metis (full_types))+
  from load(4) obtain pub where pub: "jwk_PublicKeyOf K priv = Inr pub" and m: "matching_from K keys pub 0 = Inr pk"
    by (auto simp: matchingPublicKey_def split: sum.splits)
  show ?thesis using matching_from_ok [OF m] load(5) k pub by (auto simp: matched_def)
qed

lemma refresh_cases:
  assumes "refresh K s w = (Ok s', w')"
  obtains (kept) e where "loadJWKS K (jk_jwksPath s) (jk_privateKeyPath s) w = (Err e, w')" and "s' = s"
    | (loaded) c where "loadJWKS K (jk_jwksPath s) (jk_privateKeyPath s) w = (Ok c, w')" and "s' = s\<lparr>jk_cached := c\<rparr>"
  using assms unfolding refresh_def by (elim go_try_bindE) auto

lemma reachable_matched:
  assumes "jwks_reachable K c" and "jose_ok K X private_of verify"
  shows "matched K private_of (jk_cached (fst c))"
  using assms
proof (induction rule: jwks_reachable.induct)
  case (started p q w s w')
  then show ?case
    by (auto simp: NewJWKSService_def loadJWKS_matched elim!: go_bind_OkE split: if_splits)
next
  case (step c c')
  from step.hyps(2) step.IH [OF step.prems] show ?case
  proof (cases rule: refreshLoop.cases)
    case (tick s w s' w')
    from tick(3) show ?thesis
    proof (cases rule: refresh_cases)
      case (loaded m)
      then show ?thesis using tick loadJWKS_matched [OF step.prems] by simp
    qed (use tick step.IH [OF step.prems] in simp)
  qed auto
qed

section \<open>Properties\<close>

lemma NewJWT_cases:
  assumes "NewJWT X j p w = (Ok tok, w')"
  obtains jti now getKey k extra t w1 w2 where "js_JWKS j = Some getKey" and "getKey w1 = (Ok (Some k), w2)"
    and "extra_claims (jp_ExtraClaims p) = Inr extra" and "jwt_Build X (standard_claims j p jti now @ extra) = Inr t"
    and "jwt_Sign X t k = Inr tok" and "uuid_NewRandom X w = (Ok jti, w1)" and "w' = snd (time_Now X w2)"
    and "now = fst (time_Now X w2)"
  using assms unfolding NewJWT_def
  by (auto elim!: go_bind_OkE go_sum_OkE simp: go_lift_def split: option.splits)

lemma NewJWT_verifies:
  assumes "jose_ok K X private_of verify" and "jwks_reachable K (s, w0, alive)"
    and "js_JWKS j = Some (jwks_SigningKey s)" and "NewJWT X j p w = (Ok tok, w')"
  shows "\<exists>keys i pk. jwks_Get s w' = (Ok keys, w') \<and> i < set_Len K keys \<and> set_Key K keys i = Some pk \<and> verify pk tok"
proof -
  from assms(4) obtain getKey k t w1 w2 where "js_JWKS j = Some getKey" "getKey w1 = (Ok (Some k), w2)"
    and t: "jwt_Sign X t k = Inr tok" by (rule NewJWT_cases)
  with assms(3) have "cj_signingKey (jk_cached s) = Some k" by (auto simp: jwks_SigningKey_def split: option.splits)
  with reachable_matched [OF assms(2,1)] obtain keys i pk pub where m: "cj_set (jk_cached s) = Some keys"
    "i < set_Len K keys" "set_Key K keys i = Some pk" "jwk_PublicKeyOf K (private_of k) = Inr pub" "jwk_Equal K pk pub"
    by (auto simp: matched_def)
  then have "verify pk tok" using assms(1) t unfolding jose_ok_def by metis
  then show ?thesis using m by (auto simp: jwks_Get_def go_simps)
qed

text \<open>
  C25. Tokens that JIMM issues can be verified with the keys it publishes. In every state the key
  service can get into, whatever happened to its files and however many refreshes failed, the
  key that signs has its public half in the set that is served, so the token verifies under a
  key of that set.
\<close>

theorem issued_tokens_verify:
  assumes "jose_ok K X private_of verify" and "jwks_reachable K (s, w0, alive)"
    and "js_JWKS j = Some (jwks_SigningKey s)" and "NewJWT X j p w = (Ok tok, w')"
  shows "\<exists>keys i pk. jwks_Get s w' = (Ok keys, w') \<and> i < set_Len K keys \<and> set_Key K keys i = Some pk \<and> verify pk tok"
  using NewJWT_verifies [OF assms] .

text \<open>
  A toy library: keys are numbers with an identifier, a signature is as long as its key's number.
  \<open>files\<close> says which private key the files hold, if they hold one.
\<close>

definition toy_jwk :: "('w \<Rightarrow> nat option) \<Rightarrow> ('w, (nat \<times> string) list, nat \<times> string, nat, nat) jwk_lib" where
  "toy_jwk files = \<lparr>os_ReadFile = (\<lambda>_ w. (case files w of None \<Rightarrow> Err (ErrNew ''no file'') | Some n \<Rightarrow> Ok (replicate n (CHR ''k'')), w)),
     jwk_Parse = (\<lambda>s. Inr [(1, ''old''), (length s, ''new'')]), set_Len = length,
     set_Key = (\<lambda>ks i. if i < length ks then Some (ks ! i) else None),
     jwk_PublicKeyOf = (\<lambda>p. Inr (p, '''')), jwk_Equal = (\<lambda>a b. fst a = fst b), jwk_FromRaw = (\<lambda>p. Inr (p, '''')),
     key_Set = (\<lambda>k f v. Inr (if f = ''kid'' then (fst k, v) else k)), key_KeyID = snd,
     pem_Decode = Some, x509_ParsePKCS1PrivateKey = (\<lambda>s. Inr (length s)),
     x509_ParsePKCS8PrivateKey = (\<lambda>s. Inr (length s)), as_rsa = Some\<rparr>"

definition toy_jwt :: "('w, nat \<times> string, (string \<times> claim_value) list) jwt_lib" where
  "toy_jwt = \<lparr>uuid_NewRandom = go_return ''id'', time_Now = (\<lambda>w. (0, w)), jwt_Build = Inr,
     jwt_Sign = (\<lambda>t k. Inr (replicate (fst k) (CHR ''s'')))\<rparr>"

definition toy_verify :: "nat \<times> string \<Rightarrow> string \<Rightarrow> bool" where
  "toy_verify pk tok \<longleftrightarrow> tok = replicate (fst pk) (CHR ''s'')"

definition toy_service :: "nat \<Rightarrow> ((nat \<times> string) list, nat \<times> string) jwks_service" where
  "toy_service n = \<lparr>jk_jwksPath = ''a'', jk_privateKeyPath = ''b'',
     jk_cached = \<lparr>cj_set = Some [(1, ''old''), (n, ''new'')], cj_signingKey = Some (n, ''new'')\<rparr>\<rparr>"

definition toy_issuer :: "nat \<Rightarrow> ('w, nat \<times> string) jwt_service" where
  "toy_issuer n = \<lparr>js_Host = ''jimm'', js_Expiry = 60, js_JWKS = Some (jwks_SigningKey (toy_service n))\<rparr>"

definition toy_params :: jwt_params where
  "toy_params = \<lparr>jp_Controller = ''c'', jp_User = ''user-alice'', jp_Access = Some [''model-m'' \<mapsto> ''read''],
     jp_ExtraClaims = [(''ssh'', ''key'')], jp_Expiry = 0\<rparr>"

lemma toy_jwk_simps [simp]:
  "os_ReadFile (toy_jwk files) p w = (case files w of None \<Rightarrow> Err (ErrNew ''no file'') | Some n \<Rightarrow> Ok (replicate n (CHR ''k'')), w)"
  "jwk_Parse (toy_jwk files) s = Inr [(1, ''old''), (length s, ''new'')]" "set_Len (toy_jwk files) ks = length ks"
  "set_Key (toy_jwk files) ks i = (if i < length ks then Some (ks ! i) else None)"
  "jwk_PublicKeyOf (toy_jwk files) p' = Inr (p', '''')" "jwk_Equal (toy_jwk files) a b \<longleftrightarrow> fst a = fst b"
  "jwk_FromRaw (toy_jwk files) p' = Inr (p', '''')" "key_Set (toy_jwk files) k f v = Inr (if f = ''kid'' then (fst k, v) else k)"
  "key_KeyID (toy_jwk files) k = snd k" "pem_Decode (toy_jwk files) s = Some s"
  "x509_ParsePKCS1PrivateKey (toy_jwk files) s = Inr (length s)"
  by (simp_all add: toy_jwk_def)

lemma toy_ok: "jose_ok (toy_jwk files) toy_jwt fst toy_verify"
  by (auto simp: jose_ok_def toy_jwt_def toy_verify_def)

lemma toy_load:
  assumes "files w = Some n" and "n > 1"
  shows "loadJWKS (toy_jwk files) p q w = (Ok (jk_cached (toy_service n)), w)"
proof -
  from assms(2) obtain m where m: "n = Suc (Suc m)" by (metis less_natE plus_1_eq_Suc add_Suc)
  have space: "\<not> only_space (map of_char (replicate n (CHR ''k'')) :: nat list)"
    by (cases m) (simp_all add: m)
  have content: "readRequiredFile (toy_jwk files) x y w = (Ok (replicate n (CHR ''k'')), w)" for x y
    using space assms(1) by (simp add: readRequiredFile_def go_bind_def go_maperr_def go_simps)
  have "matchingPublicKey (toy_jwk files) [(1, ''old''), (n, ''new'')] n = Inr (n, ''new'')"
    using assms(2) by (simp add: matchingPublicKey_def matching_from.simps)
  with content assms(2) show ?thesis
    by (simp add: loadJWKS_def parseRSAPrivateKey_def toy_service_def go_bind_def go_maperr_def go_simps)
qed

lemma toy_refresh:
  "files w = Some n \<Longrightarrow> n > 1 \<Longrightarrow> refresh (toy_jwk files) (toy_service m) w = (Ok (toy_service n), w)"
  "files w = None \<Longrightarrow> refresh (toy_jwk files) (toy_service m) w = (Ok (toy_service m), w)"
proof -
  show "refresh (toy_jwk files) (toy_service m) w = (Ok (toy_service n), w)" if "files w = Some n" "n > 1"
    using toy_load [of files w n, OF that] by (simp add: refresh_def go_bind_def go_try_def go_simps toy_service_def)
  show "refresh (toy_jwk files) (toy_service m) w = (Ok (toy_service m), w)" if "files w = None"
    using that by (simp add: refresh_def loadJWKS_def readRequiredFile_def go_bind_def go_maperr_def go_try_def go_simps)
qed

lemma toy_start:
  assumes "files w = Some n" and "n > 1"
  shows "jwks_reachable (toy_jwk files) (toy_service n, w, True)"
proof (rule started)
  show "NewJWKSService (toy_jwk files) ''a'' ''b'' w = (Ok (toy_service n), w)"
    using toy_load [of files w n "''a''" "''b''", OF assms] by (simp add: NewJWKSService_def go_bind_def go_simps toy_service_def)
qed

text \<open>Started with key 5, then the files are lost, then key 9 is installed.\<close>

lemma toy_reachable: "jwks_reachable (toy_jwk id) (toy_service 9, Some 9, True)"
proof -
  have "jwks_reachable (toy_jwk id) (toy_service 5, Some 5, True)" by (rule toy_start) simp_all
  then have "jwks_reachable (toy_jwk id) (toy_service 5, None, True)" by (rule step) (rule elsewhere)
  then have "jwks_reachable (toy_jwk id) (toy_service 5, None, True)" by (rule step) (rule tick, rule toy_refresh, simp)
  then have "jwks_reachable (toy_jwk id) (toy_service 5, Some 9, True)" by (rule step) (rule elsewhere)
  then show ?thesis by (rule step) (rule tick, rule toy_refresh, simp_all)
qed

lemma toy_issue: "NewJWT toy_jwt (toy_issuer n) toy_params w = (Ok (replicate n (CHR ''s'')), w)"
  by (simp add: NewJWT_def toy_jwt_def toy_issuer_def jwks_SigningKey_def toy_service_def toy_params_def accessClaim_def
      go_bind_def go_simps)

theorem issued_tokens_verify_witness:
  "\<exists>keys i pk. jwks_Get (toy_service 9) (None :: nat option) = (Ok keys :: (err, _) outcome, None) \<and> set_Key (toy_jwk id) keys i = Some pk
     \<and> toy_verify pk (replicate 9 (CHR ''s''))"
proof -
  have "js_JWKS (toy_issuer 9 :: (nat option, _) jwt_service) = Some (jwks_SigningKey (toy_service 9))" by (simp add: toy_issuer_def)
  from issued_tokens_verify [OF toy_ok toy_reachable this toy_issue [of 9 "None :: nat option"]] show ?thesis by blast
qed

lemma NewJWT_claims:
  assumes "NewJWT X j p w = (Ok tok, w')"
  shows "\<exists>cs t k. jwt_Build X cs = Inr t \<and> jwt_Sign X t k = Inr tok
    \<and> map_of (rev cs) accessClaim = Some (CAccess (jp_Access p))
    \<and> (''aud'' \<notin> fst ` set (jp_ExtraClaims p) \<longrightarrow> map_of (rev cs) ''aud'' = Some (CStrings [jp_Controller p]))
    \<and> (''sub'' \<notin> fst ` set (jp_ExtraClaims p) \<longrightarrow> map_of (rev cs) ''sub'' = Some (CString (jp_User p)))
    \<and> (''exp'' \<notin> fst ` set (jp_ExtraClaims p) \<longrightarrow> (\<exists>now. map_of (rev cs) ''exp'' =
         Some (CTime (now + (if jp_Expiry p \<noteq> 0 then jp_Expiry p else js_Expiry j)))))
    \<and> (\<forall>(n, v)\<in>set (jp_ExtraClaims p). n \<noteq> accessClaim \<and> (n, CString v) \<in> set cs)"
proof -
  have extra: "fst ` set extra = fst ` set xs \<and> (\<forall>(n, v)\<in>set xs. n \<noteq> accessClaim \<and> (n, CString v) \<in> set extra)"
    if "extra_claims xs = Inr extra" for xs extra
    using that
  proof (induction xs arbitrary: extra rule: extra_claims.induct)
    case step: (2 k v rest)
    then obtain ys where ys: "extra_claims rest = Inr ys" "extra = (k, CString v) # ys" "k \<noteq> accessClaim"
      by (cases "extra_claims rest") (auto split: if_splits)
    then show ?case using step(1) [OF ys(3,1)] by auto
  qed simp
  from assms obtain jti now k extra t where "jwt_Build X (standard_claims j p jti now @ extra) = Inr t"
    "jwt_Sign X t k = Inr tok" and ex: "extra_claims (jp_ExtraClaims p) = Inr extra" by (rule NewJWT_cases)
  moreover have over: "map_of (rev (standard_claims j p jti now @ extra)) n = map_of (rev (standard_claims j p jti now)) n"
    if "n \<notin> fst ` set (jp_ExtraClaims p)" for n
  proof -
    have "map_of (rev extra) n = None" using that extra [OF ex] by (simp add: map_of_eq_None_iff)
    then show ?thesis by (simp add: map_add_def)
  qed
  moreover have "accessClaim \<notin> fst ` set (jp_ExtraClaims p)" using extra [OF ex] by auto
  ultimately show ?thesis using extra [OF ex]
    by (intro exI [of _ "standard_claims j p jti now @ extra"] exI [of _ t] exI [of _ k])
      (auto simp: over standard_claims_def token_expiry_def accessClaim_def)
qed

text \<open>
  What a token claims. The audience is the controller, the subject the user and the access
  claim the map that was asked for, each unless an extra claim of that name replaces it; the
  access claim cannot be replaced. The token expires after the duration asked for, or the
  configured one where none is. No token is issued when an extra claim is named access.
\<close>

theorem new_jwt_claims:
  assumes "NewJWT X j p w = (Ok tok, w')"
  shows "\<exists>cs t k. jwt_Build X cs = Inr t \<and> jwt_Sign X t k = Inr tok
    \<and> map_of (rev cs) accessClaim = Some (CAccess (jp_Access p))
    \<and> (''aud'' \<notin> fst ` set (jp_ExtraClaims p) \<longrightarrow> map_of (rev cs) ''aud'' = Some (CStrings [jp_Controller p]))
    \<and> (''sub'' \<notin> fst ` set (jp_ExtraClaims p) \<longrightarrow> map_of (rev cs) ''sub'' = Some (CString (jp_User p)))
    \<and> (''exp'' \<notin> fst ` set (jp_ExtraClaims p) \<longrightarrow> (\<exists>now. map_of (rev cs) ''exp'' =
         Some (CTime (now + (if jp_Expiry p \<noteq> 0 then jp_Expiry p else js_Expiry j)))))
    \<and> (\<forall>(n, v)\<in>set (jp_ExtraClaims p). n \<noteq> accessClaim \<and> (n, CString v) \<in> set cs)"
  using NewJWT_claims [OF assms] .

theorem new_jwt_claims_witness:
  "\<exists>cs. jwt_Build (toy_jwt :: (nat option, _, _) jwt_lib) cs = Inr cs \<and> map_of (rev cs) ''aud'' = Some (CStrings [''c''])
     \<and> map_of (rev cs) accessClaim = Some (CAccess (Some [''model-m'' \<mapsto> ''read'']))"
  using new_jwt_claims [OF toy_issue [of 9 "None :: nat option"]] by (auto simp: toy_params_def toy_jwt_def)

text \<open>
  C33. The service never gets stuck and never loses its keys: in every reachable state the set and
  the signing key are served; a tick of the loop completes whatever the files hold, keeps what
  was cached where they cannot be loaded, and serves the new keys where they can.
\<close>

theorem jwks_refresh_live:
  assumes "jose_ok K X private_of verify" and "jwks_reachable K (s, w, True)"
    and "\<And>p. ends (os_ReadFile K p)"
  shows "(\<exists>keys k. jwks_Get s w = (Ok keys :: (err, _) outcome, w) \<and> jwks_SigningKey s w = (Ok (Some k) :: (err, _) outcome, w))
    \<and> (\<exists>s' w'. refreshLoop K (s, w, True) (s', w', True) \<and> refresh K s w = (Ok s', w')
      \<and> (\<forall>c w1. loadJWKS K (jk_jwksPath s) (jk_privateKeyPath s) w = (Ok c, w1) \<longrightarrow> jk_cached s' = c)
      \<and> (\<forall>e w1. loadJWKS K (jk_jwksPath s) (jk_privateKeyPath s) w = (Err e, w1) \<longrightarrow> s' = s))"
proof
  show "\<exists>keys k. jwks_Get s w = (Ok keys :: (err, _) outcome, w) \<and> jwks_SigningKey s w = (Ok (Some k) :: (err, _) outcome, w)"
    using reachable_matched [OF assms(2,1)] by (auto simp: matched_def jwks_Get_def jwks_SigningKey_def go_simps)
  have "ends (readRequiredFile K p n)" for p n
    unfolding readRequiredFile_def by (intro ends_intros assms(3))
  then have "ends (refresh K s)" unfolding refresh_def loadJWKS_def by (intro ends_intros)
  moreover have "refresh K s w \<noteq> (Err e, w')" for e w'
    by (auto simp: refresh_def go_bind_def go_try_def go_simps split: prod.splits outcome.splits)
  ultimately obtain s' w' where run: "refresh K s w = (Ok s', w')" by (metis ends_cases)
  then show "\<exists>s' w'. refreshLoop K (s, w, True) (s', w', True) \<and> refresh K s w = (Ok s', w')
      \<and> (\<forall>c w1. loadJWKS K (jk_jwksPath s) (jk_privateKeyPath s) w = (Ok c, w1) \<longrightarrow> jk_cached s' = c)
      \<and> (\<forall>e w1. loadJWKS K (jk_jwksPath s) (jk_privateKeyPath s) w = (Err e, w1) \<longrightarrow> s' = s)"
    using tick [OF run] by (intro exI [of _ s'] exI [of _ w']) (rule refresh_cases [OF run]; simp)
qed

theorem jwks_refresh_live_witness:
  "\<exists>s'. refreshLoop (toy_jwk id) (toy_service 9, Some 9, True) (s', Some 9, True) \<and> jk_cached s' = jk_cached (toy_service 9)"
proof -
  have "ends (os_ReadFile (toy_jwk id) p)" for p by (auto simp: ends_def split: option.splits)
  from jwks_refresh_live [OF toy_ok toy_reachable this] toy_load [of id "Some 9" 9] toy_refresh(1) [of id "Some 9" 9 9] show ?thesis
    by auto
qed

end
