(* ===== verification/Login_Tokens.thy ===== *)
theory Login_Tokens
  imports Login Jimm_JWT Go_Encoding
begin

text \<open>
  The package \<^verbatim>\<open>internal/jimm/jujuauth\<close>: the tokens JIMM presents to Juju controllers on behalf of
  its users. \<^verbatim>\<open>LoginTokenGenerator\<close> is an object that lives as long as a connection; its methods
  are computations over the object and the world, so what they leave behind in the object when
  they return an error is part of the model. Its clients are the permission manager, the database
  and the JWT service, an interface that \<^verbatim>\<open>jimmjwx\<close> implements.
\<close>

section \<open>The login token generator\<close>

record login_token_generator =
  lg_accessMapCache :: perm_cache
  lg_mt :: tag
  lg_ct :: tag
  lg_user :: "ofga_user option"
  lg_callCount :: nat

record 'w token_factory =
  tf_db :: database
  tf_jwtService :: "jwt_params \<Rightarrow> ('w, string) io"
  tf_accessChecker :: perm_manager

text \<open>Go's order of iteration over a map of tags: any order, each key once.\<close>

type_synonym map_order = "tag list \<Rightarrow> tag list"

definition newLoginTokenGenerator :: login_token_generator where
  "newLoginTokenGenerator = \<lparr>lg_accessMapCache = None, lg_mt = Tag ModelTagKind '''', lg_ct = Tag ControllerTagKind '''',
     lg_user = None, lg_callCount = 0\<rparr>"

definition SetTags :: "tag \<Rightarrow> tag \<Rightarrow> login_token_generator \<Rightarrow> login_token_generator" where
  "SetTags mt ct g = g\<lparr>lg_mt := mt, lg_ct := ct\<rparr>"

definition GetUser :: "'w externals \<Rightarrow> login_token_generator \<Rightarrow> ('w, tag) io" where
  "GetUser E g = (case lg_user g of Some u \<Rightarrow> user_ResourceTag E u | None \<Rightarrow> go_return (Tag UserTagKind ''''))"

definition login_params :: "tag \<Rightarrow> tag \<Rightarrow> perm_cache \<Rightarrow> jwt_params" where
  "login_params ct ut access = \<lparr>jp_Controller = Id ct, jp_User = tag_String ut, jp_Access = access,
     jp_ExtraClaims = [], jp_Expiry = 0\<rparr>"

text \<open>The map of \<^verbatim>\<open>makeSuperuserToken\<close>: the controller first, then every model.\<close>

definition superuser_access :: "tag \<Rightarrow> tag list \<Rightarrow> string \<Rightarrow> string option" where
  "superuser_access ct resourceTags =
     foldl (\<lambda>m target. if Kind target = ModelTagKind \<and> Id target \<noteq> '''' then m(tag_String target \<mapsto> AdminAccess) else m)
       [tag_String ct \<mapsto> SuperuserAccess] resourceTags"

definition makeSuperuserToken :: "'w externals \<Rightarrow> 'w token_factory \<Rightarrow> login_token_generator \<Rightarrow> ofga_user option \<Rightarrow> tag list \<Rightarrow> ('w, string) io" where
  "makeSuperuserToken E F g user resourceTags = (case user of
       None \<Rightarrow> go_err (ErrNew ''user not specified'')
     | Some u \<Rightarrow>
         go_bind (user_ResourceTag E u) (\<lambda>ut.
         tf_jwtService F (login_params (lg_ct g) ut (Some (superuser_access (lg_ct g) resourceTags)))))"

definition resolveTargetAccess :: "'w externals \<Rightarrow> perm_manager \<Rightarrow> ofga_user option \<Rightarrow> tag \<Rightarrow> ('w, string) io" where
  "resolveTargetAccess E j user target =
     (if Kind target = ModelTagKind then go_bind (deref user) (\<lambda>u. GetUserModelAccess E j u target)
      else if Kind target = ApplicationOfferTagKind
        then go_bind (deref user) (\<lambda>u. GetUserApplicationOfferAccess E j u target)
      else go_err (ErrFmt ''unsupported resource tag type: %T'' [] None))"

definition controller_clouds :: "'w externals \<Rightarrow> controller \<Rightarrow> ('w, tag list) io" where
  "controller_clouds E ctl =
     go_bind (go_mapM (\<lambda>n. go_some ''invalid cloud name'' (cloud_ResourceTag E (empty_cloud\<lparr>cld_Name := n\<rparr>)))
       (map (\<lambda>cr. clr_Name (rr_Cloud (crg_CloudRegion cr))) (ctl_CloudRegions ctl)))
       (\<lambda>tags. go_return (remdups tags))"

text \<open>The two loops of \<^verbatim>\<open>buildAccessMap\<close> that fill the map, skipping empty access.\<close>

fun access_entries :: "(tag \<Rightarrow> ('w, string) io) \<Rightarrow> tag list \<Rightarrow> (string \<Rightarrow> string option) \<Rightarrow> ('w, string \<Rightarrow> string option) io" where
  "access_entries get [] m = go_return m"
| "access_entries get (target # rest) m =
     go_bind (get target) (\<lambda>access.
     access_entries get rest (if access \<noteq> '''' then m(tag_String target \<mapsto> access) else m))"

definition buildAccessMap :: "'w externals \<Rightarrow> perm_manager \<Rightarrow> map_order \<Rightarrow> ofga_user option \<Rightarrow> tag list \<Rightarrow> tag \<Rightarrow> controller \<Rightarrow> ('w, string \<Rightarrow> string option) io" where
  "buildAccessMap E j order user resourceTags ct ctl =
     go_bind (access_entries (resolveTargetAccess E j user) resourceTags Map.empty) (\<lambda>accessMap.
     go_bind (go_bind (deref user) (\<lambda>u. GetUserControllerAccess E j u ct)) (\<lambda>controllerAccess.
     go_bind (controller_clouds E ctl) (\<lambda>clouds.
     access_entries (\<lambda>c. go_maperr (wrapped ''failed to check user's cloud access: %w'')
         (go_bind (deref user) (\<lambda>u. GetUserCloudAccess E j u c)))
       (order clouds) (accessMap(tag_String ct \<mapsto> controllerAccess)))))"

text \<open>\<^verbatim>\<open>auth.accessMapCache[key] = value\<close>, and the call of the JWT service at the end.\<close>

definition cache_put :: "string \<Rightarrow> string \<Rightarrow> (login_token_generator \<times> 'w, err, unit) comp" where
  "cache_put k v = go_bind obj_get (\<lambda>g. case lg_accessMapCache g of
       None \<Rightarrow> go_panic ''assignment to entry in nil map''
     | Some m \<Rightarrow> obj_update (\<lambda>g. g\<lparr>lg_accessMapCache := Some (m(k \<mapsto> v))\<rparr>))"

definition issue_token :: "'w externals \<Rightarrow> 'w token_factory \<Rightarrow> ofga_user \<Rightarrow> (login_token_generator \<times> 'w, err, string) comp" where
  "issue_token E F u = go_bind obj_get (\<lambda>g.
     in_world (go_bind (user_ResourceTag E u) (\<lambda>ut. tf_jwtService F (login_params (lg_ct g) ut (lg_accessMapCache g)))))"

definition MakeLoginToken :: "'w externals \<Rightarrow> 'w token_factory \<Rightarrow> map_order \<Rightarrow> ofga_user option \<Rightarrow> (login_token_generator \<times> 'w, err, string) comp" where
  "MakeLoginToken E F order user = (case user of
       None \<Rightarrow> go_err (ErrNew ''user not specified'')
     | Some u \<Rightarrow>
         go_bind (obj_update (\<lambda>g. g\<lparr>lg_user := Some u, lg_accessMapCache := Some Map.empty\<rparr>)) (\<lambda>_.
         go_bind obj_get (\<lambda>g. let mt = lg_mt g; ct = lg_ct g; j = tf_accessChecker F in
         if Id mt = '''' then go_err (ErrNew ''model not set'')
         else go_bind (in_world (GetUserModelAccess E j u mt)) (\<lambda>modelAccess.
           go_bind (cache_put (tag_String mt) modelAccess) (\<lambda>_.
           if Id ct = '''' then go_err (ErrNew ''controller not set'')
           else go_bind (in_world (GetUserControllerAccess E j u ct)) (\<lambda>controllerAccess.
             go_bind (cache_put (tag_String ct) controllerAccess) (\<lambda>_.
             go_bind (in_world (go_maperr (wrapped ''failed to fetch controller: %w'')
                (GetController E (tf_db F) (controller_SetTag empty_controller ct)))) (\<lambda>ctl.
             go_bind (in_world (controller_clouds E ctl)) (\<lambda>clouds.
             go_bind (go_foreach (\<lambda>cloudTag.
                go_bind (in_world (go_maperr (wrapped ''failed to check user's cloud access: %w'')
                  (GetUserCloudAccess E j u cloudTag))) (\<lambda>accessLevel.
                cache_put (tag_String cloudTag) accessLevel)) (order clouds)) (\<lambda>_.
             issue_token E F u))))))))))"

definition MakeToken :: "'w externals \<Rightarrow> 'w token_factory \<Rightarrow> (string \<times> any_val) list option \<Rightarrow> (login_token_generator \<times> 'w, err, string) comp" where
  "MakeToken E F permissionMap =
     go_bind obj_get (\<lambda>g.
     if lg_callCount g \<ge> 10 then go_err (ErrNew ''Permission check limit exceeded'')
     else go_bind (obj_update (\<lambda>g. g\<lparr>lg_callCount := Suc (lg_callCount g)\<rparr>)) (\<lambda>_.
       case lg_user g of
         None \<Rightarrow> go_err (ErrNew ''User authorization missing.'')
       | Some u \<Rightarrow>
           go_bind (case permissionMap of
               None \<Rightarrow> go_return ()
             | Some perms \<Rightarrow>
                 go_bind (in_world (CheckPermission E (tf_accessChecker F) u (lg_accessMapCache g) perms)) (\<lambda>(m, e).
                 go_bind (obj_update (\<lambda>g. g\<lparr>lg_accessMapCache := m\<rparr>)) (\<lambda>_.
                 case e of Some er \<Rightarrow> go_err er | None \<Rightarrow> go_return ()))) (\<lambda>_.
           issue_token E F u)))"

section \<open>The factory\<close>

text \<open>The library \<^verbatim>\<open>juju/version\<close>.\<close>

record 'v juju_version =
  version_Parse :: "string \<Rightarrow> err + 'v"
  version_MustParse :: "string \<Rightarrow> 'v"
  version_Compare :: "'v \<Rightarrow> 'v \<Rightarrow> int"

definition minJujuVersionForCallerToken :: "'v juju_version \<Rightarrow> 'v" where
  "minJujuVersionForCallerToken V = version_MustParse V ''3.6.24''"

definition NewLoginToken :: "'w externals \<Rightarrow> 'w token_factory \<Rightarrow> map_order \<Rightarrow> tag \<Rightarrow> tag \<Rightarrow> ofga_user option \<Rightarrow> ('w, string) io" where
  "NewLoginToken E F order mt ct user =
     with_obj (SetTags mt ct newLoginTokenGenerator) (MakeLoginToken E F order user)"

definition NewSuperuserLoginToken :: "'w externals \<Rightarrow> 'w token_factory \<Rightarrow> tag \<Rightarrow> tag \<Rightarrow> ofga_user option \<Rightarrow> ('w, string) io" where
  "NewSuperuserLoginToken E F mt ct user =
     makeSuperuserToken E F (SetTags mt ct newLoginTokenGenerator) user
       (if Id mt \<noteq> '''' then [mt] else [])"

definition NewCallerScopedLoginToken :: "'w externals \<Rightarrow> 'w token_factory \<Rightarrow> map_order \<Rightarrow> tag list \<Rightarrow> controller \<Rightarrow> ofga_user option \<Rightarrow> ('w, string) io" where
  "NewCallerScopedLoginToken E F order resourceTags ctl user =
     go_bind (go_some ''invalid controller UUID'' (controller_ResourceTag E ctl)) (\<lambda>ct.
     go_bind (go_try (GetController E (tf_db F) (controller_SetTag empty_controller ct))) (\<lambda>r.
     go_bind (case r of
         Inr c \<Rightarrow> go_return c
       | Inl e \<Rightarrow> if ErrorCode (Some e) \<noteq> CodeNotFound
           then go_err (wrapped ''failed to fetch controller for caller token: %w'' e) else go_return ctl) (\<lambda>ctlWithClouds.
     go_bind (buildAccessMap E (tf_accessChecker F) order user resourceTags ct ctlWithClouds) (\<lambda>accessMap.
     go_bind (deref user) (\<lambda>u. go_bind (user_ResourceTag E u) (\<lambda>ut.
     tf_jwtService F (login_params ct ut (Some accessMap))))))))"

definition NewCallerLoginToken :: "'w externals \<Rightarrow> 'v juju_version \<Rightarrow> 'w token_factory \<Rightarrow> map_order \<Rightarrow> tag list \<Rightarrow> controller \<Rightarrow> ofga_user option \<Rightarrow> ('w, string) io" where
  "NewCallerLoginToken E V F order resourceTags ctl user =
     (let old = (case version_Parse V (ctl_AgentVersion ctl) of
          Inl e \<Rightarrow> True
        | Inr v \<Rightarrow> version_Compare V v (minJujuVersionForCallerToken V) < 0) in
      if old
      then go_bind (go_some ''invalid controller UUID'' (controller_ResourceTag E ctl)) (\<lambda>ct.
        makeSuperuserToken E F (SetTags (Tag ModelTagKind '''') ct newLoginTokenGenerator) user resourceTags)
      else NewCallerScopedLoginToken E F order resourceTags ctl user)"

section \<open>SSH tokens\<close>

record ssh_token_args =
  sa_User :: string
  sa_ControllerUUID :: string
  sa_ModelTag :: tag
  sa_PublicKey :: string

definition sshPublicKeyClaim :: string where
  "sshPublicKeyClaim = ''ssh_public_key''"

definition NewSSHToken :: "(jwt_params \<Rightarrow> ('w, string) io) \<Rightarrow> ssh_token_args \<Rightarrow> ('w, string) io" where
  "NewSSHToken jwtService tokenArgs = jwtService
     \<lparr>jp_Controller = sa_ControllerUUID tokenArgs, jp_User = sa_User tokenArgs,
      jp_Access = Some [tag_String (sa_ModelTag tokenArgs) \<mapsto> AdminAccess],
      jp_ExtraClaims = [(sshPublicKeyClaim, EncodeToString (sa_PublicKey tokenArgs))], jp_Expiry = 0\<rparr>"

section \<open>Earned claims\<close>

text \<open>
  The relation an access level of a claim stands for, and whether a user has earned a claim: it
  says nothing (no access, or the login every user has), or the user has that relation to the
  resource the key names, with the groups the user came with.
\<close>

definition claim_relation :: "string \<Rightarrow> string option" where
  "claim_relation v = (if v = SuperuserAccess then Some AdministratorRelation
     else case ConvertJujuRelation v of Inl e \<Rightarrow> None | Inr r \<Rightarrow> Some r)"

definition earned :: "'w externals \<Rightarrow> tup set \<Rightarrow> ofga_user \<Rightarrow> string \<Rightarrow> string \<Rightarrow> bool" where
  "earned E S u k v \<longleftrightarrow> v \<in> {'''', LoginAccess}
     \<or> (\<exists>t res r. user_tag E u = Some t \<and> (tag_String res = k \<or> names_ParseTag E k = Inr res)
         \<and> claim_relation v = Some r \<and> can S u t r res)"

lemma claim_of_relation:
  "r \<in> set model_levels \<Longrightarrow> claim_relation (ToModelAccessString r) = Some r"
  "r \<in> set cloud_levels \<Longrightarrow> claim_relation (ToCloudAccessString r) = Some r"
  "r \<in> set offer_levels \<Longrightarrow> claim_relation (ToOfferAccessString r) = Some r"
  "r \<in> set controller_levels \<Longrightarrow> claim_relation (ToControllerAccessString r) = Some r"
  by (auto simp: levels_defs claim_relation_def ConvertJujuRelation_def ToModelAccessString_def ToCloudAccessString_def
      ToOfferAccessString_def ToControllerAccessString_def)

lemma superuser_not_relation: "ConvertJujuRelation SuperuserAccess \<noteq> Inr r"
  by (simp add: ConvertJujuRelation_def)

lemma claim_of_convert: "ConvertJujuRelation v = Inr r \<Longrightarrow> claim_relation v = Some r"
  using superuser_not_relation by (auto simp: claim_relation_def)

lemma claim_of_none:
  "ToModelAccessString NoRelation = ''''" "ToCloudAccessString NoRelation = ''''"
  "ToOfferAccessString NoRelation = ''''" "ToControllerAccessString NoRelation = LoginAccess"
  by (simp_all add: ToModelAccessString_def ToCloudAccessString_def ToOfferAccessString_def ToControllerAccessString_def)

lemmas user_access_defs = GetUserModelAccess_def GetUserCloudAccess_def GetUserApplicationOfferAccess_def
  GetUserControllerAccess_def get_access_is_access_of

section \<open>Filling the map\<close>

lemma fill_cache_nil: "fill_cache allowed checks None w = (Ok (c, e), w') \<Longrightarrow> c = None"
  by (cases checks) (auto simp: go_simps split: if_splits)

lemma cache_step_nil: "cache_step E u None checks w = (Ok (c, e), w') \<Longrightarrow> c = None"
  unfolding cache_step_def by (auto elim!: with_cache_OkE go_bind_OkE dest: fill_cache_nil)

lemma cache_step_no_tag:
  "user_tag E u = None \<Longrightarrow> cache_step E u c checks w = (Ok (c', e), w') \<Longrightarrow> c' = c \<and> e \<noteq> None"
  unfolding cache_step_def by (auto simp: user_ResourceTag_def elim!: with_cache_OkE)

lemma CheckPermission_shape:
  assumes "CheckPermission E j u c desired w = (Ok (c', e), w')"
  obtains (early) "c' = None \<or> c' = c" and "e \<noteq> None" | (cached) "c' = c" and "e = None" and "collect_checks E c desired = Inr []"
    | (checked) checks where "cache_step E u c checks w = (Ok (c', e), w')"
proof (cases "collect_checks E c desired")
  case (Inl p)
  then show ?thesis using assms early collect_checks_nil_map [of E c desired]
    by (cases p) (auto simp: CheckPermission_def)
next
  case (Inr checks)
  then show ?thesis using assms cached checked [of checks]
    by (cases checks) (auto simp: CheckPermission_def cache_step_def)
qed

lemma CheckPermission_nil:
  assumes "CheckPermission E j u None desired w = (Ok (c, e), w')"
  shows "c = None"
  using assms by (cases rule: CheckPermission_shape) (auto dest: cache_step_nil)

text \<open>What a check adds to the map is earned, whoever the user is and whatever the map was.\<close>

context openfga_service
begin

lemma CheckPermission_earned:
  assumes "CheckPermission E j u c desired w = (Ok (Some f, e), w')"
  shows "\<exists>m. c = Some m \<and> (\<forall>k v. f k = Some v \<longrightarrow> m k = Some v \<or> earned E (store w) u k v)
    \<and> (e = None \<longrightarrow> fst ` set desired \<subseteq> dom f)"
proof -
  have "c \<noteq> None"
  proof
    assume "c = None"
    from CheckPermission_nil [OF assms [unfolded this]] show False by simp
  qed
  then obtain m where m: "c = Some m" by blast
  show ?thesis
  proof (cases "user_tag E u")
    case (Some t)
    note sound = CheckPermission_ok [OF openfga_service_axioms Some assms [unfolded m],
        THEN conjunct2, THEN conjunct2, THEN spec, THEN mp, OF refl]
    have "earned E (store w) u k v" if "f k = Some v" "m k \<noteq> Some v" for k v
    proof -
      from sound [THEN conjunct2, THEN conjunct2, rule_format, OF that(1)] that(2)
      obtain res r where "names_ParseTag E k = Inr res" "ConvertJujuRelation v = Inr r" "can (store w) u t r res"
        by blast
      moreover from this(2) have "claim_relation v = Some r" by (rule claim_of_convert)
      ultimately show ?thesis using Some unfolding earned_def by blast
    qed
    then show ?thesis using m sound [THEN conjunct2, THEN conjunct1] by metis
  next
    case None
    have covers: "k \<in> dom m" if "collect_checks E (Some m) desired = Inr []" "(k, v) \<in> set desired" for k v
      using collect_checks_covers [OF that] by (auto simp: cached_def)
    from assms show ?thesis
      by (cases rule: CheckPermission_shape) (use m covers cache_step_no_tag [OF None] in fastforce)+
  qed
qed

lemma CheckPermission_frame [frame_intros]: "frame store (CheckPermission E j u c desired)"
proof -
  have "frame store (fill_cache allowed xs c)" for allowed xs c
    by (induction allowed xs c rule: fill_cache.induct) (auto intro!: frame_intros split: option.splits)
  then show ?thesis
    unfolding CheckPermission_def with_cache_def OFGA_BatchCheckRelations_def by (intro frame_intros)
qed

end

section \<open>What the generator leaves behind\<close>

text \<open>
  The interface of the JWT service as its clients need it: issuing a token does not touch the
  authorisation data.
\<close>

locale login_tokens = jimm_services E store remaining
  for E :: "'w externals" and store :: "'w \<Rightarrow> tup set" and remaining :: "'w \<Rightarrow> tup \<Rightarrow> string \<Rightarrow> tup set" +
  fixes F :: "'w token_factory" and order :: map_order
  assumes jwt_frame: "frame store (tf_jwtService F p)"
    and order_set: "set (order tags) = set tags"
begin

lemma access_frames [frame_intros]:
  "frame store (GetUserModelAccess E j u t)" "frame store (GetUserControllerAccess E j u t)"
  "frame store (GetUserCloudAccess E j u t)" "frame store (GetUserApplicationOfferAccess E j u t)"
  unfolding user_access_defs by (intro frame_intros)+

lemma access_earned:
  assumes "access_of (checkRelation E u t) levels w = (Ok r, w')" and "r \<in> set levels \<Longrightarrow> claim_relation (f r) = Some r"
    and "f NoRelation \<in> {'''', LoginAccess}"
  shows "earned E (store w) u (tag_String t) (f r)"
proof (cases "r = NoRelation")
  case False
  from access_of_ok [OF assms(1) False] obtain ut i where "user_tag E u = Some ut" "i < length levels" "levels ! i = r"
    "can (store w) u ut r t" by metis
  then show ?thesis using assms(2) nth_mem unfolding earned_def by blast
qed (use assms(3) in \<open>simp add: earned_def\<close>)

lemmas ladder_earned =
  access_earned [where f = ToModelAccessString, OF _ claim_of_relation(1), simplified claim_of_none, simplified]
  access_earned [where f = ToControllerAccessString, OF _ claim_of_relation(4), simplified claim_of_none, simplified]
  access_earned [where f = ToCloudAccessString, OF _ claim_of_relation(2), simplified claim_of_none, simplified]
  access_earned [where f = ToOfferAccessString, OF _ claim_of_relation(3), simplified claim_of_none, simplified]

lemma getter_earned:
  "GetUserModelAccess E j u t w = (Ok a, w') \<Longrightarrow> earned E (store w) u (tag_String t) a"
  "GetUserControllerAccess E j u t w = (Ok a, w') \<Longrightarrow> earned E (store w) u (tag_String t) a"
  "GetUserCloudAccess E j u t w = (Ok a, w') \<Longrightarrow> earned E (store w) u (tag_String t) a"
  "GetUserApplicationOfferAccess E j u t w = (Ok a, w') \<Longrightarrow> earned E (store w) u (tag_String t) a"
  unfolding user_access_defs
  by (auto elim!: go_bind_OkE dest: ladder_earned)

lemma controller_clouds_frame [frame_intros]: "frame obs (controller_clouds E ctl)"
  unfolding controller_clouds_def by (intro frame_intros)

text \<open>The generator after a login of \<open>u\<close>: every entry of its map is earned, and \<open>ks\<close> are entries.\<close>

definition logged_in :: "tup set \<Rightarrow> ofga_user \<Rightarrow> tag \<Rightarrow> tag \<Rightarrow> nat \<Rightarrow> string set \<Rightarrow> login_token_generator \<times> 'w \<Rightarrow> bool" where
  "logged_in S u mt ct n ks = (\<lambda>(g, w). store w = S \<and> lg_user g = Some u \<and> lg_mt g = mt \<and> lg_ct g = ct \<and> lg_callCount g = n
     \<and> (\<exists>m. lg_accessMapCache g = Some m \<and> ks \<subseteq> dom m \<and> (\<forall>k v. m k = Some v \<longrightarrow> earned E S u k v)))"

lemma logged_in_mono: "logged_in S u mt ct n ks c \<Longrightarrow> ks' \<subseteq> ks \<Longrightarrow> logged_in S u mt ct n ks' c"
  by (auto simp: logged_in_def)

lemma logged_in_call:
  assumes "frame store m" and "\<And>w x w'. m w = (Ok x, w') \<Longrightarrow> store w = S \<Longrightarrow> A x"
  shows "triple (logged_in S u mt ct n ks) (in_world m) (\<lambda>x c. logged_in S u mt ct n ks c \<and> A x) (logged_in S u mt ct n {})"
  using assms(2) by (intro triple_in_world) (auto simp: logged_in_def dest: frameD [OF assms(1)])

lemma logged_in_put:
  assumes "earned E S u k v"
  shows "triple (logged_in S u mt ct n ks) (cache_put k v) (\<lambda>_. logged_in S u mt ct n (insert k ks)) (logged_in S u mt ct n {})"
  using assms unfolding cache_put_def
  by (intro triple_bind [where A = "\<lambda>g c. logged_in S u mt ct n ks c \<and> fst c = g"] triple_get)
    (auto simp: triple_def logged_in_def go_simps split: option.splits)

text \<open>A getter followed by the entry it makes.\<close>

lemma logged_in_entry:
  assumes "frame store m" and "\<And>w x w'. m w = (Ok x, w') \<Longrightarrow> store w = S \<Longrightarrow> earned E S u k x"
    and "\<And>x. triple (logged_in S u mt ct n (insert k ks)) (f x) Q (logged_in S u mt ct n {})"
  shows "triple (logged_in S u mt ct n ks) (go_bind (in_world m) (\<lambda>x. go_bind (cache_put k x) (\<lambda>_. f x))) Q (logged_in S u mt ct n {})"
proof (rule triple_bind [OF logged_in_call [OF assms(1), where A = "earned E S u k"]])
  show "triple (\<lambda>c. logged_in S u mt ct n ks c \<and> earned E S u k x) (go_bind (cache_put k x) (\<lambda>_. f x)) Q (logged_in S u mt ct n {})" for x
  proof (cases "earned E S u k x")
    case True
    then show ?thesis using triple_bind [OF logged_in_put assms(3)] by simp
  qed (simp add: triple_def)
qed (use assms(2) in blast)

lemma logged_in_clouds:
  "triple (logged_in S u mt ct n ks) (go_foreach (\<lambda>c. go_bind (in_world (go_maperr h (GetUserCloudAccess E j u c)))
       (\<lambda>a. cache_put (tag_String c) a)) tags) (\<lambda>_. logged_in S u mt ct n (ks \<union> tag_String ` set tags)) (logged_in S u mt ct n {})"
proof (induction tags arbitrary: ks)
  case (Cons c tags)
  have "triple (logged_in S u mt ct n ks) (go_bind (in_world (go_maperr h (GetUserCloudAccess E j u c)))
     (\<lambda>a. go_bind (cache_put (tag_String c) a) (\<lambda>_. go_foreach (\<lambda>c. go_bind (in_world (go_maperr h (GetUserCloudAccess E j u c)))
       (\<lambda>a. cache_put (tag_String c) a)) tags))) (\<lambda>_. logged_in S u mt ct n (insert (tag_String c) ks \<union> tag_String ` set tags)) (logged_in S u mt ct n {})"
    using Cons.IH by (rule logged_in_entry [rotated 2]) (auto intro!: frame_intros dest: getter_earned(3))
  then show ?case by (simp add: go_bind_assoc)
qed (simp add: triple_return)

text \<open>The token that is issued at the end carries the map as it then is.\<close>

definition issued :: "tup set \<Rightarrow> ofga_user \<Rightarrow> string \<Rightarrow> login_token_generator \<times> 'w \<Rightarrow> bool" where
  "issued S u tok = (\<lambda>(g, w). \<exists>ut w1. user_tag E u = Some ut \<and> store w1 = S
     \<and> tf_jwtService F (login_params (lg_ct g) ut (lg_accessMapCache g)) w1 = (Ok tok, w))"

lemma issue_frame: "frame store (go_bind (user_ResourceTag E u) (\<lambda>ut. tf_jwtService F (login_params ct ut c)))"
  by (intro frame_intros jwt_frame)

lemma issue_ok:
  assumes "issue_token E F u (g, w) = (q, g', w')"
  shows "g' = g \<and> store w' = store w \<and> (\<forall>tok. q = Ok tok \<longrightarrow> issued (store w) u tok (g, w'))"
proof -
  let ?m = "go_bind (user_ResourceTag E u) (\<lambda>ut. tf_jwtService F (login_params (lg_ct g) ut (lg_accessMapCache g)))"
  from assms have run: "?m w = (q, w')" "g' = g"
    by (auto simp: issue_token_def go_bind_def [of obj_get] in_world_def split: prod.splits)
  moreover have "issued (store w) u tok (g, w')" if "q = Ok tok" for tok
    using run(1) that by (auto simp: issued_def user_ResourceTag_def elim!: go_bind_OkE go_some_OkE)
  ultimately show ?thesis using frameD [OF issue_frame run(1)] by simp
qed

lemma logged_in_issue:
  "ks' \<subseteq> ks \<Longrightarrow> triple (logged_in S u mt ct n ks) (issue_token E F u)
     (\<lambda>tok c. logged_in S u mt ct n ks' c \<and> issued S u tok c) (logged_in S u mt ct n {})"
  by (rule triple_objI, drule issue_ok) (auto simp: logged_in_def)

lemma logged_in_tags: "logged_in S u mt ct n ks (g, w) \<Longrightarrow> lg_mt g = mt \<and> lg_ct g = ct"
  by (simp add: logged_in_def)

lemma logged_in_step:
  assumes "frame store m" and "\<And>x. triple (logged_in S u mt ct n ks) (f x) Q (logged_in S u mt ct n {})"
  shows "triple (logged_in S u mt ct n ks) (go_bind (in_world m) f) Q (logged_in S u mt ct n {})"
  by (rule triple_bind [OF logged_in_call [OF assms(1), where A = "\<lambda>_. True"]]) (use assms(2) in simp_all)

lemma logged_in_err: "triple (logged_in S u mt ct n ks) (go_err e) Q (logged_in S u mt ct n {})"
  by (rule triple_err, erule logged_in_mono, simp)

lemma MakeLoginToken_triple:
  "triple (\<lambda>(g, w). store w = S \<and> lg_mt g = mt \<and> lg_ct g = ct \<and> lg_callCount g = n) (MakeLoginToken E F order (Some u))
     (\<lambda>tok c. logged_in S u mt ct n {tag_String mt, tag_String ct} c \<and> issued S u tok c) (logged_in S u mt ct n {})"
  unfolding MakeLoginToken_def Let_def option.case
  apply (rule triple_bind [where A = "\<lambda>_. logged_in S u mt ct n {}"])
   apply (rule triple_update, simp add: logged_in_def)
  apply (rule triple_get_bind, drule logged_in_tags, clarify)
  apply (rule triple_if, rule logged_in_err)
  apply (rule logged_in_entry, rule access_frames, blast dest: getter_earned(1))
  apply (rule triple_if, rule logged_in_err)
  apply (rule logged_in_entry, rule access_frames, blast dest: getter_earned(2))
  apply (rule logged_in_step, intro frame_intros)
  apply (rule logged_in_step, rule controller_clouds_frame)
  apply (rule triple_bind, rule logged_in_clouds)
  apply (rule logged_in_issue, blast)
  done

text \<open>
  The same for a later request for a token. \<open>H\<close> is the set of states of the authorisation data
  since the login.
\<close>

definition cache_earned :: "tup set set \<Rightarrow> login_token_generator \<Rightarrow> bool" where
  "cache_earned H g \<longleftrightarrow> (\<forall>u m k v. lg_user g = Some u \<longrightarrow> lg_accessMapCache g = Some m \<longrightarrow> m k = Some v
     \<longrightarrow> (\<exists>S\<in>H. earned E S u k v))"

lemma cache_earned_mono: "cache_earned H g \<Longrightarrow> H \<subseteq> H' \<Longrightarrow> cache_earned H' g"
  unfolding cache_earned_def by blast

lemma MakeToken_run:
  assumes "lg_callCount g < 10" and "lg_user g = Some u" and "g1 = g\<lparr>lg_callCount := Suc (lg_callCount g)\<rparr>"
  shows "MakeToken E F None (g, w) = issue_token E F u (g1, w)"
    and "MakeToken E F (Some ps) (g, w) = (case CheckPermission E (tf_accessChecker F) u (lg_accessMapCache g) ps w of
        (Ok (m, None), w1) \<Rightarrow> issue_token E F u (g1\<lparr>lg_accessMapCache := m\<rparr>, w1)
      | (Ok (m, Some e), w1) \<Rightarrow> (Err e, (g1\<lparr>lg_accessMapCache := m\<rparr>, w1))
      | (Err e, w1) \<Rightarrow> (Err e, (g1, w1)) | (Panic s, w1) \<Rightarrow> (Panic s, (g1, w1)) | (NoFuel, w1) \<Rightarrow> (NoFuel, (g1, w1)))"
  using assms
  by (auto simp: MakeToken_def go_bind_def in_world_def go_simps split: prod.splits outcome.splits option.splits)

lemma MakeToken_refused:
  "lg_callCount g \<ge> 10 \<Longrightarrow> MakeToken E F perms (g, w) = (Err (ErrNew ''Permission check limit exceeded''), (g, w))"
  "lg_callCount g < 10 \<Longrightarrow> lg_user g = None \<Longrightarrow> MakeToken E F perms (g, w) =
     (Err (ErrNew ''User authorization missing.''), (g\<lparr>lg_callCount := Suc (lg_callCount g)\<rparr>, w))"
  by (simp_all add: MakeToken_def go_bind_def go_simps)

text \<open>Everything a request for a token does to the generator, however it ends.\<close>

definition token_step :: "tup set set \<Rightarrow> (string \<times> any_val) list option \<Rightarrow> login_token_generator \<Rightarrow> 'w
    \<Rightarrow> (err, string) outcome \<Rightarrow> login_token_generator \<Rightarrow> 'w \<Rightarrow> bool" where
  "token_step H perms g w q g' w' \<longleftrightarrow> store w' = store w \<and> lg_user g' = lg_user g
     \<and> lg_callCount g' = max (lg_callCount g) (min 10 (Suc (lg_callCount g)))
     \<and> cache_earned (insert (store w) H) g'
     \<and> (\<forall>tok. q = Ok tok \<longrightarrow> lg_callCount g < 10 \<and> (\<exists>u. lg_user g = Some u \<and> issued (store w) u tok (g', w')
         \<and> (\<forall>ps m. perms = Some ps \<longrightarrow> lg_accessMapCache g' = Some m \<longrightarrow> fst ` set ps \<subseteq> dom m)))"

lemma token_step_issue:
  assumes "issue_token E F u (g1, w1) = (q, g', w')" and "lg_user g = Some u" and "lg_callCount g < 10"
    and "lg_user g1 = Some u" and "lg_callCount g1 = Suc (lg_callCount g)" and "store w1 = store w"
    and "cache_earned (insert (store w) H) g1"
    and "\<And>ps m. perms = Some ps \<Longrightarrow> lg_accessMapCache g1 = Some m \<Longrightarrow> fst ` set ps \<subseteq> dom m"
  shows "token_step H perms g w q g' w'"
  using issue_ok [OF assms(1)] assms(2-8) unfolding token_step_def by auto

lemma MakeToken_ok:
  assumes "MakeToken E F perms (g, w) = (q, g', w')" and earned: "cache_earned H g"
  shows "token_step H perms g w q g' w'"
proof -
  have mono: "cache_earned (insert (store w) H) g" using earned by (rule cache_earned_mono) blast
  let ?g = "g\<lparr>lg_callCount := Suc (lg_callCount g)\<rparr>"
  have mono1: "cache_earned (insert (store w) H) ?g" using mono by (simp add: cache_earned_def)
  consider (limit) "lg_callCount g \<ge> 10" | (nobody) "lg_callCount g < 10" "lg_user g = None"
    | (user) u where "lg_callCount g < 10" "lg_user g = Some u" by fastforce
  then show ?thesis
  proof cases
    case (user u)
    show ?thesis
    proof (cases perms)
      case None
      then show ?thesis using assms(1) MakeToken_run(1) [OF user refl] user mono1
        by (intro token_step_issue [of u ?g w]) simp_all
    next
      case (Some ps)
      let ?m = "CheckPermission E (tf_accessChecker F) u (lg_accessMapCache g) ps"
      obtain r w1 where r: "?m w = (r, w1)" by fastforce
      note run = assms(1) [unfolded Some MakeToken_run(2) [OF user refl] r]
      have w1: "store w1 = store w" using frameD [OF CheckPermission_frame r] .
      show ?thesis
      proof (cases "\<exists>c e. r = Ok (c, e)")
        case True
        then obtain c e where ok: "?m w = (Ok (c, e), w1)" using r by auto
        have earned1: "cache_earned (insert (store w) H) (?g\<lparr>lg_accessMapCache := c\<rparr>)"
          using CheckPermission_earned earned ok user(2) unfolding cache_earned_def by (fastforce)
        show ?thesis
        proof (cases e)
          case None
          with run ok r have issue: "issue_token E F u (?g\<lparr>lg_accessMapCache := c\<rparr>, w1) = (q, g', w')" by simp
          have "fst ` set ps \<subseteq> dom m" if "c = Some m" for m
            using CheckPermission_earned [OF ok [unfolded that]] None by blast
          then show ?thesis using Some user w1 earned1
            by (intro token_step_issue [OF issue]) simp_all
        next
          case (Some er)
          then show ?thesis using run ok r w1 earned1 user unfolding token_step_def by auto
        qed
      qed (use run w1 mono1 user in \<open>cases r; auto simp: token_step_def\<close>)
    qed
  qed (use assms(1) MakeToken_refused mono mono1 in \<open>auto simp: token_step_def\<close>)
qed

lemma MakeLoginToken_ok:
  assumes "MakeLoginToken E F order user (g, w) = (Ok tok, g', w')"
  shows "\<exists>u ut m w1. user = Some u \<and> user_tag E u = Some ut \<and> store w1 = store w
    \<and> tf_jwtService F (login_params (lg_ct g) ut (Some m)) w1 = (Ok tok, w')
    \<and> tag_String (lg_mt g) \<in> dom m \<and> tag_String (lg_ct g) \<in> dom m \<and> (\<forall>k v. m k = Some v \<longrightarrow> earned E (store w) u k v)"
proof -
  obtain u where u: "user = Some u" using assms by (cases user) (simp_all add: MakeLoginToken_def go_simps)
  have "logged_in (store w) u (lg_mt g) (lg_ct g) (lg_callCount g) {tag_String (lg_mt g), tag_String (lg_ct g)} (g', w')
      \<and> issued (store w) u tok (g', w')"
    by (rule triple_OkD [OF MakeLoginToken_triple _ assms [unfolded u]]) simp
  then obtain m ut w1 where "lg_accessMapCache g' = Some m" "{tag_String (lg_mt g), tag_String (lg_ct g)} \<subseteq> dom m"
      "\<forall>k v. m k = Some v \<longrightarrow> earned E (store w) u k v" "lg_ct g' = lg_ct g" "user_tag E u = Some ut" "store w1 = store w"
      "tf_jwtService F (login_params (lg_ct g') ut (lg_accessMapCache g')) w1 = (Ok tok, w')"
    unfolding logged_in_def issued_def prod.case by (elim conjE exE) (rule that)
  then show ?thesis using u by (intro exI [of _ u] exI [of _ ut] exI [of _ m] exI [of _ w1]) simp
qed

text \<open>Tokens for a single call: the map is built in one go.\<close>

lemma access_entries_ok:
  assumes "access_entries get tags m w = (Ok m', w')" and "\<And>t. frame store (get t)"
    and "\<And>t w a w'. get t w = (Ok a, w') \<Longrightarrow> earned E (store w) u (tag_String t) a"
  shows "store w' = store w \<and> dom m \<subseteq> dom m' \<and> (\<forall>k v. m' k = Some v \<longrightarrow> m k = Some v \<or> earned E (store w) u k v)"
  using assms(1)
proof (induction tags arbitrary: m w)
  case (Cons t tags)
  let ?m = "\<lambda>a. if a \<noteq> '''' then m(tag_String t \<mapsto> a) else m"
  from Cons.prems obtain a w1 where get: "get t w = (Ok a, w1)" and rest: "access_entries get tags (?m a) w1 = (Ok m', w')"
    unfolding access_entries.simps by (rule go_bind_OkE)
  have "store w1 = store w" using frameD [OF assms(2) get] .
  then have ih: "store w' = store w" "dom (?m a) \<subseteq> dom m'"
    "\<And>k v. m' k = Some v \<Longrightarrow> ?m a k = Some v \<or> earned E (store w) u k v" using Cons.IH [OF rest] by auto
  moreover have "m k = Some v \<or> earned E (store w) u k v" if "?m a k = Some v" for k v
    using that assms(3) [OF get] by (auto split: if_splits)
  moreover have "dom m \<subseteq> dom (?m a)" by auto
  ultimately show ?case by blast
qed simp

lemma target_access:
  "frame store (resolveTargetAccess E j user t)"
  "resolveTargetAccess E j (Some u) t w = (Ok a, w') \<Longrightarrow> earned E (store w) u (tag_String t) a"
  unfolding resolveTargetAccess_def deref_def
  by (auto intro!: frame_intros dest: getter_earned split: if_splits)

lemma buildAccessMap_ok:
  assumes "buildAccessMap E j order user tags ct ctl w = (Ok m, w')"
  shows "store w' = store w \<and> (\<exists>u. user = Some u \<and> tag_String ct \<in> dom m \<and> (\<forall>k v. m k = Some v \<longrightarrow> earned E (store w) u k v))"
proof -
  from assms obtain m1 w1 u a w2 clouds w3 where
      first: "access_entries (resolveTargetAccess E j user) tags Map.empty w = (Ok m1, w1)" and u: "user = Some u"
      and ctrl: "GetUserControllerAccess E j u ct w1 = (Ok a, w2)" and cl: "controller_clouds E ctl w2 = (Ok clouds, w3)"
      and last: "access_entries (\<lambda>c. go_maperr (wrapped ''failed to check user's cloud access: %w'')
         (go_bind (deref user) (\<lambda>u. GetUserCloudAccess E j u c))) (order clouds) (m1(tag_String ct \<mapsto> a)) w3 = (Ok m, w')"
    unfolding buildAccessMap_def by (elim go_bind_OkE) (auto simp: deref_def elim: go_some_OkE)
  have one: "store w1 = store w \<and> (\<forall>k v. m1 k = Some v \<longrightarrow> earned E (store w) u k v)"
    using access_entries_ok [OF first target_access(1), of u] target_access(2) u by fastforce
  have two: "store w2 = store w" "store w3 = store w" "earned E (store w) u (tag_String ct) a"
    using one frameD [OF access_frames(2) ctrl] frameD [OF controller_clouds_frame [where obs = store] cl] getter_earned(2) [OF ctrl] by simp_all
  have last': "store w' = store w3 \<and> dom (m1(tag_String ct \<mapsto> a)) \<subseteq> dom m
      \<and> (\<forall>k v. m k = Some v \<longrightarrow> (m1(tag_String ct \<mapsto> a)) k = Some v \<or> earned E (store w3) u k v)"
    by (rule access_entries_ok [OF last]) (auto simp: u deref_def intro!: frame_intros dest: getter_earned(3))
  moreover have "earned E (store w) u k v" if "(m1(tag_String ct \<mapsto> a)) k = Some v" for k v
    using that one two by (auto split: if_splits)
  moreover have "tag_String ct \<in> dom m" using last' by (metis dom_fun_upd insertI1 option.distinct(1) subsetD)
  ultimately show ?thesis using two u by metis
qed

lemma scoped_token_ok:
  assumes "NewCallerScopedLoginToken E F order tags ctl user w = (Ok tok, w')"
  shows "\<exists>u ut ct m w1. user = Some u \<and> user_tag E u = Some ut \<and> controller_ResourceTag E ctl = Some ct \<and> store w1 = store w
    \<and> tf_jwtService F (login_params ct ut (Some m)) w1 = (Ok tok, w')
    \<and> tag_String ct \<in> dom m \<and> (\<forall>k v. m k = Some v \<longrightarrow> earned E (store w) u k v)"
proof -
  from assms obtain ct r w1 c w2 m w3 u ut where ct: "controller_ResourceTag E ctl = Some ct"
      and get: "go_try (GetController E (tf_db F) (controller_SetTag empty_controller ct)) w = (Ok r :: (err, _) outcome, w1)"
      and c: "(case r of Inr c \<Rightarrow> go_return c
       | Inl e \<Rightarrow> if ErrorCode (Some e) \<noteq> CodeNotFound
           then go_err (wrapped ''failed to fetch controller for caller token: %w'' e) else go_return ctl) w1 = (Ok c, w2)"
      and build: "buildAccessMap E (tf_accessChecker F) order user tags ct c w2 = (Ok m, w3)"
      and u: "user = Some u" "user_tag E u = Some ut" and issue: "tf_jwtService F (login_params ct ut (Some m)) w3 = (Ok tok, w')"
    unfolding NewCallerScopedLoginToken_def deref_def user_ResourceTag_def by (elim go_bind_OkE go_some_OkE) auto
  have "store w2 = store w1" using c by (auto split: sum.splits if_splits)
  moreover have "store w1 = store w" using frameD [OF frame_try [OF resource_frames(1)] get] .
  ultimately show ?thesis using buildAccessMap_ok [OF build] ct u issue by auto
qed

end

text \<open>JIMM's own JWT service provides the interface, whatever the key service does meanwhile.\<close>

locale jwt_deployment = jimm_services E store remaining
  for E :: "'w externals" and store :: "'w \<Rightarrow> tup set" and remaining :: "'w \<Rightarrow> tup \<Rightarrow> string \<Rightarrow> tup set" +
  fixes X :: "('w, 'key, 'tok) jwt_lib" and svc :: "('w, 'key) jwt_service" and db :: database and pm :: perm_manager
    and order :: map_order
  assumes random_frame: "frame store (uuid_NewRandom X)"
    and clock_frame: "store (snd (time_Now X w)) = store w"
    and key_frame: "js_JWKS svc = Some getKey \<Longrightarrow> frame store getKey"
    and iteration: "set (order tags) = set tags"
begin

lemma NewJWT_frame: "frame store (NewJWT X svc p)"
  unfolding NewJWT_def
  by (intro frame_bind random_frame, cases "js_JWKS svc")
    (auto intro!: frame_intros clock_frame key_frame simp del: go_lift_def)

end

sublocale jwt_deployment \<subseteq> login_tokens E store remaining "\<lparr>tf_db = db, tf_jwtService = NewJWT X svc, tf_accessChecker = pm\<rparr>" order
  by unfold_locales (simp_all add: NewJWT_frame iteration)

context jwt_deployment
begin

lemmas issues_login_tokens = login_tokens_axioms

end

section \<open>Sessions\<close>

text \<open>
  The life of a generator: the calls of one connection, in any order and with any result, while
  the rest of the system does what it likes. Beside the generator and the world a state has the
  states of the authorisation data at the calls since the last login, and the number of tokens
  \<^verbatim>\<open>MakeToken\<close> has issued.
\<close>

inductive session :: "'w externals \<Rightarrow> 'w token_factory \<Rightarrow> map_order \<Rightarrow> ('w \<Rightarrow> tup set)
    \<Rightarrow> login_token_generator \<times> 'w \<times> tup set set \<times> nat \<Rightarrow> bool"
  for E F order store where
  connected: "session E F order store (newLoginTokenGenerator, w, {}, 0)"
| tagged: "session E F order store (g, w, H, n) \<Longrightarrow> session E F order store (SetTags mt ct g, w, H, n)"
| login: "session E F order store (g, w, H, n) \<Longrightarrow> MakeLoginToken E F order user (g, w) = (q, g', w') \<Longrightarrow>
    session E F order store (g', w', (case user of None \<Rightarrow> H | Some u \<Rightarrow> {store w}), n)"
| token: "session E F order store (g, w, H, n) \<Longrightarrow> MakeToken E F perms (g, w) = (q, g', w') \<Longrightarrow>
    session E F order store (g', w', insert (store w) H, if q \<in> range Ok then Suc n else n)"
| elsewhere: "session E F order store (g, w, H, n) \<Longrightarrow> session E F order store (g, w', H, n)"

context login_tokens
begin

lemma session_inv:
  assumes "session E F order store c"
  shows "case c of (g, w, H, n) \<Rightarrow> cache_earned H g \<and> lg_callCount g \<le> 10 \<and> n \<le> lg_callCount g"
  using assms
proof (induction rule: session.induct)
  case (connected w)
  then show ?case by (simp add: newLoginTokenGenerator_def cache_earned_def)
next
  case (tagged g w H n mt ct)
  then show ?case by (simp add: SetTags_def cache_earned_def)
next
  case (login g w H n user q g' w')
  show ?case
  proof (cases user)
    case None
    then show ?thesis using login by (simp add: MakeLoginToken_def go_simps)
  next
    case (Some u)
    have "logged_in (store w) u (lg_mt g) (lg_ct g) (lg_callCount g) {} (g', w')"
    proof (rule triple_anyD [OF MakeLoginToken_triple])
      show "MakeLoginToken E F order (Some u) (g, w) = (q, g', w')" using login(2) Some by simp
      show "logged_in S u mt ct k {} c" if "logged_in S u mt ct k {tag_String mt, tag_String ct} c \<and> issued S u tok c"
        for S mt ct k c tok using that logged_in_mono by blast
    qed simp
    then show ?thesis using login.IH Some by (auto simp: logged_in_def cache_earned_def)
  qed
next
  case (token g w H n perms q g' w')
  then have inv: "cache_earned H g" "lg_callCount g \<le> 10" "n \<le> lg_callCount g" by simp_all
  from MakeToken_ok [OF token(2) inv(1)] inv(2,3) show ?case
    by (auto simp: token_step_def image_iff)
next
  case (elsewhere g w H n w')
  then show ?case by simp
qed

end

section \<open>Properties\<close>

text \<open>
  C4. What a connection can put into its tokens. Whatever calls a connection makes, in whatever
  order, with failures, and with other users' permissions changing in between: every entry of the
  generator's map is a permission the user who last logged in had at the time of one of the
  calls since that login, so nothing leaks from one login to the next; and no more than ten
  tokens are issued on top of the login tokens.
\<close>

theorem session_claims_earned:
  assumes "login_tokens E store remaining F order" and "session E F order store (g, w, H, n)"
  shows "n \<le> 10 \<and> (\<forall>u m k v. lg_user g = Some u \<longrightarrow> lg_accessMapCache g = Some m \<longrightarrow> m k = Some v
    \<longrightarrow> (\<exists>S\<in>H. earned E S u k v))"
  using login_tokens.session_inv [OF assms] unfolding login_tokens.cache_earned_def [OF assms(1)] by auto

text \<open>A factory over the in-memory services whose tokens are just the name of the user.\<close>

definition mem_factory :: "tup list token_factory" where
  "mem_factory = \<lparr>tf_db = pm_store mem_pm, tf_jwtService = (\<lambda>p. go_return (jp_User p)), tf_accessChecker = mem_pm\<rparr>"

lemma mem_login_tokens: "login_tokens mem_externals mem_store mem_remaining mem_factory (\<lambda>xs. xs)"
  by unfold_locales (simp_all add: mem_factory_def frame_return)

text \<open>The first login of alice fails as no model is set; she is known and gets a token nevertheless.\<close>

definition mem_generator :: "nat \<Rightarrow> (string \<Rightarrow> string option) \<Rightarrow> login_token_generator" where
  "mem_generator n m = newLoginTokenGenerator\<lparr>lg_user := Some (mem_user ''alice''), lg_accessMapCache := Some m, lg_callCount := n\<rparr>"

lemma mem_session:
  "session mem_externals mem_factory (\<lambda>xs. xs) mem_store
     (mem_generator 1 [''model-m'' \<mapsto> AdminAccess], mem_admin_of (Tag ''model'' ''m''), {mem_store (mem_admin_of (Tag ''model'' ''m''))}, 1)"
proof -
  let ?w = "mem_admin_of (Tag ''model'' ''m'')"
  have "MakeLoginToken mem_externals mem_factory (\<lambda>xs. xs) (Some (mem_user ''alice'')) (newLoginTokenGenerator, ?w) =
      (Err (ErrNew ''model not set''), (mem_generator 0 Map.empty, ?w))"
    by (simp add: MakeLoginToken_def go_bind_def Let_def mem_generator_def newLoginTokenGenerator_def go_simps)
  from login [OF connected this] have one: "session mem_externals mem_factory (\<lambda>xs. xs) mem_store
      (mem_generator 0 Map.empty, ?w, {mem_store ?w}, 0)" by simp
  have "MakeToken mem_externals mem_factory (Some [(''model-m'', StrVal AdminAccess)]) (mem_generator 0 Map.empty, ?w) =
      (Ok ''user-alice'', (mem_generator 1 [''model-m'' \<mapsto> AdminAccess], ?w))"
    using mem_check_permission
    by (simp add: MakeToken_def go_bind_def mem_generator_def issue_token_def in_world_def mem_factory_def login_params_def
        user_ResourceTag_def tag_String_def UserTagKind_def go_simps)
  from token [OF one this] show ?thesis by simp
qed

theorem session_claims_earned_witness:
  "\<exists>S. earned mem_externals S (mem_user ''alice'') ''model-m'' AdminAccess \<and> S = mem_store (mem_admin_of (Tag ''model'' ''m''))"
  using session_claims_earned [OF mem_login_tokens mem_session] by (simp add: mem_generator_def)

text \<open>
  A login token says what is true. Where \<^verbatim>\<open>MakeLoginToken\<close> succeeds the token was issued for
  the controller that is set, for the user, and with a map that has the model and the controller
  and every entry of which the user has earned in the authorisation data of that moment.
\<close>

theorem login_token_claims:
  assumes "login_tokens E store remaining F order" and "MakeLoginToken E F order user (g, w) = (Ok tok, g', w')"
  shows "\<exists>u ut m w1. user = Some u \<and> user_tag E u = Some ut \<and> store w1 = store w
    \<and> tf_jwtService F (login_params (lg_ct g) ut (Some m)) w1 = (Ok tok, w')
    \<and> tag_String (lg_mt g) \<in> dom m \<and> tag_String (lg_ct g) \<in> dom m \<and> (\<forall>k v. m k = Some v \<longrightarrow> earned E (store w) u k v)"
  using login_tokens.MakeLoginToken_ok [OF assms] by blast

lemma mem_access:
  "\<exists>r. access_of (checkRelation mem_externals (mem_user ''alice'') res) levels w = (Ok r, w)"
  by (induction levels) (auto simp: first_relation_def mem_check go_bind_def go_try_def go_simps)

lemma mem_login_run:
  assumes "Id mt \<noteq> ''''" and "Id ct \<noteq> ''''"
  shows "\<exists>g'. MakeLoginToken mem_externals mem_factory (\<lambda>xs. xs) (Some (mem_user ''alice'')) (SetTags mt ct newLoginTokenGenerator, w)
     = (Ok (tag_String (Tag UserTagKind ''alice'')), (g', w))"
proof -
  let ?get = "\<lambda>res levels. access_of (checkRelation mem_externals (mem_user ''alice'') res) levels w"
  obtain m c k where "?get mt model_levels = (Ok m, w)" "?get ct controller_levels = (Ok c, w)"
    "?get (Tag CloudTagKind ''aws'') cloud_levels = (Ok k, w)" using mem_access by metis
  then show ?thesis using assms
    by (simp add: MakeLoginToken_def user_access_defs GetController_def controller_clouds_def cache_put_def issue_token_def
        SetTags_def newLoginTokenGenerator_def mem_factory_def mem_pm_def mem_controllers_def controller_SetTag_def
        cloud_ResourceTag_def new_juju_tag_def user_ResourceTag_def login_params_def ready_def
        Let_def in_world_def go_bind_def go_maperr_def go_simps)
qed

theorem login_token_claims_witness:
  "\<exists>m. tf_jwtService mem_factory (login_params (Tag ControllerTagKind ''c'') (Tag UserTagKind ''alice'') (Some m)) []
       = (Ok (tag_String (Tag UserTagKind ''alice'')), [])
     \<and> tag_String (Tag ModelTagKind ''m'') \<in> dom m \<and> (\<forall>v. m (tag_String (Tag ModelTagKind ''m'')) = Some v \<longrightarrow>
         earned mem_externals {} (mem_user ''alice'') (tag_String (Tag ModelTagKind ''m'')) v)"
proof -
  obtain g' where "MakeLoginToken mem_externals mem_factory (\<lambda>xs. xs) (Some (mem_user ''alice''))
      (SetTags (Tag ModelTagKind ''m'') (Tag ControllerTagKind ''c'') newLoginTokenGenerator, [])
      = (Ok (tag_String (Tag UserTagKind ''alice'')), (g', []))"
    using mem_login_run [of "Tag ModelTagKind ''m''" "Tag ControllerTagKind ''c''" "[]"] by auto
  from login_token_claims [OF mem_login_tokens this] show ?thesis
    by (auto simp: SetTags_def mem_factory_def login_params_def mem_store_def go_simps)
qed

lemma superuser_access_mem:
  assumes "superuser_access ct tags k = Some v"
  shows "k = tag_String ct \<and> v = SuperuserAccess \<or> (\<exists>t\<in>set tags. Kind t = ModelTagKind \<and> Id t \<noteq> '''' \<and> k = tag_String t \<and> v = AdminAccess)"
  using assms unfolding superuser_access_def
  by (induction tags rule: rev_induct) (auto split: if_splits)


text \<open>A toy version library: a version is the length of its text, and 3.6.24 has six characters.\<close>

definition toy_version :: "nat juju_version" where
  "toy_version = \<lparr>version_Parse = (\<lambda>s. Inr (length s)), version_MustParse = length, version_Compare = (\<lambda>a b. int a - int b)\<rparr>"


text \<open>
  A request with a permission that is not a string loses the map: \<^verbatim>\<open>CheckPermission\<close> returns a
  nil map with the error, \<^verbatim>\<open>MakeToken\<close> keeps it, and the next request that is granted a new
  permission writes to the nil map and panics.
\<close>

theorem lost_cache_panics:
  assumes "lg_user g = Some u" and "Suc (lg_callCount g) < 10" and "cached (lg_accessMapCache g) k = None"
    and "user_tag E u = Some t" and "\<not> bad_groups u"
    and "names_ParseTag E k' = Inr res" and "ConvertJujuRelation v = Inr r"
    and "cofga_BatchCheckRelations E [(mk_tup (ConvertTag t) r (ConvertTag res), itoa 0, idp_tuples t u)] w = (Ok allowed, w')"
    and "allowed (itoa 0) = Some True"
  shows "\<exists>e g'. MakeToken E F (Some [(k, OtherVal)]) (g, w) = (Err e, (g', w))
    \<and> fst (MakeToken E F (Some [(k', StrVal v)]) (g', w)) = Panic ''assignment to entry in nil map''"
proof -
  let ?g = "g\<lparr>lg_callCount := Suc (lg_callCount g), lg_accessMapCache := None\<rparr>"
  obtain e where "MakeToken E F (Some [(k, OtherVal)]) (g, w) = (Err e, (?g, w))"
    using assms(1-3) by (simp add: MakeToken_def CheckPermission_def go_bind_def in_world_def go_simps)
  moreover have "CheckPermission E j u None [(k', StrVal v)] w = (Panic ''assignment to entry in nil map'', w')" for j
    using assms(6-9) ContextualTuples_good [OF assms(4,5)] assms(4)
    by (simp add: CheckPermission_def cached_def with_cache_def user_ResourceTag_def OFGA_BatchCheckRelations_def
        permission_batch_def BatchCheckSize_def mk_tup_def go_bind_def go_try_def go_simps)
  then have "fst (MakeToken E F (Some [(k', StrVal v)]) (?g, w)) = Panic ''assignment to entry in nil map''"
    using assms(1,2) by (simp add: MakeToken_def go_bind_def in_world_def go_simps)
  ultimately show ?thesis by blast
qed

theorem lost_cache_panics_witness:
  "\<exists>e g'. MakeToken mem_externals mem_factory (Some [(''x'', OtherVal)]) (mem_generator 0 Map.empty, mem_admin_of (Tag ''model'' ''m''))
       = (Err e, (g', mem_admin_of (Tag ''model'' ''m'')))
     \<and> fst (MakeToken mem_externals mem_factory (Some [(''model-m'', StrVal AdminAccess)]) (g', mem_admin_of (Tag ''model'' ''m'')))
       = Panic ''assignment to entry in nil map''"
proof -
  let ?t = "Tag ''model'' ''m''" and ?w = "mem_admin_of (Tag ''model'' ''m'')"
  have parse: "names_ParseTag mem_externals ''model-m'' = Inr ?t" by (simp, code_simp)
  have rel: "ConvertJujuRelation AdminAccess = Inr AdministratorRelation" by (simp add: ConvertJujuRelation_def)
  have lad: "access_ladder (Kind ?t) model_levels" using model_access.access_ladder_axioms by (simp add: ModelTagKind_def)
  have gen: "lg_user (mem_generator 0 Map.empty) = Some (mem_user ''alice'')" "Suc (lg_callCount (mem_generator 0 Map.empty)) < 10"
      "cached (lg_accessMapCache (mem_generator 0 Map.empty)) ''x'' = None"
    by (simp_all add: mem_generator_def cached_def)
  show ?thesis
    by (rule lost_cache_panics [OF gen mem_user_simps(1) _ parse rel mem_batch])
      (use mem_alice_admin [OF lad] in \<open>simp_all add: check_holds_def mk_tup_def\<close>)
qed

section \<open>From the authorisation data to a signed token\<close>

text \<open>The in-memory services with the toy keys are a deployment.\<close>

interpretation memd: jwt_deployment mem_externals mem_store mem_remaining toy_jwt "toy_issuer 9" "pm_store mem_pm" mem_pm "\<lambda>xs. xs"
  by unfold_locales (auto simp: toy_jwt_def toy_issuer_def jwks_SigningKey_def toy_service_def frame_return)

text \<open>
  C3. End to end: the token \<^verbatim>\<open>NewLoginToken\<close> returns is addressed to the controller, speaks for the
  user, claims only access the user has in the authorisation data of that moment, and verifies
  under a key of the set JIMM publishes, in whatever state the key service is.
\<close>

theorem login_token_end_to_end:
  assumes "jwt_deployment E store remaining X svc order" and "jose_ok K X private_of verify"
    and "jwks_reachable K (s, w0, alive)" and "js_JWKS svc = Some (jwks_SigningKey s)"
    and "NewLoginToken E \<lparr>tf_db = db, tf_jwtService = NewJWT X svc, tf_accessChecker = pm\<rparr> order mt ct (Some u) w = (Ok tok, w')"
  shows "\<exists>ut cs t k m keys i pk. user_tag E u = Some ut \<and> jwt_Build X cs = Inr t \<and> jwt_Sign X t k = Inr tok
    \<and> map_of (rev cs) ''aud'' = Some (CStrings [Id ct]) \<and> map_of (rev cs) ''sub'' = Some (CString (tag_String ut))
    \<and> map_of (rev cs) accessClaim = Some (CAccess (Some m))
    \<and> tag_String mt \<in> dom m \<and> tag_String ct \<in> dom m \<and> (\<forall>k v. m k = Some v \<longrightarrow> earned E (store w) u k v)
    \<and> jwks_Get s w' = (Ok keys :: (err, _) outcome, w') \<and> i < set_Len K keys \<and> set_Key K keys i = Some pk \<and> verify pk tok"
proof -
  let ?F = "\<lparr>tf_db = db, tf_jwtService = NewJWT X svc, tf_accessChecker = pm\<rparr>"
  from assms(5) obtain g' where "MakeLoginToken E ?F order (Some u) (SetTags mt ct newLoginTokenGenerator, w) = (Ok tok, g', w')"
    unfolding NewLoginToken_def by (rule with_obj_OkE)
  from login_tokens.MakeLoginToken_ok [OF jwt_deployment.issues_login_tokens [OF assms(1)] this]
  obtain ut m w1 where claims: "user_tag E u = Some ut" "tag_String mt \<in> dom m" "tag_String ct \<in> dom m"
      "\<forall>k v. m k = Some v \<longrightarrow> earned E (store w) u k v"
    and jwt: "NewJWT X svc (login_params ct ut (Some m)) w1 = (Ok tok, w')"
    by (auto simp: SetTags_def)
  from NewJWT_claims [OF jwt] obtain cs t k where "jwt_Build X cs = Inr t" "jwt_Sign X t k = Inr tok"
    "map_of (rev cs) accessClaim = Some (CAccess (Some m))" "map_of (rev cs) ''aud'' = Some (CStrings [Id ct])"
    "map_of (rev cs) ''sub'' = Some (CString (tag_String ut))"
    by (auto simp: login_params_def)
  with claims NewJWT_verifies [OF assms(2-4) jwt] show ?thesis by blast
qed

lemma mem_empty: "mem_store [] = {}"
  by (simp add: mem_store_def)

theorem login_token_end_to_end_witness:
  "\<exists>m. tag_String (Tag ModelTagKind ''m'') \<in> dom m \<and> (\<forall>k v. m k = Some v \<longrightarrow> earned mem_externals {} (mem_user ''alice'') k v)
     \<and> (\<exists>cs. map_of (rev cs) accessClaim = Some (CAccess (Some m)))
     \<and> (\<exists>keys i pk. set_Key (toy_jwk (\<lambda>_ :: tup list. Some 9)) keys i = Some pk \<and> toy_verify pk (replicate 9 (CHR ''s'')))"
proof -
  let ?F = "\<lparr>tf_db = pm_store mem_pm, tf_jwtService = NewJWT toy_jwt (toy_issuer 9), tf_accessChecker = mem_pm\<rparr>"
  let ?mt = "Tag ModelTagKind ''m''" and ?ct = "Tag ControllerTagKind ''c''"
  let ?get = "\<lambda>res levels. access_of (checkRelation mem_externals (mem_user ''alice'') res) levels []"
  obtain m c k where "?get ?mt model_levels = (Ok m, [])" "?get ?ct controller_levels = (Ok c, [])"
    "?get (Tag CloudTagKind ''aws'') cloud_levels = (Ok k, [])" using mem_access by metis
  moreover have "NewJWT toy_jwt (toy_issuer 9) (login_params t u a) w = (Ok (replicate 9 (CHR ''s'')), w)" for t u a and w :: "tup list"
    by (simp add: NewJWT_def toy_jwt_def toy_issuer_def jwks_SigningKey_def toy_service_def login_params_def go_bind_def go_simps)
  ultimately have run: "NewLoginToken mem_externals ?F (\<lambda>xs. xs) ?mt ?ct (Some (mem_user ''alice'')) [] = (Ok (replicate 9 (CHR ''s'')), [])"
    by (simp add: NewLoginToken_def with_obj_def MakeLoginToken_def user_access_defs GetController_def controller_clouds_def
        cache_put_def issue_token_def SetTags_def newLoginTokenGenerator_def mem_pm_def mem_controllers_def controller_SetTag_def
        cloud_ResourceTag_def new_juju_tag_def user_ResourceTag_def ready_def Let_def in_world_def go_bind_def go_maperr_def go_simps)
  have key: "js_JWKS (toy_issuer 9 :: (tup list, _) jwt_service) = Some (jwks_SigningKey (toy_service 9))" by (simp add: toy_issuer_def)
  have reach: "jwks_reachable (toy_jwk (\<lambda>_ :: tup list. Some 9)) (toy_service 9, [], True)" by (rule toy_start) simp_all
  from login_token_end_to_end [OF memd.jwt_deployment_axioms toy_ok reach key run] mem_empty
  show ?thesis by metis
qed

end
