(* ===== verification/Go_Json_Values.thy ===== *)
theory Go_Json_Values
  imports Entitlement "HOL-Library.List_Lexorder"
begin

text \<open>
  \<^verbatim>\<open>encoding/json\<close> for values whose type is not known in advance: decoding into
  \<^verbatim>\<open>map[string]any\<close>, printing such values again, and printing text that is JSON already
  (\<^verbatim>\<open>json.RawMessage\<close>).
\<close>

section \<open>Printing\<close>

fun commas :: "bytes list \<Rightarrow> bytes" where
  "commas [] = []"
| "commas [x] = x"
| "commas (x # y # zs) = x @ [44] @ commas (y # zs)"

fun json_print :: "json \<Rightarrow> bytes" where
  "json_print JNull = [110, 117, 108, 108]"
| "json_print (JBool b) = (if b then [116, 114, 117, 101] else [102, 97, 108, 115, 101])"
| "json_print (JNum t) = t"
| "json_print (JStr s) = json_string s"
| "json_print (JArr vs) = [91] @ commas (map json_print vs) @ [93]"
| "json_print (JObj ms) = [123] @ commas (map (\<lambda>(k, v). json_string k @ [58] @ json_print v) ms) @ [125]"

lemma json_marshal_print: "json_marshal kvs = json_print (JObj (map (\<lambda>(k, v). (k, JStr v)) kvs))"
proof -
  have "json_fields kvs = commas (map (\<lambda>(k, v). json_string k @ [58] @ json_print (JStr v)) kvs)"
    by (induction kvs rule: json_fields.induct) auto
  then show ?thesis by (simp add: json_marshal_def comp_def case_prod_unfold)
qed

section \<open>Decoding\<close>

text \<open>
  A number becomes a float64: \<open>F\<close> is the text of the float64 that is nearest to a literal, \<open>None\<close>
  out of range. An object becomes a map: of several members with one name the last counts, and
  the map is printed in the order of its keys.
\<close>

definition go_map :: "(bytes \<times> json) list \<Rightarrow> (bytes \<times> json) list" where
  "go_map ms = map (\<lambda>k. (k, the (map_of (rev ms) k))) (sort (remdups (map fst ms)))"

fun any_json :: "(bytes \<Rightarrow> bytes option) \<Rightarrow> json \<Rightarrow> json option"
  and any_list :: "(bytes \<Rightarrow> bytes option) \<Rightarrow> json list \<Rightarrow> json list option"
  and any_members :: "(bytes \<Rightarrow> bytes option) \<Rightarrow> (bytes \<times> json) list \<Rightarrow> (bytes \<times> json) list option" where
  "any_json F JNull = Some JNull"
| "any_json F (JBool b) = Some (JBool b)"
| "any_json F (JNum t) = map_option JNum (F t)"
| "any_json F (JStr s) = Some (JStr s)"
| "any_json F (JArr vs) = map_option JArr (any_list F vs)"
| "any_json F (JObj ms) = map_option (\<lambda>ms'. JObj (go_map ms')) (any_members F ms)"
| "any_list F [] = Some []"
| "any_list F (v # vs) = Option.bind (any_json F v) (\<lambda>v'. map_option ((#) v') (any_list F vs))"
| "any_members F [] = Some []"
| "any_members F ((k, v) # ms) = Option.bind (any_json F v) (\<lambda>v'. map_option ((#) (k, v')) (any_members F ms))"

text \<open>\<^verbatim>\<open>json.Unmarshal\<close> into a nil \<^verbatim>\<open>map[string]any\<close>, and \<^verbatim>\<open>json.Marshal\<close> of such a map.\<close>

definition unmarshal_map :: "(bytes \<Rightarrow> bytes option) \<Rightarrow> bytes \<Rightarrow> err + (bytes \<times> json) list option" where
  "unmarshal_map F s = (case json_parse s of
       Some JNull \<Rightarrow> Inr None
     | Some (JObj ms) \<Rightarrow> (case any_members F ms of None \<Rightarrow> Inl err_json | Some ms' \<Rightarrow> Inr (Some (go_map ms')))
     | _ \<Rightarrow> Inl err_json)"

definition marshal_map :: "(bytes \<times> json) list option \<Rightarrow> bytes" where
  "marshal_map m = (case m of None \<Rightarrow> json_print JNull | Some ms \<Rightarrow> json_print (JObj ms))"

definition map_delete :: "bytes \<Rightarrow> (bytes \<times> json) list option \<Rightarrow> (bytes \<times> json) list option" where
  "map_delete k m = map_option (filter (\<lambda>(k', v). k' \<noteq> k)) m"

text \<open>
  \<^verbatim>\<open>json.Marshal\<close> of a \<^verbatim>\<open>json.RawMessage\<close>: white space between tokens goes, and what HTML could take
  for markup is escaped. The first argument says whether the text is inside a string.
\<close>

fun compact :: "bool \<Rightarrow> bytes \<Rightarrow> bytes" where
  "compact q [] = []"
| "compact False (b # bs) =
     (if b \<in> {32, 9, 10, 13} then compact False bs else b # compact (b = 34) bs)"
| "compact True (b # bs) =
     (if b = 34 then b # compact False bs
      else if b = 92 then (case bs of [] \<Rightarrow> [b] | c # cs \<Rightarrow> b # c # compact True cs)
      else if b \<in> {60, 62, 38} then [92, 117, 48, 48, hexd (b div 16), hexd (b mod 16)] @ compact True bs
      else (case bs of
          c # d # ds \<Rightarrow> if b = 226 \<and> c = 128 \<and> (d = 168 \<or> d = 169)
            then [92, 117, 50, 48, 50, hexd (d mod 16)] @ compact True ds else b # compact True bs
        | _ \<Rightarrow> b # compact True bs))"

definition raw_marshal :: "bytes option \<Rightarrow> err + bytes" where
  "raw_marshal r = (case r of
       None \<Rightarrow> Inr (json_print JNull)
     | Some s \<Rightarrow> if json_parse s = None then Inl err_json else Inr (compact False s))"

section \<open>Facts\<close>

lemma set_go_map: "fst ` set (go_map ms) = fst ` set ms"
  by (force simp: go_map_def)

lemma go_map_sorted: "sorted (map fst (go_map ms))" "distinct (map fst (go_map ms))"
  by (simp_all add: go_map_def comp_def)

lemma go_map_last: "map_of (go_map ms) = map_of (rev ms)"
proof (rule ext)
  fix k
  have "map_of (go_map ms) k = (if k \<in> fst ` set ms then Some (the (map_of (rev ms) k)) else None)"
    by (simp add: go_map_def map_of_map_restrict restrict_map_def comp_def)
  moreover have "map_of (rev ms) k = None \<longleftrightarrow> k \<notin> fst ` set ms" by (simp add: map_of_eq_None_iff)
  ultimately show "map_of (go_map ms) k = map_of (rev ms) k" by (cases "map_of (rev ms) k") auto
qed

text \<open>A text that is printed from a value with no member \<open>k\<close> at its top.\<close>

definition no_key :: "bytes \<Rightarrow> bytes \<Rightarrow> bool" where
  "no_key k r \<longleftrightarrow> (\<exists>v. r = json_print v \<and> (\<forall>ms. v = JObj ms \<longrightarrow> k \<notin> fst ` set ms))"

lemma no_key_deleted: "no_key k (marshal_map (map_delete k m))"
proof (cases m)
  case None
  then show ?thesis unfolding no_key_def by (intro exI [of _ JNull]) (simp add: marshal_map_def map_delete_def)
next
  case (Some ms)
  then show ?thesis unfolding no_key_def
    by (intro exI [of _ "JObj (filter (\<lambda>(k', v). k' \<noteq> k) ms)"]) (auto simp: marshal_map_def map_delete_def)
qed

lemma no_key_marshal: "k \<notin> fst ` set kvs \<Longrightarrow> no_key k (json_marshal kvs)"
  unfolding no_key_def json_marshal_print by (intro exI conjI, rule refl) force

end
