(* ===== verification/Rpc_Proxy.thy ===== *)
theory Rpc_Proxy
  imports Login_Tokens Go_Json_Values
begin

text \<open>
  The package \<^verbatim>\<open>internal/rpcproxy\<close>: the proxy between a Juju client and the controller that hosts a
  model. Two goroutines share the state: one takes messages from the client to the controller, the
  other takes the answers back and logs in again when the controller asks for more permissions.
  Messages are passed by pointer, so they live in a store of cells: the login message that is kept
  for later may also be a message in flight. The body of each loop is cut where it touches what
  the other goroutine can change; \<open>proxy_run\<close> interleaves the parts.
\<close>

section \<open>Messages\<close>

text \<open>\<^verbatim>\<open>nil\<close> raw messages and maps are \<open>None\<close>. The time stamp serves a metric only.\<close>

record message =
  RequestID :: nat
  msg_Type :: string
  Version :: int
  msg_ID :: string
  Request :: string
  Params :: "bytes option"
  msg_Error :: string
  msg_ErrorCode :: string
  msg_ErrorInfo :: "(string \<times> any_val) list option"
  Response :: "bytes option"

definition empty_message :: message where
  "empty_message = \<lparr>RequestID = 0, msg_Type = '''', Version = 0, msg_ID = '''', Request = '''', Params = None,
     msg_Error = '''', msg_ErrorCode = '''', msg_ErrorInfo = None, Response = None\<rparr>"

definition accessRequiredErrorCode :: string where
  "accessRequiredErrorCode = ''access required''"

text \<open>
  Juju's \<^verbatim>\<open>rpc/params\<close>: the fields the proxy uses of an error, as results of a bulk call have them,
  and of a login request. \<open>lr_rest\<close> is the rest of the request, which is kept as it is.
\<close>

record juju_error =
  je_Message :: string
  je_Code :: string
  je_Info :: "(string \<times> any_val) list option"

record login_request =
  lr_AuthTag :: string
  lr_Token :: string
  lr_rest :: bytes

definition MachineTagKind :: string where "MachineTagKind = ''machine''"

definition UnitTagKind :: string where "UnitTagKind = ''unit''"

section \<open>State\<close>

text \<open>What the goroutines do next.\<close>

datatype client_pc =
    ClientReading
  | AddLogin nat
  | AddMessage nat
  | WriteRequest nat
  | ClientStopped

datatype controller_pc =
    NotConnected
  | ControllerReading
  | RedoLogin message "(string \<times> any_val) list"
  | WriteLogin message nat
  | Resend nat
  | ForwardReply message
  | WriteReply message
  | ControllerStopped

record 'd proxy =
  px_cells :: "nat \<Rightarrow> message"
  px_next :: nat
  px_messages :: "nat \<Rightarrow> nat option"
  px_loginMessage :: "nat option"
  px_tokenGen :: login_token_generator
  px_modelName :: string
  px_modelUUID :: string
  px_modelMigrationMode :: string
  px_controllerUUID :: string
  px_anonymousLogin :: bool
  px_controllerAnonymous :: bool
  px_deviceOAuthResponse :: "'d option"
  px_client :: client_pc
  px_controller :: controller_pc
  px_received :: "message list"
  px_toController :: "message list"
  px_toClient :: "message list"

record conn_metadata =
  cm_ControllerUUID :: string
  cm_ModelName :: string
  cm_ModelUUID :: string
  cm_MigrationMode :: string

record audit_entry =
  ale_MessageId :: nat
  ale_IdentityTag :: string
  ale_Model :: string
  ale_ConversationId :: string
  ale_FacadeName :: string
  ale_FacadeMethod :: string
  ale_FacadeVersion :: int
  ale_IsResponse :: bool
  ale_ObjectId :: string
  ale_Params :: bytes
  ale_Errors :: bytes

record ('w, 'd) login_service =
  ls_LoginDevice :: "('w, 'd option) io"
  ls_GetDeviceSessionToken :: "'d option \<Rightarrow> ('w, string) io"
  ls_LoginClientCredentials :: "string \<Rightarrow> string \<Rightarrow> ('w, ofga_user) io"
  ls_LoginWithSessionToken :: "string \<Rightarrow> ('w, ofga_user) io"
  ls_LoginWithSessionCookie :: "string \<Rightarrow> ('w, ofga_user) io"

text \<open>
  \<^verbatim>\<open>ProxyHelpers\<close> and what the proxy uses of libraries: the two websockets (a client that sends
  \<^verbatim>\<open>null\<close> leaves a nil pointer), the codecs of Juju's types, the details of the device flow and the
  text of a float64. \<open>ph_RedirectInfo\<close> includes the conversion of the details to a map.
\<close>

record ('w, 'd) proxy_helpers =
  ph_E :: "'w externals"
  ph_TokenGen :: "'w token_factory"
  ph_order :: map_order
  ph_ConnectController :: "(login_token_generator \<times> 'w, err, conn_metadata) comp"
  ph_AuditLog :: "audit_entry \<Rightarrow> ('w, unit) io"
  ph_LoginService :: "('w, 'd) login_service"
  ph_AuthenticatedIdentityID :: string
  ph_RedirectInfo :: "('w, info) io"
  ph_conversationId :: string
  ph_readClient :: "('w, message option) io"
  ph_writeClient :: "message \<Rightarrow> ('w, unit) io"
  ph_readController :: "('w, message) io"
  ph_writeController :: "message \<Rightarrow> ('w, unit) io"
  ph_unexpectedReadError :: "err \<Rightarrow> bool"
  ph_AnonymousUsername :: string
  ph_VerificationURI :: "'d \<Rightarrow> string"
  ph_UserCode :: "'d \<Rightarrow> string"
  ph_decode_errors :: "bytes \<Rightarrow> err + juju_error option list"
  ph_encode_errors :: "juju_error option list \<Rightarrow> err + bytes"
  ph_decode_login :: "bytes \<Rightarrow> err + login_request"
  ph_encode_login :: "login_request \<Rightarrow> err + bytes"
  ph_float_text :: "bytes \<Rightarrow> bytes option"

type_synonym ('w, 'd, 'a) px = "('d proxy \<times> 'w, err, 'a) comp"

text \<open>The bytes \<^verbatim>\<open>json.Unmarshal\<close> sees of a raw message.\<close>

definition raw :: "bytes option \<Rightarrow> bytes" where
  "raw r = (case r of None \<Rightarrow> [] | Some s \<Rightarrow> s)"

text \<open>A method of the token generator, an object inside the object.\<close>

definition on_gen :: "(login_token_generator \<times> 'w, err, 'a) comp \<Rightarrow> ('w, 'd, 'a) px" where
  "on_gen m = (\<lambda>(s, w). case m (px_tokenGen s, w) of (r, (g, w')) \<Rightarrow> (r, (s\<lparr>px_tokenGen := g\<rparr>, w')))"

section \<open>Messages in flight\<close>

definition addLoginMessage :: "nat \<Rightarrow> ('w, 'd, unit) px" where
  "addLoginMessage a = obj_update (\<lambda>s. s\<lparr>px_loginMessage := Some a\<rparr>)"

definition getLoginMessage :: "('w, 'd, nat option) px" where
  "getLoginMessage = go_bind obj_get (\<lambda>s. go_return (px_loginMessage s))"

definition addMessage :: "nat \<Rightarrow> ('w, 'd, unit) px" where
  "addMessage a = obj_update (\<lambda>s. s\<lparr>px_messages := (px_messages s)(RequestID (px_cells s a) \<mapsto> a)\<rparr>)"

definition removeMessage :: "nat \<Rightarrow> ('w, 'd, unit) px" where
  "removeMessage msgID = obj_update (\<lambda>s. s\<lparr>px_messages := (px_messages s)(msgID := None)\<rparr>)"

definition getMessage :: "nat \<Rightarrow> ('w, 'd, nat option) px" where
  "getMessage key = go_bind obj_get (\<lambda>s. go_return (px_messages s key))"

text \<open>A message that will be shared gets a cell.\<close>

definition new_cell :: "message \<Rightarrow> ('w, 'd, nat) px" where
  "new_cell m = go_bind obj_get (\<lambda>s.
     go_bind (obj_update (\<lambda>s. s\<lparr>px_cells := (px_cells s)(px_next s := m), px_next := Suc (px_next s)\<rparr>)) (\<lambda>_.
     go_return (px_next s)))"

section \<open>Writing to the sockets\<close>

definition to_client :: "('w, 'd) proxy_helpers \<Rightarrow> message \<Rightarrow> ('w, 'd, unit) px" where
  "to_client H m = go_bind (obj_update (\<lambda>s. s\<lparr>px_toClient := px_toClient s @ [m]\<rparr>)) (\<lambda>_. in_world (ph_writeClient H m))"

definition to_controller :: "('w, 'd) proxy_helpers \<Rightarrow> message \<Rightarrow> ('w, 'd, unit) px" where
  "to_controller H m =
     go_bind (obj_update (\<lambda>s. s\<lparr>px_toController := px_toController s @ [m]\<rparr>)) (\<lambda>_. in_world (ph_writeController H m))"

text \<open>An error that is only logged.\<close>

definition logged :: "('w, 'd, unit) px \<Rightarrow> ('w, 'd, unit) px" where
  "logged m = go_bind (go_try m) (\<lambda>_. go_return ())"

text \<open>\<^verbatim>\<open>sendMessage(nil, request)\<close>, the only way it is called.\<close>

definition sendMessage :: "('w, 'd) proxy_helpers \<Rightarrow> message \<Rightarrow> ('w, 'd, unit) px" where
  "sendMessage H request = logged (to_client H (empty_message\<lparr>RequestID := RequestID request, Response := Response request\<rparr>))"

definition createErrResponse :: "('w, 'd) proxy_helpers \<Rightarrow> err \<Rightarrow> message \<Rightarrow> message" where
  "createErrResponse H e req = empty_message\<lparr>RequestID := RequestID req,
     msg_ErrorInfo := map_option (map (\<lambda>(k, v). (k, StrVal v))) (ErrorInfo (Some e)),
     msg_Error := err_text (ph_E H) e,
     msg_ErrorCode := code_string (juju_code_text (ph_E H)) (ErrorCode (Some e))\<rparr>"

definition px_GetUser :: "('w, 'd) proxy_helpers \<Rightarrow> ('w, 'd, tag) px" where
  "px_GetUser H = go_bind obj_get (\<lambda>s. in_world (GetUser (ph_E H) (px_tokenGen s)))"

definition auditLogMessage :: "('w, 'd) proxy_helpers \<Rightarrow> message option \<Rightarrow> bool \<Rightarrow> ('w, 'd, unit) px" where
  "auditLogMessage H msg isResponse =
     go_bind (go_some ''nil pointer dereference'' msg) (\<lambda>msg.
     go_bind (px_GetUser H) (\<lambda>user.
     go_bind obj_get (\<lambda>s.
     let ale = \<lparr>ale_MessageId = RequestID msg, ale_IdentityTag = tag_String user, ale_Model = px_modelName s,
           ale_ConversationId = ph_conversationId H, ale_FacadeName = msg_Type msg, ale_FacadeMethod = Request msg,
           ale_FacadeVersion = Version msg, ale_IsResponse = isResponse, ale_ObjectId = msg_ID msg,
           ale_Params = [], ale_Errors = []\<rparr> in
     if isResponse
     then go_bind (go_maperr (wrapped ''failed to unmarshal message response: %w'') (go_sum (case Response msg of
           None \<Rightarrow> Inr [] | Some r \<Rightarrow> ph_decode_errors H r))) (\<lambda>allErrors.
       go_bind (go_maperr (wrapped ''failed to marshal all errors: %w'') (go_sum (ph_encode_errors H
           (allErrors @ [Some \<lparr>je_Message = msg_Error msg, je_Code = msg_ErrorCode msg, je_Info = msg_ErrorInfo msg\<rparr>])))) (\<lambda>jsonErr.
       in_world (ph_AuditLog H (ale\<lparr>ale_Errors := jsonErr\<rparr>))))
     else go_bind (go_sum (raw_marshal (Params msg))) (\<lambda>jsonBody.
       in_world (ph_AuditLog H (ale\<lparr>ale_Params := jsonBody\<rparr>))))))"

text \<open>The log line of an unauthorised access asks for the user, so that the call can panic.\<close>

definition sendError :: "('w, 'd) proxy_helpers \<Rightarrow> message option \<Rightarrow> err \<Rightarrow> ('w, 'd, unit) px" where
  "sendError H req e = (case req of
       None \<Rightarrow> go_return ()
     | Some m \<Rightarrow>
         go_bind (if ErrorCode (Some e) = CodeUnauthorized then go_bind (px_GetUser H) (\<lambda>_. go_return ()) else go_return ()) (\<lambda>_.
         go_bind (logged (to_client H (createErrResponse H e m))) (\<lambda>_.
         logged (auditLogMessage H (Some (createErrResponse H e m)) True))))"

section \<open>From the client to the controller\<close>

definition login_message :: "('w, 'd) proxy_helpers \<Rightarrow> message \<Rightarrow> ofga_user \<Rightarrow> ('w, 'd, message option \<times> message option) px" where
  "login_message H msg user =
     go_bind (on_gen (MakeLoginToken (ph_E H) (ph_TokenGen H) (ph_order H) (Some user))) (\<lambda>jwt.
     go_bind (in_world (juju_tag (ph_E H) UserTagKind (u_Name user))) (\<lambda>t.
     go_bind (go_sum (ph_encode_login H \<lparr>lr_AuthTag = tag_String t, lr_Token = EncodeToString jwt, lr_rest = []\<rparr>)) (\<lambda>data.
     go_return (None, Some (msg\<lparr>msg_Type := ''Admin'', Request := ''Login'', Version := 3, Params := Some data\<rparr>)))))"

definition handleLegacyLogin :: "('w, 'd) proxy_helpers \<Rightarrow> message \<Rightarrow> ('w, 'd, message) px" where
  "handleLegacyLogin H msg =
     go_bind (go_sum (ph_decode_login H (raw (Params msg)))) (\<lambda>request.
     case names_ParseTag (ph_E H) (lr_AuthTag request) of
       Inl e \<Rightarrow> go_err (ErrFmt ''invalid user tag: %v'' [] None)
     | Inr t \<Rightarrow>
         if Kind t = UserTagKind
         then if Id t = ph_AnonymousUsername H
           then go_bind (obj_update (\<lambda>s. s\<lparr>px_anonymousLogin := True\<rparr>)) (\<lambda>_. go_return msg)
           else go_err (Codef CodeNotSupported (ErrNew ''JIMM does not support login from old clients''))
         else if Kind t \<in> {ModelTagKind, MachineTagKind, UnitTagKind}
         then go_bind (in_world (go_maperr (wrapped ''failed to get redirect info: %w'') (ph_RedirectInfo H))) (\<lambda>info.
           go_err (Error CodeRedirect ''redirection to alternative server required'' (Some info) None))
         else go_err (ErrFmt ''unsupported login request for tag %s'' [tag_String t] None))"

text \<open>
  A message to be returned to the client, or one to be sent to the controller. The requests and
  answers of the login methods are structs of strings.
\<close>

definition answer :: "message \<Rightarrow> (string \<times> string) list \<Rightarrow> ('w, 'd, message option \<times> message option) px" where
  "answer msg kvs = go_return (Some (msg\<lparr>Response := Some (json_marshal (map (\<lambda>(k, v). (bytes_of k, bytes_of v)) kvs))\<rparr>), None)"

definition request_fields :: "string list \<Rightarrow> message \<Rightarrow> ('w, 'd, string list) px" where
  "request_fields fs msg = go_bind (go_sum (json_unmarshal (map bytes_of fs) (raw (Params msg)))) (\<lambda>m.
     go_return (map (\<lambda>f. string_of (m (bytes_of f))) fs))"

definition handleAdminFacade :: "('w, 'd) proxy_helpers \<Rightarrow> message \<Rightarrow> ('w, 'd, message option \<times> message option) px" where
  "handleAdminFacade H msg = (let L = ph_LoginService H in
     if Request msg = ''LoginDevice'' then
       go_bind (in_world (ls_LoginDevice L)) (\<lambda>deviceResponse.
       go_bind (obj_update (\<lambda>s. s\<lparr>px_deviceOAuthResponse := deviceResponse\<rparr>)) (\<lambda>_.
       go_bind (in_world (deref deviceResponse)) (\<lambda>d.
       answer msg [(''verification-uri'', ph_VerificationURI H d), (''user-code'', ph_UserCode H d)])))
     else if Request msg = ''GetDeviceSessionToken'' then
       go_bind obj_get (\<lambda>s.
       go_bind (in_world (ls_GetDeviceSessionToken L (px_deviceOAuthResponse s))) (\<lambda>sessionToken.
       answer msg [(''session-token'', sessionToken)]))
     else if Request msg = ''LoginWithSessionToken'' then
       go_bind (request_fields [''session-token''] msg) (\<lambda>request.
       go_bind (in_world (ls_LoginWithSessionToken L (request ! 0))) (login_message H msg))
     else if Request msg = ''LoginWithClientCredentials'' then
       go_bind (request_fields [''client-id'', ''client-secret''] msg) (\<lambda>request.
       go_bind (in_world (ls_LoginClientCredentials L (request ! 0) (request ! 1))) (login_message H msg))
     else if Request msg = ''LoginWithSessionCookie'' then
       go_bind (in_world (ls_LoginWithSessionCookie L (ph_AuthenticatedIdentityID H))) (login_message H msg)
     else if Request msg = ''Login'' then
       go_bind (handleLegacyLogin H msg) (\<lambda>controllerMessage. go_return (None, Some controllerMessage))
     else go_return (None, None))"

text \<open>
  \<^verbatim>\<open>makeControllerConnection\<close>: the first message connects and starts the other goroutine. A failed
  attempt ends the loop, so that there is no second one.
\<close>

definition makeControllerConnection :: "('w, 'd) proxy_helpers \<Rightarrow> ('w, 'd, unit) px" where
  "makeControllerConnection H = go_bind obj_get (\<lambda>s.
     if px_controller s \<noteq> NotConnected then go_return ()
     else go_bind (on_gen (ph_ConnectController H)) (\<lambda>c.
       obj_update (\<lambda>s. s\<lparr>px_controllerUUID := cm_ControllerUUID c, px_modelName := cm_ModelName c, px_modelUUID := cm_ModelUUID c,
         px_modelMigrationMode := cm_MigrationMode c, px_controller := ControllerReading\<rparr>)))"

definition client_goto :: "client_pc \<Rightarrow> ('w, 'd, unit) px" where
  "client_goto pc = obj_update (\<lambda>s. s\<lparr>px_client := pc\<rparr>)"

text \<open>The loop of \<^verbatim>\<open>clientProxy.start\<close>, up to where a message is registered for the controller.\<close>

definition dispatch :: "('w, 'd) proxy_helpers \<Rightarrow> message \<Rightarrow> ('w, 'd, unit) px" where
  "dispatch H msg =
     (if msg_Type msg = ''Admin''
      then go_bind (go_try (handleAdminFacade H msg)) (\<lambda>r. case r of
          Inl e \<Rightarrow> sendError H (Some msg) e
        | Inr (Some toClient, _) \<Rightarrow> sendMessage H toClient
        | Inr (None, Some toController) \<Rightarrow> go_bind (new_cell toController) (\<lambda>a. client_goto (AddLogin a))
        | Inr (None, None) \<Rightarrow> go_bind (new_cell msg) (\<lambda>a. client_goto (AddMessage a)))
      else go_bind (new_cell msg) (\<lambda>a. client_goto (AddMessage a)))"

definition receive_request :: "('w, 'd) proxy_helpers \<Rightarrow> ('w, 'd, unit) px" where
  "receive_request H =
     go_bind (go_try (in_world (ph_readClient H))) (\<lambda>r. case r of
       Inl e \<Rightarrow> if ph_unexpectedReadError H e then go_err e else client_goto ClientStopped
     | Inr msg \<Rightarrow>
         go_bind (obj_update (\<lambda>s. s\<lparr>px_received := px_received s @ (case msg of None \<Rightarrow> [] | Some m \<Rightarrow> [m])\<rparr>)) (\<lambda>_.
         go_bind (go_try (makeControllerConnection H)) (\<lambda>c. case c of
           Inl e \<Rightarrow> go_bind (sendError H msg e) (\<lambda>_. go_err (wrapped ''failed to connect to controller: %w'' e))
         | Inr _ \<Rightarrow>
             go_bind (logged (auditLogMessage H msg False)) (\<lambda>_.
             go_bind (go_some ''nil pointer dereference'' msg) (dispatch H)))))"

definition write_request :: "('w, 'd) proxy_helpers \<Rightarrow> nat \<Rightarrow> ('w, 'd, unit) px" where
  "write_request H a = go_bind obj_get (\<lambda>s. let msg = px_cells s a in
     go_bind (go_try (to_controller H msg)) (\<lambda>r. case r of
       Inr _ \<Rightarrow> go_return ()
     | Inl e \<Rightarrow> go_bind (sendError H (Some msg) e) (\<lambda>_. removeMessage (RequestID msg))))"

text \<open>One step of the goroutine.\<close>

definition client_step :: "('w, 'd) proxy_helpers \<Rightarrow> client_pc \<Rightarrow> ('w, 'd, unit) px" where
  "client_step H pc = (case pc of
       ClientReading \<Rightarrow> receive_request H
     | AddLogin a \<Rightarrow> go_bind (addLoginMessage a) (\<lambda>_. client_goto (AddMessage a))
     | AddMessage a \<Rightarrow> go_bind (addMessage a) (\<lambda>_. client_goto (WriteRequest a))
     | WriteRequest a \<Rightarrow> go_bind (write_request H a) (\<lambda>_. client_goto ClientReading)
     | ClientStopped \<Rightarrow> go_return ())"

section \<open>From the controller to the client\<close>

definition controller_goto :: "controller_pc \<Rightarrow> ('w, 'd, unit) px" where
  "controller_goto pc = obj_update (\<lambda>s. s\<lparr>px_controller := pc\<rparr>)"

text \<open>The entries of the errors that ask for access; a level that is not a string is an error.
  They go into a map.\<close>

fun required_entries :: "(string \<times> any_val) list \<Rightarrow> (string \<times> any_val) list option" where
  "required_entries [] = Some []"
| "required_entries ((k, StrVal v) # rest) = map_option ((#) (k, StrVal v)) (required_entries rest)"
| "required_entries ((k, OtherVal) # rest) = None"

fun last_wins :: "('k \<times> 'v) list \<Rightarrow> ('k \<times> 'v) list" where
  "last_wins [] = []"
| "last_wins ((k, v) # rest) = (if k \<in> fst ` set rest then last_wins rest else (k, v) # last_wins rest)"

definition checkPermissionsRequired :: "('w, 'd) proxy_helpers \<Rightarrow> message \<Rightarrow> err + (string \<times> any_val) list option" where
  "checkPermissionsRequired H msg =
     (if msg_ErrorCode msg = accessRequiredErrorCode then Inr (msg_ErrorInfo msg)
      else if raw (Response msg) = [] then Inr None
      else (case ph_decode_errors H (raw (Response msg)) of
          Inl e \<Rightarrow> Inr None
        | Inr results \<Rightarrow>
            (case required_entries (concat (map (\<lambda>r. case r of
                 Some je \<Rightarrow> if je_Code je = accessRequiredErrorCode
                   then (case je_Info je of None \<Rightarrow> [] | Some info \<Rightarrow> info) else []
               | None \<Rightarrow> []) results)) of
               None \<Rightarrow> Inl (ErrNew ''unknown permission level'')
             | Some [] \<Rightarrow> Inr None
             | Some entries \<Rightarrow> Inr (Some (last_wins entries)))))"

definition handleError :: "('w, 'd) proxy_helpers \<Rightarrow> message \<Rightarrow> err \<Rightarrow> ('w, 'd, unit) px" where
  "handleError H msg e = go_bind (sendError H (Some msg) e) (\<lambda>_. removeMessage (RequestID msg))"

definition addJWT :: "('w, 'd) proxy_helpers \<Rightarrow> nat \<Rightarrow> (string \<times> any_val) list option \<Rightarrow> ('w, 'd, unit) px" where
  "addJWT H a permissions =
     go_bind obj_get (\<lambda>s.
     go_bind (go_sum (ph_decode_login H (raw (Params (px_cells s a))))) (\<lambda>lr.
     go_bind (on_gen (MakeToken (ph_E H) (ph_TokenGen H) permissions)) (\<lambda>jwt.
     go_bind (go_sum (ph_encode_login H (lr\<lparr>lr_Token := EncodeToString jwt\<rparr>))) (\<lambda>data.
     obj_update (\<lambda>s. s\<lparr>px_cells := (px_cells s)(a := (px_cells s a)\<lparr>Params := Some data\<rparr>)\<rparr>)))))"

text \<open>\<^verbatim>\<open>redoLogin\<close> up to its write.\<close>

definition redoLogin :: "('w, 'd) proxy_helpers \<Rightarrow> (string \<times> any_val) list option \<Rightarrow> ('w, 'd, nat) px" where
  "redoLogin H permissions = go_bind obj_get (\<lambda>s.
     if px_controllerAnonymous s
     then go_err (Codef CodeUnauthorized (ErrNew ''Anonymous login does not support re-authentication''))
     else go_bind getLoginMessage (\<lambda>loginMsg. case loginMsg of
         None \<Rightarrow> go_err (Codef CodeUnauthorized (ErrNew ''Haven't received login yet''))
       | Some a \<Rightarrow> go_bind (addJWT H a permissions) (\<lambda>_. go_return a)))"

text \<open>\<^verbatim>\<open>processControllerErrors\<close> as far as it looks at the message.\<close>

definition classify_reply :: "('w, 'd) proxy_helpers \<Rightarrow> message \<Rightarrow> ('w, 'd, unit) px" where
  "classify_reply H msg = go_bind obj_get (\<lambda>s.
     if (px_modelMigrationMode s = MigrationModeMigrateInternal \<or> px_modelMigrationMode s = MigrationModeExporting)
         \<and> msg_ErrorCode msg = code_string (juju_code_text (ph_E H)) CodeUnauthorized
     then controller_goto (ForwardReply (msg\<lparr>msg_ErrorCode := code_string (juju_code_text (ph_E H)) CodeModelMigrating,
       msg_Error := ''model is finishing migration, please retry later''\<rparr>))
     else (case checkPermissionsRequired H msg of
         Inl e \<Rightarrow> go_bind (handleError H msg e) (\<lambda>_. controller_goto ControllerReading)
       | Inr None \<Rightarrow> controller_goto (ForwardReply msg)
       | Inr (Some permissionsRequired) \<Rightarrow> controller_goto (RedoLogin msg permissionsRequired)))"

definition receive_reply :: "('w, 'd) proxy_helpers \<Rightarrow> ('w, 'd, unit) px" where
  "receive_reply H = go_bind (go_try (in_world (ph_readController H))) (\<lambda>r. case r of
       Inl e \<Rightarrow> if ph_unexpectedReadError H e then go_err e else controller_goto ControllerStopped
     | Inr msg \<Rightarrow> classify_reply H msg)"

definition redo_step :: "('w, 'd) proxy_helpers \<Rightarrow> message \<Rightarrow> (string \<times> any_val) list \<Rightarrow> ('w, 'd, unit) px" where
  "redo_step H msg perms = go_bind (go_try (redoLogin H (Some perms))) (\<lambda>r. case r of
       Inl e \<Rightarrow> go_bind (handleError H msg e) (\<lambda>_. controller_goto ControllerReading)
     | Inr a \<Rightarrow> controller_goto (WriteLogin msg a))"

definition write_login :: "('w, 'd) proxy_helpers \<Rightarrow> message \<Rightarrow> nat \<Rightarrow> ('w, 'd, unit) px" where
  "write_login H msg a = go_bind obj_get (\<lambda>s.
     go_bind (go_try (to_controller H (px_cells s a))) (\<lambda>r. case r of
       Inl e \<Rightarrow> go_bind (handleError H msg e) (\<lambda>_. controller_goto ControllerReading)
     | Inr _ \<Rightarrow> controller_goto (Resend (RequestID msg))))"

definition resend :: "('w, 'd) proxy_helpers \<Rightarrow> nat \<Rightarrow> ('w, 'd, unit) px" where
  "resend H i = go_bind obj_get (\<lambda>s. go_bind (getMessage i) (\<lambda>m. case m of
       None \<Rightarrow> go_return ()
     | Some a \<Rightarrow> logged (to_controller H (px_cells s a))))"

definition modifyControllerResponse :: "('w, 'd) proxy_helpers \<Rightarrow> message \<Rightarrow> err + message" where
  "modifyControllerResponse H msg = (case unmarshal_map (ph_float_text H) (raw (Response msg)) of
       Inl e \<Rightarrow> Inl e
     | Inr response \<Rightarrow> Inr (msg\<lparr>Response := Some (marshal_map (map_delete (bytes_of ''servers'') response))\<rparr>))"

definition forward_reply :: "('w, 'd) proxy_helpers \<Rightarrow> message \<Rightarrow> ('w, 'd, unit) px" where
  "forward_reply H msg = (case modifyControllerResponse H msg of
       Inl e \<Rightarrow> go_bind (handleError H msg e) (\<lambda>_. go_err (wrapped ''error modifying controller response: %w'' e))
     | Inr msg \<Rightarrow> go_bind (removeMessage (RequestID msg)) (\<lambda>_. controller_goto (WriteReply msg)))"

definition write_reply :: "('w, 'd) proxy_helpers \<Rightarrow> message \<Rightarrow> ('w, 'd, unit) px" where
  "write_reply H msg = go_bind (logged (auditLogMessage H (Some msg) True)) (\<lambda>_.
     go_bind (go_maperr (wrapped ''error writing message to client: %w'') (to_client H msg)) (\<lambda>_.
     controller_goto ControllerReading))"

definition controller_step :: "('w, 'd) proxy_helpers \<Rightarrow> controller_pc \<Rightarrow> ('w, 'd, unit) px" where
  "controller_step H pc = (case pc of
       ControllerReading \<Rightarrow> receive_reply H
     | RedoLogin msg perms \<Rightarrow> redo_step H msg perms
     | WriteLogin msg a \<Rightarrow> write_login H msg a
     | Resend i \<Rightarrow> go_bind (resend H i) (\<lambda>_. controller_goto ControllerReading)
     | ForwardReply msg \<Rightarrow> forward_reply H msg
     | WriteReply msg \<Rightarrow> write_reply H msg
     | _ \<Rightarrow> go_return ())"

section \<open>Connections\<close>

definition new_proxy :: "'d proxy" where
  "new_proxy = \<lparr>px_cells = (\<lambda>_. empty_message), px_next = 0, px_messages = Map.empty, px_loginMessage = None,
     px_tokenGen = newLoginTokenGenerator, px_modelName = '''', px_modelUUID = '''', px_modelMigrationMode = '''',
     px_controllerUUID = '''', px_anonymousLogin = False, px_controllerAnonymous = False, px_deviceOAuthResponse = None,
     px_client = ClientReading, px_controller = NotConnected, px_received = [], px_toController = [], px_toClient = []\<rparr>"

text \<open>
  \<^verbatim>\<open>ProxySockets\<close>: the helpers that must be there (\<open>False\<close> is nil) and what the connection starts
  with.
\<close>

definition ProxySockets :: "bool \<Rightarrow> bool \<Rightarrow> bool \<Rightarrow> bool \<Rightarrow> err + 'd proxy" where
  "ProxySockets connectController auditLog loginService redirectInfo =
     (if \<not> connectController then Inl (ErrNew ''missing controller connect function'')
      else if \<not> auditLog then Inl (ErrNew ''missing audit log function'')
      else if \<not> loginService then Inl (ErrNew ''missing login service function'')
      else if \<not> redirectInfo then Inl (ErrNew ''missing redirect info function'')
      else Inr new_proxy)"

text \<open>
  Runs of a connection: steps of the two goroutines in any order, and the rest of the world in
  between. A goroutine that returns an error has stopped; a panic ends the process, so a run ends
  there. Beside the state and the world a run has the states of the authorisation data at its
  steps and the number of times it has logged in again.
\<close>

definition stop_on_error :: "('d proxy \<Rightarrow> 'd proxy) \<Rightarrow> ('w, 'd, unit) px \<Rightarrow> ('w, 'd, unit) px" where
  "stop_on_error stop m = go_bind (go_try m) (\<lambda>r. case r of Inl e \<Rightarrow> obj_update stop | Inr _ \<Rightarrow> go_return ())"

fun logging_in :: "controller_pc \<Rightarrow> bool" where
  "logging_in (WriteLogin m a) = True"
| "logging_in _ = False"

inductive proxy_run :: "('w, 'd) proxy_helpers \<Rightarrow> ('w \<Rightarrow> tup set) \<Rightarrow> 'd proxy \<times> 'w \<times> tup set set \<times> nat \<Rightarrow> bool"
  for H :: "('w, 'd) proxy_helpers" and store :: "'w \<Rightarrow> tup set" where
  accepted: "proxy_run H store (new_proxy, w, {}, 0)"
| client: "proxy_run H store (s, w, W, n) \<Longrightarrow>
    stop_on_error (\<lambda>s. s\<lparr>px_client := ClientStopped\<rparr>) (client_step H (px_client s)) (s, w) = (Ok (), (s', w')) \<Longrightarrow>
    proxy_run H store (s', w', insert (store w) W, n)"
| controller: "proxy_run H store (s, w, W, n) \<Longrightarrow>
    stop_on_error (\<lambda>s. s\<lparr>px_controller := ControllerStopped\<rparr>) (controller_step H (px_controller s)) (s, w) = (Ok (), (s', w')) \<Longrightarrow>
    proxy_run H store (s', w', insert (store w) W, if logging_in (px_controller s') then Suc n else n)"
| elsewhere: "proxy_run H store (s, w, W, n) \<Longrightarrow> proxy_run H store (s, w', W, n)"

end
