(* ===== verification/Proxy_Gateway.thy ===== *)
theory Proxy_Gateway
  imports Rpc_Proxy
begin

text \<open>
  What the proxy lets through, in every interleaving of its goroutines: no login reaches the
  controller but the ones JIMM made and anonymous ones, requests are passed on as they came, and
  clients are never told the addresses of the controller.
\<close>

section \<open>What is let through\<close>

definition is_login :: "message \<Rightarrow> bool" where
  "is_login m \<longleftrightarrow> msg_Type m = ''Admin'' \<and> Request m = ''Login''"

text \<open>A token of the JWT service that claims for a user only what the user had in one of the states \<open>W\<close>.\<close>

definition honest_token :: "'w externals \<Rightarrow> 'w token_factory \<Rightarrow> tup set set \<Rightarrow> string \<Rightarrow> bool" where
  "honest_token E F W tok \<longleftrightarrow> (\<exists>u ut ct c w w'. user_tag E u = Some ut
     \<and> tf_jwtService F (login_params ct ut c) w = (Ok tok, w')
     \<and> (\<forall>m k v. c = Some m \<longrightarrow> m k = Some v \<longrightarrow> (\<exists>S\<in>W. earned E S u k v)))"

definition jimm_login :: "('w, 'd) proxy_helpers \<Rightarrow> tup set set \<Rightarrow> message \<Rightarrow> bool" where
  "jimm_login H W m \<longleftrightarrow> is_login m \<and> (\<exists>lr tok data. Params m = Some data \<and> ph_encode_login H lr = Inr data
     \<and> lr_Token lr = EncodeToString tok \<and> honest_token (ph_E H) (ph_TokenGen H) W tok)"

definition anonymous_login :: "('w, 'd) proxy_helpers \<Rightarrow> message \<Rightarrow> bool" where
  "anonymous_login H m \<longleftrightarrow> (\<exists>lr t. ph_decode_login H (raw (Params m)) = Inr lr
     \<and> names_ParseTag (ph_E H) (lr_AuthTag lr) = Inr t \<and> Kind t = UserTagKind \<and> Id t = ph_AnonymousUsername H)"

definition passes :: "('w, 'd) proxy_helpers \<Rightarrow> tup set set \<Rightarrow> message set \<Rightarrow> message \<Rightarrow> bool" where
  "passes H W R m \<longleftrightarrow> jimm_login H W m \<or> (m \<in> R \<and> (is_login m \<longrightarrow> anonymous_login H m))"

definition no_servers :: "message \<Rightarrow> bool" where
  "no_servers m \<longleftrightarrow> (\<forall>r. Response m = Some r \<longrightarrow> no_key (bytes_of ''servers'') r)"

lemma honest_token_mono: "honest_token E F W tok \<Longrightarrow> W \<subseteq> W' \<Longrightarrow> honest_token E F W' tok"
  unfolding honest_token_def by (meson subsetD)

lemma jimm_login_mono: "jimm_login H W m \<Longrightarrow> W \<subseteq> W' \<Longrightarrow> jimm_login H W' m"
  unfolding jimm_login_def using honest_token_mono by blast

lemma passes_mono: "passes H W R m \<Longrightarrow> W \<subseteq> W' \<Longrightarrow> R \<subseteq> R' \<Longrightarrow> passes H W' R' m"
  unfolding passes_def using jimm_login_mono by blast

section \<open>The invariant\<close>

text \<open>What a goroutine knows of the cells it is about to use.\<close>

fun client_ok :: "client_pc \<Rightarrow> nat \<Rightarrow> (nat \<Rightarrow> message) \<Rightarrow> bool" where
  "client_ok (AddLogin a) n cells \<longleftrightarrow> a < n \<and> is_login (cells a)"
| "client_ok (AddMessage a) n cells \<longleftrightarrow> a < n"
| "client_ok (WriteRequest a) n cells \<longleftrightarrow> a < n"
| "client_ok _ n cells \<longleftrightarrow> True"

fun controller_ok :: "controller_pc \<Rightarrow> nat \<Rightarrow> bool" where
  "controller_ok (WriteLogin m a) n \<longleftrightarrow> a < n"
| "controller_ok (WriteReply m) n \<longleftrightarrow> no_servers m"
| "controller_ok _ n \<longleftrightarrow> True"

text \<open>
  The services the proxy calls change nothing in OpenFGA; connecting to the controller may set the
  tags of the token generator.
\<close>

locale rpc_proxy = login_tokens "ph_E H" store remaining "ph_TokenGen H" "ph_order H"
  for H :: "('w, 'd) proxy_helpers" and store :: "'w \<Rightarrow> tup set" and remaining +
  assumes connect: "ph_ConnectController H (g, w) = (q, (g', w')) \<Longrightarrow>
      store w' = store w \<and> (g' = g \<or> (\<exists>mt ct. g' = SetTags mt ct g))"
    and sockets: "frame store (ph_readClient H)" "frame store (ph_readController H)"
      "frame store (ph_writeClient H m)" "frame store (ph_writeController H m)"
    and audit_frame: "frame store (ph_AuditLog H ale)"
    and redirect_frame: "frame store (ph_RedirectInfo H)"
    and login_frames: "frame store (ls_LoginDevice (ph_LoginService H))"
      "frame store (ls_GetDeviceSessionToken (ph_LoginService H) d)"
      "frame store (ls_LoginClientCredentials (ph_LoginService H) i pw)"
      "frame store (ls_LoginWithSessionToken (ph_LoginService H) i)"
      "frame store (ls_LoginWithSessionCookie (ph_LoginService H) i)"
begin

definition good :: "tup set set \<Rightarrow> 'd proxy \<Rightarrow> bool" where
  "good W s \<longleftrightarrow> cache_earned W (px_tokenGen s) \<and> lg_callCount (px_tokenGen s) \<le> 10
     \<and> (\<forall>m\<in>set (px_toController s). passes H W (set (px_received s)) m)
     \<and> (\<forall>a<px_next s. passes H W (set (px_received s)) (px_cells s a))
     \<and> (\<forall>a. px_loginMessage s = Some a \<longrightarrow> a < px_next s \<and> is_login (px_cells s a))
     \<and> (\<forall>i a. px_messages s i = Some a \<longrightarrow> a < px_next s \<and> RequestID (px_cells s a) = i)
     \<and> (\<forall>m\<in>set (px_toClient s). no_servers m)
     \<and> client_ok (px_client s) (px_next s) (px_cells s) \<and> controller_ok (px_controller s) (px_next s) \<and> \<not> px_controllerAnonymous s"

text \<open>
  The invariant during a step: \<open>S\<close> is the state of OpenFGA, \<open>k\<close> a lower bound of the tokens asked for
  and \<open>R\<close> of the messages received.
\<close>

definition inv :: "tup set set \<Rightarrow> tup set \<Rightarrow> nat \<Rightarrow> message set \<Rightarrow> 'd proxy \<times> 'w \<Rightarrow> bool" where
  "inv W S k R = (\<lambda>(s, w). store w = S \<and> S \<in> W \<and> R \<subseteq> set (px_received s) \<and> k \<le> lg_callCount (px_tokenGen s) \<and> good W s)"

abbreviation keeps :: "tup set set \<Rightarrow> tup set \<Rightarrow> nat \<Rightarrow> message set \<Rightarrow> ('w, 'd, 'a) px \<Rightarrow> bool" where
  "keeps W S k R m \<equiv> triple (inv W S k R) m (\<lambda>_. inv W S k R) (inv W S k R)"

lemma keeps_update:
  assumes "\<And>s. good W s \<Longrightarrow> R \<subseteq> set (px_received s) \<Longrightarrow> good W (f s) \<and> px_tokenGen (f s) = px_tokenGen s
    \<and> px_received (f s) = px_received s"
  shows "keeps W S k R (obj_update f)"
  using assms by (intro triple_update) (simp add: inv_def)

lemma keeps_world: "frame store m \<Longrightarrow> keeps W S k R (in_world m)"
  by (rule triple_in_world) (auto simp: inv_def dest: frameD)

lemma keeps_return: "keeps W S k R (go_return x)"
  and keeps_err: "keeps W S k R (go_err e)"
  by (auto intro: triple_return triple_err)

lemmas keeps_sum = triple_sum
lemmas keeps_some = triple_some
lemmas keeps_try = triple_try
lemmas keeps_maperr = triple_maperr

lemma keeps_get: "(\<And>s w. inv W S k R (s, w) \<Longrightarrow> keeps W S k R (f s)) \<Longrightarrow> keeps W S k R (go_bind obj_get f)"
  by (rule triple_get_bind)

lemma keeps_bind: "keeps W S k R m \<Longrightarrow> (\<And>x. keeps W S k R (f x)) \<Longrightarrow> keeps W S k R (go_bind m f)"
  by (rule triple_bind)

lemma keeps_logged: "keeps W S k R m \<Longrightarrow> keeps W S k R (logged m)"
  unfolding logged_def by (intro keeps_bind keeps_try keeps_return)

lemma keeps_to_client: "no_servers m \<Longrightarrow> keeps W S k R (to_client H m)"
  unfolding to_client_def
  by (intro keeps_bind keeps_update keeps_world sockets) (auto simp: good_def)

lemma keeps_to_controller: "passes H W R m \<Longrightarrow> keeps W S k R (to_controller H m)"
  unfolding to_controller_def
  by (intro keeps_bind keeps_update keeps_world sockets) (auto simp: good_def intro: passes_mono)

lemma keeps_removeMessage: "keeps W S k R (removeMessage i)"
  unfolding removeMessage_def by (intro keeps_update) (auto simp: good_def)

lemma keeps_client_goto:
  "(\<And>s. good W s \<Longrightarrow> client_ok pc (px_next s) (px_cells s)) \<Longrightarrow> keeps W S k R (client_goto pc)"
  unfolding client_goto_def by (intro keeps_update) (auto simp: good_def)

lemma keeps_controller_goto:
  "(\<And>s. good W s \<Longrightarrow> controller_ok pc (px_next s)) \<Longrightarrow> keeps W S k R (controller_goto pc)"
  unfolding controller_goto_def by (intro keeps_update) (auto simp: good_def)

lemma keeps_GetUser: "keeps W S k R (px_GetUser H)"
  unfolding px_GetUser_def GetUser_def user_ResourceTag_def by (intro keeps_get keeps_world frame_intros)

lemma keeps_audit: "keeps W S k R (auditLogMessage H msg b)"
  unfolding auditLogMessage_def Let_def
  by (intro keeps_bind keeps_some keeps_GetUser keeps_get triple_if keeps_maperr keeps_sum keeps_world audit_frame)

lemma no_servers_error [simp]: "no_servers (createErrResponse H e m)"
  by (simp add: no_servers_def createErrResponse_def empty_message_def)

lemma keeps_sendError: "keeps W S k R (sendError H req e)"
  unfolding sendError_def
  by (cases req) (auto intro!: keeps_bind triple_if keeps_return keeps_GetUser keeps_logged keeps_to_client keeps_audit)

lemma keeps_handleError: "keeps W S k R (handleError H msg e)"
  unfolding handleError_def by (intro keeps_bind keeps_sendError keeps_removeMessage)

text \<open>The token generator.\<close>

lemma on_gen_triple:
  assumes "\<And>g w q g' w'. store w = S \<Longrightarrow> cache_earned W g \<Longrightarrow> lg_callCount g \<le> 10 \<Longrightarrow> k \<le> lg_callCount g \<Longrightarrow>
      m (g, w) = (q, (g', w')) \<Longrightarrow> store w' = S \<and> cache_earned W g' \<and> lg_callCount g' \<le> 10 \<and> k \<le> lg_callCount g'
        \<and> (\<forall>x. q = Ok x \<longrightarrow> A x (lg_callCount g'))"
  shows "triple (inv W S k R) (on_gen m) (\<lambda>x c. inv W S k R c \<and> A x (lg_callCount (px_tokenGen (fst c)))) (inv W S k R)"
proof (rule triple_objI)
  fix s w q s' w'
  assume pre: "inv W S k R (s, w)" and run: "on_gen m (s, w) = (q, s', w')"
  then obtain g' where g': "m (px_tokenGen s, w) = (q, (g', w'))" "s' = s\<lparr>px_tokenGen := g'\<rparr>"
    by (auto simp: on_gen_def split: prod.splits)
  have "store w' = S \<and> cache_earned W g' \<and> lg_callCount g' \<le> 10 \<and> k \<le> lg_callCount g' \<and> (\<forall>x. q = Ok x \<longrightarrow> A x (lg_callCount g'))"
    using pre by (intro assms [OF _ _ _ _ g'(1)]) (simp_all add: inv_def good_def)
  then show "(\<forall>x. q = Ok x \<longrightarrow> inv W S k R (s', w') \<and> A x (lg_callCount (px_tokenGen (fst (s', w')))))
      \<and> (q \<notin> range Ok \<longrightarrow> inv W S k R (s', w'))"
    using pre g'(2) by (simp add: inv_def good_def)
qed

lemma issued_honest:
  assumes "issued S u tok (g, w)" and "\<And>m key v. lg_accessMapCache g = Some m \<Longrightarrow> m key = Some v \<Longrightarrow> \<exists>S\<in>W. earned (ph_E H) S u key v"
  shows "honest_token (ph_E H) (ph_TokenGen H) W tok"
  using assms unfolding issued_def honest_token_def by auto blast

lemma keeps_MakeLoginToken:
  assumes "S \<in> W"
  shows "triple (inv W S k R) (on_gen (MakeLoginToken (ph_E H) (ph_TokenGen H) (ph_order H) (Some u)))
    (\<lambda>tok c. inv W S k R c \<and> honest_token (ph_E H) (ph_TokenGen H) W tok) (inv W S k R)"
proof (rule on_gen_triple [where A = "\<lambda>tok n. honest_token (ph_E H) (ph_TokenGen H) W tok"])
  fix g w q g' w'
  assume g: "store w = S" "cache_earned W g" "lg_callCount g \<le> 10" "k \<le> lg_callCount g"
    and run: "MakeLoginToken (ph_E H) (ph_TokenGen H) (ph_order H) (Some u) (g, w) = (q, g', w')"
  let ?P = "logged_in S u (lg_mt g) (lg_ct g) (lg_callCount g)"
  note T = MakeLoginToken_triple [of S "lg_mt g" "lg_ct g" "lg_callCount g" u]
  have after: "?P {} (g', w')"
    by (rule triple_anyD [OF T _ run]) (use g(1) logged_in_mono in auto)
  moreover have "honest_token (ph_E H) (ph_TokenGen H) W tok" if "q = Ok tok" for tok
  proof (rule issued_honest)
    show "issued S u tok (g', w')" using triple_OkD [OF T _ run [unfolded that]] g(1) by simp
    show "\<exists>S\<in>W. earned (ph_E H) S u key v" if "lg_accessMapCache g' = Some m" "m key = Some v" for m key v
      using after that assms by (auto simp: logged_in_def)
  qed
  ultimately show "store w' = S \<and> cache_earned W g' \<and> lg_callCount g' \<le> 10 \<and> k \<le> lg_callCount g'
      \<and> (\<forall>x. q = Ok x \<longrightarrow> honest_token (ph_E H) (ph_TokenGen H) W x)"
    using g assms by (auto simp: logged_in_def cache_earned_def) blast
qed

lemma keeps_MakeToken:
  assumes "S \<in> W"
  shows "triple (inv W S k R) (on_gen (MakeToken (ph_E H) (ph_TokenGen H) perms))
    (\<lambda>tok c. inv W S k R c \<and> honest_token (ph_E H) (ph_TokenGen H) W tok \<and> Suc k \<le> lg_callCount (px_tokenGen (fst c))) (inv W S k R)"
proof (rule on_gen_triple [where A = "\<lambda>tok n. honest_token (ph_E H) (ph_TokenGen H) W tok \<and> Suc k \<le> n"])
  fix g w q g' w'
  assume g: "store w = S" "cache_earned W g" "lg_callCount g \<le> 10" "k \<le> lg_callCount g"
    and run: "MakeToken (ph_E H) (ph_TokenGen H) perms (g, w) = (q, g', w')"
  have W: "insert (store w) W = W" using g(1) assms by blast
  note step = MakeToken_ok [OF run g(2), unfolded token_step_def W]
  moreover have "honest_token (ph_E H) (ph_TokenGen H) W tok" if q: "q = Ok tok" for tok
  proof -
    from step q obtain u where u: "lg_user g = Some u" "issued (store w) u tok (g', w')" by blast
    show ?thesis
    proof (rule issued_honest [OF u(2)])
      show "\<exists>S\<in>W. earned (ph_E H) S u key v" if "lg_accessMapCache g' = Some m" "m key = Some v" for m key v
        using step u(1) that by (auto simp: cache_earned_def)
    qed
  qed
  ultimately show "store w' = S \<and> cache_earned W g' \<and> lg_callCount g' \<le> 10 \<and> k \<le> lg_callCount g'
      \<and> (\<forall>x. q = Ok x \<longrightarrow> honest_token (ph_E H) (ph_TokenGen H) W x \<and> Suc k \<le> lg_callCount g')"
    using g by auto
qed

lemma keeps_connect: "keeps W S k R (on_gen (ph_ConnectController H))"
proof -
  have "triple (inv W S k R) (on_gen (ph_ConnectController H)) (\<lambda>x c. inv W S k R c \<and> True) (inv W S k R)"
    by (rule on_gen_triple) (auto dest!: connect simp: SetTags_def cache_earned_def)
  then show ?thesis by simp
qed

lemma keeps_makeControllerConnection: "keeps W S k R (makeControllerConnection H)"
  unfolding makeControllerConnection_def
  by (intro keeps_get triple_if keeps_return keeps_bind keeps_connect keeps_update) (auto simp: good_def)

section \<open>The steps of the client\<close>

text \<open>What \<^verbatim>\<open>handleAdminFacade\<close> returns for a message.\<close>

definition admin_result :: "tup set set \<Rightarrow> message set \<Rightarrow> message \<Rightarrow> message option \<times> message option \<Rightarrow> bool" where
  "admin_result W R msg r \<longleftrightarrow> (case r of
       (Some m, _) \<Rightarrow> no_servers m
     | (None, Some m) \<Rightarrow> is_login m \<and> passes H W R m
     | (None, None) \<Rightarrow> passes H W R msg)"

abbreviation yields :: "tup set set \<Rightarrow> tup set \<Rightarrow> nat \<Rightarrow> message set \<Rightarrow> ('w, 'd, 'a) px \<Rightarrow> ('a \<Rightarrow> bool) \<Rightarrow> bool" where
  "yields W S k R m A \<equiv> triple (inv W S k R) m (\<lambda>x c. inv W S k R c \<and> A x) (inv W S k R)"

lemma yields_return: "A x \<Longrightarrow> yields W S k R (go_return x) A"
  by (rule triple_return) simp

lemma yields_err: "yields W S k R (go_err e) A"
  by (rule triple_err) simp

lemma yields_bind: "yields W S k R m B \<Longrightarrow> (\<And>x. B x \<Longrightarrow> yields W S k R (f x) A) \<Longrightarrow> yields W S k R (go_bind m f) A"
  by (rule triple_bind, assumption, rule triple_pure)

lemma yields_keeps_bind: "keeps W S k R m \<Longrightarrow> (\<And>x. yields W S k R (f x) A) \<Longrightarrow> yields W S k R (go_bind m f) A"
  by (rule triple_bind)

lemma yields_sum: "yields W S k R (go_sum r) (\<lambda>x. r = Inr x)"
  by (cases r) (auto intro!: triple_return triple_err)

lemma yields_login_message:
  assumes "S \<in> W"
  shows "yields W S k R (login_message H msg u) (admin_result W R msg')"
  unfolding login_message_def juju_tag_def
proof (rule yields_bind [OF keeps_MakeLoginToken [OF assms]], rule yields_keeps_bind [OF keeps_world [OF frame_some]],
    rule yields_bind [OF yields_sum])
  fix tok t data
  assume "honest_token (ph_E H) (ph_TokenGen H) W tok"
    and "ph_encode_login H \<lparr>lr_AuthTag = tag_String t, lr_Token = EncodeToString tok, lr_rest = []\<rparr> = Inr data"
  then have "jimm_login H W (msg\<lparr>msg_Type := ''Admin'', Request := ''Login'', Version := 3, Params := Some data\<rparr>)"
    unfolding jimm_login_def by (force simp: is_login_def)
  then show "yields W S k R (go_return (None, Some (msg\<lparr>msg_Type := ''Admin'', Request := ''Login'', Version := 3, Params := Some data\<rparr>)))
      (admin_result W R msg')"
    by (intro yields_return) (simp add: admin_result_def passes_def is_login_def)
qed

lemma keeps_anonymous: "keeps W S k R (obj_update (\<lambda>s. s\<lparr>px_anonymousLogin := True\<rparr>))"
  and keeps_device: "keeps W S k R (obj_update (\<lambda>s. s\<lparr>px_deviceOAuthResponse := d\<rparr>))"
  by (intro keeps_update; simp add: good_def)+

lemma yields_legacy: "yields W S k R (handleLegacyLogin H msg) (\<lambda>m. m = msg \<and> anonymous_login H msg)"
  unfolding handleLegacyLogin_def
proof (rule yields_bind [OF yields_sum])
  fix lr
  assume lr: "ph_decode_login H (raw (Params msg)) = Inr lr"
  show "yields W S k R (case names_ParseTag (ph_E H) (lr_AuthTag lr) of
       Inl e \<Rightarrow> go_err (ErrFmt ''invalid user tag: %v'' [] None)
     | Inr t \<Rightarrow>
         if Kind t = UserTagKind
         then if Id t = ph_AnonymousUsername H
           then go_bind (obj_update (\<lambda>s. s\<lparr>px_anonymousLogin := True\<rparr>)) (\<lambda>_. go_return msg)
           else go_err (Codef CodeNotSupported (ErrNew ''JIMM does not support login from old clients''))
         else if Kind t \<in> {ModelTagKind, MachineTagKind, UnitTagKind}
         then go_bind (in_world (go_maperr (wrapped ''failed to get redirect info: %w'') (ph_RedirectInfo H))) (\<lambda>info.
           go_err (Error CodeRedirect ''redirection to alternative server required'' (Some info) None))
         else go_err (ErrFmt ''unsupported login request for tag %s'' [tag_String t] None))
      (\<lambda>m. m = msg \<and> anonymous_login H msg)"
  proof (cases "names_ParseTag (ph_E H) (lr_AuthTag lr)")
    case (Inr t)
    have anon: "anonymous_login H msg" if "Kind t = UserTagKind" "Id t = ph_AnonymousUsername H"
      using lr Inr that unfolding anonymous_login_def by blast
    show ?thesis unfolding Inr sum.case
      by (intro triple_cond yields_err yields_keeps_bind keeps_anonymous yields_return keeps_world keeps_maperr frame_intros redirect_frame)
        (use anon in simp)
  qed (simp add: yields_err)
qed

lemma yields_answer: "''servers'' \<notin> fst ` set kvs \<Longrightarrow> yields W S k R (answer msg kvs) (admin_result W R msg)"
proof -
  assume kvs: "''servers'' \<notin> fst ` set kvs"
  have "bytes_of ''servers'' \<notin> fst ` set (map (\<lambda>(k, v). (bytes_of k, bytes_of v)) kvs)"
    using kvs by (induction kvs) (simp_all add: case_prod_unfold)
  then show ?thesis unfolding answer_def
    by (intro yields_return) (simp add: admin_result_def no_servers_def no_key_marshal)
qed

lemma yields_admin:
  assumes "S \<in> W" and "msg \<in> R" and "msg_Type msg = ''Admin''"
  shows "yields W S k R (handleAdminFacade H msg) (admin_result W R msg)"
proof -
  have login: "yields W S k R (go_bind (in_world m) (login_message H msg)) (admin_result W R msg)" if "frame store m" for m
    by (rule yields_keeps_bind [OF keeps_world [OF that] yields_login_message [OF assms(1)]])
  have fs: "keeps W S k R (request_fields fs msg)" for fs
    unfolding request_fields_def by (intro keeps_bind keeps_sum keeps_return)
  have legacy: "yields W S k R (go_bind (handleLegacyLogin H msg) (\<lambda>m. go_return (None, Some m))) (admin_result W R msg)"
    if "Request msg = ''Login''"
    by (rule yields_bind [OF yields_legacy], rule yields_return) (use that assms in \<open>simp add: admin_result_def is_login_def passes_def\<close>)
  have other: "yields W S k R (go_return (None, None)) (admin_result W R msg)" if "Request msg \<noteq> ''Login''"
    by (rule yields_return) (use that assms in \<open>simp add: admin_result_def is_login_def passes_def\<close>)
  have device: "yields W S k R (go_bind (in_world m) (\<lambda>dr. go_bind (obj_update (\<lambda>s. s\<lparr>px_deviceOAuthResponse := dr\<rparr>))
      (\<lambda>_. go_bind (in_world (deref dr)) (\<lambda>d. answer msg [(''verification-uri'', f d), (''user-code'', g d)])))) (admin_result W R msg)"
    if "frame store m" for m f g
    unfolding deref_def
    by (intro yields_keeps_bind keeps_world that keeps_device frame_some yields_answer) simp
  have session: "yields W S k R (go_bind obj_get (\<lambda>s. go_bind (in_world (m s)) (\<lambda>tok. answer msg [(''session-token'', tok)])))
      (admin_result W R msg)" if "\<And>s. frame store (m s)" for m
    by (rule triple_get_bind, intro yields_keeps_bind keeps_world that yields_answer) simp
  show ?thesis
    unfolding handleAdminFacade_def Let_def
    by (intro triple_cond device session login legacy other yields_keeps_bind [OF fs] login_frames)
qed

lemma controller_ok_mono: "controller_ok pc n \<Longrightarrow> n \<le> n' \<Longrightarrow> controller_ok pc n'"
  by (cases pc) auto

lemma good_new_cell:
  assumes "good W s" and "passes H W R m" and "R \<subseteq> set (px_received s)"
    and "client_ok pc (Suc (px_next s)) ((px_cells s)(px_next s := m))"
  shows "good W (s\<lparr>px_cells := (px_cells s)(px_next s := m), px_next := Suc (px_next s), px_client := pc\<rparr>)"
  using assms controller_ok_mono [of "px_controller s" "px_next s" "Suc (px_next s)"]
  by (auto simp: good_def less_Suc_eq intro: passes_mono)

lemma keeps_new_cell:
  assumes "passes H W R m" and "\<And>a cells. cells a = m \<Longrightarrow> client_ok (pc a) (Suc a) cells"
  shows "keeps W S k R (go_bind (new_cell m) (\<lambda>a. client_goto (pc a)))"
proof (rule triple_objI)
  fix s w q s' w'
  assume pre: "inv W S k R (s, w)" and run: "go_bind (new_cell m) (\<lambda>a. client_goto (pc a)) (s, w) = (q, s', w')"
  let ?s = "s\<lparr>px_cells := (px_cells s)(px_next s := m), px_next := Suc (px_next s), px_client := pc (px_next s)\<rparr>"
  have "good W ?s" using pre by (intro good_new_cell [OF _ assms(1)] assms(2)) (simp_all add: inv_def)
  moreover have "s' = ?s" "w' = w" using run by (auto simp: new_cell_def client_goto_def go_bind_def go_simps)
  ultimately show "(\<forall>x. q = Ok x \<longrightarrow> inv W S k R (s', w')) \<and> (q \<notin> range Ok \<longrightarrow> inv W S k R (s', w'))"
    using pre by (simp add: inv_def)
qed

lemma keeps_admin_reply:
  assumes "admin_result W R msg r"
  shows "keeps W S k R (case r of
          (Some toClient, _) \<Rightarrow> sendMessage H toClient
        | (None, Some toController) \<Rightarrow> go_bind (new_cell toController) (\<lambda>a. client_goto (AddLogin a))
        | (None, None) \<Rightarrow> go_bind (new_cell msg) (\<lambda>a. client_goto (AddMessage a)))"
proof -
  consider (client) m m' where "r = (Some m, m')" | (login) m where "r = (None, Some m)" | (other) "r = (None, None)"
    by (metis option.exhaust surj_pair)
  then show ?thesis
  proof cases
    case client
    then have "no_servers m" using assms by (simp add: admin_result_def)
    then show ?thesis using client unfolding sendMessage_def
      by (simp, intro keeps_logged keeps_to_client) (simp add: no_servers_def)
  next
    case login
    then have "is_login m" "passes H W R m" using assms by (simp_all add: admin_result_def)
    then show ?thesis using login by (simp, intro keeps_new_cell) simp_all
  next
    case other
    then show ?thesis using assms by (simp, intro keeps_new_cell) (simp_all add: admin_result_def)
  qed
qed

lemma keeps_dispatch:
  assumes "S \<in> W" and "msg \<in> R"
  shows "keeps W S k R (dispatch H msg)"
  unfolding dispatch_def
proof (rule triple_cond)
  show "keeps W S k R (go_bind (new_cell msg) (\<lambda>a. client_goto (AddMessage a)))" if "msg_Type msg \<noteq> ''Admin''"
    by (rule keeps_new_cell) (use that assms in \<open>simp_all add: passes_def is_login_def\<close>)
next
  assume admin: "msg_Type msg = ''Admin''"
  show "keeps W S k R (go_bind (go_try (handleAdminFacade H msg)) (\<lambda>r. case r of
          Inl e \<Rightarrow> sendError H (Some msg) e
        | Inr (Some toClient, _) \<Rightarrow> sendMessage H toClient
        | Inr (None, Some toController) \<Rightarrow> go_bind (new_cell toController) (\<lambda>a. client_goto (AddLogin a))
        | Inr (None, None) \<Rightarrow> go_bind (new_cell msg) (\<lambda>a. client_goto (AddMessage a))))"
  proof (rule triple_try_bind [OF yields_admin [OF assms admin]], goal_cases)
    case (1 e)
    then show ?case by (simp add: keeps_sendError)
  next
    case (2 r)
    then show ?case unfolding sum.case by (rule triple_pure, rule keeps_admin_reply)
  qed
qed

lemma inv_mono: "inv W S k R' c \<Longrightarrow> R \<subseteq> R' \<Longrightarrow> inv W S k R c"
  by (auto simp: inv_def)

lemma keeps_received:
  assumes "keeps W S k (R \<union> set ms) m"
  shows "keeps W S k R (go_bind (obj_update (\<lambda>s. s\<lparr>px_received := px_received s @ ms\<rparr>)) (\<lambda>_. m))"
proof (rule triple_bind)
  have "good W (s\<lparr>px_received := px_received s @ ms\<rparr>)" if "good W s" for s
    using that unfolding good_def by (auto intro: passes_mono)
  then show "triple (inv W S k R) (obj_update (\<lambda>s. s\<lparr>px_received := px_received s @ ms\<rparr>)) (\<lambda>_. inv W S k (R \<union> set ms)) (inv W S k R)"
    by (intro triple_update) (auto simp: inv_def)
  show "triple (inv W S k (R \<union> set ms)) m (\<lambda>_. inv W S k R) (inv W S k R)"
    using assms by (rule triple_mono) (auto intro: inv_mono)
qed

lemma keeps_receive_request:
  assumes "S \<in> W"
  shows "keeps W S k R (receive_request H)"
  unfolding receive_request_def
proof (rule triple_try_bind [OF keeps_world [OF sockets(1)]], goal_cases)
  case (1 e)
  show ?case by (simp, intro conjI impI keeps_err keeps_client_goto) simp_all
next
  case (2 msg)
  let ?ms = "case msg of None \<Rightarrow> [] | Some m \<Rightarrow> [m]"
  have dispatch: "keeps W S k (R \<union> set ?ms) (go_bind (go_some ''nil pointer dereference'' msg) (dispatch H))"
    by (cases msg) (auto simp: go_simps triple_def [of _ "go_panic _"] intro!: keeps_dispatch [OF assms])
  show ?case unfolding sum.case
    by (rule keeps_received, rule triple_try_bind [OF keeps_makeControllerConnection], simp_all only: sum.case)
      (intro keeps_bind keeps_sendError keeps_err keeps_logged keeps_audit dispatch)+
qed

text \<open>The state a step starts in, with what it knows of its cells.\<close>

definition at :: "tup set set \<Rightarrow> tup set \<Rightarrow> nat \<Rightarrow> message set \<Rightarrow> nat set \<Rightarrow> 'd proxy \<times> 'w \<Rightarrow> bool" where
  "at W S k R A c \<longleftrightarrow> inv W S k R c \<and> R = set (px_received (fst c)) \<and> (\<forall>a\<in>A. a < px_next (fst c))"

lemma at_inv: "at W S k R A c \<Longrightarrow> inv W S k R c"
  unfolding at_def by (rule conjunct1)

lemma at_passes: "at W S k R A (s, w) \<Longrightarrow> a \<in> A \<Longrightarrow> passes H W R (px_cells s a)"
  by (auto simp: at_def inv_def good_def)

lemma at_get:
  assumes "\<And>s w. at W S k R A (s, w) \<Longrightarrow> triple (inv W S k R) (f s) Q (inv W S k R)"
  shows "triple (at W S k R A) (go_bind obj_get f) Q (inv W S k R)"
  by (rule triple_get_bind, rule triple_strengthen [OF assms at_inv])

lemma keeps_write_request: "triple (at W S k R {a}) (write_request H a) (\<lambda>_. inv W S k R) (inv W S k R)"
  unfolding write_request_def Let_def
proof (rule at_get)
  fix s w
  assume "at W S k R {a} (s, w)"
  then have "passes H W R (px_cells s a)" by (rule at_passes) simp
  then show "keeps W S k R (go_bind (go_try (to_controller H (px_cells s a))) (\<lambda>r. case r of
       Inr _ \<Rightarrow> go_return ()
     | Inl e \<Rightarrow> go_bind (sendError H (Some (px_cells s a)) e) (\<lambda>_. removeMessage (RequestID (px_cells s a)))))"
    by (intro triple_try_bind [OF keeps_to_controller])
      (auto intro!: keeps_bind keeps_sendError keeps_removeMessage keeps_return)
qed

lemma client_step_inv:
  assumes "S \<in> W" and "inv W S k (set (px_received s)) (s, w)"
  shows "triple (\<lambda>c. c = (s, w)) (client_step H (px_client s)) (\<lambda>_. inv W S k (set (px_received s))) (inv W S k (set (px_received s)))"
proof -
  let ?R = "set (px_received s)"
  have good: "good W s" and store: "store w = S" and k: "k \<le> lg_callCount (px_tokenGen s)" using assms(2) by (simp_all add: inv_def)
  show ?thesis
  proof (cases "px_client s")
    case ClientReading
    show ?thesis unfolding client_step_def ClientReading client_pc.case
      by (rule triple_strengthen [OF keeps_receive_request [OF assms(1)]]) (use assms(2) in simp)
  next
    case (AddLogin a)
    with good have "good W (s\<lparr>px_loginMessage := Some a, px_client := AddMessage a\<rparr>)" by (simp add: good_def)
    then show ?thesis unfolding client_step_def AddLogin client_pc.case
      using assms(1) store k by (simp add: triple_def addLoginMessage_def client_goto_def go_bind_def inv_def)
  next
    case (AddMessage a)
    with good have "good W (s\<lparr>px_messages := (px_messages s)(RequestID (px_cells s a) \<mapsto> a), px_client := WriteRequest a\<rparr>)"
      by (simp add: good_def)
    then show ?thesis unfolding client_step_def AddMessage client_pc.case
      using assms(1) store k by (simp add: triple_def addMessage_def client_goto_def go_bind_def inv_def)
  next
    case (WriteRequest a)
    with good have "at W S k ?R {a} (s, w)" using assms(2) by (simp add: at_def good_def)
    then have "triple (\<lambda>c. c = (s, w)) (write_request H a) (\<lambda>_. inv W S k ?R) (inv W S k ?R)"
      by (intro triple_strengthen [OF keeps_write_request]) simp
    then show ?thesis unfolding client_step_def WriteRequest client_pc.case
      by (rule triple_bind) (rule keeps_client_goto, simp)
  next
    case ClientStopped
    then show ?thesis using assms(2) by (simp add: client_step_def triple_def go_simps)
  qed
qed

section \<open>The steps of the controller\<close>

lemma no_servers_modified: "modifyControllerResponse H msg = Inr msg' \<Longrightarrow> no_servers msg'"
  by (auto simp: modifyControllerResponse_def no_servers_def no_key_deleted split: sum.splits)

text \<open>After a step: a goroutine that is about to log in again has asked for one more token.\<close>

definition counted :: "nat \<Rightarrow> 'd proxy \<times> 'w \<Rightarrow> bool" where
  "counted k c \<longleftrightarrow> (logging_in (px_controller (fst c)) \<longrightarrow> Suc k \<le> lg_callCount (px_tokenGen (fst c)))"

abbreviation steps :: "tup set set \<Rightarrow> tup set \<Rightarrow> nat \<Rightarrow> message set \<Rightarrow> ('d proxy \<times> 'w \<Rightarrow> bool) \<Rightarrow> ('w, 'd, unit) px \<Rightarrow> bool" where
  "steps W S k R P m \<equiv> triple P m (\<lambda>_ c. inv W S k R c \<and> counted k c) (inv W S k R)"

lemma steps_goto:
  "(\<And>s. good W s \<Longrightarrow> controller_ok pc (px_next s)) \<Longrightarrow> \<not> logging_in pc \<Longrightarrow> steps W S k R (inv W S k R) (controller_goto pc)"
  unfolding controller_goto_def by (rule triple_update) (simp add: inv_def good_def counted_def)

lemma on_gen_login:
  assumes "triple P (on_gen m) Q T"
  shows "triple (\<lambda>c. P c \<and> px_loginMessage (fst c) = L) (on_gen m) (\<lambda>x c. Q x c \<and> px_loginMessage (fst c) = L) T"
proof (rule triple_objI)
  fix s w q s' w'
  assume pre: "P (s, w) \<and> px_loginMessage (fst (s, w)) = L" and run: "on_gen m (s, w) = (q, s', w')"
  have "px_loginMessage s' = L" using pre run by (auto simp: on_gen_def split: prod.splits)
  then show "(\<forall>x. q = Ok x \<longrightarrow> Q x (s', w') \<and> px_loginMessage (fst (s', w')) = L) \<and> (q \<notin> range Ok \<longrightarrow> T (s', w'))"
    using triple_runD [OF assms _ run] pre by simp
qed

lemma good_new_token:
  assumes "good W s" and "px_loginMessage s = Some a" and "ph_encode_login H lr = Inr data"
    and "lr_Token lr = EncodeToString tok" and "honest_token (ph_E H) (ph_TokenGen H) W tok"
  shows "good W (s\<lparr>px_cells := (px_cells s)(a := (px_cells s a)\<lparr>Params := Some data\<rparr>)\<rparr>)"
proof -
  let ?m = "(px_cells s a)\<lparr>Params := Some data\<rparr>"
  have login: "is_login (px_cells s a)" using assms(1,2) by (simp add: good_def)
  then have "jimm_login H W ?m" unfolding jimm_login_def using assms(3-5) by (auto simp: is_login_def)
  then have "passes H W (set (px_received s)) ?m" by (simp add: passes_def)
  moreover have "is_login ?m" using login by (simp add: is_login_def)
  moreover have "client_ok (px_client s) (px_next s) ((px_cells s)(a := ?m))" if "client_ok (px_client s) (px_next s) (px_cells s)"
    using that \<open>is_login ?m\<close> by (cases "px_client s") auto
  ultimately show ?thesis using assms(1) by (auto simp: good_def)
qed

lemma addJWT_login:
  assumes "S \<in> W"
  shows "triple (\<lambda>c. inv W S k R c \<and> px_loginMessage (fst c) = Some a) (addJWT H a perms) (\<lambda>_ c. inv W S (Suc k) R c \<and> px_loginMessage (fst c) = Some a) (inv W S k R)"
  unfolding addJWT_def
proof (rule triple_get_bind)
  fix s0 w0
  let ?L = "\<lambda>c. px_loginMessage (fst c) = Some a"
  let ?E = "ph_E H" and ?F = "ph_TokenGen H"
  let ?tok = "\<lambda>lr jwt. go_bind (go_sum (ph_encode_login H (lr\<lparr>lr_Token := EncodeToString jwt\<rparr>))) (\<lambda>data.
     obj_update (\<lambda>s. s\<lparr>px_cells := (px_cells s)(a := (px_cells s a)\<lparr>Params := Some data\<rparr>)\<rparr>))"
  have put: "triple (\<lambda>c. (inv W S k R c \<and> honest_token ?E ?F W jwt \<and> Suc k \<le> lg_callCount (px_tokenGen (fst c))) \<and> ?L c)
      (?tok lr jwt) (\<lambda>_ c. inv W S (Suc k) R c \<and> px_loginMessage (fst c) = Some a) (inv W S k R)" for lr jwt
  proof (cases "ph_encode_login H (lr\<lparr>lr_Token := EncodeToString jwt\<rparr>)")
    case (Inl e)
    then show ?thesis by (simp, intro triple_err) simp
  next
    case (Inr data)
    show ?thesis unfolding Inr by (simp, rule triple_update) (simp add: inv_def good_new_token [OF _ _ Inr])
  qed
  show "triple (\<lambda>c. inv W S k R c \<and> ?L c)
     (go_bind (go_sum (ph_decode_login H (raw (Params (px_cells s0 a))))) (\<lambda>lr.
      go_bind (on_gen (MakeToken ?E ?F perms)) (?tok lr))) (\<lambda>_ c. inv W S (Suc k) R c \<and> px_loginMessage (fst c) = Some a) (inv W S k R)"
  proof (cases "ph_decode_login H (raw (Params (px_cells s0 a)))")
    case (Inl e)
    then show ?thesis by (simp, intro triple_err) simp
  next
    case (Inr lr)
    then show ?thesis by (simp add: triple_bind [OF on_gen_login [OF keeps_MakeToken [OF assms]] put])
  qed
qed

lemma redoLogin_inv:
  assumes "S \<in> W"
  shows "triple (inv W S k R) (redoLogin H perms) (\<lambda>a c. inv W S (Suc k) R c \<and> px_loginMessage (fst c) = Some a) (inv W S k R)"
proof (rule triple_objI)
  fix s w q s' w'
  assume pre: "inv W S k R (s, w)" and run: "redoLogin H perms (s, w) = (q, s', w')"
  have "\<not> px_controllerAnonymous s" using pre by (simp add: inv_def good_def)
  then have run': "(case px_loginMessage s of
         None \<Rightarrow> go_err (Codef CodeUnauthorized (ErrNew ''Haven't received login yet''))
       | Some a \<Rightarrow> go_bind (addJWT H a perms) (\<lambda>_. go_return a)) (s, w) = (q, s', w')"
    using run by (simp add: redoLogin_def getLoginMessage_def go_bind_def [of obj_get] go_bind_def [of "\<lambda>w. _ w"] go_simps)
  show "(\<forall>a. q = Ok a \<longrightarrow> inv W S (Suc k) R (s', w') \<and> px_loginMessage (fst (s', w')) = Some a) \<and> (q \<notin> range Ok \<longrightarrow> inv W S k R (s', w'))"
  proof (cases "px_loginMessage s")
    case None
    then show ?thesis using run' pre by (auto simp: go_simps)
  next
    case (Some a)
    have redo: "triple (\<lambda>c. inv W S k R c \<and> px_loginMessage (fst c) = Some a) (go_bind (addJWT H a perms) (\<lambda>_. go_return a))
        (\<lambda>b c. inv W S (Suc k) R c \<and> px_loginMessage (fst c) = Some b) (inv W S k R)"
      by (rule triple_bind [OF addJWT_login [OF assms]], rule triple_return)
    have "go_bind (addJWT H a perms) (\<lambda>_. go_return a) (s, w) = (q, s', w')" using run' Some by simp
    from triple_runD [OF redo _ this] show ?thesis using pre Some by simp
  qed
qed

lemma steps_handle_error: "steps W S k R (inv W S k R) (go_bind (handleError H msg e) (\<lambda>_. controller_goto ControllerReading))"
  by (rule triple_bind [OF keeps_handleError]) (rule steps_goto, simp_all)

lemma steps_redo:
  assumes "S \<in> W"
  shows "steps W S k R (inv W S k R) (redo_step H msg perms)"
  unfolding redo_step_def
proof (rule triple_try_bind [OF redoLogin_inv [OF assms]], goal_cases)
  case (1 e)
  show ?case by (simp add: steps_handle_error)
next
  case (2 a)
  show ?case unfolding sum.case controller_goto_def
    by (rule triple_update) (auto simp: inv_def good_def counted_def)
qed

lemma steps_write_login: "steps W S k R (at W S k R {a}) (write_login H msg a)"
  unfolding write_login_def
proof (rule at_get)
  fix s w
  assume "at W S k R {a} (s, w)"
  then have "passes H W R (px_cells s a)" by (rule at_passes) simp
  then show "steps W S k R (inv W S k R) (go_bind (go_try (to_controller H (px_cells s a))) (\<lambda>r. case r of
       Inl e \<Rightarrow> go_bind (handleError H msg e) (\<lambda>_. controller_goto ControllerReading)
     | Inr _ \<Rightarrow> controller_goto (Resend (RequestID msg))))"
    by (intro triple_try_bind [OF keeps_to_controller]) (simp_all add: steps_handle_error steps_goto)
qed

lemma keeps_resend: "triple (at W S k R {}) (resend H i) (\<lambda>_. inv W S k R) (inv W S k R)"
proof (rule triple_objI)
  fix s w q s' w'
  assume pre: "at W S k R {} (s, w)" and run: "resend H i (s, w) = (q, s', w')"
  have run': "(case px_messages s i of None \<Rightarrow> go_return () | Some a \<Rightarrow> logged (to_controller H (px_cells s a))) (s, w) = (q, s', w')"
    using run by (simp add: resend_def getMessage_def go_bind_def go_simps)
  have passes: "passes H W R (px_cells s a)" if "px_messages s i = Some a" for a
    using pre that by (auto simp: at_def inv_def good_def)
  have "keeps W S k R (case px_messages s i of None \<Rightarrow> go_return () | Some a \<Rightarrow> logged (to_controller H (px_cells s a)))"
    using passes by (cases "px_messages s i") (simp_all add: keeps_return keeps_logged keeps_to_controller)
  from triple_runD [OF this at_inv [OF pre] run']
  show "(\<forall>x. q = Ok x \<longrightarrow> inv W S k R (s', w')) \<and> (q \<notin> range Ok \<longrightarrow> inv W S k R (s', w'))" .
qed

lemma steps_classify: "steps W S k R (inv W S k R) (classify_reply H msg)"
  unfolding classify_reply_def
proof (rule triple_get_bind, rule triple_if)
  show "steps W S k R (inv W S k R) (case checkPermissionsRequired H msg of
         Inl e \<Rightarrow> go_bind (handleError H msg e) (\<lambda>_. controller_goto ControllerReading)
       | Inr None \<Rightarrow> controller_goto (ForwardReply msg)
       | Inr (Some permissionsRequired) \<Rightarrow> controller_goto (RedoLogin msg permissionsRequired))"
    by (auto split: sum.split option.split intro!: steps_handle_error steps_goto)
qed (rule steps_goto; simp)

lemma steps_receive: "steps W S k R (inv W S k R) (receive_reply H)"
  unfolding receive_reply_def
proof (rule triple_try_bind [OF keeps_world [OF sockets(2)]], goal_cases)
  case (1 e)
  show ?case unfolding sum.case by (intro triple_if steps_goto triple_err) simp_all
qed (simp_all add: steps_classify)

lemma steps_forward: "steps W S k R (inv W S k R) (forward_reply H msg)"
proof (cases "modifyControllerResponse H msg")
  case (Inl e)
  have "steps W S k R (inv W S k R) (go_bind (handleError H msg e) (\<lambda>_. go_err e'))" for e'
    by (rule triple_bind [OF keeps_handleError], rule triple_err)
  then show ?thesis by (simp add: forward_reply_def Inl)
next
  case (Inr msg')
  have "steps W S k R (inv W S k R) (go_bind (removeMessage i) (\<lambda>_. controller_goto (WriteReply msg')))" for i
    by (rule triple_bind [OF keeps_removeMessage]) (rule steps_goto; simp add: no_servers_modified [OF Inr])
  then show ?thesis by (simp add: forward_reply_def Inr)
qed

lemma steps_write_reply: "no_servers msg \<Longrightarrow> steps W S k R (inv W S k R) (write_reply H msg)"
  unfolding write_reply_def
  by (rule triple_bind [OF keeps_logged [OF keeps_audit]], rule triple_bind [OF keeps_maperr [OF keeps_to_client]], assumption)
    (rule steps_goto; simp)

lemma controller_step_inv:
  assumes "S \<in> W" and "inv W S k (set (px_received s)) (s, w)"
  shows "steps W S k (set (px_received s)) (\<lambda>c. c = (s, w)) (controller_step H (px_controller s))"
proof -
  let ?R = "set (px_received s)"
  have good: "good W s" using assms(2) by (simp add: inv_def)
  have from_inv: "steps W S k ?R (\<lambda>c. c = (s, w)) m" if "steps W S k ?R (inv W S k ?R) m" for m
    using that by (rule triple_strengthen) (use assms(2) in simp)
  have idle: "steps W S k ?R (\<lambda>c. c = (s, w)) (go_return ())" if "\<not> logging_in (px_controller s)"
    using that assms(2) by (simp add: triple_def go_simps counted_def)
  show ?thesis
  proof (cases "px_controller s")
    case (WriteLogin msg a)
    with good have "at W S k ?R {a} (s, w)" using assms(2) by (simp add: at_def good_def)
    then show ?thesis unfolding controller_step_def WriteLogin controller_pc.case
      by (intro triple_strengthen [OF steps_write_login]) simp
  next
    case (Resend i)
    have "at W S k ?R {} (s, w)" using assms(2) by (simp add: at_def)
    then have "triple (\<lambda>c. c = (s, w)) (resend H i) (\<lambda>_. inv W S k ?R) (inv W S k ?R)"
      by (intro triple_strengthen [OF keeps_resend]) simp
    then show ?thesis unfolding controller_step_def Resend controller_pc.case
      by (rule triple_bind) (rule steps_goto; simp)
  next
    case (WriteReply msg)
    then have "no_servers msg" using good by (simp add: good_def)
    then show ?thesis unfolding controller_step_def WriteReply controller_pc.case by (intro from_inv steps_write_reply)
  next
    case (RedoLogin msg perms)
    then show ?thesis using from_inv [OF steps_redo [OF assms(1)]] by (simp add: controller_step_def)
  next
    case ControllerReading
    then show ?thesis using from_inv [OF steps_receive] by (simp add: controller_step_def)
  next
    case (ForwardReply msg)
    then show ?thesis using from_inv [OF steps_forward] by (simp add: controller_step_def)
  qed (use idle in \<open>simp_all add: controller_step_def\<close>)
qed

section \<open>Runs\<close>

lemma good_mono: "good W s \<Longrightarrow> W \<subseteq> W' \<Longrightarrow> good W' s"
  unfolding good_def by (blast intro: passes_mono cache_earned_mono)

lemma stop_run:
  assumes "triple (\<lambda>c. c = (s, w)) m Q T" and "stop_on_error stop m (s, w) = (Ok (), (s', w'))"
  obtains "Q () (s', w')" | s1 where "T (s1, w')" and "s' = stop s1"
proof -
  have "triple (\<lambda>c. c = (s, w)) (stop_on_error stop m) (\<lambda>_ (s', w'). Q () (s', w') \<or> (\<exists>s1. T (s1, w') \<and> s' = stop s1)) (\<lambda>_. True)"
    unfolding stop_on_error_def
  proof (rule triple_try_bind [OF assms(1)], goal_cases)
    case (1 e)
    show ?case unfolding sum.case by (rule triple_update) auto
  next
    case (2 x)
    show ?case unfolding sum.case by (rule triple_return) auto
  qed simp
  from triple_OkD [OF this _ assms(2)] that show ?thesis by auto
qed

lemma run_inv:
  assumes "proxy_run H store c"
  shows "case c of (s, w, W, n) \<Rightarrow> good W s \<and> n \<le> lg_callCount (px_tokenGen s)"
  using assms
proof (induction rule: proxy_run.induct)
  case (accepted w)
  then show ?case by (simp add: good_def new_proxy_def newLoginTokenGenerator_def cache_earned_def)
next
  case (client s w W n s' w')
  let ?W = "insert (store w) W" and ?R = "set (px_received s)"
  have pre: "inv ?W (store w) n ?R (s, w)" using client.IH good_mono [of W s ?W] by (auto simp: inv_def)
  from client_step_inv [OF _ pre] client(2) show ?case
    by (rule stop_run) (auto simp: inv_def good_def)
next
  case (controller s w W n s' w')
  let ?W = "insert (store w) W" and ?R = "set (px_received s)"
  have pre: "inv ?W (store w) n ?R (s, w)" using controller.IH good_mono [of W s ?W] by (auto simp: inv_def)
  from controller_step_inv [OF _ pre] controller(2) show ?case
    by (rule stop_run) (auto simp: inv_def good_def counted_def)
qed simp

end

end
