(* ===== verification/Model_Proxy.thy ===== *)
theory Model_Proxy
  imports Proxy_Gateway
begin

text \<open>
  The server behind \<^verbatim>\<open>/model/<uuid>/api\<close> in \<^verbatim>\<open>internal/jujuapi/websocket.go\<close>, which runs the proxy with
  JIMM's own login manager, token generator and database, and what is proved of the two together.
\<close>

section \<open>The path of a model\<close>

text \<open>\<^verbatim>\<open>^\/(?P<modeluuid>\w{8}-\w{4}-\w{4}-\w{4}-\w{12})\/(?P<finalPath>.*)$\<close>: a dot does not match a new line.\<close>

definition is_word_char :: "char \<Rightarrow> bool" where
  "is_word_char c \<longleftrightarrow> is_alnum c \<or> c = CHR ''_''"

definition extractPathInfo :: "string \<Rightarrow> (string \<times> string) option" where
  "extractPathInfo path = (let uuid = take 36 (drop 1 path); finalPath = drop 38 path in
     if length path \<ge> 38 \<and> path ! 0 = CHR ''/'' \<and> path ! 37 = CHR ''/''
       \<and> (\<forall>i\<in>{..<36}. if i \<in> {8, 13, 18, 23} then uuid ! i = CHR ''-'' else is_word_char (uuid ! i))
       \<and> CHR 10 \<notin> set finalPath
     then Some (uuid, finalPath) else None)"

definition modelInfoFromPath :: "string \<Rightarrow> err + string \<times> string" where
  "modelInfoFromPath path = (case extractPathInfo path of
       None \<Rightarrow> Inl (ErrNew ''invalid path'')
     | Some r \<Rightarrow> Inr r)"

section \<open>Serving a model\<close>

text \<open>\<open>rpc_Dial\<close> opens the websocket to the controller.\<close>

definition controllerConnectionFunc :: "'w externals \<Rightarrow> database \<Rightarrow> (controller \<Rightarrow> tag \<Rightarrow> string \<Rightarrow> ('w, unit) io) \<Rightarrow> string
    \<Rightarrow> (login_token_generator \<times> 'w, err, conn_metadata) comp" where
  "controllerConnectionFunc E d rpc_Dial path =
     go_bind (go_maperr (wrapped ''error parsing path: %w'') (go_sum (modelInfoFromPath path))) (\<lambda>(uuid, finalPath).
     go_bind (in_world (go_maperr (wrapped ''failed to find model: %w'')
       (GetModel E d (empty_model\<lparr>mdl_UUID := (if uuid \<noteq> '''' then Some uuid else None)\<rparr>)))) (\<lambda>m.
     go_bind (go_some ''invalid model tag'' (model_ResourceTag E m)) (\<lambda>mt.
     go_bind (go_some ''invalid controller tag'' (controller_ResourceTag E (mdl_Controller m))) (\<lambda>ct.
     go_bind (obj_update (SetTags mt ct)) (\<lambda>_.
     go_bind (in_world (rpc_Dial (mdl_Controller m) mt finalPath)) (\<lambda>_.
     go_return \<lparr>cm_ControllerUUID = ctl_UUID (mdl_Controller m), cm_ModelName = ctl_Name (mdl_Controller m) @ ''/'' @ mdl_Name m,
       cm_ModelUUID = uuid, cm_MigrationMode = mdl_MigrationMode m\<rparr>))))))"

text \<open>\<^verbatim>\<open>JujuManager.GetModel\<close> of \<^verbatim>\<open>internal/jimm/juju/model.go\<close>.\<close>

definition juju_GetModel :: "'w externals \<Rightarrow> database \<Rightarrow> string \<Rightarrow> ('w, model) io" where
  "juju_GetModel E d uuid = go_maperr (wrapped ''failed to get model: %w'')
     (GetModel E d (empty_model\<lparr>mdl_UUID := (if uuid \<noteq> '''' then Some uuid else None)\<rparr>))"

text \<open>\<open>redirect_map\<close> is Juju's map of the addresses and the certificate of a controller.\<close>

definition GetRedirectInfo :: "'w externals \<Rightarrow> database \<Rightarrow> (controller \<Rightarrow> info) \<Rightarrow> string \<Rightarrow> ('w, info) io" where
  "GetRedirectInfo E d redirect_map path =
     go_bind (go_sum (modelInfoFromPath path)) (\<lambda>(uuid, _).
     go_bind (juju_GetModel E d uuid) (\<lambda>model. go_return (redirect_map (mdl_Controller model))))"

definition manager_service :: "'w externals \<Rightarrow> ('w, 'd option, 't) oauth_authenticator \<Rightarrow> login_manager \<Rightarrow> string list \<Rightarrow> ('w, 'd) login_service" where
  "manager_service E A lm groups = \<lparr>ls_LoginDevice = LoginDevice A, ls_GetDeviceSessionToken = GetDeviceSessionToken A,
     ls_LoginClientCredentials = LoginClientCredentials E A lm, ls_LoginWithSessionToken = LoginWithSessionToken E A lm,
     ls_LoginWithSessionCookie = LoginWithSessionCookie E lm groups\<rparr>"

text \<open>
  \<^verbatim>\<open>apiModelProxier.ServeWS\<close>: the helpers it hands to \<^verbatim>\<open>ProxySockets\<close>, on top of the sockets and the
  libraries in \<open>H\<close>. The groups and the identity come from the context of the request.
\<close>

definition ServeWS :: "('w, 'd) proxy_helpers \<Rightarrow> ('w, 'd option, 't) oauth_authenticator \<Rightarrow> login_manager \<Rightarrow> database
    \<Rightarrow> (controller \<Rightarrow> tag \<Rightarrow> string \<Rightarrow> ('w, unit) io) \<Rightarrow> (controller \<Rightarrow> info) \<Rightarrow> string \<Rightarrow> string list \<Rightarrow> string \<Rightarrow> ('w, 'd) proxy_helpers" where
  "ServeWS H A lm d rpc_Dial redirect_map path groups identityID = H
     \<lparr>ph_ConnectController := controllerConnectionFunc (ph_E H) d rpc_Dial path,
      ph_LoginService := manager_service (ph_E H) A lm groups,
      ph_AuthenticatedIdentityID := identityID,
      ph_RedirectInfo := GetRedirectInfo (ph_E H) d redirect_map path\<rparr>"

section \<open>The proxier is a proxy\<close>

lemma extractPathInfo_ok:
  assumes "extractPathInfo path = Some (uuid, finalPath)"
  shows "path = ''/'' @ uuid @ ''/'' @ finalPath" and "length uuid = 36"
proof -
  from assms have len: "length path \<ge> 38" and first: "path ! 0 = CHR ''/''" and slash: "path ! 37 = CHR ''/''"
    and parts: "uuid = take 36 (drop 1 path)" "finalPath = drop 38 path"
    by (auto simp: extractPathInfo_def Let_def split: if_splits)
  show "length uuid = 36" using len parts(1) by simp
  have "path = path ! 0 # drop 1 path" "drop 37 path = path ! 37 # drop 38 path"
    using len Cons_nth_drop_Suc [of 0 path] Cons_nth_drop_Suc [of 37 path] by (cases path, simp_all)
  moreover have "drop 1 path = take 36 (drop 1 path) @ drop 37 path"
    using append_take_drop_id [of 36 "drop 1 path"] by (simp add: numeral_eq_Suc)
  ultimately show "path = ''/'' @ uuid @ ''/'' @ finalPath" using first slash parts by simp
qed

lemma SetTags_twice: "SetTags mt ct (SetTags mt' ct' g) = SetTags mt ct g"
  by (simp add: SetTags_def)

context jimm_services
begin

lemma identity_login_frames [frame_intros]:
  "frame store (GetOrCreateIdentity E lm i)" "frame store (UserLogin E lm i)"
  unfolding GetOrCreateIdentity_def UserLogin_def IsAdministrator_def Let_def by (intro frame_intros)+

lemma GetRedirectInfo_frame: "frame store (GetRedirectInfo E d redirect_map path)"
  unfolding GetRedirectInfo_def juju_GetModel_def by (intro frame_intros)

lemma connection_effect:
  assumes "\<And>c mt f. frame store (rpc_Dial c mt f)" and "controllerConnectionFunc E d rpc_Dial path (g, w) = (q, (g', w'))"
  shows "store w' = store w \<and> (g' = g \<or> (\<exists>mt ct. g' = SetTags mt ct g))"
proof -
  define I where "I c \<longleftrightarrow> store (snd c) = store w \<and> (fst c = g \<or> (\<exists>mt ct. fst c = SetTags mt ct g))" for c
  have world: "triple I (in_world m) (\<lambda>_. I) I" if "frame store m" for m :: "('w, 'x) io"
    by (rule triple_in_world) (auto simp: I_def dest: frameD [OF that])
  have tags: "triple I (obj_update (SetTags mt ct)) (\<lambda>_. I) I" for mt ct
    by (rule triple_update) (auto simp: I_def SetTags_twice; blast)
  have conn: "triple I (controllerConnectionFunc E d rpc_Dial path) (\<lambda>_. I) I"
    unfolding controllerConnectionFunc_def case_prod_unfold
    by (intro triple_bind [OF triple_maperr [OF triple_sum]] triple_bind [OF world] triple_bind [OF triple_some]
        triple_bind [OF tags] frame_intros assms(1) triple_return)
  have "I (g', w')" by (rule triple_anyD [OF conn _ assms(2)]) (simp_all add: I_def)
  then show ?thesis by (simp add: I_def)
qed

end

locale model_proxier = login_tokens "ph_E H" store remaining "ph_TokenGen H" "ph_order H"
  for H :: "('w, 'd) proxy_helpers" and store :: "'w \<Rightarrow> tup set" and remaining +
  fixes A :: "('w, 'd option, 't) oauth_authenticator" and rpc_Dial :: "controller \<Rightarrow> tag \<Rightarrow> string \<Rightarrow> ('w, unit) io"
  assumes io_frames: "frame store (ph_readClient H)" "frame store (ph_readController H)"
      "frame store (ph_writeClient H m)" "frame store (ph_writeController H m)" "frame store (ph_AuditLog H ale)"
      "frame store (rpc_Dial c mt f)"
    and oauth_frames: "frame store (oa_Device A)" "frame store (oa_DeviceAccessToken A d)"
      "frame store (oa_VerifyAndExtractIdentityClaims A t)" "frame store (oa_UpdateIdentity A i t)"
      "frame store (oa_VerifyClientCredentials A i pw)"

sublocale model_proxier \<subseteq> served: rpc_proxy "ServeWS H A lm d rpc_Dial redirect_map path groups identityID" store remaining
  for lm d redirect_map path groups identityID
proof (intro rpc_proxy.intro rpc_proxy_axioms.intro)
  let ?H = "ServeWS H A lm d rpc_Dial redirect_map path groups identityID"
  have same: "ph_E ?H = ph_E H" "ph_TokenGen ?H = ph_TokenGen H" "ph_order ?H = ph_order H"
    "ph_readClient ?H = ph_readClient H" "ph_readController ?H = ph_readController H" "ph_writeClient ?H = ph_writeClient H"
    "ph_writeController ?H = ph_writeController H" "ph_AuditLog ?H = ph_AuditLog H"
    "ph_ConnectController ?H = controllerConnectionFunc (ph_E H) d rpc_Dial path"
    "ph_RedirectInfo ?H = GetRedirectInfo (ph_E H) d redirect_map path"
    "ph_LoginService ?H = manager_service (ph_E H) A lm groups"
    by (simp_all add: ServeWS_def)
  show "login_tokens (ph_E ?H) store remaining (ph_TokenGen ?H) (ph_order ?H)"
    unfolding same by (rule login_tokens_axioms)
  show "store w' = store w \<and> (g' = g \<or> (\<exists>mt ct. g' = SetTags mt ct g))"
    if "ph_ConnectController ?H (g, w) = (q, g', w')" for g w q g' w'
    by (rule connection_effect [OF io_frames(6) that [unfolded same]])
  show "frame store (ph_readClient ?H)" "frame store (ph_readController ?H)" "frame store (ph_writeClient ?H m)"
    "frame store (ph_writeController ?H m)" "frame store (ph_AuditLog ?H ale)" "frame store (ph_RedirectInfo ?H)" for m ale
    unfolding same by (rule io_frames GetRedirectInfo_frame)+
  show "frame store (ls_LoginDevice (ph_LoginService ?H))" "frame store (ls_GetDeviceSessionToken (ph_LoginService ?H) dev)"
    "frame store (ls_LoginClientCredentials (ph_LoginService ?H) i pw)" "frame store (ls_LoginWithSessionToken (ph_LoginService ?H) i)"
    "frame store (ls_LoginWithSessionCookie (ph_LoginService ?H) i)" for dev i pw
    unfolding same
    by (simp_all add: manager_service_def LoginDevice_def GetDeviceSessionToken_def LoginClientCredentials_def
        LoginWithSessionToken_def LoginWithSessionCookie_def frame_intros oauth_frames identity_login_frames)
qed

section \<open>A connection in the in-memory world\<close>

text \<open>
  Every message the client sends asks for the status of the model; answers are empty objects.
  A login request is encoded by its token alone.
\<close>

definition status_request :: message where
  "status_request = empty_message\<lparr>RequestID := 7, msg_Type := ''Client'', Request := ''FullStatus'', Params := Some [123, 125]\<rparr>"

definition mem_helpers :: "message option \<Rightarrow> message \<Rightarrow> (tup list, unit) proxy_helpers" where
  "mem_helpers req reply = \<lparr>ph_E = mem_externals, ph_TokenGen = mem_factory, ph_order = (\<lambda>xs. xs),
     ph_ConnectController = go_err (ErrNew ''not connected''), ph_AuditLog = (\<lambda>_. go_return ()),
     ph_LoginService = \<lparr>ls_LoginDevice = go_return None, ls_GetDeviceSessionToken = (\<lambda>_. go_return ''''),
       ls_LoginClientCredentials = (\<lambda>_ _. go_err (ErrNew '''')), ls_LoginWithSessionToken = (\<lambda>_. go_err (ErrNew '''')),
       ls_LoginWithSessionCookie = (\<lambda>_. go_err (ErrNew ''''))\<rparr>,
     ph_AuthenticatedIdentityID = '''', ph_RedirectInfo = go_return [], ph_conversationId = '''',
     ph_readClient = go_return req, ph_writeClient = (\<lambda>_. go_return ()),
     ph_readController = go_return reply, ph_writeController = (\<lambda>_. go_return ()),
     ph_unexpectedReadError = (\<lambda>_. False), ph_AnonymousUsername = ''anonymous'',
     ph_VerificationURI = (\<lambda>_. ''''), ph_UserCode = (\<lambda>_. ''''),
     ph_decode_errors = (\<lambda>_. Inr []), ph_encode_errors = (\<lambda>_. Inr []),
     ph_decode_login = (\<lambda>s. Inr \<lparr>lr_AuthTag = ''user-anonymous'', lr_Token = '''', lr_rest = s\<rparr>),
     ph_encode_login = (\<lambda>lr. Inr (bytes_of (lr_Token lr))), ph_float_text = Some\<rparr>"

definition mem_device_oauth :: "(tup list, unit option, unit) oauth_authenticator" where
  "mem_device_oauth = \<lparr>oa_Device = go_return (Some ()), oa_DeviceAccessToken = (\<lambda>_. go_return ()),
     oa_VerifyAndExtractIdentityClaims = (\<lambda>_. go_return (''alice'', [])), oa_MintSessionTokenWithGroups = (\<lambda>_ _. Inr ''tok''),
     oa_VerifySessionToken = (\<lambda>_. Inr mem_jwt), oa_UpdateIdentity = (\<lambda>_ _. go_return ()),
     oa_VerifyClientCredentials = (\<lambda>_ _. go_return [])\<rparr>"

definition mem_path :: string where
  "mem_path = ''/0a6b8f5e-6f4c-4d2b-9a51-3c0f5d7e9b12/api''"

interpretation memp: model_proxier "mem_helpers req reply" mem_store mem_remaining mem_device_oauth "\<lambda>_ _ _. go_return ()"
  for req reply
proof (intro model_proxier.intro model_proxier_axioms.intro)
  show "login_tokens (ph_E (mem_helpers req reply)) mem_store mem_remaining (ph_TokenGen (mem_helpers req reply)) (ph_order (mem_helpers req reply))"
    by (simp add: mem_helpers_def mem_login_tokens)
qed (simp_all add: mem_helpers_def mem_device_oauth_def frame_return)

definition mem_serve :: "message option \<Rightarrow> message \<Rightarrow> (tup list, unit) proxy_helpers" where
  "mem_serve req reply = ServeWS (mem_helpers req reply) mem_device_oauth mem_login (pm_store mem_pm) (\<lambda>_ _ _. go_return ()) (\<lambda>_. []) mem_path [] ''alice''"

lemma mem_connects:
  "controllerConnectionFunc mem_externals (pm_store mem_pm) (\<lambda>_ _ _. go_return ()) mem_path (newLoginTokenGenerator, w) =
     (Ok \<lparr>cm_ControllerUUID = ''c'', cm_ModelName = ''/'', cm_ModelUUID = ''0a6b8f5e-6f4c-4d2b-9a51-3c0f5d7e9b12'', cm_MigrationMode = ''''\<rparr>,
      (SetTags (Tag ModelTagKind ''0a6b8f5e-6f4c-4d2b-9a51-3c0f5d7e9b12'') (Tag ControllerTagKind ''c'') newLoginTokenGenerator, w))"
proof -
  have path: "modelInfoFromPath mem_path = Inr (''0a6b8f5e-6f4c-4d2b-9a51-3c0f5d7e9b12'', ''api'')" by code_simp
  show ?thesis unfolding controllerConnectionFunc_def path
    by (simp add: GetModel_def ready_def mem_pm_def mem_models_def no_table_def model_ResourceTag_def controller_ResourceTag_def
        new_juju_tag_def empty_model_def empty_controller_def in_world_def go_bind_def go_maperr_def go_simps)
qed

lemma mem_serve_simps [simp]:
  "ph_E (mem_serve req reply) = mem_externals" "ph_readClient (mem_serve req reply) = go_return req"
  "ph_readController (mem_serve req reply) = go_return reply" "ph_AuditLog (mem_serve req reply) e = go_return ()"
  "ph_writeClient (mem_serve req reply) m = go_return ()" "ph_writeController (mem_serve req reply) m = go_return ()"
  "ph_ConnectController (mem_serve req reply) = controllerConnectionFunc mem_externals (pm_store mem_pm) (\<lambda>_ _ _. go_return ()) mem_path"
  "ph_decode_errors (mem_serve req reply) r = Inr []" "ph_encode_errors (mem_serve req reply) es = Inr []"
  "ph_float_text (mem_serve req reply) = Some"
  by (simp_all add: mem_serve_def ServeWS_def mem_helpers_def)

text \<open>The first request connects and gets a cell.\<close>

definition mem_connected :: "unit proxy" where
  "mem_connected = new_proxy\<lparr>px_received := [status_request],
     px_tokenGen := SetTags (Tag ModelTagKind ''0a6b8f5e-6f4c-4d2b-9a51-3c0f5d7e9b12'') (Tag ControllerTagKind ''c'') newLoginTokenGenerator,
     px_controllerUUID := ''c'', px_modelName := ''/'', px_modelUUID := ''0a6b8f5e-6f4c-4d2b-9a51-3c0f5d7e9b12'',
     px_modelMigrationMode := '''', px_controller := ControllerReading,
     px_cells := (\<lambda>_. empty_message)(0 := status_request), px_next := 1, px_client := AddMessage 0\<rparr>"

lemma mem_first_request:
  "client_step (mem_serve (Some status_request) reply) ClientReading (new_proxy, w) = (Ok (), (mem_connected, w))"
proof -
  have body: "raw_marshal (Params status_request) = Inr [123, 125]" by code_simp
  have plain: "msg_Type status_request \<noteq> ''Admin''" by (simp add: status_request_def)
  have nobody: "lg_user (SetTags mt ct newLoginTokenGenerator) = None" for mt ct
    by (simp add: SetTags_def newLoginTokenGenerator_def)
  show ?thesis
    by (simp add: client_step_def receive_request_def makeControllerConnection_def on_gen_def mem_connects new_proxy_def
        logged_def auditLogMessage_def px_GetUser_def GetUser_def body nobody plain dispatch_def new_cell_def client_goto_def
        mem_connected_def Let_def in_world_def go_bind_def go_try_def go_simps)
qed

lemma mem_status_run:
  "\<exists>s W. proxy_run (mem_serve (Some status_request) reply) mem_store (s, [], W, 0) \<and> px_toController s = [status_request]"
proof -
  let ?H = "mem_serve (Some status_request) reply"
  let ?s1 = "mem_connected\<lparr>px_messages := (px_messages mem_connected)(RequestID status_request \<mapsto> 0), px_client := WriteRequest 0\<rparr>"
  let ?s2 = "?s1\<lparr>px_toController := [status_request], px_client := ClientReading\<rparr>"
  have fields: "px_client new_proxy = ClientReading" "px_client mem_connected = AddMessage 0" "px_cells mem_connected 0 = status_request"
    "px_toController mem_connected = []" by (simp_all add: new_proxy_def mem_connected_def)
  have one: "proxy_run ?H mem_store (mem_connected, [], insert (mem_store []) {}, 0)"
    by (rule proxy_run.client [OF proxy_run.accepted]) (simp add: stop_on_error_def fields mem_first_request go_bind_def go_try_def go_simps)
  have two: "proxy_run ?H mem_store (?s1, [], insert (mem_store []) (insert (mem_store []) {}), 0)"
    by (rule proxy_run.client [OF one])
      (simp add: stop_on_error_def fields client_step_def addMessage_def client_goto_def go_bind_def go_try_def go_simps)
  have "proxy_run ?H mem_store (?s2, [], insert (mem_store []) (insert (mem_store []) (insert (mem_store []) {})), 0)"
    by (rule proxy_run.client [OF two])
      (simp add: stop_on_error_def fields client_step_def write_request_def to_controller_def client_goto_def Let_def in_world_def
        go_bind_def go_try_def go_simps)
  then show ?thesis by (intro exI conjI) (assumption, simp)
qed

text \<open>An answer that names servers goes to the client without them.\<close>

definition servers_reply :: message where
  "servers_reply = empty_message\<lparr>RequestID := 7,
     Response := Some (json_marshal [(bytes_of ''servers'', bytes_of ''10.0.0.1''), (bytes_of ''status'', bytes_of ''ok'')])\<rparr>"

lemma mem_reply_run:
  "\<exists>s W. proxy_run (mem_serve (Some status_request) servers_reply) mem_store (s, [], W, 0)
     \<and> px_toClient s = [servers_reply\<lparr>Response := Some (json_marshal [(bytes_of ''status'', bytes_of ''ok'')])\<rparr>]"
proof -
  let ?H = "mem_serve (Some status_request) servers_reply"
  let ?m = "servers_reply\<lparr>Response := Some (json_marshal [(bytes_of ''status'', bytes_of ''ok'')])\<rparr>"
  let ?s1 = "mem_connected\<lparr>px_controller := ForwardReply servers_reply\<rparr>"
  let ?s2 = "?s1\<lparr>px_messages := (px_messages mem_connected)(7 := None), px_controller := WriteReply ?m\<rparr>"
  let ?s3 = "?s2\<lparr>px_toClient := [?m], px_controller := ControllerReading\<rparr>"
  have fields: "px_client new_proxy = ClientReading" "px_controller mem_connected = ControllerReading" "px_toClient mem_connected = []"
    "px_modelMigrationMode mem_connected = ''''" "lg_user (px_tokenGen mem_connected) = None" "msg_ErrorCode servers_reply \<noteq> accessRequiredErrorCode"
    "RequestID servers_reply = 7"
    by (simp_all add: new_proxy_def mem_connected_def SetTags_def newLoginTokenGenerator_def servers_reply_def empty_message_def accessRequiredErrorCode_def)
  have modified: "unmarshal_map Some (raw (Response servers_reply)) = Inr (Some [(bytes_of ''servers'', JStr (bytes_of ''10.0.0.1'')), (bytes_of ''status'', JStr (bytes_of ''ok''))])"
    by code_simp
  have deleted: "marshal_map (map_delete (bytes_of ''servers'') (Some [(bytes_of ''servers'', JStr (bytes_of ''10.0.0.1'')), (bytes_of ''status'', JStr (bytes_of ''ok''))]))
      = json_marshal [(bytes_of ''status'', bytes_of ''ok'')]" by code_simp
  have one: "proxy_run ?H mem_store (mem_connected, [], insert (mem_store []) {}, 0)"
    by (rule proxy_run.client [OF proxy_run.accepted]) (simp add: stop_on_error_def fields mem_first_request go_bind_def go_try_def go_simps)
  have two: "proxy_run ?H mem_store (?s1, [], insert (mem_store []) (insert (mem_store []) {}), if logging_in (px_controller ?s1) then Suc 0 else 0)"
    by (rule proxy_run.controller [OF one])
      (simp add: stop_on_error_def fields controller_step_def receive_reply_def classify_reply_def checkPermissionsRequired_def
        MigrationModeMigrateInternal_def MigrationModeExporting_def controller_goto_def in_world_def go_bind_def go_try_def go_simps)
  then have two: "proxy_run ?H mem_store (?s1, [], insert (mem_store []) (insert (mem_store []) {}), 0)" by simp
  have "proxy_run ?H mem_store (?s2, [], insert (mem_store []) (insert (mem_store []) (insert (mem_store []) {})), if logging_in (px_controller ?s2) then Suc 0 else 0)"
    by (rule proxy_run.controller [OF two])
      (simp add: stop_on_error_def fields controller_step_def forward_reply_def modifyControllerResponse_def modified deleted
        removeMessage_def controller_goto_def go_bind_def go_try_def go_simps)
  then have three: "proxy_run ?H mem_store (?s2, [], insert (mem_store []) (insert (mem_store []) (insert (mem_store []) {})), 0)" by simp
  have "proxy_run ?H mem_store (?s3, [], insert (mem_store []) (insert (mem_store []) (insert (mem_store []) (insert (mem_store []) {}))), if logging_in (px_controller ?s3) then Suc 0 else 0)"
    by (rule proxy_run.controller [OF three])
      (simp add: stop_on_error_def fields controller_step_def write_reply_def logged_def auditLogMessage_def px_GetUser_def GetUser_def
        to_client_def controller_goto_def Let_def in_world_def go_maperr_def go_bind_def go_try_def go_simps)
  then show ?thesis by (intro exI conjI) (simp, simp)
qed

section \<open>Properties\<close>

text \<open>
  C6. The proxy is the gate to the controller. However the two goroutines and the rest of the world
  interleave, and whatever the client and the controller send: a message that is written to the
  controller is a request of the client, unchanged, and then not a login unless it is the
  anonymous login, or a login that JIMM made, with a token of the JWT service whose claims the
  user had earned in a state of OpenFGA during the connection. The proxy logs in again at most
  ten times.
\<close>

theorem proxy_gateway:
  assumes "rpc_proxy H store remaining" and "proxy_run H store (s, w, W, n)"
  shows "n \<le> 10 \<and> (\<forall>m\<in>set (px_toController s). passes H W (set (px_received s)) m)"
  using rpc_proxy.run_inv [OF assms] unfolding rpc_proxy.good_def [OF assms(1)] by auto

theorem proxy_gateway_witness:
  "\<exists>(s :: unit proxy) W. px_toController s = [status_request] \<and> passes (mem_serve (Some status_request) status_request) W (set (px_received s)) status_request"
proof -
  obtain s W where run: "proxy_run (mem_serve (Some status_request) status_request) mem_store (s, [], W, 0)" "px_toController s = [status_request]"
    using mem_status_run by blast
  have "rpc_proxy (mem_serve (Some status_request) status_request) mem_store mem_remaining"
    unfolding mem_serve_def by (rule memp.served.rpc_proxy_axioms)
  from proxy_gateway [OF this run(1)] run(2)
  have "passes (mem_serve (Some status_request) status_request) W (set (px_received s)) status_request" by simp
  with run(2) show ?thesis by blast
qed



text \<open>
  A client that sends the JSON value \<^verbatim>\<open>null\<close> ends the process: the message is decoded into a
  pointer to a pointer, which becomes nil, and the goroutine dereferences it. No login is needed;
  the path has to name a model.
\<close>

theorem null_request_panics:
  assumes "ph_readClient H w = (Ok None, w')"
    and "px_controller s \<noteq> NotConnected \<or> (\<exists>c g w2. ph_ConnectController H (px_tokenGen s, w') = (Ok c, (g, w2)))"
  shows "fst (stop_on_error stop (client_step H ClientReading) (s, w)) = Panic ''nil pointer dereference''"
  using assms by (auto simp: stop_on_error_def client_step_def receive_request_def makeControllerConnection_def on_gen_def
      logged_def auditLogMessage_def in_world_def go_bind_def go_try_def go_simps)

theorem null_request_panics_witness:
  "fst (stop_on_error (\<lambda>s. s) (client_step (mem_serve None status_request) ClientReading) (new_proxy, [])) = Panic ''nil pointer dereference''"
  by (rule null_request_panics) (simp_all add: go_simps new_proxy_def mem_connects)

text \<open>
  The flag for anonymous logins that \<^verbatim>\<open>redoLogin\<close> looks at belongs to the other proxy object and is
  never set. After an anonymous login on a connection on which a user had logged in before, a
  request for more permissions puts a token of that user into the anonymous login.
\<close>

lemma anonymous_relogin:
  assumes "px_loginMessage s = Some a" and "anonymous_login H (px_cells s a)" and "px_anonymousLogin s" and "\<not> px_controllerAnonymous s"
    and "MakeToken (ph_E H) (ph_TokenGen H) perms (px_tokenGen s, w) = (Ok tok, (g', w'))"
    and "\<And>lr. \<exists>data. ph_encode_login H lr = Inr data"
  shows "\<exists>lr data. ph_encode_login H lr = Inr data \<and> lr_Token lr = EncodeToString tok
    \<and> redoLogin H perms (s, w) = (Ok a, (s\<lparr>px_tokenGen := g', px_cells := (px_cells s)(a := (px_cells s a)\<lparr>Params := Some data\<rparr>)\<rparr>, w'))"
proof -
  from assms(2) obtain lr where lr: "ph_decode_login H (raw (Params (px_cells s a))) = Inr lr" unfolding anonymous_login_def by blast
  obtain data where data: "ph_encode_login H (lr\<lparr>lr_Token := EncodeToString tok\<rparr>) = Inr data" using assms(6) by blast
  show ?thesis
    using assms(1,4,5) lr data
    by (intro exI [of _ "lr\<lparr>lr_Token := EncodeToString tok\<rparr>"] exI [of _ data])
      (simp add: redoLogin_def getLoginMessage_def addJWT_def on_gen_def go_bind_def go_simps)
qed

end
