(* ===== verification/Juju_Env.thy ===== *)
theory Juju_Env
  imports Perm_Access
begin

text \<open>
  What the package \<^verbatim>\<open>internal/jimm/juju\<close> works on: the \<^verbatim>\<open>JujuManager\<close> of \<^verbatim>\<open>juju.go\<close>, the
  connections its dialer returns and the calls of the \<^verbatim>\<open>API\<close> interface (\<^verbatim>\<open>interface.go\<close>) it makes
  on them, and the rest of \<^verbatim>\<open>internal/db\<close> it uses: cloud credentials, cloud defaults, cloud regions
  and the priorities of controllers.

  Controllers, the credential store and the tables are fields of one record that the definitions
  take as an argument. A connection is the value \<open>conn\<close>: whose identity it was dialled with, and
  the controller, whose agent version and addresses the dialer fills in. Closing a connection and
  log lines are left out.
\<close>

section \<open>Values exchanged with controllers\<close>

text \<open>A cloud credential tag consists of the identifiers of a cloud and of a user, and a name.\<close>

record cred_tag =
  cct_Cloud :: string
  cct_Owner :: string
  cct_Name :: string

definition no_cred_tag :: cred_tag where
  "no_cred_tag = \<lparr>cct_Cloud = '''', cct_Owner = '''', cct_Name = ''''\<rparr>"

record create_model_args =
  cma_Name :: string
  cma_Owner :: string
  cma_Cloud :: string
  cma_CloudRegion :: string
  cma_CloudCredentialTag :: cred_tag
  cma_Config :: "config option"

record user_info =
  ui_UserName :: string
  ui_Access :: string

text \<open>
  \<^verbatim>\<open>base.ModelInfo\<close> and \<^verbatim>\<open>jujuclient.ModelInfo\<close>, with the fields the code reads or replaces.
  \<open>mi_MigrationEnd\<close> says that there is a migration status whose end time is set.
\<close>

record model_info =
  mi_Name :: string
  mi_UUID :: string
  mi_ControllerUUID :: string
  mi_Owner :: string
  mi_Cloud :: string
  mi_CloudRegion :: string
  mi_CloudCredential :: string
  mi_Life :: string
  mi_Users :: "user_info list"
  mi_Machines :: "string list"
  mi_MigrationEnd :: bool

definition empty_model_info :: model_info where
  "empty_model_info = \<lparr>mi_Name = '''', mi_UUID = '''', mi_ControllerUUID = '''', mi_Owner = '''', mi_Cloud = '''', mi_CloudRegion = '''',
     mi_CloudCredential = '''', mi_Life = '''', mi_Users = [], mi_Machines = [], mi_MigrationEnd = False\<rparr>"

record model_status =
  ms_UUID :: string
  ms_Life :: string
  ms_Owner :: string
  ms_Error :: "err option"

record user_model =
  um_Name :: string
  um_UUID :: string
  um_Owner :: string

record model_summary =
  sum_Name :: string
  sum_UUID :: string
  sum_ControllerUUID :: string
  sum_ProviderType :: string
  sum_Cloud :: string
  sum_CloudRegion :: string
  sum_CloudCredential :: string
  sum_Owner :: string
  sum_Life :: string
  sum_Status :: string
  sum_ModelUserAccess :: string

record destroy_args =
  da_destroyStorage :: "bool option"
  da_force :: "bool option"
  da_maxWait :: "int option"
  da_timeout :: "int option"

record tagged_credential =
  tc_Tag :: string
  tc_AuthType :: string
  tc_Attributes :: "string \<rightharpoonup> string"

record update_model_result =
  umr_ModelUUID :: string
  umr_Errors :: "err list"

record update_credential_result =
  ucr_Error :: "err option"
  ucr_Models :: "update_model_result list"

record credential_content =
  ccr_Name :: string
  ccr_Attributes :: "string \<rightharpoonup> string"

text \<open>\<^verbatim>\<open>jujucloud.Cloud\<close>; a missing entry of \<open>jc_RegionConfig\<close> reads as a nil map.\<close>

record juju_region =
  jr_Name :: string
  jr_Endpoint :: string
  jr_IdentityEndpoint :: string
  jr_StorageEndpoint :: string

record juju_cloud =
  jc_Type :: string
  jc_HostCloudRegion :: string
  jc_AuthTypes :: "string list"
  jc_Endpoint :: string
  jc_IdentityEndpoint :: string
  jc_StorageEndpoint :: string
  jc_Regions :: "juju_region list"
  jc_CACertificates :: "string list"
  jc_SkipTLSVerify :: bool
  jc_Config :: "config option"
  jc_RegionConfig :: "string \<rightharpoonup> config"

section \<open>Connections\<close>

datatype dial_identity = AsUser "ofga_user option" | AsSuperuser "ofga_user option" | AsService

record conn =
  conn_identity :: dial_identity
  conn_controller :: controller
  conn_model :: "tag option"

text \<open>
  The operations of the outside world. \<open>je_swaps n\<close> are the swaps \<^verbatim>\<open>rand.Shuffle\<close> makes on a slice
  of length \<open>n\<close>, and \<open>je_schedule n\<close> the order in which \<open>n\<close> goroutines of an \<^verbatim>\<open>errgroup\<close> run or
  in which a map of \<open>n\<close> keys is visited. \<open>je_RedirectAlias\<close> reads the alias of a controller out of the
  information of a redirection error.
  \<open>je_ErrCode\<close> is \<^verbatim>\<open>jujuparams.ErrCode\<close> and \<open>je_CredentialTag\<close> is \<^verbatim>\<open>NewCloudCredentialTag\<close>, which panics on an invalid identifier.
\<close>

record 'w juju_env =
  je_credentials :: "('w, cloud_credential) gorm_table"
  je_defaults :: "('w, cloud_defaults) gorm_table"
  je_regions :: "('w, cloud_region) gorm_table"
  je_priorities :: "('w, region_controller) gorm_table"
  je_upsert_credential :: "handle \<Rightarrow> cloud_credential \<Rightarrow> ('w, cloud_credential) io"
  je_upsert_defaults :: "handle \<Rightarrow> cloud_defaults \<Rightarrow> ('w, cloud_defaults) io"
  je_transaction :: "(handle \<Rightarrow> ('w, unit) io) \<Rightarrow> ('w, unit) io"
  je_Store_Get :: "cred_tag \<Rightarrow> ('w, string \<rightharpoonup> string) io"
  je_Store_Put :: "cred_tag \<Rightarrow> (string \<rightharpoonup> string) \<Rightarrow> ('w, unit) io"
  je_Dial :: "dial_identity \<Rightarrow> controller \<Rightarrow> tag option \<Rightarrow> ('w, conn) io"
  je_swaps :: "nat \<Rightarrow> 'w \<Rightarrow> (nat \<times> nat) list \<times> 'w"
  je_schedule :: "nat \<Rightarrow> 'w \<Rightarrow> nat list \<times> 'w"
  je_ErrCode :: "err \<Rightarrow> Code"
  je_CredentialTag :: "string \<Rightarrow> cred_tag option"
  je_CredentialTag_String :: "cred_tag \<Rightarrow> string"
  je_RedirectAlias :: "info \<Rightarrow> err + string"
  je_IsValidCloudCredential :: "string \<Rightarrow> bool"
  je_IsVisibleAttribute :: "string \<Rightarrow> string \<Rightarrow> string \<Rightarrow> bool"
  api_CreateModel :: "conn \<Rightarrow> create_model_args \<Rightarrow> ('w, model_info) io"
  api_GrantJIMMModelAdmin :: "conn \<Rightarrow> tag \<Rightarrow> ('w, unit) io"
  api_ModelInfo :: "conn \<Rightarrow> tag \<Rightarrow> ('w, model_info) io"
  api_ModelStatus :: "conn \<Rightarrow> tag \<Rightarrow> ('w, model_status) io"
  api_DestroyModel :: "conn \<Rightarrow> tag \<Rightarrow> destroy_args \<Rightarrow> ('w, unit) io"
  api_DumpModel :: "conn \<Rightarrow> tag \<Rightarrow> bool \<Rightarrow> ('w, config) io"
  api_DumpModelDB :: "conn \<Rightarrow> tag \<Rightarrow> ('w, config) io"
  api_AbortModelUpgrade :: "conn \<Rightarrow> string \<Rightarrow> ('w, unit) io"
  api_UpgradeModel :: "conn \<Rightarrow> string \<Rightarrow> string \<Rightarrow> string \<Rightarrow> bool \<Rightarrow> bool \<Rightarrow> ('w, string) io"
  api_ValidateModelUpgrade :: "conn \<Rightarrow> tag \<Rightarrow> bool \<Rightarrow> ('w, unit) io"
  api_ChangeModelCredential :: "conn \<Rightarrow> tag \<Rightarrow> cred_tag \<Rightarrow> ('w, unit) io"
  api_ControllerModelUUID :: "conn \<Rightarrow> ('w, string) io"
  api_ListModels :: "conn \<Rightarrow> ('w, user_model list) io"
  api_ListModelSummaries :: "conn \<Rightarrow> ('w, model_summary list) io"
  api_CheckCredentialModels :: "conn \<Rightarrow> tagged_credential \<Rightarrow> ('w, update_credential_result list) io"
  api_UpdateCloudsCredentialForce :: "conn \<Rightarrow> tagged_credential \<Rightarrow> ('w, update_credential_result list) io"
  api_RevokeCredential :: "conn \<Rightarrow> cred_tag \<Rightarrow> ('w, unit) io"
  api_CredentialContents :: "conn \<Rightarrow> string \<Rightarrow> string \<Rightarrow> bool \<Rightarrow> ('w, (err + credential_content option) list) io"
  api_AddCloud :: "conn \<Rightarrow> tag \<Rightarrow> juju_cloud \<Rightarrow> bool \<Rightarrow> ('w, unit) io"
  api_Cloud :: "conn \<Rightarrow> tag \<Rightarrow> ('w, juju_cloud) io"
  api_RemoveCloud :: "conn \<Rightarrow> tag \<Rightarrow> ('w, unit) io"
  api_UpdateCloud :: "conn \<Rightarrow> tag \<Rightarrow> juju_cloud \<Rightarrow> ('w, unit) io"

section \<open>The manager and its connections\<close>

text \<open>\<open>jm_Dialer\<close> says whether the manager has a dialer; \<open>jm_fuel\<close> bounds the loops over OpenFGA's pages.\<close>

record juju_manager =
  jm_Database :: database
  jm_permissionManager :: perm_manager
  jm_ReservedCloudNames :: "string list"
  jm_Dialer :: bool
  jm_fuel :: nat

definition err_no_dialer :: err where
  "err_no_dialer = Codef CodeConnectionFailed (ErrNew ''no dialer configured'')"

definition dial :: "'w juju_env \<Rightarrow> juju_manager \<Rightarrow> dial_identity \<Rightarrow> controller \<Rightarrow> tag option \<Rightarrow> ('w, conn) io" where
  "dial V j as ctl model = (if \<not> jm_Dialer j then go_err err_no_dialer else je_Dial V as ctl model)"

definition dialControllerAsSuperuser :: "'w juju_env \<Rightarrow> juju_manager \<Rightarrow> ofga_user option \<Rightarrow> controller \<Rightarrow> ('w, conn) io" where
  "dialControllerAsSuperuser V j user ctl = dial V j (AsSuperuser user) ctl None"

definition dialModelAsService :: "'w juju_env \<Rightarrow> juju_manager \<Rightarrow> controller \<Rightarrow> tag \<Rightarrow> ('w, conn) io" where
  "dialModelAsService V j ctl mt = dial V j AsService ctl (Some mt)"

definition dialControllerAsService :: "'w juju_env \<Rightarrow> juju_manager \<Rightarrow> controller \<Rightarrow> ('w, conn) io" where
  "dialControllerAsService V j ctl = dial V j AsService ctl None"

text \<open>
  An \<^verbatim>\<open>errgroup.Group\<close>: every function runs, and the group reports the first error in the order of
  time. The functions share a state \<open>s\<close> that they change under a mutex, and they run one after the
  other in the order of the schedule.
\<close>

fun errgroup :: "('a \<Rightarrow> 's \<Rightarrow> ('w, 's \<times> err option) io) \<Rightarrow> 'a list \<Rightarrow> 's \<Rightarrow> err option \<Rightarrow> ('w, 's \<times> err option) io" where
  "errgroup f [] s e = go_return (s, e)"
| "errgroup f (x # xs) s e =
     go_bind (f x s) (\<lambda>(s', e'). errgroup f xs s' (if e = None then e' else e))"

definition forEachController ::
    "'w juju_env \<Rightarrow> juju_manager \<Rightarrow> controller list \<Rightarrow> (controller \<Rightarrow> conn \<Rightarrow> 's \<Rightarrow> ('w, 's \<times> err option) io) \<Rightarrow> 's \<Rightarrow> ('w, 's \<times> err option) io" where
  "forEachController V j controllers f s =
     go_bind (go_lift (je_schedule V (length controllers))) (\<lambda>order.
     errgroup (\<lambda>i s.
       go_bind (go_try (dialControllerAsService V j (controllers ! i))) (\<lambda>r. case r of
           Inl e \<Rightarrow> go_return (s, Some e)
         | Inr api \<Rightarrow> f (conn_controller api) api s)) order s None)"

text \<open>A function of the group that only returns an error.\<close>

definition only_err :: "('w, unit) io \<Rightarrow> 's \<Rightarrow> ('w, 's \<times> err option) io" where
  "only_err m s = go_bind (go_try m) (\<lambda>r. go_return (s, case r of Inl e \<Rightarrow> Some e | Inr _ \<Rightarrow> None))"

text \<open>The controllers of a list of rows, each once, in the order of their first occurrence.\<close>

fun unique_controllers :: "'k list \<Rightarrow> ('k \<times> controller) list \<Rightarrow> controller list" where
  "unique_controllers seen [] = []"
| "unique_controllers seen ((i, c) # rest) =
     (if i \<in> set seen then unique_controllers seen rest else c # unique_controllers (i # seen) rest)"

text \<open>Ranging over a map: its entries in an order the runtime chooses.\<close>

definition visit :: "'w juju_env \<Rightarrow> 'a list \<Rightarrow> ('w, 'a list) io" where
  "visit V xs = go_bind (go_lift (je_schedule V (length xs))) (\<lambda>order. go_return (map ((!) xs) order))"

text \<open>Assigning to a key of a map that is kept as a list of its entries.\<close>

definition map_put :: "'k \<Rightarrow> 'v \<Rightarrow> ('k \<times> 'v) list \<Rightarrow> ('k \<times> 'v) list" where
  "map_put k v m = filter (\<lambda>(k', _). k' \<noteq> k) m @ [(k, v)]"

lemma map_of_map_put: "map_of (map_put k v m) = (map_of m)(k \<mapsto> v)"
proof
  fix x
  have "map_of (filter (\<lambda>(k', _). k' \<noteq> k) m) x = (if x = k then None else map_of m x)" by (induction m) auto
  then show "map_of (map_put k v m) x = ((map_of m)(k \<mapsto> v)) x"
    by (simp add: map_put_def map_add_def split: option.splits)
qed

section \<open>Authorisation helpers\<close>

definition err_unauthorized_juju :: err where
  "err_unauthorized_juju = Codef CodeUnauthorized (ErrNew ''unauthorized'')"

definition checkJimmAdmin :: "ofga_user \<Rightarrow> ('w, unit) io" where
  "checkJimmAdmin user = (if \<not> u_JimmAdmin user then go_err err_unauthorized_juju else go_return ())"

definition checkControllerAdminAccess :: "'w externals \<Rightarrow> ofga_user \<Rightarrow> controller \<Rightarrow> ('w, unit) io" where
  "checkControllerAdminAccess E user ctl =
     go_bind (go_some ''invalid controller tag'' (controller_ResourceTag E ctl)) (\<lambda>ct.
     go_bind (IsAdministrator E user ct) (\<lambda>isAdministrator.
     if \<not> isAdministrator then go_err err_unauthorized_juju else go_return ()))"

definition getControllerByName :: "'w externals \<Rightarrow> juju_manager \<Rightarrow> string \<Rightarrow> ('w, controller) io" where
  "getControllerByName E j controllerName =
     go_maperr (\<lambda>e. ErrFmt ''failed to get controller %q: %w'' [controllerName] (Some e))
       (GetController E (jm_Database j) (empty_controller\<lparr>ctl_Name := controllerName\<rparr>))"

section \<open>Cloud credentials and cloud defaults in the database\<close>

definition credential_Path :: "cloud_credential \<Rightarrow> string" where
  "credential_Path c = cc_CloudName c @ ''/'' @ cc_OwnerIdentityName c @ ''/'' @ cc_Name c"

definition credential_SetTag :: "cloud_credential \<Rightarrow> cred_tag \<Rightarrow> cloud_credential" where
  "credential_SetTag c t = c\<lparr>cc_CloudName := cct_Cloud t, cc_Name := cct_Name t, cc_OwnerIdentityName := cct_Owner t\<rparr>"

definition credential_ResourceTag :: "'w juju_env \<Rightarrow> cloud_credential \<Rightarrow> ('w, cred_tag) io" where
  "credential_ResourceTag V c = go_some ''invalid cloud credential tag'' (je_CredentialTag V (credential_Path c))"

definition cred_Id :: "cred_tag \<Rightarrow> string" where
  "cred_Id t = cct_Cloud t @ ''/'' @ cct_Owner t @ ''/'' @ cct_Name t"

definition err_credential :: "string \<Rightarrow> cloud_credential \<Rightarrow> err" where
  "err_credential fmt c = ErrFmt fmt [credential_Path c] None"

definition SetCloudCredential :: "'w juju_env \<Rightarrow> database \<Rightarrow> cloud_credential \<Rightarrow> ('w, cloud_credential) io" where
  "SetCloudCredential V d cred =
     go_bind (ready d) (\<lambda>_.
     if cc_CloudName cred = '''' \<or> cc_OwnerIdentityName cred = '''' \<or> cc_Name cred = ''''
     then go_err (Codef CodeBadRequest (err_credential ''invalid cloudcredential tag %q'' cred))
     else db_do (je_upsert_credential V (db_handle d) cred))"

definition db_GetCloudCredential :: "'w juju_env \<Rightarrow> database \<Rightarrow> cloud_credential \<Rightarrow> ('w, cloud_credential) io" where
  "db_GetCloudCredential V d cred =
     go_bind (ready d) (\<lambda>_.
     if cc_CloudName cred = '''' \<or> cc_OwnerIdentityName cred = '''' \<or> cc_Name cred = ''''
     then go_err (Codef CodeNotFound (err_credential ''cloudcredential %q not found'' cred))
     else go_maperr (not_found_as (Codef CodeNotFound (err_credential ''cloudcredential %q not found'' cred)))
       (gorm_First (je_credentials V) (db_handle d)
         [WhereEq ''cloud_name'' (cc_CloudName cred), WhereEq ''owner_identity_name'' (cc_OwnerIdentityName cred),
          WhereEq ''name'' (cc_Name cred)] cred))"

definition ForEachCloudCredential ::
    "'w juju_env \<Rightarrow> database \<Rightarrow> string \<Rightarrow> string \<Rightarrow> (cloud_credential \<Rightarrow> ('w, unit) io) \<Rightarrow> ('w, unit) io" where
  "ForEachCloudCredential V d identityName cloud f =
     go_bind (ready d) (\<lambda>_.
     go_bind (db_do (gorm_Find (je_credentials V) (db_handle d)
       ((if cloud = '''' then [] else [WhereEq ''cloud_name'' cloud]) @ [WhereEq ''owner_identity_name'' identityName])
       '''' None None)) (\<lambda>creds.
     go_foreach f creds))"

definition GetAllCloudCredentials :: "'w juju_env \<Rightarrow> database \<Rightarrow> ('w, cloud_credential list) io" where
  "GetAllCloudCredentials V d =
     go_bind (ready d) (\<lambda>_. db_do (gorm_Find (je_credentials V) (db_handle d) [] '''' None None))"

definition DeleteCloudCredential :: "'w juju_env \<Rightarrow> database \<Rightarrow> cloud_credential \<Rightarrow> ('w, unit) io" where
  "DeleteCloudCredential V d cred =
     go_bind (ready d) (\<lambda>_. db_do (gorm_Delete (je_credentials V) (db_handle d) [] cred))"

text \<open>The association \<^verbatim>\<open>CloudCredentials\<close> of an identity is the credentials with its name.\<close>

definition GetIdentityCloudCredentials :: "'w juju_env \<Rightarrow> database \<Rightarrow> identity \<Rightarrow> string \<Rightarrow> ('w, cloud_credential list) io" where
  "GetIdentityCloudCredentials V d u cloud =
     (if id_Name u = '''' \<or> cloud = '''' then go_err (err_not_found ''cloudcredential not found'')
      else go_bind (ready d) (\<lambda>_.
        gorm_Find (je_credentials V) (db_handle d)
          [WhereEq ''cloud_name'' cloud, WhereEq ''owner_identity_name'' (id_Name u)] '''' None None))"

definition GetModelsUsingCredential :: "'w externals \<Rightarrow> database \<Rightarrow> nat \<Rightarrow> ('w, model list) io" where
  "GetModelsUsingCredential E d credentialID =
     go_bind (ready d) (\<lambda>_. db_do (gorm_Find (tbl_models E) (db_handle d) [WhereCredential credentialID] '''' None None))"

definition db_CloudDefaults :: "'w juju_env \<Rightarrow> database \<Rightarrow> cloud_defaults \<Rightarrow> ('w, cloud_defaults) io" where
  "db_CloudDefaults V d defaults =
     go_bind (ready d) (\<lambda>_.
     go_maperr (not_found_as (err_not_found ''cloudregiondefaults not found''))
       (gorm_First (je_defaults V) (db_handle d)
         [WhereEq ''identity_name'' (cdf_IdentityName defaults),
          (if cdf_CloudID defaults \<noteq> 0 then WhereCloud (cdf_CloudID defaults)
           else WhereEq ''clouds.name'' (cld_Name (cdf_Cloud defaults))),
          WhereEq ''region'' (cdf_Region defaults)] defaults))"

section \<open>Frames\<close>

text \<open>None of the calls to controllers, to the credential store and to the tables changes what \<open>obs\<close> observes.\<close>

definition env_frame :: "('w \<Rightarrow> 'o) \<Rightarrow> 'w juju_env \<Rightarrow> bool" where
  "env_frame obs V \<longleftrightarrow>
     table_frame obs (je_credentials V)
   \<and> table_frame obs (je_defaults V)
   \<and> table_frame obs (je_regions V)
   \<and> table_frame obs (je_priorities V)
   \<and> (\<forall>a1 a2. frame obs (je_upsert_credential V a1 a2))
   \<and> (\<forall>a1 a2. frame obs (je_upsert_defaults V a1 a2))
   \<and> (\<forall>a1. frame obs (je_Store_Get V a1))
   \<and> (\<forall>a1 a2. frame obs (je_Store_Put V a1 a2))
   \<and> (\<forall>a1 a2 a3. frame obs (je_Dial V a1 a2 a3))
   \<and> (\<forall>n w. obs (snd (je_swaps V n w)) = obs w)
   \<and> (\<forall>n w. obs (snd (je_schedule V n w)) = obs w)
   \<and> (\<forall>a1 a2. frame obs (api_CreateModel V a1 a2))
   \<and> (\<forall>a1 a2. frame obs (api_GrantJIMMModelAdmin V a1 a2))
   \<and> (\<forall>a1 a2. frame obs (api_ModelInfo V a1 a2))
   \<and> (\<forall>a1 a2. frame obs (api_ModelStatus V a1 a2))
   \<and> (\<forall>a1 a2 a3. frame obs (api_DestroyModel V a1 a2 a3))
   \<and> (\<forall>a1 a2 a3. frame obs (api_DumpModel V a1 a2 a3))
   \<and> (\<forall>a1 a2. frame obs (api_DumpModelDB V a1 a2))
   \<and> (\<forall>a1 a2. frame obs (api_AbortModelUpgrade V a1 a2))
   \<and> (\<forall>a1 a2 a3 a4 a5 a6. frame obs (api_UpgradeModel V a1 a2 a3 a4 a5 a6))
   \<and> (\<forall>a1 a2 a3. frame obs (api_ValidateModelUpgrade V a1 a2 a3))
   \<and> (\<forall>a1 a2 a3. frame obs (api_ChangeModelCredential V a1 a2 a3))
   \<and> (\<forall>a1. frame obs (api_ControllerModelUUID V a1))
   \<and> (\<forall>a1. frame obs (api_ListModels V a1))
   \<and> (\<forall>a1. frame obs (api_ListModelSummaries V a1))
   \<and> (\<forall>a1 a2. frame obs (api_CheckCredentialModels V a1 a2))
   \<and> (\<forall>a1 a2. frame obs (api_UpdateCloudsCredentialForce V a1 a2))
   \<and> (\<forall>a1 a2. frame obs (api_RevokeCredential V a1 a2))
   \<and> (\<forall>a1 a2 a3 a4. frame obs (api_CredentialContents V a1 a2 a3 a4))
   \<and> (\<forall>a1 a2 a3 a4. frame obs (api_AddCloud V a1 a2 a3 a4))
   \<and> (\<forall>a1 a2. frame obs (api_Cloud V a1 a2))
   \<and> (\<forall>a1 a2. frame obs (api_RemoveCloud V a1 a2))
   \<and> (\<forall>a1 a2 a3. frame obs (api_UpdateCloud V a1 a2 a3))
   \<and> (\<forall>body. (\<forall>h. frame obs (body h)) \<longrightarrow> frame obs (je_transaction V body))"

lemma env_frameD:
  assumes "env_frame obs V"
  shows "table_frame obs (je_credentials V)"
    "table_frame obs (je_defaults V)"
    "table_frame obs (je_regions V)"
    "table_frame obs (je_priorities V)"
    "frame obs (je_upsert_credential V a1 b1)"
    "frame obs (je_upsert_defaults V a2 b2)"
    "frame obs (je_Store_Get V a3)"
    "frame obs (je_Store_Put V a4 b4)"
    "frame obs (je_Dial V a5 b5 c5)"
    "obs (snd (je_swaps V n w)) = obs w"
    "obs (snd (je_schedule V n w)) = obs w"
    "frame obs (api_CreateModel V a6 b6)"
    "frame obs (api_GrantJIMMModelAdmin V a7 b7)"
    "frame obs (api_ModelInfo V a8 b8)"
    "frame obs (api_ModelStatus V a9 b9)"
    "frame obs (api_DestroyModel V a10 b10 c10)"
    "frame obs (api_DumpModel V a11 b11 c11)"
    "frame obs (api_DumpModelDB V a12 b12)"
    "frame obs (api_AbortModelUpgrade V a13 b13)"
    "frame obs (api_UpgradeModel V a14 b14 c14 d14 e14 f14)"
    "frame obs (api_ValidateModelUpgrade V a15 b15 c15)"
    "frame obs (api_ChangeModelCredential V a16 b16 c16)"
    "frame obs (api_ControllerModelUUID V a17)"
    "frame obs (api_ListModels V a18)"
    "frame obs (api_ListModelSummaries V a19)"
    "frame obs (api_CheckCredentialModels V a20 b20)"
    "frame obs (api_UpdateCloudsCredentialForce V a21 b21)"
    "frame obs (api_RevokeCredential V a22 b22)"
    "frame obs (api_CredentialContents V a23 b23 c23 d23)"
    "frame obs (api_AddCloud V a24 b24 c24 d24)"
    "frame obs (api_Cloud V a25 b25)"
    "frame obs (api_RemoveCloud V a26 b26)"
    "frame obs (api_UpdateCloud V a27 b27 c27)"
  using assms by (simp_all only: env_frame_def)

lemma env_transaction_frame: "env_frame obs V \<Longrightarrow> (\<And>h. frame obs (body h)) \<Longrightarrow> frame obs (je_transaction V body)"
  unfolding env_frame_def by blast

end
