(* ===== verification/Juju_Clouds.thy ===== *)
theory Juju_Clouds
  imports Juju_Env
begin

text \<open>
  The file \<^verbatim>\<open>internal/jimm/juju/cloud.go\<close>: which clouds a user sees.
\<close>

section \<open>Which clouds a user sees\<close>

definition juju_GetCloud :: "'w externals \<Rightarrow> juju_manager \<Rightarrow> ofga_user \<Rightarrow> tag \<Rightarrow> ('w, cloud) io" where
  "juju_GetCloud E j user t =
     go_bind (GetCloud E (jm_Database j) (empty_cloud\<lparr>cld_Name := Id t\<rparr>)) (\<lambda>cl.
     go_bind (GetUserCloudAccess E (jm_permissionManager j) user t) (\<lambda>accessLevel.
     if accessLevel = '''' then go_err err_unauthorized_juju else go_return cl))"

definition ForEachUserCloud ::
    "'w externals \<Rightarrow> juju_manager \<Rightarrow> ofga_user \<Rightarrow> (cloud \<Rightarrow> 's \<Rightarrow> ('w, 's) io) \<Rightarrow> 's \<Rightarrow> ('w, 's) io" where
  "ForEachUserCloud E j user f s =
     go_bind (go_maperr (\<lambda>e. ErrFmt ''cannot get count controllers: %w'' [] (Some e))
       (CountControllers E (jm_Database j))) (\<lambda>ctrlCount.
     if ctrlCount = 0 then go_err (ErrNew ''no controllers registered'')
     else go_bind (go_maperr (\<lambda>e. ErrFmt ''cannot load clouds: %w'' [] (Some e)) (GetClouds E (jm_Database j))) (\<lambda>clouds.
       go_fold (\<lambda>c s.
         go_bind (go_some ''invalid cloud tag'' (cloud_ResourceTag E c)) (\<lambda>ct.
         go_bind (GetCloudAccess E user ct) (\<lambda>relation.
         if ToCloudAccessString relation = '''' then go_return s else f c s))) clouds s))"

definition ForEachCloud ::
    "'w externals \<Rightarrow> juju_manager \<Rightarrow> ofga_user \<Rightarrow> (cloud \<Rightarrow> 's \<Rightarrow> ('w, 's) io) \<Rightarrow> 's \<Rightarrow> ('w, 's) io" where
  "ForEachCloud E j user f s =
     (if \<not> u_JimmAdmin user then go_err err_unauthorized_juju
      else go_bind (go_maperr (\<lambda>e. ErrFmt ''cannot load clouds: %w'' [] (Some e)) (GetClouds E (jm_Database j))) (\<lambda>clouds.
        go_fold f clouds s))"

end
