(* ===== verification/Model_Builder.thy ===== *)
theory Model_Builder
  imports Juju_Clouds
begin

text \<open>
  The file \<^verbatim>\<open>internal/jimm/juju/modelbuilder.go\<close> and the part of \<^verbatim>\<open>model.go\<close> that uses it:
  \<^verbatim>\<open>AddModel\<close>. The builder collects what a new model needs, remembers the first error in its field
  \<^verbatim>\<open>err\<close> and does nothing more once that is set; so a method of the builder is a computation that
  returns the builder, and fails only by a panic.
\<close>

section \<open>The builder\<close>

record candidate =
  cand_controller :: controller
  cand_priority :: nat

record model_builder =
  mb_err :: "err option"
  mb_ofgaUser :: "ofga_user option"
  mb_name :: string
  mb_candidates :: "candidate list"
  mb_config :: "config option"
  mb_owner :: "identity option"
  mb_credential :: "cloud_credential option"
  mb_controller :: "controller option"
  mb_cloud :: "cloud option"
  mb_cloudRegion :: string
  mb_cloudRegionID :: nat
  mb_cloudRegionVirtual :: bool
  mb_model :: "model option"
  mb_modelInfo :: model_info

definition newModelBuilder :: model_builder where
  "newModelBuilder = \<lparr>mb_err = None, mb_ofgaUser = None, mb_name = '''', mb_candidates = [], mb_config = None, mb_owner = None,
     mb_credential = None, mb_controller = None, mb_cloud = None, mb_cloudRegion = '''', mb_cloudRegionID = 0,
     mb_cloudRegionVirtual = False, mb_model = None, mb_modelInfo = empty_model_info\<rparr>"

text \<open>
  The shapes every method is made of: nothing happens after an error, an error is recorded, and a
  call whose error is recorded.
\<close>

definition unless_err :: "model_builder \<Rightarrow> ('w, model_builder) io \<Rightarrow> ('w, model_builder) io" where
  "unless_err b m = (if mb_err b \<noteq> None then go_return b else m)"

definition fail_with :: "model_builder \<Rightarrow> err \<Rightarrow> ('w, model_builder) io" where
  "fail_with b e = go_return (b\<lparr>mb_err := Some e\<rparr>)"

definition or_fail :: "model_builder \<Rightarrow> (err \<Rightarrow> err) \<Rightarrow> ('w, 'a) io \<Rightarrow> ('a \<Rightarrow> ('w, model_builder) io) \<Rightarrow> ('w, model_builder) io" where
  "or_fail b h m k = go_bind (go_try m) (\<lambda>r. case r of Inl e \<Rightarrow> fail_with b (h e) | Inr x \<Rightarrow> k x)"

abbreviation wrap_err :: "string \<Rightarrow> string list \<Rightarrow> err \<Rightarrow> err" where
  "wrap_err fmt args e \<equiv> ErrFmt fmt args (Some e)"

section \<open>Choosing a controller\<close>

definition swap_at :: "nat \<times> nat \<Rightarrow> 'a list \<Rightarrow> 'a list" where
  "swap_at = (\<lambda>(i, j) xs. xs[i := xs ! j, j := xs ! i])"

definition apply_swaps :: "(nat \<times> nat) list \<Rightarrow> 'a list \<Rightarrow> 'a list" where
  "apply_swaps sw xs = fold swap_at sw xs"

text \<open>\<^verbatim>\<open>sort.SliceStable\<close> by decreasing priority, after a shuffle.\<close>

definition shuffleCandidateControllers :: "'w juju_env \<Rightarrow> candidate list \<Rightarrow> ('w, candidate list) io" where
  "shuffleCandidateControllers V controllers =
     go_bind (go_lift (je_swaps V (length controllers))) (\<lambda>sw.
     go_return (sort_key (\<lambda>c. - int (cand_priority c)) (apply_swaps sw controllers)))"

definition WithOwner :: "identity \<Rightarrow> model_builder \<Rightarrow> ('w, model_builder) io" where
  "WithOwner owner b = unless_err b (go_return (b\<lparr>mb_owner := Some owner\<rparr>))"

definition WithAuthorizer :: "ofga_user \<Rightarrow> model_builder \<Rightarrow> ('w, model_builder) io" where
  "WithAuthorizer ofgaUser b = unless_err b (go_return (b\<lparr>mb_ofgaUser := Some ofgaUser\<rparr>))"

definition WithName :: "string \<Rightarrow> model_builder \<Rightarrow> ('w, model_builder) io" where
  "WithName name b = unless_err b (go_return (b\<lparr>mb_name := name\<rparr>))"

definition config_of :: "config option \<Rightarrow> config" where
  "config_of c = (case c of None \<Rightarrow> Map.empty | Some m \<Rightarrow> m)"

definition WithConfig :: "config option \<Rightarrow> model_builder \<Rightarrow> model_builder" where
  "WithConfig cfg b = b\<lparr>mb_config := Some (config_of (mb_config b) ++ config_of cfg)\<rparr>"

definition with_authorizer :: "model_builder \<Rightarrow> (ofga_user \<Rightarrow> ('w, model_builder) io) \<Rightarrow> ('w, model_builder) io" where
  "with_authorizer b k = (case mb_ofgaUser b of
       None \<Rightarrow> fail_with b (ErrNew ''authorizer not specified'')
     | Some u \<Rightarrow> k u)"

definition WithController :: "'w externals \<Rightarrow> juju_manager \<Rightarrow> string \<Rightarrow> model_builder \<Rightarrow> ('w, model_builder) io" where
  "WithController E j controllerName b = unless_err b (with_authorizer b (\<lambda>u.
     or_fail b (wrap_err ''controller %q not found: %w'' [controllerName])
       (GetController E (jm_Database j) (empty_controller\<lparr>ctl_Name := controllerName\<rparr>)) (\<lambda>targetController.
     go_bind (go_some ''invalid controller tag'' (controller_ResourceTag E targetController)) (\<lambda>ct.
     or_fail b (wrap_err ''failed to verify permissions for adding model to controller: %w'' [])
       (IsAllowedAddModelToController E u ct) (\<lambda>ok.
     if \<not> ok then fail_with b (Codef CodeUnauthorized (ErrFmt ''not authorized to add model to controller %q'' [controllerName] None))
     else go_return (b\<lparr>mb_candidates := mb_candidates b @ [\<lparr>cand_controller = targetController, cand_priority = 0\<rparr>]\<rparr>))))))"

definition any_controller :: "'w externals \<Rightarrow> ofga_user \<Rightarrow> controller \<Rightarrow> candidate list \<Rightarrow> ('w, candidate list) io" where
  "any_controller E u c candidateControllers =
     (if ctl_Deprecated c then go_return candidateControllers
      else go_bind (go_some ''invalid controller tag'' (controller_ResourceTag E c)) (\<lambda>ct.
        go_bind (go_maperr (\<lambda>e. ErrFmt ''failed to verify permissions for adding model to controller: %v'' [err_text E e] None)
          (IsAllowedAddModelToController E u ct)) (\<lambda>ok.
        if ok then go_return (candidateControllers @ [\<lparr>cand_controller = c, cand_priority = 0\<rparr>])
        else go_return candidateControllers)))"

definition WithAnyController :: "'w externals \<Rightarrow> juju_manager \<Rightarrow> model_builder \<Rightarrow> ('w, model_builder) io" where
  "WithAnyController E j b = unless_err b (with_authorizer b (\<lambda>u.
     or_fail b id (ForEachController E (jm_Database j) (any_controller E u) []) (\<lambda>candidateControllers.
     let b = b\<lparr>mb_candidates := candidateControllers\<rparr> in
     if candidateControllers = []
     then fail_with b (ErrNew ''no available controllers - check permissions to controllers and list of available controllers'')
     else go_return b)))"

section \<open>Choosing a cloud and a region\<close>

definition withImplicitCloud :: "'w externals \<Rightarrow> juju_manager \<Rightarrow> ofga_user \<Rightarrow> model_builder \<Rightarrow> ('w, model_builder) io" where
  "withImplicitCloud E j user b = unless_err b (
     or_fail b id (ForEachUserCloud E j user (\<lambda>c clouds. go_return (clouds @ [c])) []) (\<lambda>clouds.
     if clouds = [] then fail_with b (ErrNew ''no available clouds'')
     else if length clouds \<noteq> 1 then fail_with b (ErrNew ''no cloud specified for model; please specify one'')
     else go_return (b\<lparr>mb_cloud := Some (clouds ! 0)\<rparr>)))"

definition serves_cloud :: "string \<Rightarrow> candidate \<Rightarrow> bool" where
  "serves_cloud cloudName cand \<longleftrightarrow>
     (\<exists>r\<in>set (ctl_CloudRegions (cand_controller cand)). rr_CloudName (crg_CloudRegion r) = cloudName)"

definition WithCloud :: "'w externals \<Rightarrow> juju_manager \<Rightarrow> ofga_user \<Rightarrow> string \<Rightarrow> model_builder \<Rightarrow> ('w, model_builder) io" where
  "WithCloud E j user cloudId b = unless_err b (with_authorizer b (\<lambda>u.
     if cloudId = '''' then withImplicitCloud E j user b
     else or_fail b id (GetCloud E (jm_Database j) (empty_cloud\<lparr>cld_Name := cloudId\<rparr>)) (\<lambda>c.
       go_bind (go_some ''invalid cloud tag'' (cloud_ResourceTag E c)) (\<lambda>ct.
       or_fail b (wrap_err ''failed to verify permissions for adding model to cloud: %w'' [])
         (IsAllowedAddModelToCloud E u ct) (\<lambda>ok.
       if \<not> ok then fail_with b (Codef CodeUnauthorized (ErrFmt ''not authorized to add model to cloud %q'' [cloudId] None))
       else go_return (b\<lparr>mb_cloud := Some c, mb_candidates := filter (serves_cloud (cld_Name c)) (mb_candidates b)\<rparr>))))))"

text \<open>\<^verbatim>\<open>Cloud.Region\<close>: the region of that name, or the zero value.\<close>

definition cloud_Region :: "cloud \<Rightarrow> string \<Rightarrow> cloud_region" where
  "cloud_Region c name = (case find (\<lambda>r. cr_Name r = name) (cld_Regions c) of None \<Rightarrow> empty_region | Some r \<Rightarrow> r)"

text \<open>The region that is picked where none is named: the first of the cloud's regions a candidate serves.\<close>

definition supports_region :: "cloud \<Rightarrow> candidate list \<Rightarrow> string \<Rightarrow> bool" where
  "supports_region c cands name \<longleftrightarrow>
     (\<exists>cand\<in>set cands. \<exists>r\<in>set (ctl_CloudRegions (cand_controller cand)).
        rr_CloudName (crg_CloudRegion r) = cld_Name c \<and> rr_Name (crg_CloudRegion r) = name)"

definition pick_region :: "cloud \<Rightarrow> candidate list \<Rightarrow> string \<Rightarrow> string" where
  "pick_region c cands region =
     (if region = '''' then
        (case find (\<lambda>r. supports_region c cands (cr_Name r)) (cld_Regions c) of
           None \<Rightarrow> region
         | Some r \<Rightarrow> cr_Name r)
      else region)"

text \<open>A candidate that serves the region, with the priority it has there.\<close>

definition in_region :: "cloud_region \<Rightarrow> candidate \<Rightarrow> candidate list" where
  "in_region r cand = (case find (\<lambda>crp. rc_ControllerID crp = ctl_ID (cand_controller cand)) (cr_Controllers r) of
       None \<Rightarrow> []
     | Some crp \<Rightarrow> [\<lparr>cand_controller = cand_controller cand, cand_priority = rc_Priority crp\<rparr>])"

definition WithCloudRegion :: "string \<Rightarrow> model_builder \<Rightarrow> ('w, model_builder) io" where
  "WithCloudRegion region b = unless_err b (case mb_cloud b of
       None \<Rightarrow> fail_with b (ErrNew ''cloud not specified'')
     | Some c \<Rightarrow>
         let region = pick_region c (mb_candidates b) region; cloudRegion = cloud_Region c region in
         if cr_Name cloudRegion = ''''
         then fail_with b (Codef CodeNotFound (ErrFmt ''cloud region %q not found in cloud %q'' [region, cld_Name c] None))
         else go_return (b\<lparr>mb_cloudRegion := region, mb_cloudRegionID := cr_ID cloudRegion, mb_cloudRegionVirtual := cr_Virtual cloudRegion,
           mb_candidates := concat (map (in_region cloudRegion) (mb_candidates b))\<rparr>))"

definition WithCloudCredential :: "'w juju_env \<Rightarrow> juju_manager \<Rightarrow> cred_tag \<Rightarrow> model_builder \<Rightarrow> ('w, model_builder) io" where
  "WithCloudCredential V j credentialTag b = unless_err b (
     if map_option id_Name (mb_owner b) \<noteq> Some (cct_Owner credentialTag)
     then fail_with b (Codef CodeUnauthorized (ErrNew ''model owner doesn't match cloud-credential owner''))
     else
       let credential = credential_SetTag empty_credential credentialTag in
       go_bind (go_try (db_GetCloudCredential V (jm_Database j) credential)) (\<lambda>r. case r of
           Inl e \<Rightarrow> go_return (b\<lparr>mb_err := Some (wrap_err ''failed to fetch cloud credentials %s: %w'' [credential_Path credential] e),
             mb_credential := Some credential\<rparr>)
         | Inr credential \<Rightarrow> go_return (b\<lparr>mb_credential := Some credential\<rparr>)))"

section \<open>Creating the model\<close>

definition selectController :: "'w juju_env \<Rightarrow> model_builder \<Rightarrow> ('w, model_builder) io" where
  "selectController V b =
     (if mb_candidates b = [] then (case mb_cloud b of
          None \<Rightarrow> go_panic ''nil cloud''
        | Some c \<Rightarrow> go_err (ErrFmt ''unsupported cloud region %s/%s - confirm access to the cloud/controller''
            [cld_Name c, mb_cloudRegion b] None))
      else go_bind (shuffleCandidateControllers V (mb_candidates b)) (\<lambda>candidates.
        go_return (b\<lparr>mb_candidates := candidates, mb_controller := Some (cand_controller (candidates ! 0))\<rparr>)))"

definition selectCloudCredentials :: "'w juju_env \<Rightarrow> juju_manager \<Rightarrow> model_builder \<Rightarrow> ('w, model_builder) io" where
  "selectCloudCredentials V j b = (case (mb_owner b, mb_cloud b) of
       (None, _) \<Rightarrow> go_err (ErrNew ''user not specified'')
     | (Some owner, None) \<Rightarrow> go_err (ErrNew ''cloud not specified'')
     | (Some owner, Some c) \<Rightarrow>
         go_bind (go_maperr (wrap_err ''failed to fetch user cloud credentials: %w'' [])
           (GetIdentityCloudCredentials V (jm_Database j) owner (cld_Name c))) (\<lambda>credentials.
         case find (\<lambda>credential. cc_Valid credential \<noteq> Some False) credentials of
           None \<Rightarrow> go_err (ErrNew ''valid cloud credentials not found'')
         | Some credential \<Rightarrow> go_return (b\<lparr>mb_credential := Some credential\<rparr>)))"

definition store_model :: "'w externals \<Rightarrow> juju_manager \<Rightarrow> identity \<Rightarrow> controller \<Rightarrow> cloud_credential \<Rightarrow> model_builder \<Rightarrow> ('w, model_builder) io" where
  "store_model E j owner ctl credential b =
     (let m = empty_model\<lparr>mdl_Name := mb_name b, mdl_ControllerID := ctl_ID ctl, mdl_Owner := owner,
            mdl_CloudCredentialID := cc_ID credential, mdl_CloudRegionID := mb_cloudRegionID b\<rparr>;
          b = b\<lparr>mb_model := Some m\<rparr> in
      or_fail b (\<lambda>e. if ErrorCode (Some e) = CodeAlreadyExists
          then Codef CodeAlreadyExists (ErrFmt ''model %s/%s already exists'' [id_Name owner, mb_name b] None)
          else wrap_err ''failed to store model information: %w'' [] e)
        (db_AddModel E (jm_Database j) m) (\<lambda>m. go_return (b\<lparr>mb_model := Some m\<rparr>)))"

definition CreateDatabaseModel :: "'w externals \<Rightarrow> 'w juju_env \<Rightarrow> juju_manager \<Rightarrow> model_builder \<Rightarrow> ('w, model_builder) io" where
  "CreateDatabaseModel E V j b = unless_err b (
     if mb_name b = '''' then fail_with b (ErrNew ''model name not specified'')
     else case mb_owner b of
       None \<Rightarrow> fail_with b (ErrNew ''owner not specified'')
     | Some owner \<Rightarrow>
         or_fail b id (selectController V b) (\<lambda>b.
         case mb_controller b of
           None \<Rightarrow> fail_with b (ErrNew ''unable to determine a suitable controller'')
         | Some ctl \<Rightarrow>
             or_fail b (wrap_err ''could not select cloud credentials: %w'' [])
               (if mb_credential b = None then selectCloudCredentials V j b else go_return b) (\<lambda>b.
             case mb_credential b of
               None \<Rightarrow> go_panic ''nil credential''
             | Some credential \<Rightarrow> store_model E j owner ctl credential b)))"

text \<open>The deferred clean-up: a failure to delete is only logged.\<close>

definition Cleanup :: "'w externals \<Rightarrow> juju_manager \<Rightarrow> model_builder \<Rightarrow> ('w, unit) io" where
  "Cleanup E j b = (case (mb_err b, mb_model b) of
       (Some e, Some m) \<Rightarrow> go_bind (go_try (DeleteModel E (jm_Database j) m)) (\<lambda>_. go_return ())
     | _ \<Rightarrow> go_return ())"

definition jujuModelCreateArgs :: "'w juju_env \<Rightarrow> model_builder \<Rightarrow> ('w, create_model_args) io" where
  "jujuModelCreateArgs V b =
     (if mb_name b = '''' then go_err (ErrNew ''model name not specified'')
      else case mb_owner b of
        None \<Rightarrow> go_err (ErrNew ''model owner not specified'')
      | Some owner \<Rightarrow> (case mb_cloud b of
          None \<Rightarrow> go_err (ErrNew ''cloud not specified'')
        | Some c \<Rightarrow>
            if mb_cloudRegionID b = 0 then go_err (ErrNew ''cloud region not specified'')
            else (case mb_credential b of
              None \<Rightarrow> go_err (ErrNew ''credentials not specified'')
            | Some credential \<Rightarrow>
                go_bind (credential_ResourceTag V credential) (\<lambda>t.
                go_return \<lparr>cma_Name = mb_name b, cma_Owner = id_Name owner, cma_Cloud = cld_Name c,
                  cma_CloudRegion = (if mb_cloudRegionVirtual b then '''' else mb_cloudRegion b),
                  cma_CloudCredentialTag = t, cma_Config = mb_config b\<rparr>))))"

section \<open>Credentials on the controller\<close>

definition getCloudCredentialAttributes :: "'w juju_env \<Rightarrow> cloud_credential \<Rightarrow> ('w, string \<rightharpoonup> string) io" where
  "getCloudCredentialAttributes V cred = go_bind (credential_ResourceTag V cred) (\<lambda>t. je_Store_Get V t)"

definition credential_update_result :: "update_credential_result list \<Rightarrow> update_model_result list \<times> err option" where
  "credential_update_result out = (case out of [] \<Rightarrow> ([], None) | r # _ \<Rightarrow> (ucr_Models r, ucr_Error r))"

definition tagged :: "'w juju_env \<Rightarrow> cloud_credential \<Rightarrow> (string \<rightharpoonup> string) \<Rightarrow> ('w, tagged_credential) io" where
  "tagged V cred attrs = go_bind (credential_ResourceTag V cred) (\<lambda>t.
     go_return \<lparr>tc_Tag = je_CredentialTag_String V t, tc_AuthType = cc_AuthType cred, tc_Attributes = attrs\<rparr>)"

text \<open>Models may be returned along with an error; the error is part of the value.\<close>

definition forceUpdateControllerCloudCredential ::
    "'w juju_env \<Rightarrow> cloud_credential \<Rightarrow> (string \<rightharpoonup> string) \<Rightarrow> conn \<Rightarrow> ('w, update_model_result list \<times> err option) io" where
  "forceUpdateControllerCloudCredential V cred attrs api =
     go_bind (tagged V cred attrs) (\<lambda>tc.
     go_bind (go_try (api_UpdateCloudsCredentialForce V api tc)) (\<lambda>r. case r of
         Inl e \<Rightarrow> go_return ([], Some e)
       | Inr out \<Rightarrow> go_return (credential_update_result out)))"

definition mb_updateCredential :: "'w juju_env \<Rightarrow> conn \<Rightarrow> cloud_credential \<Rightarrow> ('w, unit) io" where
  "mb_updateCredential V api cred =
     go_bind (getCloudCredentialAttributes V cred) (\<lambda>attrs.
     go_bind (forceUpdateControllerCloudCredential V cred attrs api) (\<lambda>(_, e).
     case e of Some er \<Rightarrow> go_err er | None \<Rightarrow> go_return ()))"

definition create_error :: "'w juju_env \<Rightarrow> err \<Rightarrow> err" where
  "create_error V e =
     (if je_ErrCode V e = CodeAlreadyExists then Codef CodeAlreadyExists (wrap_err ''model name in use: %w'' [] e)
      else if je_ErrCode V e = CodeUpgradeInProgress then wrap_err ''upgrade in progress: %w'' [] e
      else Codef CodeBadRequest (wrap_err ''%w'' [] e))"

text \<open>What \<^verbatim>\<open>CreateControllerModel\<close> does with its connection.\<close>

definition create_over :: "'w externals \<Rightarrow> 'w juju_env \<Rightarrow> conn \<Rightarrow> model_builder \<Rightarrow> ('w, model_builder) io" where
  "create_over E V api b =
     or_fail b (wrap_err ''failed to update cloud credential: %w'' [])
       (case mb_credential b of Some cred \<Rightarrow> mb_updateCredential V api cred | None \<Rightarrow> go_return ()) (\<lambda>_.
     or_fail b id (jujuModelCreateArgs V b) (\<lambda>args.
     or_fail b (create_error V) (api_CreateModel V api args) (\<lambda>info.
     go_bind (go_some ''invalid model tag'' (new_juju_tag E ModelTagKind (mi_UUID info))) (\<lambda>mt.
     or_fail b id (api_GrantJIMMModelAdmin V api mt) (\<lambda>_.
     go_return (b\<lparr>mb_modelInfo := info\<rparr>))))))"

definition CreateControllerModel :: "'w externals \<Rightarrow> 'w juju_env \<Rightarrow> juju_manager \<Rightarrow> model_builder \<Rightarrow> ('w, model_builder) io" where
  "CreateControllerModel E V j b = unless_err b (case mb_model b of
       None \<Rightarrow> fail_with b (ErrNew ''model not specified'')
     | Some _ \<Rightarrow> (case mb_controller b of
         None \<Rightarrow> go_panic ''nil controller''
       | Some ctl \<Rightarrow>
           or_fail b id (dialControllerAsSuperuser V j (mb_ofgaUser b) ctl) (\<lambda>api.
           create_over E V api (b\<lparr>mb_controller := Some (conn_controller api)\<rparr>))))"

text \<open>\<^verbatim>\<open>FromJujuModelInfo\<close>; the tag constructor panics on an invalid credential identifier.\<close>

definition FromJujuModelInfo :: "'w juju_env \<Rightarrow> model_info \<Rightarrow> model \<Rightarrow> ('w, model) io" where
  "FromJujuModelInfo V info m =
     (let m = m\<lparr>mdl_Name := mi_Name info, mdl_UUID := Some (mi_UUID info),
            mdl_OwnerIdentityName := (if mi_Owner info \<noteq> '''' then mi_Owner info else mdl_OwnerIdentityName m),
            mdl_Life := mi_Life info, mdl_CloudRegion := (mdl_CloudRegion m)\<lparr>rr_Name := mi_CloudRegion info,
              rr_Cloud := (if mi_Cloud info \<noteq> '''' then (rr_Cloud (mdl_CloudRegion m))\<lparr>clr_Name := mi_Cloud info\<rparr>
                           else rr_Cloud (mdl_CloudRegion m))\<rparr>\<rparr> in
      if mi_CloudCredential info \<noteq> '''' then
        go_bind (go_some ''invalid cloud credential tag'' (je_CredentialTag V (mi_CloudCredential info))) (\<lambda>cct.
        go_return (m\<lparr>mdl_CloudCredential := (mdl_CloudCredential m)\<lparr>cc_Name := cct_Name cct, cc_CloudName := cct_Cloud cct,
          cc_Owner := (cc_Owner (mdl_CloudCredential m))\<lparr>id_Name := cct_Owner cct\<rparr>\<rparr>\<rparr>))
      else go_return m)"

definition UpdateDatabaseModel :: "'w externals \<Rightarrow> 'w juju_env \<Rightarrow> juju_manager \<Rightarrow> model_builder \<Rightarrow> ('w, model_builder) io" where
  "UpdateDatabaseModel E V j b = unless_err b (case (mb_model b, mb_controller b, mb_credential b) of
       (Some m, Some ctl, Some cred) \<Rightarrow>
         go_bind (FromJujuModelInfo V (mb_modelInfo b) m) (\<lambda>m.
         let m = m\<lparr>mdl_ControllerID := ctl_ID ctl, mdl_CloudCredentialID := cc_ID cred, mdl_CloudRegionID := mb_cloudRegionID b,
               mdl_CloudCredential := empty_credential, mdl_CloudRegion := empty_region_ref\<rparr>;
             b = b\<lparr>mb_model := Some m\<rparr> in
         or_fail b (wrap_err ''failed to store model information: %w'' [])
           (db_UpdateModel E (jm_Database j) m) (\<lambda>m. go_return (b\<lparr>mb_model := Some m\<rparr>)))
     | _ \<Rightarrow> go_panic ''nil dereference'')"

section \<open>Adding a model\<close>

record add_model_args =
  ama_Name :: string
  ama_Owner :: string
  ama_Config :: "config option"
  ama_Cloud :: string
  ama_CloudRegion :: string
  ama_CloudCredential :: cred_tag
  ama_ControllerName :: string

definition addModelPermissions :: "'w externals \<Rightarrow> ofga_user \<Rightarrow> tag \<Rightarrow> tag \<Rightarrow> ('w, unit) io" where
  "addModelPermissions E owner mt ct =
     go_bind (AddControllerModel E ct mt) (\<lambda>_. SetModelAccess E owner mt AdministratorRelation)"

text \<open>\<^verbatim>\<open>if err := builder.Error(); err != nil { return err }\<close>.\<close>

definition builder_Error :: "model_builder \<Rightarrow> ('w, model_builder) io" where
  "builder_Error b = (case mb_err b of Some e \<Rightarrow> go_err e | None \<Rightarrow> go_return b)"

definition cloud_defaults_of :: "'w juju_env \<Rightarrow> juju_manager \<Rightarrow> ofga_user \<Rightarrow> cloud \<Rightarrow> string \<Rightarrow> ('w, config option) io" where
  "cloud_defaults_of V j user c region =
     go_bind (go_try (db_CloudDefaults V (jm_Database j)
       (empty_defaults\<lparr>cdf_IdentityName := u_Name user, cdf_Cloud := c, cdf_Region := region\<rparr>))) (\<lambda>r. case r of
         Inl e \<Rightarrow> if ErrorCode (Some e) \<noteq> CodeNotFound then go_err (ErrNew ''failed to fetch cloud defaults'') else go_return None
       | Inr d \<Rightarrow> go_return (cdf_Defaults d))"

text \<open>Everything \<^verbatim>\<open>AddModel\<close> does before it stores the model: where the model is to be placed.\<close>

definition place_model ::
    "'w externals \<Rightarrow> 'w juju_env \<Rightarrow> juju_manager \<Rightarrow> ofga_user \<Rightarrow> identity \<Rightarrow> add_model_args \<Rightarrow> ('w, model_builder) io" where
  "place_model E V j user owner args =
     go_bind (WithOwner owner newModelBuilder) (\<lambda>b.
     go_bind (WithAuthorizer user b) (\<lambda>b.
     go_bind (WithName (ama_Name args) b) (\<lambda>b.
     go_bind (builder_Error b) (\<lambda>b.
     go_bind (if ama_ControllerName args \<noteq> '''' then WithController E j (ama_ControllerName args) b
              else WithAnyController E j b) (\<lambda>b.
     go_bind (builder_Error b) (\<lambda>b.
     go_bind (WithCloud E j user (ama_Cloud args) b) (\<lambda>b.
     go_bind (builder_Error b) (\<lambda>b.
     go_bind (WithCloudRegion (ama_CloudRegion args) b) (\<lambda>b.
     go_bind (builder_Error b) (\<lambda>b.
     go_bind (go_some ''nil cloud'' (mb_cloud b)) (\<lambda>c.
     go_bind (cloud_defaults_of V j user c '''') (\<lambda>defaults.
     go_bind (cloud_defaults_of V j user c (mb_cloudRegion b)) (\<lambda>regionDefaults.
     let b = WithConfig (ama_Config args) (WithConfig regionDefaults (WithConfig defaults b)) in
     if ama_CloudCredential args \<noteq> no_cred_tag
     then go_bind (WithCloudCredential V j (ama_CloudCredential args) b) builder_Error
     else go_return b)))))))))))))"

definition after_cleanup :: "'w externals \<Rightarrow> juju_manager \<Rightarrow> model_builder \<Rightarrow> ('w, 'a) io \<Rightarrow> ('w, 'a) io" where
  "after_cleanup E j b m =
     go_bind (go_try m) (\<lambda>r. go_bind (Cleanup E j b) (\<lambda>_. go_sum r))"

text \<open>The relations of the new model.\<close>

definition finish_model :: "'w externals \<Rightarrow> identity \<Rightarrow> model_builder \<Rightarrow> ('w, model_info) io" where
  "finish_model E owner b =
     (let mi = mb_modelInfo b in
      go_bind (go_some ''invalid model tag'' (new_juju_tag E ModelTagKind (mi_UUID mi))) (\<lambda>mt.
      go_bind (go_some ''nil controller'' (mb_controller b)) (\<lambda>ctl.
      go_bind (go_some ''invalid controller tag'' (controller_ResourceTag E ctl)) (\<lambda>ct.
      go_bind (addModelPermissions E (NewUser owner True) mt ct) (\<lambda>_.
      go_return mi)))))"

text \<open>What follows the deferred \<^verbatim>\<open>Cleanup\<close>, which runs however the method is left.\<close>

definition create_model ::
    "'w externals \<Rightarrow> 'w juju_env \<Rightarrow> juju_manager \<Rightarrow> identity \<Rightarrow> model_builder \<Rightarrow> ('w, model_info) io" where
  "create_model E V j owner b =
     go_bind (CreateControllerModel E V j b) (\<lambda>b. case mb_err b of
         Some e \<Rightarrow> after_cleanup E j b (go_err e)
       | None \<Rightarrow> go_bind (UpdateDatabaseModel E V j b) (\<lambda>b. case mb_err b of
           Some e \<Rightarrow> after_cleanup E j b (go_err e)
         | None \<Rightarrow> after_cleanup E j b (finish_model E owner b)))"

definition AddModel ::
    "'w externals \<Rightarrow> 'w juju_env \<Rightarrow> juju_manager \<Rightarrow> ofga_user \<Rightarrow> add_model_args \<Rightarrow> ('w, model_info) io" where
  "AddModel E V j user args =
     go_bind (go_sum (NewIdentity E (ama_Owner args))) (\<lambda>owner.
     go_bind (GetIdentity E (jm_Database j) owner) (\<lambda>owner.
     if id_Name owner \<noteq> u_Name user \<and> \<not> u_JimmAdmin user then go_err err_unauthorized_juju
     else go_bind (place_model E V j user owner args) (\<lambda>b.
       go_bind (CreateDatabaseModel E V j b) (\<lambda>b.
       go_bind (builder_Error b) (\<lambda>b.
       create_model E V j owner b)))))"

end
