(* ===== verification/Model_Placement.thy ===== *)
theory Model_Placement
  imports Model_Builder "HOL-Library.Multiset"
begin

text \<open>
  What adding a model guarantees: who may do it, where the model is placed and which relations it
  leaves in OpenFGA.
\<close>

section \<open>What the builder only reads\<close>

text \<open>
  An observer that none of the calls before the model is stored can disturb. It is instantiated
  with the tuples in OpenFGA and with the rows of the table of models.
\<close>

locale juju_world =
  fixes E :: "'w externals" and V :: "'w juju_env" and obs :: "'w \<Rightarrow> 'o"
  assumes w_identities: "table_frame obs (tbl_identities E)"
    and w_controllers: "table_frame obs (tbl_controllers E)"
    and w_clouds: "table_frame obs (tbl_clouds E)"
    and w_env: "env_frame obs V"
    and w_check: "frame obs (cofga_CheckRelation E x ctx)"
    and w_check_tracing: "frame obs (cofga_CheckRelationWithTracing E x ctx)"
begin

lemmas w_frames [frame_intros] =
  table_frameD(1-7) [OF w_identities] table_frameD(1-7) [OF w_controllers] table_frameD(1-7) [OF w_clouds]
  table_frameD(1-7) [OF env_frameD(1) [OF w_env]] table_frameD(1-7) [OF env_frameD(2) [OF w_env]]
  env_frameD(5-9) [OF w_env] env_frameD(12-33) [OF w_env] w_check w_check_tracing

lemma w_checkRelation [frame_intros]: "frame obs (checkRelation E u r rel)"
  unfolding checkRelation_def OFGA_CheckRelation_def by (intro frame_intros)

lemma w_checks [frame_intros]:
  "frame obs (IsAllowedAddModelToController E u r)" "frame obs (IsAllowedAddModelToCloud E u r)"
  "frame obs (IsAdministrator E u r)"
  unfolding IsAllowedAddModelToController_def IsAllowedAddModelToCloud_def IsAdministrator_def
  by (intro frame_intros)+

lemma w_db [frame_intros]:
  "frame obs (GetIdentity E d i)" "frame obs (GetController E d c)" "frame obs (GetCloud E d k)"
  "frame obs (GetClouds E d)" "frame obs (CountControllers E d)"
  "frame obs (db_GetCloudCredential V d cred)" "frame obs (GetIdentityCloudCredentials V d i name)"
  "frame obs (db_CloudDefaults V d df)"
  unfolding GetIdentity_def GetController_def GetCloud_def GetClouds_def CountControllers_def
    db_GetCloudCredential_def GetIdentityCloudCredentials_def db_CloudDefaults_def
  by (intro frame_intros)+

lemma w_ForEachController [frame_intros]:
  "(\<And>x s. frame obs (f x s)) \<Longrightarrow> frame obs (ForEachController E d f s)"
  unfolding ForEachController_def by (intro frame_intros)

lemma w_GetCloudAccess [frame_intros]: "frame obs (GetCloudAccess E u t)"
  unfolding GetCloudAccess_def by (intro frame_intros)

lemma w_ForEachUserCloud [frame_intros]:
  "(\<And>x s. frame obs (f x s)) \<Longrightarrow> frame obs (ForEachUserCloud E j user f s)"
  unfolding ForEachUserCloud_def by (intro frame_intros)

lemma w_fail [frame_intros]: "frame obs (fail_with b e)"
  unfolding fail_with_def by (intro frame_intros)

lemma w_or_fail [frame_intros]: "frame obs m \<Longrightarrow> (\<And>x. frame obs (k x)) \<Longrightarrow> frame obs (or_fail b h m k)"
  unfolding or_fail_def by (intro frame_intros)

lemma w_unless_err [frame_intros]: "frame obs m \<Longrightarrow> frame obs (unless_err b m)"
  unfolding unless_err_def by (intro frame_intros)

lemma w_with_authorizer [frame_intros]: "(\<And>u. frame obs (k u)) \<Longrightarrow> frame obs (with_authorizer b k)"
  unfolding with_authorizer_def by (intro frame_intros)

lemma w_any_controller [frame_intros]: "frame obs (any_controller E u c cs)"
  unfolding any_controller_def by (intro frame_intros)

lemma w_placing [frame_intros]:
  "frame obs (WithOwner owner b)" "frame obs (WithAuthorizer u b)" "frame obs (WithName n b)"
  "frame obs (WithController E j n b)" "frame obs (WithAnyController E j b)" "frame obs (WithCloud E j u cl b)"
  "frame obs (WithCloudRegion r b)" "frame obs (WithCloudCredential V j ct b)" "frame obs (builder_Error b)"
  "frame obs (cloud_defaults_of V j u c r)"
  unfolding WithOwner_def WithAuthorizer_def WithName_def WithController_def WithAnyController_def
    WithCloud_def withImplicitCloud_def WithCloudRegion_def WithCloudCredential_def builder_Error_def cloud_defaults_of_def
  by (intro frame_intros)+

lemma w_place_model [frame_intros]: "frame obs (place_model E V j user owner args)"
  unfolding place_model_def by (intro frame_intros)

lemma w_selecting [frame_intros]:
  "frame obs (selectController V b)" "frame obs (selectCloudCredentials V j b)"
  unfolding selectController_def selectCloudCredentials_def shuffleCandidateControllers_def
  by (intro frame_intros env_frameD(10) [OF w_env])+

lemma w_dial [frame_intros]: "frame obs (dialControllerAsSuperuser V j u c)"
  unfolding dialControllerAsSuperuser_def dial_def by (intro frame_intros)

lemma w_credential_ResourceTag [frame_intros]: "frame obs (credential_ResourceTag V c)"
  unfolding credential_ResourceTag_def by (intro frame_intros)

lemma w_creating [frame_intros]:
  "frame obs (jujuModelCreateArgs V b)" "frame obs (mb_updateCredential V api cred)"
  unfolding jujuModelCreateArgs_def mb_updateCredential_def getCloudCredentialAttributes_def
    forceUpdateControllerCloudCredential_def tagged_def
  by (intro frame_intros)+

lemma w_CreateControllerModel [frame_intros]: "frame obs (CreateControllerModel E V j b)"
  unfolding CreateControllerModel_def create_over_def by (intro frame_intros)

lemma w_FromJujuModelInfo [frame_intros]: "frame obs (FromJujuModelInfo V info m)"
  unfolding FromJujuModelInfo_def by (intro frame_intros)

end

section \<open>The choice of a controller\<close>

lemma length_apply_swaps [simp]: "length (apply_swaps sw xs) = length xs"
  by (induction sw arbitrary: xs) (auto simp: apply_swaps_def swap_at_def split: prod.splits)

lemma mset_apply_swaps:
  "\<forall>(i, j)\<in>set sw. i < length xs \<and> j < length xs \<Longrightarrow> mset (apply_swaps sw xs) = mset xs"
proof (induction sw arbitrary: xs)
  case (Cons p sw)
  obtain i j where p: "p = (i, j)" by fastforce
  with Cons.prems have ij: "i < length xs" "j < length xs" by auto
  have "mset (apply_swaps (p # sw) xs) = mset (apply_swaps sw (swap_at p xs))" by (simp add: apply_swaps_def)
  also have "\<dots> = mset (swap_at p xs)"
    using Cons.prems by (intro Cons.IH) (auto simp: p swap_at_def)
  also have "\<dots> = mset xs" using mset_swap [OF ij(2,1)] by (simp add: p swap_at_def)
  finally show ?case .
qed (simp add: apply_swaps_def)

lemma sort_key_head:
  assumes "xs \<noteq> []"
  shows "sort_key f xs ! 0 \<in> set xs \<and> (\<forall>x\<in>set xs. f (sort_key f xs ! 0) \<le> f x)"
proof (cases "sort_key f xs")
  case Nil
  then show ?thesis using assms by (metis length_sort length_0_conv)
next
  case (Cons y ys)
  have "sorted (map f (sort_key f xs))" by simp
  then have "\<forall>x\<in>set (y # ys). f y \<le> f x" using Cons by auto
  moreover have "set (y # ys) = set xs" using Cons by (metis set_sort)
  ultimately show ?thesis using Cons by auto
qed

text \<open>The swaps of a shuffle stay within the slice.\<close>

definition shuffles :: "'w juju_env \<Rightarrow> bool" where
  "shuffles V \<longleftrightarrow> (\<forall>n w. \<forall>(i, j)\<in>set (fst (je_swaps V n w)). i < n \<and> j < n)"

lemma selectController_Ok:
  assumes "selectController V b w = (Ok b', w')" and "shuffles V"
  obtains cs cand where "b' = b\<lparr>mb_candidates := cs, mb_controller := Some (cand_controller cand)\<rparr>"
    and "mset cs = mset (mb_candidates b)" and "cand \<in> set (mb_candidates b)"
    and "\<forall>c\<in>set (mb_candidates b). cand_priority c \<le> cand_priority cand"
proof (cases "mb_candidates b = []")
  case True
  then show ?thesis using assms(1) by (auto simp: selectController_def split: option.splits)
next
  case False
  let ?sw = "fst (je_swaps V (length (mb_candidates b)) w)"
  let ?xs = "apply_swaps ?sw (mb_candidates b)"
  let ?cs = "sort_key (\<lambda>c. - int (cand_priority c)) ?xs"
  have b': "b' = b\<lparr>mb_candidates := ?cs, mb_controller := Some (cand_controller (?cs ! 0))\<rparr>"
    using assms(1) False
    by (auto simp: selectController_def shuffleCandidateControllers_def go_bind_def go_lift_def go_return_def)
  have m: "mset ?xs = mset (mb_candidates b)"
    using assms(2) unfolding shuffles_def by (intro mset_apply_swaps) blast
  have xs: "?xs \<noteq> []" using False by (metis length_apply_swaps length_0_conv)
  have "set ?xs = set (mb_candidates b)" using m by (metis set_mset_mset)
  with sort_key_head [OF xs, of "\<lambda>c. - int (cand_priority c)"] m b' show ?thesis
    by (intro that [where cs = ?cs and cand = "?cs ! 0"]) simp_all
qed

text \<open>
  C40. The controller that is to host a new model is one of the candidates, no candidate has a higher
  priority, and the choice only reorders the candidates; without candidates, or without a cloud to
  name in the message, nothing is chosen.
\<close>

theorem highest_priority_controller:
  assumes "shuffles V" and "selectController V b w = (q, w')"
  shows "(mb_candidates b \<noteq> [] \<longrightarrow> (\<exists>cs cand. q = Ok (b\<lparr>mb_candidates := cs, mb_controller := Some (cand_controller cand)\<rparr>)
        \<and> mset cs = mset (mb_candidates b) \<and> cand \<in> set (mb_candidates b)
        \<and> (\<forall>c\<in>set (mb_candidates b). cand_priority c \<le> cand_priority cand)))
    \<and> (mb_candidates b = [] \<longrightarrow> (\<exists>e. q = Err e) \<or> mb_cloud b = None \<and> (\<exists>s. q = Panic s))"
proof (cases "mb_candidates b = []")
  case True
  then show ?thesis
    using assms(2) by (auto simp: selectController_def go_err_def go_panic_def split: option.splits)
next
  case False
  then obtain b' where q: "q = Ok b'"
    using assms(2) by (auto simp: selectController_def shuffleCandidateControllers_def go_bind_def go_lift_def go_return_def)
  with selectController_Ok [of V b w b' w'] assms False show ?thesis by blast
qed

section \<open>The services of the Juju manager\<close>

text \<open>
  The services of JIMM together with controllers and the credential store, which do not touch
  OpenFGA. A dialled controller is the one that was asked for, and a cloud or a controller that is
  looked up by name has that name.
\<close>

locale juju_services = jimm_services E store remaining
  for E :: "'w externals" and store :: "'w \<Rightarrow> tup set" and remaining :: "'w \<Rightarrow> tup \<Rightarrow> string \<Rightarrow> tup set" +
  fixes V :: "'w juju_env"
  assumes env_store: "env_frame store V"
    and env_shuffles: "shuffles V"
    and dial_controller: "je_Dial V as ctl m w = (Ok api, w') \<Longrightarrow>
      ctl_ID (conn_controller api) = ctl_ID ctl \<and> ctl_UUID (conn_controller api) = ctl_UUID ctl"
    and cloud_first: "gorm_First (tbl_clouds E) h [WhereEq ''name'' name] c w = (Ok c', w') \<Longrightarrow> cld_Name c' = name"
    and controller_first:
      "gorm_First (tbl_controllers E) h [WhereEq ''name'' name] ctl w = (Ok ctl', w') \<Longrightarrow> ctl_Name ctl' = name"

sublocale juju_services \<subseteq> seen: juju_world E V store
  by unfold_locales
    (rule identities_table controllers_table clouds_table env_store check_frame check_tracing_frame)+

text \<open>Postconditions of the builder's methods: either an error is recorded, or \<open>I\<close> holds.\<close>

abbreviation built :: "('w \<Rightarrow> bool) \<Rightarrow> (model_builder \<Rightarrow> bool) \<Rightarrow> model_builder \<Rightarrow> 'w \<Rightarrow> bool" where
  "built P I \<equiv> \<lambda>b w. P w \<and> (mb_err b = None \<longrightarrow> I b)"

lemma triple_fail_with: "triple P (fail_with b e) (built P I) P"
  unfolding fail_with_def by (rule triple_return) simp

lemma triple_or_fail:
  assumes "triple P m (\<lambda>x w. P w \<and> A x) P" and "\<And>x. A x \<Longrightarrow> triple P (k x) (built P I) P"
  shows "triple P (or_fail b h m k) (built P I) P"
  unfolding or_fail_def
proof (rule triple_try_bind [OF assms(1)])
  show "triple P (case Inl e of Inl e \<Rightarrow> fail_with b (h e) | Inr x \<Rightarrow> k x) (built P I) P" for e
    using triple_fail_with by simp
  show "triple (\<lambda>w. P w \<and> A x) (case Inr x of Inl e \<Rightarrow> fail_with b (h e) | Inr x \<Rightarrow> k x) (built P I) P" for x
    using assms(2) by (simp add: triple_pure)
qed

lemma triple_builder_Error:
  "triple (built P I b) (builder_Error b) (\<lambda>b' w. P w \<and> (b' = b \<and> mb_err b = None \<and> I b)) P"
proof (cases "mb_err b")
  case None
  then show ?thesis unfolding builder_Error_def by (simp add: triple_return)
next
  case (Some e)
  then show ?thesis unfolding builder_Error_def by (simp add: triple_err)
qed

lemma triple_built_bind:
  assumes "triple P m (built P I) P" and "\<And>b. mb_err b = None \<Longrightarrow> I b \<Longrightarrow> triple P (f b) Q P"
  shows "triple P (go_bind m (\<lambda>b. go_bind (builder_Error b) f)) Q P"
proof (rule triple_bind [OF assms(1)], rule triple_bind [OF triple_builder_Error])
  show "triple (\<lambda>w. P w \<and> (b' = b \<and> mb_err b = None \<and> I b)) (f b') Q P" for b b'
    by (rule triple_pure) (simp add: assms(2))
qed

text \<open>Where a user may add models: to a controller, and to a cloud.\<close>

definition may_add :: "'w externals \<Rightarrow> tup set \<Rightarrow> ofga_user \<Rightarrow> tag option \<Rightarrow> bool" where
  "may_add E S u resource \<longleftrightarrow>
     (\<exists>t r. user_tag E u = Some t \<and> resource = Some r \<and> can S u t CanAddModelRelation r)"

text \<open>
  What is known of the builder when a controller is about to be chosen: \<open>region\<close> is a region of the
  cloud, the user may add models to the cloud and to every candidate, and every candidate serves
  the region with the priority recorded for it.
\<close>

definition candidate_ok :: "'w externals \<Rightarrow> tup set \<Rightarrow> ofga_user \<Rightarrow> string \<Rightarrow> candidate \<Rightarrow> bool" where
  "candidate_ok E S u name cand \<longleftrightarrow> may_add E S u (controller_ResourceTag E (cand_controller cand))
     \<and> (name \<noteq> '''' \<longrightarrow> ctl_Name (cand_controller cand) = name)"

definition serves_region :: "cloud_region \<Rightarrow> candidate \<Rightarrow> bool" where
  "serves_region region cand \<longleftrightarrow> (\<exists>crp\<in>set (cr_Controllers region).
     rc_ControllerID crp = ctl_ID (cand_controller cand) \<and> rc_Priority crp = cand_priority cand)"

definition cloud_ok :: "'w externals \<Rightarrow> tup set \<Rightarrow> ofga_user \<Rightarrow> string \<Rightarrow> cloud \<Rightarrow> bool" where
  "cloud_ok E S u name c \<longleftrightarrow> may_add E S u (cloud_ResourceTag E c) \<and> (name \<noteq> '''' \<longrightarrow> cld_Name c = name)"

definition region_ok :: "string \<Rightarrow> cloud \<Rightarrow> cloud_region \<Rightarrow> bool" where
  "region_ok name c region \<longleftrightarrow> region \<in> set (cld_Regions c) \<and> cr_Name region \<noteq> '''' \<and> (name \<noteq> '''' \<longrightarrow> cr_Name region = name)"

definition begun :: "ofga_user \<Rightarrow> identity \<Rightarrow> add_model_args \<Rightarrow> model_builder \<Rightarrow> bool" where
  "begun u owner args b \<longleftrightarrow> mb_ofgaUser b = Some u \<and> mb_owner b = Some owner \<and> mb_name b = ama_Name args
     \<and> mb_credential b = None \<and> mb_model b = None"

definition with_candidates :: "'w externals \<Rightarrow> tup set \<Rightarrow> ofga_user \<Rightarrow> identity \<Rightarrow> add_model_args \<Rightarrow> model_builder \<Rightarrow> bool" where
  "with_candidates E S u owner args b \<longleftrightarrow> begun u owner args b
     \<and> (\<forall>cand\<in>set (mb_candidates b). candidate_ok E S u (ama_ControllerName args) cand)"

definition with_cloud :: "'w externals \<Rightarrow> tup set \<Rightarrow> ofga_user \<Rightarrow> identity \<Rightarrow> add_model_args \<Rightarrow> model_builder \<Rightarrow> bool" where
  "with_cloud E S u owner args b \<longleftrightarrow> with_candidates E S u owner args b
     \<and> (\<exists>c. mb_cloud b = Some c \<and> cloud_ok E S u (ama_Cloud args) c)"

definition placed :: "'w externals \<Rightarrow> tup set \<Rightarrow> ofga_user \<Rightarrow> identity \<Rightarrow> add_model_args \<Rightarrow> model_builder \<Rightarrow> bool" where
  "placed E S u owner args b \<longleftrightarrow> mb_owner b = Some owner \<and> mb_model b = None
     \<and> (\<exists>c region. mb_cloud b = Some c \<and> cloud_ok E S u (ama_Cloud args) c \<and> region_ok (ama_CloudRegion args) c region
         \<and> mb_cloudRegionID b = cr_ID region
         \<and> (\<forall>cand\<in>set (mb_candidates b). candidate_ok E S u (ama_ControllerName args) cand \<and> serves_region region cand))"

lemma triple_unless_err:
  "(mb_err b = None \<Longrightarrow> triple P m (built P I) P) \<Longrightarrow> triple P (unless_err b m) (built P I) P"
  unfolding unless_err_def by (cases "mb_err b = None") (auto intro: triple_return)

lemma triple_some_bind:
  "(\<And>x. r = Some x \<Longrightarrow> triple P (f x) Q P) \<Longrightarrow> triple P (go_bind (go_some s r) f) Q P"
  by (cases r) (simp_all add: triple_panic)

lemma triple_built_return: "I b \<Longrightarrow> triple P (go_return b) (built P I) P"
  by (rule triple_return) simp

context juju_services
begin

lemma check_may_add:
  assumes "r = Some ct"
  shows "triple (\<lambda>w. store w = S) (checkRelation E u ct CanAddModelRelation)
    (\<lambda>ok w. store w = S \<and> (ok \<longrightarrow> may_add E S u r)) (\<lambda>w. store w = S)"
proof (rule triple_frameI [OF checkRelation_frame])
  fix w ok w'
  assume "checkRelation E u ct CanAddModelRelation w = (Ok ok, w')" and "store w = S"
  then show "ok \<longrightarrow> may_add E S u r" using assms unfolding may_add_def by (auto elim: checkRelation_ok)
qed

lemma GetController_named:
  assumes "n \<noteq> ''''" and "GetController E d (empty_controller\<lparr>ctl_Name := n\<rparr>) w = (Ok c, w')"
  shows "ctl_Name c = n"
proof -
  have "ctl_UUID (empty_controller\<lparr>ctl_Name := n\<rparr>) = ''''" by (simp add: empty_controller_def)
  then show ?thesis using assms
    by (auto simp: GetController_def elim!: go_bind_OkE dest: controller_first)
qed

lemma GetCloud_named:
  "GetCloud E d (empty_cloud\<lparr>cld_Name := n\<rparr>) w = (Ok c, w') \<Longrightarrow> cld_Name c = n"
  by (auto simp: GetCloud_def elim!: go_bind_OkE dest: cloud_first)

lemma WithController_triple:
  assumes "begun u owner args b" and "mb_candidates b = []" and "ama_ControllerName args \<noteq> ''''"
  shows "triple (\<lambda>w. store w = S) (WithController E j (ama_ControllerName args) b)
    (built (\<lambda>w. store w = S) (with_candidates E S u owner args)) (\<lambda>w. store w = S)"
proof -
  let ?n = "ama_ControllerName args"
  have u: "mb_ofgaUser b = Some u" using assms(1) by (simp add: begun_def)
  have found: "triple (\<lambda>w. store w = S) (GetController E (jm_Database j) (empty_controller\<lparr>ctl_Name := ?n\<rparr>))
      (\<lambda>c w. store w = S \<and> ctl_Name c = ?n) (\<lambda>w. store w = S)"
    by (rule triple_frameI [OF seen.w_db(2)]) (rule GetController_named [OF assms(3)])
  have checked: "triple (\<lambda>w. store w = S)
      (or_fail b h (IsAllowedAddModelToController E u ct) (\<lambda>ok.
         if \<not> ok then fail_with b e
         else go_return (b\<lparr>mb_candidates := mb_candidates b @ [\<lparr>cand_controller = c, cand_priority = 0\<rparr>]\<rparr>)))
      (built (\<lambda>w. store w = S) (with_candidates E S u owner args)) (\<lambda>w. store w = S)"
    if "ctl_Name c = ?n" and "controller_ResourceTag E c = Some ct" for c ct e h
    unfolding IsAllowedAddModelToController_def
  proof (rule triple_or_fail [OF check_may_add])
    show "controller_ResourceTag E c = Some ct" by (fact that(2))
  next
    fix ok
    assume "ok \<longrightarrow> may_add E S u (controller_ResourceTag E c)"
    then show "triple (\<lambda>w. store w = S) (if \<not> ok then fail_with b e
        else go_return (b\<lparr>mb_candidates := mb_candidates b @ [\<lparr>cand_controller = c, cand_priority = 0\<rparr>]\<rparr>))
      (built (\<lambda>w. store w = S) (with_candidates E S u owner args)) (\<lambda>w. store w = S)"
      using assms that by (cases ok)
        (auto intro!: triple_fail_with triple_built_return simp: with_candidates_def begun_def candidate_ok_def)
  qed
  show ?thesis
    unfolding WithController_def with_authorizer_def u option.case
    by (rule triple_unless_err, rule triple_or_fail [OF found], rule triple_some_bind, rule checked)
qed

end

context juju_services
begin

lemma any_controller_triple:
  "triple (\<lambda>w. store w = S \<and> (\<forall>cand\<in>set cs. candidate_ok E S u '''' cand)) (any_controller E u c cs)
     (\<lambda>cs' w. store w = S \<and> (\<forall>cand\<in>set cs'. candidate_ok E S u '''' cand)) (\<lambda>w. store w = S)"
proof (rule triple_pure)
  assume cs: "\<forall>cand\<in>set cs. candidate_ok E S u '''' cand"
  have checked: "triple (\<lambda>w. store w = S) (go_bind (go_maperr h (IsAllowedAddModelToController E u ct)) (\<lambda>ok.
        if ok then go_return (cs @ [\<lparr>cand_controller = c, cand_priority = 0\<rparr>]) else go_return cs))
      (\<lambda>cs' w. store w = S \<and> (\<forall>cand\<in>set cs'. candidate_ok E S u '''' cand)) (\<lambda>w. store w = S)"
    if "controller_ResourceTag E c = Some ct" for h ct
    unfolding IsAllowedAddModelToController_def
  proof (rule triple_bind [OF triple_maperr [OF check_may_add [OF that]]], rule triple_pure)
    fix ok
    assume "ok \<longrightarrow> may_add E S u (controller_ResourceTag E c)"
    then show "triple (\<lambda>w. store w = S) (if ok then go_return (cs @ [\<lparr>cand_controller = c, cand_priority = 0\<rparr>]) else go_return cs)
      (\<lambda>cs' w. store w = S \<and> (\<forall>cand\<in>set cs'. candidate_ok E S u '''' cand)) (\<lambda>w. store w = S)"
      using cs by (cases ok) (auto intro!: triple_return simp: candidate_ok_def)
  qed
  show "triple (\<lambda>w. store w = S) (any_controller E u c cs)
      (\<lambda>cs' w. store w = S \<and> (\<forall>cand\<in>set cs'. candidate_ok E S u '''' cand)) (\<lambda>w. store w = S)"
    unfolding any_controller_def
    by (rule triple_if, rule triple_return, simp add: cs, rule triple_some_bind, rule checked)
qed

lemma WithAnyController_triple:
  assumes "begun u owner args b" and "ama_ControllerName args = ''''"
  shows "triple (\<lambda>w. store w = S) (WithAnyController E j b)
    (built (\<lambda>w. store w = S) (with_candidates E S u owner args)) (\<lambda>w. store w = S)"
proof -
  have u: "mb_ofgaUser b = Some u" using assms(1) by (simp add: begun_def)
  have found: "triple (\<lambda>w. store w = S) (ForEachController E (jm_Database j) (any_controller E u) [])
      (\<lambda>cs w. store w = S \<and> (\<forall>cand\<in>set cs. candidate_ok E S u '''' cand)) (\<lambda>w. store w = S)"
    unfolding ForEachController_def
    by (rule triple_bind [OF triple_frame [OF frame_ready]],
        rule triple_bind [OF triple_frame [OF frame_db_do [OF table_frameD(4) [OF controllers_table]]]],
        rule triple_strengthen [OF triple_fold [where P = "\<lambda>w. store w = S" and I = "\<lambda>cs. \<forall>cand\<in>set cs. candidate_ok E S u '''' cand"]])
       (simp_all add: any_controller_triple)
  show ?thesis
    unfolding WithAnyController_def with_authorizer_def u option.case Let_def
  proof (rule triple_unless_err, rule triple_or_fail [OF found])
    fix cs
    assume "\<forall>cand\<in>set cs. candidate_ok E S u '''' cand"
    then have "with_candidates E S u owner args (b\<lparr>mb_candidates := cs\<rparr>)"
      using assms by (simp add: with_candidates_def begun_def)
    then show "triple (\<lambda>w. store w = S) (if cs = [] then fail_with (b\<lparr>mb_candidates := cs\<rparr>) e else go_return (b\<lparr>mb_candidates := cs\<rparr>))
       (built (\<lambda>w. store w = S) (with_candidates E S u owner args)) (\<lambda>w. store w = S)" for e
      by (intro triple_if triple_fail_with triple_built_return)
  qed
qed

lemma GetCloudAccess_may_add:
  assumes "GetCloudAccess E u ct w = (Ok r, w')" and "ToCloudAccessString r \<noteq> ''''" and "cloud_ResourceTag E c = Some ct"
  shows "may_add E (store w) u (cloud_ResourceTag E c)"
proof -
  have r: "r = AdministratorRelation \<or> r = CanAddModelRelation" and "r \<noteq> NoRelation"
    using assms(2) by (auto simp: ToCloudAccessString_def split: if_splits)
  from access_of_ok [OF _ \<open>r \<noteq> NoRelation\<close>] assms(1) obtain t where
    t: "user_tag E u = Some t" "can (store w) u t r ct"
    unfolding get_access_is_access_of by blast
  have "ent_Kind (ConvertTag ct) = CloudTagKind"
    using assms(3) by (auto simp: cloud_ResourceTag_def new_juju_tag_def)
  with r t have "can (store w) u t CanAddModelRelation ct" unfolding can_def using cloud_admin_adds by metis
  with t assms(3) show ?thesis by (simp add: may_add_def)
qed

lemma withImplicitCloud_triple:
  assumes "with_candidates E S u owner args b" and "ama_Cloud args = ''''"
  shows "triple (\<lambda>w. store w = S) (withImplicitCloud E j u b)
    (built (\<lambda>w. store w = S) (with_cloud E S u owner args)) (\<lambda>w. store w = S)"
proof -
  have step: "triple (\<lambda>w. store w = S \<and> (\<forall>c\<in>set clouds. cloud_ok E S u '''' c))
      (go_bind (go_some s (cloud_ResourceTag E c)) (\<lambda>ct. go_bind (GetCloudAccess E u ct) (\<lambda>relation.
        if ToCloudAccessString relation = '''' then go_return clouds else go_return (clouds @ [c]))))
      (\<lambda>clouds w. store w = S \<and> (\<forall>c\<in>set clouds. cloud_ok E S u '''' c)) (\<lambda>w. store w = S)" for s c clouds
  proof (rule triple_pure, rule triple_some_bind)
    fix ct
    assume cs: "\<forall>c\<in>set clouds. cloud_ok E S u '''' c" and ct: "cloud_ResourceTag E c = Some ct"
    have "triple (\<lambda>w. store w = S) (GetCloudAccess E u ct)
        (\<lambda>r w. store w = S \<and> (ToCloudAccessString r \<noteq> '''' \<longrightarrow> cloud_ok E S u '''' c)) (\<lambda>w. store w = S)"
      by (rule triple_frameI [OF seen.w_GetCloudAccess]) (auto simp: cloud_ok_def dest: GetCloudAccess_may_add [OF _ _ ct])
    then show "triple (\<lambda>w. store w = S) (go_bind (GetCloudAccess E u ct) (\<lambda>relation.
        if ToCloudAccessString relation = '''' then go_return clouds else go_return (clouds @ [c])))
      (\<lambda>clouds w. store w = S \<and> (\<forall>c\<in>set clouds. cloud_ok E S u '''' c)) (\<lambda>w. store w = S)"
      by (rule triple_bind, intro triple_pure triple_cond triple_return) (use cs in auto)
  qed
  have found: "triple (\<lambda>w. store w = S) (ForEachUserCloud E j u (\<lambda>c clouds. go_return (clouds @ [c])) [])
      (\<lambda>clouds w. store w = S \<and> (\<forall>c\<in>set clouds. cloud_ok E S u '''' c)) (\<lambda>w. store w = S)"
    unfolding ForEachUserCloud_def
    by (rule triple_bind [OF triple_maperr [OF triple_frame [OF seen.w_db(5)]]], rule triple_if, rule triple_err, assumption,
        rule triple_bind [OF triple_maperr [OF triple_frame [OF seen.w_db(4)]]],
        rule triple_strengthen [OF triple_fold [where P = "\<lambda>w. store w = S" and I = "\<lambda>cs. \<forall>c\<in>set cs. cloud_ok E S u '''' c"]])
       (simp_all add: step)
  show ?thesis
    unfolding withImplicitCloud_def
  proof (rule triple_unless_err, rule triple_or_fail [OF found])
    fix clouds
    assume cs: "\<forall>c\<in>set clouds. cloud_ok E S u '''' c"
    have "with_cloud E S u owner args (b\<lparr>mb_cloud := Some (clouds ! 0)\<rparr>)" if "length clouds = 1"
      using assms cs that by (cases clouds) (auto simp: with_cloud_def with_candidates_def begun_def)
    then show "triple (\<lambda>w. store w = S)
       (if clouds = [] then fail_with b e1 else if length clouds \<noteq> 1 then fail_with b e2
        else go_return (b\<lparr>mb_cloud := Some (clouds ! 0)\<rparr>))
       (built (\<lambda>w. store w = S) (with_cloud E S u owner args)) (\<lambda>w. store w = S)" for e1 e2
      by (intro triple_cond triple_fail_with triple_built_return) simp_all
  qed
qed

end

lemma cloud_Region_named:
  assumes "cr_Name (cloud_Region c name) \<noteq> ''''"
  shows "cloud_Region c name \<in> set (cld_Regions c)" and "cr_Name (cloud_Region c name) = name"
proof -
  from assms obtain r where r: "find (\<lambda>r. cr_Name r = name) (cld_Regions c) = Some r"
    by (auto simp: cloud_Region_def empty_region_def split: option.splits)
  then show "cloud_Region c name \<in> set (cld_Regions c)" and "cr_Name (cloud_Region c name) = name"
    using find_SomeD [OF r] by (simp_all add: cloud_Region_def)
qed

lemma in_region_ok:
  assumes "cand' \<in> set (in_region region cand)"
  shows "cand_controller cand' = cand_controller cand" and "serves_region region cand'"
  using assms by (auto simp: in_region_def serves_region_def split: option.splits dest!: find_SomeD [OF sym])

lemma WithCloudRegion_triple:
  assumes "with_cloud E S u owner args b"
  shows "triple P (WithCloudRegion (ama_CloudRegion args) b) (built P (placed E S u owner args)) P"
proof -
  obtain c where c: "mb_cloud b = Some c" "cloud_ok E S u (ama_Cloud args) c"
    using assms by (auto simp: with_cloud_def)
  let ?n = "pick_region c (mb_candidates b) (ama_CloudRegion args)"
  let ?r = "cloud_Region c ?n"
  let ?b = "b\<lparr>mb_cloudRegion := ?n, mb_cloudRegionID := cr_ID ?r, mb_cloudRegionVirtual := cr_Virtual ?r,
    mb_candidates := concat (map (in_region ?r) (mb_candidates b))\<rparr>"
  have "placed E S u owner args ?b" if "cr_Name ?r \<noteq> ''''"
  proof -
    have "region_ok (ama_CloudRegion args) c ?r"
      using cloud_Region_named [OF that] that by (auto simp: region_ok_def pick_region_def)
    moreover have "candidate_ok E S u (ama_ControllerName args) cand' \<and> serves_region ?r cand'"
      if "cand \<in> set (mb_candidates b)" and "cand' \<in> set (in_region ?r cand)" for cand cand'
      using assms that(1) in_region_ok [OF that(2)] by (auto simp: with_cloud_def with_candidates_def candidate_ok_def)
    ultimately show ?thesis
      using assms c unfolding placed_def by (auto simp: with_cloud_def with_candidates_def begun_def)
  qed
  then show ?thesis
    unfolding WithCloudRegion_def c(1) option.case Let_def
    by (intro triple_unless_err triple_cond triple_fail_with triple_built_return) simp_all
qed

lemma placed_config [simp]: "placed E S u owner args (WithConfig cfg b) = placed E S u owner args b"
  by (simp add: placed_def WithConfig_def)

lemma placed_credential [simp]: "placed E S u owner args (b\<lparr>mb_credential := c\<rparr>) = placed E S u owner args b"
  by (simp add: placed_def)

context juju_services
begin

lemma WithCloud_triple:
  assumes "with_candidates E S u owner args b"
  shows "triple (\<lambda>w. store w = S) (WithCloud E j u (ama_Cloud args) b)
    (built (\<lambda>w. store w = S) (with_cloud E S u owner args)) (\<lambda>w. store w = S)"
proof -
  let ?n = "ama_Cloud args"
  have u: "mb_ofgaUser b = Some u" using assms by (simp add: with_candidates_def begun_def)
  have found: "triple (\<lambda>w. store w = S) (GetCloud E (jm_Database j) (empty_cloud\<lparr>cld_Name := ?n\<rparr>))
      (\<lambda>c w. store w = S \<and> cld_Name c = ?n) (\<lambda>w. store w = S)"
    by (rule triple_frameI [OF seen.w_db(3)]) (rule GetCloud_named)
  have checked: "triple (\<lambda>w. store w = S) (or_fail b h (IsAllowedAddModelToCloud E u ct) (\<lambda>ok.
         if \<not> ok then fail_with b e
         else go_return (b\<lparr>mb_cloud := Some c, mb_candidates := filter (serves_cloud (cld_Name c)) (mb_candidates b)\<rparr>)))
      (built (\<lambda>w. store w = S) (with_cloud E S u owner args)) (\<lambda>w. store w = S)"
    if "cld_Name c = ?n" and "cloud_ResourceTag E c = Some ct" for c ct e h
    unfolding IsAllowedAddModelToCloud_def
  proof (rule triple_or_fail [OF check_may_add [OF that(2)]])
    fix ok
    assume "ok \<longrightarrow> may_add E S u (cloud_ResourceTag E c)"
    then show "triple (\<lambda>w. store w = S) (if \<not> ok then fail_with b e
        else go_return (b\<lparr>mb_cloud := Some c, mb_candidates := filter (serves_cloud (cld_Name c)) (mb_candidates b)\<rparr>))
      (built (\<lambda>w. store w = S) (with_cloud E S u owner args)) (\<lambda>w. store w = S)"
      using assms that by (cases ok)
        (auto intro!: triple_fail_with triple_built_return simp: with_cloud_def with_candidates_def begun_def cloud_ok_def)
  qed
  show ?thesis
  proof (cases "?n = ''''")
    case True
    show ?thesis unfolding WithCloud_def with_authorizer_def u option.case
      using withImplicitCloud_triple [OF assms True] True by (simp add: triple_unless_err)
  next
    case False
    then show ?thesis
      unfolding WithCloud_def with_authorizer_def u option.case if_False
      by (intro triple_unless_err) (simp, rule triple_or_fail [OF found], rule triple_some_bind, rule checked)
  qed
qed

lemma WithCloudCredential_triple:
  assumes "placed E S u owner args b"
  shows "triple (\<lambda>w. store w = S) (WithCloudCredential V j t b)
    (built (\<lambda>w. store w = S) (placed E S u owner args)) (\<lambda>w. store w = S)"
proof -
  have run: "WithCloudCredential V j t b w = (Ok b', w') \<Longrightarrow> mb_err b' = None \<longrightarrow> placed E S u owner args b'" for w b' w'
    using assms unfolding WithCloudCredential_def unless_err_def fail_with_def Let_def
    by (auto elim!: go_bind_OkE go_try_OkE split: if_splits sum.splits)
  show ?thesis
    by (rule triple_mono [OF triple_frameI [OF seen.w_placing(8), where Q = "\<lambda>b. mb_err b = None \<longrightarrow> placed E S u owner args b"]])
      (use run in auto)
qed

lemma place_model_triple:
  "triple (\<lambda>w. store w = S) (place_model E V j user owner args)
     (\<lambda>b w. store w = S \<and> (mb_err b = None \<and> placed E S user owner args b)) (\<lambda>w. store w = S)"
proof -
  define b0 where "b0 = newModelBuilder\<lparr>mb_owner := Some owner, mb_ofgaUser := Some user, mb_name := ama_Name args\<rparr>"
  have b0: "begun user owner args b0" "mb_candidates b0 = []" "mb_err b0 = None"
    by (simp_all add: b0_def begun_def newModelBuilder_def)
  have start: "place_model E V j user owner args =
     go_bind (if ama_ControllerName args \<noteq> '''' then WithController E j (ama_ControllerName args) b0
              else WithAnyController E j b0) (\<lambda>b. go_bind (builder_Error b) (\<lambda>b.
     go_bind (WithCloud E j user (ama_Cloud args) b) (\<lambda>b. go_bind (builder_Error b) (\<lambda>b.
     go_bind (WithCloudRegion (ama_CloudRegion args) b) (\<lambda>b. go_bind (builder_Error b) (\<lambda>b.
     go_bind (go_some ''nil cloud'' (mb_cloud b)) (\<lambda>c.
     go_bind (cloud_defaults_of V j user c '''') (\<lambda>defaults.
     go_bind (cloud_defaults_of V j user c (mb_cloudRegion b)) (\<lambda>regionDefaults.
     let b = WithConfig (ama_Config args) (WithConfig regionDefaults (WithConfig defaults b)) in
     if ama_CloudCredential args \<noteq> no_cred_tag
     then go_bind (WithCloudCredential V j (ama_CloudCredential args) b) builder_Error
     else go_return b)))))))))"
    unfolding place_model_def WithOwner_def WithAuthorizer_def WithName_def unless_err_def builder_Error_def
    by (simp add: newModelBuilder_def b0_def)
  have creds: "triple (\<lambda>w. store w = S) (if b then go_bind (WithCloudCredential V j t b1) builder_Error else go_return b1)
      (\<lambda>b w. store w = S \<and> (mb_err b = None \<and> placed E S user owner args b)) (\<lambda>w. store w = S)"
    if "mb_err b1 = None" and "placed E S user owner args b1" for b t b1
    using triple_built_bind [OF WithCloudCredential_triple [OF that(2)], of go_return] that
    by (intro triple_if triple_return) (simp_all add: triple_return)
  have conf: "mb_err (WithConfig x b) = mb_err b" for x b by (simp add: WithConfig_def)
  show ?thesis
    unfolding start Let_def
  proof (rule triple_built_bind [where I = "with_candidates E S user owner args"])
    show "triple (\<lambda>w. store w = S) (if ama_ControllerName args \<noteq> '''' then WithController E j (ama_ControllerName args) b0
          else WithAnyController E j b0) (built (\<lambda>w. store w = S) (with_candidates E S user owner args)) (\<lambda>w. store w = S)"
      using WithController_triple [OF b0(1,2)] WithAnyController_triple [OF b0(1)] by (intro triple_cond) auto
  qed (rule triple_built_bind, erule WithCloud_triple, rule triple_built_bind, erule WithCloudRegion_triple,
      rule triple_some_bind, rule triple_bind [OF triple_frame [OF seen.w_placing(10)]],
      rule triple_bind [OF triple_frame [OF seen.w_placing(10)]], rule creds, simp_all add: conf)
qed

end

section \<open>A model that was added\<close>

lemma or_fail_OkE:
  assumes "or_fail b h m k w = (Ok b', w')" and "mb_err b' = None"
  obtains x w1 where "m w = (Ok x, w1)" and "k x w1 = (Ok b', w')"
  using assms unfolding or_fail_def fail_with_def by (auto elim!: go_try_bindE)

lemma builder_Error_OkE:
  assumes "builder_Error b w = (Ok b', w')"
  obtains "mb_err b = None" and "b' = b" and "w' = w"
  using assms by (auto simp: builder_Error_def split: option.splits)

text \<open>The controller that was chosen, for the cloud and the region that were chosen.\<close>

definition chosen :: "'w externals \<Rightarrow> tup set \<Rightarrow> ofga_user \<Rightarrow> add_model_args \<Rightarrow> controller \<Rightarrow> bool" where
  "chosen E S u args ctl \<longleftrightarrow> (\<exists>c region cand. cloud_ok E S u (ama_Cloud args) c \<and> region_ok (ama_CloudRegion args) c region
     \<and> candidate_ok E S u (ama_ControllerName args) cand \<and> serves_region region cand
     \<and> ctl_ID ctl = ctl_ID (cand_controller cand) \<and> ctl_UUID ctl = ctl_UUID (cand_controller cand))"

lemma selectCloudCredentials_controller:
  "selectCloudCredentials V j b w = (Ok b', w') \<Longrightarrow> mb_controller b' = mb_controller b"
  unfolding selectCloudCredentials_def by (auto elim!: go_bind_OkE split: option.splits)

lemma store_model_controller:
  "store_model E j owner ctl cred b w = (Ok b', w') \<Longrightarrow> mb_controller b' = mb_controller b"
  unfolding store_model_def or_fail_def fail_with_def Let_def by (auto elim!: go_try_bindE)

lemma CreateDatabaseModel_chosen:
  assumes "CreateDatabaseModel E V j b w = (Ok b', w')" and "mb_err b' = None"
    and "placed E S u owner args b" and "shuffles V"
  shows "\<exists>ctl. mb_controller b' = Some ctl \<and> chosen E S u args ctl"
proof -
  from assms(1-3) obtain b1 w1 b2 w2 ctl cred
    where sel: "selectController V b w = (Ok b1, w1)" and ctl: "mb_controller b1 = Some ctl"
      and cred: "(if mb_credential b1 = None then selectCloudCredentials V j b1 else go_return b1) w1 = (Ok b2, w2)"
      and st: "store_model E j owner ctl cred b2 w2 = (Ok b', w')"
    unfolding CreateDatabaseModel_def unless_err_def
    by (auto simp: placed_def fail_with_def split: if_splits option.splits elim!: or_fail_OkE)
  obtain cand where cand: "mb_controller b1 = Some (cand_controller cand)" "cand \<in> set (mb_candidates b)"
    by (rule selectController_Ok [OF sel assms(4)]) simp
  have "mb_controller b' = Some ctl"
    using store_model_controller [OF st] cred ctl
    by (auto split: if_splits dest: selectCloudCredentials_controller)
  moreover have "chosen E S u args ctl"
    using assms(3) cand ctl unfolding chosen_def placed_def by auto
  ultimately show ?thesis by blast
qed

lemma create_over_keeps:
  assumes "create_over E V api b w = (Ok b', w')" and "mb_err b' = None"
  shows "\<exists>info. b' = b\<lparr>mb_modelInfo := info\<rparr>"
  using assms unfolding create_over_def by (elim or_fail_OkE go_bind_OkE) auto

lemma CreateControllerModel_chosen:
  assumes "CreateControllerModel E V j b w = (Ok b', w')" and "mb_err b' = None"
    and "mb_controller b = Some ctl" and "chosen E S u args ctl"
    and "\<And>as ctl m w api w'. je_Dial V as ctl m w = (Ok api, w') \<Longrightarrow>
      ctl_ID (conn_controller api) = ctl_ID ctl \<and> ctl_UUID (conn_controller api) = ctl_UUID ctl"
  shows "\<exists>ctl. mb_controller b' = Some ctl \<and> chosen E S u args ctl"
proof -
  have "mb_err b = None" using assms(1,2) by (auto simp: CreateControllerModel_def unless_err_def split: if_splits)
  with assms(1-3) have "or_fail b id (dialControllerAsSuperuser V j (mb_ofgaUser b) ctl) (\<lambda>api.
      create_over E V api (b\<lparr>mb_controller := Some (conn_controller api)\<rparr>)) w = (Ok b', w')"
    by (auto simp: CreateControllerModel_def unless_err_def fail_with_def split: option.splits)
  then obtain api w1 where d: "dialControllerAsSuperuser V j (mb_ofgaUser b) ctl w = (Ok api, w1)"
    and c: "create_over E V api (b\<lparr>mb_controller := Some (conn_controller api)\<rparr>) w1 = (Ok b', w')"
    using assms(2) by (rule or_fail_OkE)
  from create_over_keeps [OF c assms(2)] have b': "mb_controller b' = Some (conn_controller api)" by auto
  from d have "je_Dial V (AsSuperuser (mb_ofgaUser b)) ctl None w = (Ok api, w1)"
    by (auto simp: dialControllerAsSuperuser_def dial_def split: if_splits)
  from assms(5) [OF this] assms(4) have "chosen E S u args (conn_controller api)" by (simp add: chosen_def)
  then show ?thesis using b' by simp
qed

lemma UpdateDatabaseModel_keeps:
  "UpdateDatabaseModel E V j b w = (Ok b', w') \<Longrightarrow> mb_controller b' = mb_controller b \<and> mb_modelInfo b' = mb_modelInfo b"
  unfolding UpdateDatabaseModel_def unless_err_def or_fail_def fail_with_def Let_def
  by (auto elim!: go_bind_OkE go_try_OkE split: if_splits option.splits prod.splits sum.splits)

lemma after_cleanup_ok: "mb_err b = None \<Longrightarrow> after_cleanup E j b m = m"
  by (simp add: after_cleanup_def Cleanup_def)

lemma after_cleanup_err_not_Ok: "after_cleanup E j b (go_err e) w \<noteq> (Ok x, w')"
  unfolding after_cleanup_def by (auto elim!: go_bind_OkE)

lemma unless_failed_OkE:
  assumes "(case mb_err b of Some e \<Rightarrow> after_cleanup E j b (go_err e) | None \<Rightarrow> k) w = (Ok x, w')"
  obtains "mb_err b = None" and "k w = (Ok x, w')"
  using assms by (cases "mb_err b") (simp_all add: after_cleanup_err_not_Ok)

lemma create_model_OkE:
  assumes "create_model E V j owner b w = (Ok mi, w')"
  obtains b1 w1 b2 w2 where "CreateControllerModel E V j b w = (Ok b1, w1)" and "mb_err b1 = None"
    and "UpdateDatabaseModel E V j b1 w1 = (Ok b2, w2)" and "finish_model E owner b2 w2 = (Ok mi, w')"
  using assms unfolding create_model_def
  by (elim go_bind_OkE unless_failed_OkE) (simp add: after_cleanup_ok)

lemma finish_model_OkE:
  assumes "finish_model E owner b w = (Ok mi, w')"
  obtains mt ctl ct where "new_juju_tag E ModelTagKind (mi_UUID mi) = Some mt"
    and "mb_controller b = Some ctl" and "controller_ResourceTag E ctl = Some ct"
    and "addModelPermissions E (NewUser owner True) mt ct w = (Ok (), w')"
  using assms unfolding finish_model_def Let_def by (elim go_bind_OkE go_some_OkE) auto

context juju_services
begin

lemma model_store_frames [frame_intros]:
  "frame store (db_AddModel E d m)" "frame store (db_UpdateModel E d m)" "frame store (DeleteModel E d m)"
  unfolding db_AddModel_def db_UpdateModel_def DeleteModel_def by (intro frame_intros table_frameD [OF models_table])+

lemma CreateDatabaseModel_frame: "frame store (CreateDatabaseModel E V j b)"
  unfolding CreateDatabaseModel_def store_model_def Let_def
  by (intro frame_intros seen.w_selecting seen.w_or_fail seen.w_fail seen.w_unless_err)

lemma UpdateDatabaseModel_frame: "frame store (UpdateDatabaseModel E V j b)"
  unfolding UpdateDatabaseModel_def Let_def
  by (intro frame_intros seen.w_FromJujuModelInfo seen.w_or_fail seen.w_unless_err)

lemma addModelPermissions_ok:
  assumes "addModelPermissions E (NewUser owner True) mt ct w = (Ok (), w')"
  obtains ot where "identity_ResourceTag E owner = Some ot"
    and "store w' = insert (tag_tup ot AdministratorRelation mt) (insert (tag_tup ct ControllerRelation mt) (store w))"
proof -
  from assms obtain w1 where c: "setResourceAccess E (Some ct) (Some mt) ControllerRelation w = (Ok (), w1)"
    and o: "set_user_access E (NewUser owner True) mt AdministratorRelation w1 = (Ok (), w')"
    unfolding addModelPermissions_def AddControllerModel_def SetModelAccess_def by (elim go_bind_OkE) simp
  from setResourceAccess_ok [OF c] have "store w1 = insert (tag_tup ct ControllerRelation mt) (store w)" by simp
  with o show ?thesis by (elim set_user_access_ok) (auto intro: that)
qed

lemma AddModel_ok:
  assumes "AddModel E V j user args w = (Ok mi, w')"
  obtains owner ctl ct ot mt i where "NewIdentity E (ama_Owner args) = Inr i" and "id_Name owner = id_Name i"
    and "id_Name owner = u_Name user \<or> u_JimmAdmin user"
    and "chosen E (store w) user args ctl" and "controller_ResourceTag E ctl = Some ct"
    and "identity_ResourceTag E owner = Some ot" and "new_juju_tag E ModelTagKind (mi_UUID mi) = Some mt"
    and "store w' = insert (tag_tup ot AdministratorRelation mt) (insert (tag_tup ct ControllerRelation mt) (store w))"
proof -
  from assms obtain i owner w1 b w2 b1 w3 where i: "NewIdentity E (ama_Owner args) = Inr i"
    and owner: "GetIdentity E (jm_Database j) i w = (Ok owner, w1)"
    and who: "id_Name owner = u_Name user \<or> u_JimmAdmin user"
    and b: "place_model E V j user owner args w1 = (Ok b, w2)"
    and b1: "CreateDatabaseModel E V j b w2 = (Ok b1, w3)" "mb_err b1 = None"
    and c: "create_model E V j owner b1 w3 = (Ok mi, w')"
    unfolding AddModel_def
    by (auto split: if_splits elim!: go_bind_OkE go_sum_OkE builder_Error_OkE)
  have w1: "store w1 = store w" "id_Name owner = id_Name i" using GetIdentity_ok [OF owner] by simp_all
  have w2: "store w2 = store w" "placed E (store w) user owner args b"
    using triple_OkD [OF place_model_triple [where S = "store w"] w1(1) b] by auto
  have w3: "store w3 = store w" using frameD [OF CreateDatabaseModel_frame b1(1)] w2(1) by simp
  from c obtain b2 w4 b3 w5 where c: "CreateControllerModel E V j b1 w3 = (Ok b2, w4)" "mb_err b2 = None"
    "UpdateDatabaseModel E V j b2 w4 = (Ok b3, w5)" and f: "finish_model E owner b3 w5 = (Ok mi, w')"
    by (rule create_model_OkE)
  from f obtain mt ctl ct where f: "new_juju_tag E ModelTagKind (mi_UUID mi) = Some mt"
    "mb_controller b3 = Some ctl" "controller_ResourceTag E ctl = Some ct"
    "addModelPermissions E (NewUser owner True) mt ct w5 = (Ok (), w')" by (rule finish_model_OkE)
  have "store w5 = store w"
    using frameD [OF seen.w_CreateControllerModel c(1)] frameD [OF UpdateDatabaseModel_frame c(3)] w3 by simp
  moreover from CreateDatabaseModel_chosen [OF b1 w2(2) env_shuffles] obtain ctl0 where
    "mb_controller b1 = Some ctl0" "chosen E (store w) user args ctl0" by blast
  then have "\<exists>ctl. mb_controller b2 = Some ctl \<and> chosen E (store w) user args ctl"
    using dial_controller by (rule CreateControllerModel_chosen [OF c(1,2)])
  then have "chosen E (store w) user args ctl" using UpdateDatabaseModel_keeps [OF c(3)] f(2) by auto
  ultimately show ?thesis
    using f(4) by (elim addModelPermissions_ok) (auto intro!: that [OF i w1(2) who _ f(3) _ f(1)])
qed

end


section \<open>Controllers in memory\<close>

text \<open>A table whose queries find the given rows, and controllers that accept everything.\<close>

definition toy_table :: "'row list \<Rightarrow> ('w, 'row) gorm_table" where
  "toy_table rows = \<lparr>gorm_Create = (\<lambda>_ r. go_return r), gorm_CreateDoNothing = (\<lambda>_ r. go_return (r, 1)),
     gorm_First = (\<lambda>_ _ r. case rows of [] \<Rightarrow> go_err ErrRecordNotFound | x # _ \<Rightarrow> go_return x),
     gorm_Find = (\<lambda>_ _ _ _ _. go_return rows),
     gorm_Count = (\<lambda>_. go_return (length rows)), gorm_Update = (\<lambda>_ _ _ _ w. (0, w)),
     gorm_Delete = (\<lambda>_ _ _. go_return ()), gorm_Save = (\<lambda>_ _ r. go_return r)\<rparr>"

definition toy_credential :: cloud_credential where
  "toy_credential = empty_credential\<lparr>cc_ID := 1, cc_Name := ''k'', cc_CloudName := ''aws'', cc_OwnerIdentityName := ''alice''\<rparr>"

definition toy_info :: model_info where
  "toy_info = empty_model_info\<lparr>mi_Name := ''m'', mi_UUID := ''m'', mi_Life := ''alive''\<rparr>"

definition toy_cloud :: juju_cloud where
  "toy_cloud = \<lparr>jc_Type = ''ec2'', jc_HostCloudRegion = '''', jc_AuthTypes = [], jc_Endpoint = '''', jc_IdentityEndpoint = '''',
     jc_StorageEndpoint = '''', jc_Regions = [], jc_CACertificates = [], jc_SkipTLSVerify = False, jc_Config = None, jc_RegionConfig = Map.empty\<rparr>"

definition toy_env :: "'w juju_env" where
  "toy_env = \<lparr>je_credentials = toy_table [toy_credential], je_defaults = toy_table [], je_regions = toy_table [], je_priorities = toy_table [],
     je_upsert_credential = (\<lambda>_ c. go_return c), je_upsert_defaults = (\<lambda>_ c. go_return c), je_transaction = (\<lambda>f. f Tx),
     je_Store_Get = (\<lambda>_. go_return Map.empty), je_Store_Put = (\<lambda>_ _. go_return ()),
     je_Dial = (\<lambda>as ctl m. go_return \<lparr>conn_identity = as, conn_controller = ctl, conn_model = m\<rparr>),
     je_swaps = (\<lambda>_ w. ([], w)), je_schedule = (\<lambda>n w. ([0..<n], w)), je_ErrCode = (\<lambda>e. ErrorCode (Some e)),
     je_CredentialTag = (\<lambda>s. case go_split (CHR ''/'') s of [c, u, n] \<Rightarrow> Some \<lparr>cct_Cloud = c, cct_Owner = u, cct_Name = n\<rparr> | _ \<Rightarrow> None),
     je_CredentialTag_String = (\<lambda>t. ''cloudcred-'' @ cct_Cloud t @ ''_'' @ cct_Owner t @ ''_'' @ cct_Name t),
     je_RedirectAlias = (\<lambda>i. case i of [] \<Rightarrow> Inl (ErrNew ''no alias'') | (_, a) # _ \<Rightarrow> Inr a),
     je_IsValidCloudCredential = (\<lambda>_. True), je_IsVisibleAttribute = (\<lambda>_ _ _. True),
     api_CreateModel = (\<lambda>_ _. go_return toy_info), api_GrantJIMMModelAdmin = (\<lambda>_ _. go_return ()),
     api_ModelInfo = (\<lambda>_ _. go_return toy_info), api_ModelStatus = (\<lambda>_ _. go_return \<lparr>ms_UUID = ''m'', ms_Life = ''alive'', ms_Owner = '''', ms_Error = None\<rparr>),
     api_DestroyModel = (\<lambda>_ _ _. go_return ()), api_DumpModel = (\<lambda>_ _ _. go_return Map.empty), api_DumpModelDB = (\<lambda>_ _. go_return Map.empty),
     api_AbortModelUpgrade = (\<lambda>_ _. go_return ()), api_UpgradeModel = (\<lambda>_ _ v _ _ _. go_return v), api_ValidateModelUpgrade = (\<lambda>_ _ _. go_return ()),
     api_ChangeModelCredential = (\<lambda>_ _ _. go_return ()), api_ControllerModelUUID = (\<lambda>_. go_return ''m''), api_ListModels = (\<lambda>_. go_return []),
     api_ListModelSummaries = (\<lambda>_. go_return []), api_CheckCredentialModels = (\<lambda>_ _. go_return []),
     api_UpdateCloudsCredentialForce = (\<lambda>_ _. go_return []), api_RevokeCredential = (\<lambda>_ _. go_return ()),
     api_CredentialContents = (\<lambda>_ _ _ _. go_return []), api_AddCloud = (\<lambda>_ _ _ _. go_return ()), api_Cloud = (\<lambda>_ _. go_return toy_cloud),
     api_RemoveCloud = (\<lambda>_ _. go_return ()), api_UpdateCloud = (\<lambda>_ _ _. go_return ())\<rparr>"

lemma toy_table_frame: "table_frame obs (toy_table rows)"
  by (cases rows) (simp_all add: toy_table_def table_frame_def frame_return frame_err)

lemma toy_env_frame: "env_frame obs toy_env"
  by (simp add: env_frame_def toy_env_def toy_table_frame frame_return)

lemma toy_env_simps [simp]:
  "je_swaps toy_env n w = ([], w)" "je_Dial toy_env as ctl m = go_return \<lparr>conn_identity = as, conn_controller = ctl, conn_model = m\<rparr>"
  "je_credentials toy_env = toy_table [toy_credential]" "je_defaults toy_env = toy_table []"
  "je_Store_Get toy_env t = go_return Map.empty" "api_UpdateCloudsCredentialForce toy_env api tc = go_return []"
  "api_ModelInfo toy_env api mt = go_return toy_info" "je_schedule toy_env n w = ([0..<n], w)"
  "api_CreateModel toy_env api args = go_return toy_info" "api_GrantJIMMModelAdmin toy_env api mt = go_return ()"
  "je_CredentialTag toy_env s = (case go_split (CHR ''/'') s of [c, u, n] \<Rightarrow> Some \<lparr>cct_Cloud = c, cct_Owner = u, cct_Name = n\<rparr> | _ \<Rightarrow> None)"
  by (simp_all add: toy_env_def)

interpretation memju: juju_services mem_externals mem_store mem_remaining toy_env
  by unfold_locales (auto simp: toy_env_frame shuffles_def mem_clouds_def mem_controllers_def)

definition mem_juju :: juju_manager where
  "mem_juju = \<lparr>jm_Database = pm_store mem_pm, jm_permissionManager = mem_pm, jm_ReservedCloudNames = [], jm_Dialer = True, jm_fuel = 100\<rparr>"

definition toy_args :: add_model_args where
  "toy_args = \<lparr>ama_Name = ''m'', ama_Owner = ''alice'', ama_Config = None, ama_Cloud = ''aws'', ama_CloudRegion = '''',
     ama_CloudCredential = no_cred_tag, ama_ControllerName = ''ctl''\<rparr>"

definition mem_may_add :: "tup list" where
  "mem_may_add = map (tag_tup (Tag UserTagKind ''alice'') CanAddModelRelation) [Tag ControllerTagKind ''c'', Tag CloudTagKind ''aws'']"

lemma mem_may_add_checks:
  "checkRelation mem_externals (mem_user ''alice'') (Tag ControllerTagKind ''c'') CanAddModelRelation mem_may_add = (Ok True, mem_may_add)"
  "checkRelation mem_externals (mem_user ''alice'') (Tag CloudTagKind ''aws'') CanAddModelRelation mem_may_add = (Ok True, mem_may_add)"
proof -
  have "holds (mem_store mem_may_add) (ConvertTag (Tag UserTagKind ''alice'')) CanAddModelRelation (ConvertTag res)"
    if "res \<in> {Tag ControllerTagKind ''c'', Tag CloudTagKind ''aws''}" for res
    using that by (intro holds.direct)
      (auto simp: mem_may_add_def tag_tup_def mk_tup_def mem_store_def assignable_def grantee_def access_relations_def)
  then show
    "checkRelation mem_externals (mem_user ''alice'') (Tag ControllerTagKind ''c'') CanAddModelRelation mem_may_add = (Ok True, mem_may_add)"
    "checkRelation mem_externals (mem_user ''alice'') (Tag CloudTagKind ''aws'') CanAddModelRelation mem_may_add = (Ok True, mem_may_add)"
    by (simp_all add: mem_check)
qed

lemma toy_place:
  assumes "id_Name i = ''alice''"
  shows "\<exists>b. place_model mem_externals toy_env mem_juju (mem_user ''alice'') i toy_args mem_may_add = (Ok b, mem_may_add)
    \<and> mb_err b = None \<and> mb_name b = ''m'' \<and> mb_owner b = Some i \<and> mb_model b = None \<and> mb_credential b = None
    \<and> mb_cloudRegionID b = 1 \<and> (\<exists>c. mb_cloud b = Some c \<and> cld_Name c = ''aws'')
    \<and> (\<exists>cand. mb_candidates b = [cand] \<and> ctl_UUID (cand_controller cand) = ''c'')"
  using mem_may_add_checks assms
  by (simp add: place_model_def WithOwner_def WithAuthorizer_def WithName_def newModelBuilder_def unless_err_def builder_Error_def
      WithController_def with_authorizer_def or_fail_def fail_with_def toy_args_def mem_juju_def mem_pm_def GetController_def
      empty_controller_def mem_controllers_def ready_def controller_ResourceTag_def new_juju_tag_def IsAllowedAddModelToController_def
      WithCloud_def GetCloud_def mem_clouds_def empty_cloud_def cloud_ResourceTag_def IsAllowedAddModelToCloud_def
      serves_cloud_def empty_region_ref_def empty_cloud_ref_def WithCloudRegion_def pick_region_def supports_region_def
      mem_region_def empty_region_def cloud_Region_def in_region_def empty_region_controller_def
      cloud_defaults_of_def db_CloudDefaults_def toy_table_def not_found_as_def dbError_def err_not_found_def WithConfig_def
      Let_def go_bind_def go_try_def go_maperr_def go_simps)

lemma toy_create:
  assumes "mb_err b = None" and "mb_name b = ''m''" and "mb_owner b = Some i" and "mb_model b = None" and "mb_credential b = None"
    and "mb_cloudRegionID b = 1" and "mb_cloud b = Some c" and "cld_Name c = ''aws''"
    and "mb_candidates b = [cand]" and "ctl_UUID (cand_controller cand) = ''c''" and "id_Name i = ''alice''"
  shows "\<exists>b'. CreateDatabaseModel mem_externals toy_env mem_juju b w = (Ok b', w) \<and> mb_err b' = None
    \<and> (\<exists>w'. create_model mem_externals toy_env mem_juju i b' w = (Ok toy_info, w'))"
  using assms
  by (simp add: CreateDatabaseModel_def unless_err_def or_fail_def fail_with_def selectController_def shuffleCandidateControllers_def
      apply_swaps_def selectCloudCredentials_def GetIdentityCloudCredentials_def ready_def mem_juju_def mem_pm_def toy_table_def
      toy_credential_def empty_credential_def store_model_def db_AddModel_def db_do_def mem_models_def no_table_def
      create_model_def CreateControllerModel_def dialControllerAsSuperuser_def dial_def create_over_def mb_updateCredential_def
      getCloudCredentialAttributes_def credential_ResourceTag_def credential_Path_def forceUpdateControllerCloudCredential_def
      tagged_def credential_update_result_def jujuModelCreateArgs_def toy_info_def empty_model_info_def new_juju_tag_def
      UpdateDatabaseModel_def FromJujuModelInfo_def db_UpdateModel_def after_cleanup_ok finish_model_def controller_ResourceTag_def
      addModelPermissions_def AddControllerModel_def SetModelAccess_def set_user_access_def user_ResourceTag_def identity_ResourceTag_def
      with_client_def setResourceAccess_def OFGA_AddRelation_def mem_add_def
      Let_def go_bind_def go_try_def go_maperr_def go_simps)


theorem highest_priority_controller_witness:
  "\<exists>cs. selectController toy_env (newModelBuilder\<lparr>mb_candidates := [\<lparr>cand_controller = empty_controller, cand_priority = 1\<rparr>,
        \<lparr>cand_controller = empty_controller\<lparr>ctl_Name := ''b''\<rparr>, cand_priority = 10\<rparr>]\<rparr>) ()
     = (Ok (newModelBuilder\<lparr>mb_candidates := cs, mb_controller := Some (empty_controller\<lparr>ctl_Name := ''b''\<rparr>)\<rparr>), ())"
proof -
  let ?lo = "\<lparr>cand_controller = empty_controller, cand_priority = 1\<rparr>"
  let ?hi = "\<lparr>cand_controller = empty_controller\<lparr>ctl_Name := ''b''\<rparr>, cand_priority = 10\<rparr>"
  let ?b = "newModelBuilder\<lparr>mb_candidates := [?lo, ?hi]\<rparr>"
  have "shuffles toy_env" by (simp add: shuffles_def)
  moreover obtain q w' where run: "selectController toy_env ?b () = (q, w')" using prod.exhaust by blast
  ultimately obtain cs cand where "q = Ok (?b\<lparr>mb_candidates := cs, mb_controller := Some (cand_controller cand)\<rparr>)"
    "cand \<in> {?lo, ?hi}" "cand_priority ?hi \<le> cand_priority cand"
    using highest_priority_controller [OF _ run] by auto
  then show ?thesis using run by (intro exI [of _ cs]) auto
qed

end
