(* ===== verification/Model_Rows.thy ===== *)
theory Model_Rows
  imports Model_Placement
begin

text \<open>
  The rows of the table of models that adding a model leaves behind when a later step fails: none
  when the controller refuses the model, but the row of the model when it cannot be updated.
\<close>

section \<open>The table of models\<close>

text \<open>
  The contract of the table of models: a new row gets a fresh identifier; a delete removes the rows
  that satisfy every condition and that have the identifier of the given row, where it has one; a
  statement that fails changes nothing. The other services do not touch the table.
\<close>

fun row_matches :: "model \<Rightarrow> cond \<Rightarrow> bool" where
  "row_matches r (WhereID i) = (mdl_ID r = i)"
| "row_matches r (WhereEq col v) = (col = ''uuid'' \<longrightarrow> mdl_UUID r = Some v)"
| "row_matches r _ = True"

locale model_rows = juju_world E V rows
  for E :: "'w externals" and V :: "'w juju_env" and rows :: "'w \<Rightarrow> model set" +
  assumes row_create: "gorm_Create (tbl_models E) h m w = (Ok m', w') \<Longrightarrow>
      mdl_UUID m' = mdl_UUID m \<and> mdl_ID m' \<noteq> 0 \<and> (\<forall>r\<in>rows w. mdl_ID r \<noteq> mdl_ID m') \<and> rows w' = insert m' (rows w)"
    and row_create_err: "gorm_Create (tbl_models E) h m w = (q, w') \<Longrightarrow> q \<notin> range Ok \<Longrightarrow> rows w' = rows w"
    and row_save_err: "gorm_Save (tbl_models E) h om m w = (q, w') \<Longrightarrow> q \<notin> range Ok \<Longrightarrow> rows w' = rows w"
    and row_delete: "gorm_Delete (tbl_models E) h cs m w = (Ok u, w') \<Longrightarrow> cs \<in> {[WhereID i], [WhereEq ''uuid'' v]} \<Longrightarrow>
      rows w' = {r \<in> rows w. \<not> (list_all (row_matches r) cs \<and> (mdl_ID m \<noteq> 0 \<longrightarrow> mdl_ID r = mdl_ID m))}"
    and row_delete_err: "gorm_Delete (tbl_models E) h cs m w = (p, w') \<Longrightarrow> p \<notin> range Ok \<Longrightarrow> rows w' = rows w"
begin

text \<open>A row without a UUID is not found by one.\<close>

lemma delete_by_uuid_misses:
  assumes "mdl_UUID m = Some v" and "mdl_UUID r = None"
  shows "triple (\<lambda>w. r \<in> rows w) (DeleteModel E d m) (\<lambda>_ w. r \<in> rows w) (\<lambda>w. r \<in> rows w)"
proof -
  have del: "triple (\<lambda>w. r \<in> rows w) (gorm_Delete (tbl_models E) h [WhereEq ''uuid'' v] m) (\<lambda>_ w. r \<in> rows w) (\<lambda>w. r \<in> rows w)" for h
    unfolding triple_def using assms(2)
    by (auto split: prod.splits outcome.splits dest: row_delete [where v = v and i = 0] row_delete_err)
  have "triple (\<lambda>w. r \<in> rows w) (ready d) (\<lambda>_ w. r \<in> rows w) (\<lambda>w. r \<in> rows w)"
    unfolding ready_def by (intro triple_if triple_err triple_return)
  then show ?thesis
    unfolding DeleteModel_def db_do_def assms(1) option.case by (rule triple_bind) (simp add: triple_maperr del)
qed

lemma delete_by_id:
  assumes "DeleteModel E d m w = (Ok (), w')" and "mdl_UUID m = None" and "mdl_ID m \<noteq> 0"
  shows "rows w' = {r \<in> rows w. mdl_ID r \<noteq> mdl_ID m}"
proof -
  from assms have "gorm_Delete (tbl_models E) (db_handle d) [WhereID (mdl_ID m)] m w = (Ok (), w')"
    by (auto simp: DeleteModel_def db_do_def elim!: go_bind_OkE split: if_splits)
      (auto simp: ready_def split: if_splits)
  from row_delete [OF this, of "mdl_ID m"] assms(3) show ?thesis by auto
qed

end

lemma or_fail_keeps:
  assumes "or_fail b h m k w = (Ok b', w')" and "mb_model b = M" and "\<And>x w b' w'. k x w = (Ok b', w') \<Longrightarrow> mb_model b' = M"
  shows "mb_model b' = M"
  using assms(1) unfolding or_fail_def fail_with_def
  by (cases rule: go_try_bindE) (simp_all add: assms(2,3))

lemma create_over_model: "create_over E V api b w = (Ok b', w') \<Longrightarrow> mb_model b' = mb_model b"
  unfolding create_over_def
  by (erule or_fail_keeps, simp, erule or_fail_keeps, simp, erule or_fail_keeps, simp, erule go_bind_OkE, erule or_fail_keeps) auto

lemma CreateControllerModel_model:
  "CreateControllerModel E V j b w = (Ok b', w') \<Longrightarrow> mb_model b' = mb_model b"
  unfolding CreateControllerModel_def unless_err_def fail_with_def
  by (auto split: if_splits option.splits elim!: or_fail_keeps dest!: create_over_model)

lemma CreateControllerModel_refused:
  assumes "\<And>api args w. \<exists>e w'. api_CreateModel V api args w = (Err e, w')"
    and "CreateControllerModel E V j b w = (Ok b', w')"
  shows "mb_err b' \<noteq> None"
proof
  assume none: "mb_err b' = None"
  have "\<not> create_over E V api b w = (Ok b', w')" for api b w
  proof
    assume "create_over E V api b w = (Ok b', w')"
    then obtain args w1 info w2 where "api_CreateModel V api args w1 = (Ok info, w2)"
      using none unfolding create_over_def by (elim or_fail_OkE) auto
    with assms(1) [of api args w1] show False by auto
  qed
  with assms(2) none show False
    unfolding CreateControllerModel_def unless_err_def fail_with_def
    by (auto split: if_splits option.splits elim!: or_fail_OkE)
qed

lemma place_model_no_err: "place_model E V j user owner args w = (Ok b, w') \<Longrightarrow> mb_err b = None"
  unfolding place_model_def Let_def
  by (elim go_bind_OkE builder_Error_OkE) (auto simp: WithConfig_def elim!: go_bind_OkE builder_Error_OkE split: if_splits)

lemma selectController_err: "selectController V b w = (Ok b', w') \<Longrightarrow> mb_err b' = mb_err b"
  unfolding selectController_def by (auto elim!: go_bind_OkE split: if_splits option.splits)

lemma selectCloudCredentials_err: "selectCloudCredentials V j b w = (Ok b', w') \<Longrightarrow> mb_err b' = mb_err b"
  unfolding selectCloudCredentials_def by (auto elim!: go_bind_OkE split: option.splits)

text \<open>What the attempt to store a model did to the rows \<open>R\<close>: nothing, or it added one without a UUID.\<close>

definition stored :: "('w \<Rightarrow> model set) \<Rightarrow> model set \<Rightarrow> juju_manager \<Rightarrow> model_builder \<Rightarrow> 'w \<Rightarrow> bool" where
  "stored rows R j b w \<longleftrightarrow> (case mb_err b of
       Some e \<Rightarrow> rows w = R
     | None \<Rightarrow> db_configured (jm_Database j) \<and> db_migrated (jm_Database j) \<and> (\<exists>m. mb_model b = Some m \<and> mdl_UUID m = None
         \<and> mdl_ID m \<noteq> 0 \<and> (\<forall>r\<in>R. mdl_ID r \<noteq> mdl_ID m) \<and> rows w = insert m R))"

lemma stored_failed: "rows w = R \<Longrightarrow> stored rows R j (b\<lparr>mb_err := Some e\<rparr>) w"
  by (simp add: stored_def)

lemma triple_or_fail_stored:
  assumes "triple (\<lambda>w. rows w = R) m A (\<lambda>w. rows w = R)" and "\<And>x. triple (A x) (k x) (stored rows R j) (\<lambda>w. True)"
  shows "triple (\<lambda>w. rows w = R) (or_fail b h m k) (stored rows R j) (\<lambda>w. True)"
  unfolding or_fail_def fail_with_def
proof (rule triple_try_bind [OF assms(1)])
  show "triple (\<lambda>w. rows w = R) (case Inl e of Inl e \<Rightarrow> go_return (b\<lparr>mb_err := Some (h e)\<rparr>) | Inr x \<Rightarrow> k x)
      (stored rows R j) (\<lambda>w. True)" for e
    by (simp add: triple_return stored_failed)
qed (simp_all add: assms(2))

lemma triple_fail_stored: "triple (\<lambda>w. rows w = R) (fail_with b e) (stored rows R j) (\<lambda>w. True)"
  unfolding fail_with_def by (rule triple_return) (rule stored_failed)

context model_rows
begin

lemma db_AddModel_rows:
  assumes "mdl_UUID m = None"
  shows "triple (\<lambda>w. rows w = R) (db_AddModel E d m)
    (\<lambda>m' w. db_configured d \<and> db_migrated d \<and> mdl_UUID m' = None \<and> mdl_ID m' \<noteq> 0 \<and> (\<forall>r\<in>R. mdl_ID r \<noteq> mdl_ID m') \<and> rows w = insert m' R)
    (\<lambda>w. rows w = R)"
proof -
  have "triple (\<lambda>w. rows w = R) (gorm_Create (tbl_models E) h m)
      (\<lambda>m' w. mdl_UUID m' = None \<and> mdl_ID m' \<noteq> 0 \<and> (\<forall>r\<in>R. mdl_ID r \<noteq> mdl_ID m') \<and> rows w = insert m' R) (\<lambda>w. rows w = R)" for h
    unfolding triple_def using assms
    by (auto split: prod.splits outcome.splits dest!: row_create dest: row_create_err)
  then show ?thesis
    unfolding db_AddModel_def ready_def db_do_def
    by (cases "db_configured d \<and> db_migrated d") (auto intro!: triple_maperr triple_err)
qed

lemma store_model_rows:
  assumes "mb_err b = None"
  shows "triple (\<lambda>w. rows w = R) (store_model E j owner ctl cred b) (stored rows R j) (\<lambda>w. True)"
  unfolding store_model_def Let_def
proof (rule triple_or_fail_stored [OF db_AddModel_rows])
  show "triple (\<lambda>w. db_configured (jm_Database j) \<and> db_migrated (jm_Database j) \<and> mdl_UUID m' = None \<and> mdl_ID m' \<noteq> 0
        \<and> (\<forall>r\<in>R. mdl_ID r \<noteq> mdl_ID m') \<and> rows w = insert m' R)
      (go_return (b\<lparr>mb_model := Some m, mb_model := Some m'\<rparr>)) (stored rows R j) (\<lambda>w. True)" for m m'
    using assms by (intro triple_return) (simp add: stored_def)
qed (simp add: empty_model_def)

lemma CreateDatabaseModel_rows:
  assumes "mb_err b = None"
  shows "triple (\<lambda>w. rows w = R) (CreateDatabaseModel E V j b) (stored rows R j) (\<lambda>w. True)"
proof -
  have sel: "triple (\<lambda>w. rows w = R) (selectController V b) (\<lambda>b w. rows w = R \<and> mb_err b = None) (\<lambda>w. rows w = R)"
    using assms by (intro triple_frameI w_selecting) (simp add: selectController_err)
  have cred: "triple (\<lambda>w. rows w = R) (if mb_credential b1 = None then selectCloudCredentials V j b1 else go_return b1)
      (\<lambda>b w. rows w = R \<and> mb_err b = None) (\<lambda>w. rows w = R)" if "mb_err b1 = None" for b1
    using that by (intro triple_frameI frame_if w_selecting frame_return) (auto dest: selectCloudCredentials_err split: if_splits)
  have rest: "triple (\<lambda>w. rows w = R) (case mb_controller b1 of
           None \<Rightarrow> fail_with b1 e1
         | Some ctl \<Rightarrow> or_fail b1 h
               (if mb_credential b1 = None then selectCloudCredentials V j b1 else go_return b1) (\<lambda>b.
             case mb_credential b of
               None \<Rightarrow> go_panic s
             | Some credential \<Rightarrow> store_model E j owner ctl credential b)) (stored rows R j) (\<lambda>w. True)"
    if "mb_err b1 = None" for b1 e1 h s owner
  proof (cases "mb_controller b1")
    case None
    then show ?thesis by (simp add: triple_fail_stored)
  next
    case (Some ctl)
    show ?thesis unfolding Some option.case
    proof (rule triple_or_fail_stored [OF cred [OF that]], rule triple_pure)
      show "triple (\<lambda>w. rows w = R) (case mb_credential b2 of None \<Rightarrow> go_panic s
          | Some credential \<Rightarrow> store_model E j owner ctl credential b2) (stored rows R j) (\<lambda>w. True)" if "mb_err b2 = None" for b2
        using that by (cases "mb_credential b2") (simp_all add: triple_panic store_model_rows)
    qed
  qed
  show ?thesis
  proof (cases "mb_owner b")
    case None
    then show ?thesis using assms by (simp add: CreateDatabaseModel_def unless_err_def triple_fail_stored)
  next
    case (Some owner)
    then show ?thesis
      using assms by (simp add: CreateDatabaseModel_def unless_err_def triple_fail_stored)
        (intro impI triple_or_fail_stored [OF sel] triple_pure rest)
  qed
qed

end

text \<open>The steps of the builder record their errors and never return one.\<close>

lemma or_fail_ErrE:
  assumes "or_fail b h m k w = (Err e, w')"
  obtains x w1 where "k x w1 = (Err e, w')"
  using assms unfolding or_fail_def fail_with_def
  by (auto simp: go_bind_def go_try_def go_simps split: prod.splits outcome.splits)

lemma CreateControllerModel_no_err: "CreateControllerModel E V j b w \<noteq> (Err e, w')"
proof
  have over: "create_over E V api b w \<noteq> (Err e, w')" for api b w
    unfolding create_over_def
    by (rule notI, (erule or_fail_ErrE)+)
      (auto simp: go_some_def go_bind_def go_simps split: prod.splits outcome.splits option.splits elim!: or_fail_ErrE)
  assume "CreateControllerModel E V j b w = (Err e, w')"
  then show False
    unfolding CreateControllerModel_def unless_err_def fail_with_def
    by (auto split: if_splits option.splits elim!: or_fail_ErrE simp: over go_simps)
qed

lemma CreateDatabaseModel_no_err: "CreateDatabaseModel E V j b w \<noteq> (Err e, w')"
proof
  have store: "store_model E j owner ctl cred b w \<noteq> (Err e, w')" for owner ctl cred b w
    unfolding store_model_def Let_def by (auto simp: go_simps elim!: or_fail_ErrE)
  assume "CreateDatabaseModel E V j b w = (Err e, w')"
  then show False
    unfolding CreateDatabaseModel_def unless_err_def fail_with_def
    by (auto split: if_splits option.splits elim!: or_fail_ErrE simp: store go_simps)
qed

lemma go_bind_cases:
  assumes "go_bind m f w = (q, w')"
  obtains (ok) x w1 where "m w = (Ok x, w1)" and "f x w1 = (q, w')"
    | (err) e where "m w = (Err e, w')" and "q = Err e"
    | (stuck) "q \<notin> range Ok \<union> range Err"
  using assms by (auto simp: go_bind_def split: prod.splits outcome.splits)

context model_rows
begin

lemma create_model_refused:
  assumes "\<And>api args w. \<exists>e w'. api_CreateModel V api args w = (Err e, w')"
    and "\<And>h cs m w. \<exists>w'. gorm_Delete (tbl_models E) h cs m w = (Ok (), w')"
    and "create_model E V j owner b w = (q, w')" and "stored rows R j b w" and "mb_err b = None"
  shows "q \<notin> range Ok \<and> (q \<in> range Err \<longrightarrow> rows w' = R)"
  using assms(3) unfolding create_model_def
proof (cases rule: go_bind_cases)
  case (ok b1 w1)
  from CreateControllerModel_refused [OF assms(1) ok(1)] obtain e where e: "mb_err b1 = Some e" by blast
  from assms(4,5) obtain m where m: "mb_model b = Some m" "mdl_UUID m = None" "mdl_ID m \<noteq> 0" "\<forall>r\<in>R. mdl_ID r \<noteq> mdl_ID m"
    "rows w = insert m R" "db_configured (jm_Database j)" "db_migrated (jm_Database j)" by (auto simp: stored_def)
  have w1: "rows w1 = rows w" using frameD [OF w_CreateControllerModel ok(1)] .
  have b1: "mb_model b1 = Some m" using CreateControllerModel_model [OF ok(1)] m(1) by simp
  obtain w2 where w2: "gorm_Delete (tbl_models E) (db_handle (jm_Database j)) [WhereID (mdl_ID m)] m w1 = (Ok (), w2)"
    using assms(2) by blast
  then have del: "DeleteModel E (jm_Database j) m w1 = (Ok (), w2)"
    using m by (simp add: DeleteModel_def ready_def db_do_def)
  from ok(2) e b1 del have "q = Err e" "w' = w2"
    by (auto simp: after_cleanup_def Cleanup_def go_bind_def go_try_def go_simps)
  moreover have "rows w2 = R" using delete_by_id [OF del m(2,3)] w1 m(4,5) by auto
  ultimately show ?thesis by auto
next
  case (err e)
  then show ?thesis by (simp add: CreateControllerModel_no_err)
qed auto

lemma placed_refused:
  assumes refused: "\<And>api a w. \<exists>e w'. api_CreateModel V api a w = (Err e, w')"
    and deletes: "\<And>h cs m w. \<exists>w'. gorm_Delete (tbl_models E) h cs m w = (Ok (), w')"
    and run: "go_bind (place_model E V j user owner args) (\<lambda>b. go_bind (CreateDatabaseModel E V j b)
      (\<lambda>b. go_bind (builder_Error b) (create_model E V j owner))) w = (q, w')"
    and R: "rows w = R"
  shows "q \<notin> range Ok \<and> (q \<in> range Err \<longrightarrow> rows w' = R)"
  using run
proof (cases rule: go_bind_cases)
  case (ok b w1)
  note b = this
  have w1: "rows w1 = R" using frameD [OF w_place_model b(1)] R by simp
  from b(2) show ?thesis
  proof (cases rule: go_bind_cases)
    case (ok b1 w2)
    have st: "stored rows R j b1 w2"
      using triple_OkD [OF CreateDatabaseModel_rows [OF place_model_no_err [OF b(1)]] w1 ok(1)] .
    show ?thesis
    proof (cases "mb_err b1")
      case None
      then show ?thesis
        using create_model_refused [OF refused deletes _ st None] ok(2) by (simp add: builder_Error_def go_simps)
    next
      case (Some e)
      then show ?thesis using ok(2) st by (auto simp: builder_Error_def stored_def go_simps)
    qed
  next
    case (err e)
    then show ?thesis by (simp add: CreateDatabaseModel_no_err)
  qed auto
next
  case (err e)
  then show ?thesis using frameD [OF w_place_model err(1)] R by auto
qed auto

lemma AddModel_refused:
  assumes refused: "\<And>api a w. \<exists>e w'. api_CreateModel V api a w = (Err e, w')"
    and deletes: "\<And>h cs m w. \<exists>w'. gorm_Delete (tbl_models E) h cs m w = (Ok (), w')"
    and run: "AddModel E V j user args w = (q, w')"
  shows "q \<notin> range Ok \<and> (q \<in> range Err \<longrightarrow> rows w' = rows w)"
  using run unfolding AddModel_def
proof (cases rule: go_bind_cases)
  case (ok i w1)
  note i = this
  have w1: "rows w1 = rows w" using frameD [OF frame_sum i(1)] .
  from i(2) show ?thesis
  proof (cases rule: go_bind_cases)
    case (ok owner w2)
    have w2: "rows w2 = rows w" using frameD [OF w_db(1) ok(1)] w1 by simp
    show ?thesis
    proof (cases "id_Name owner \<noteq> u_Name user \<and> \<not> u_JimmAdmin user")
      case True
      then show ?thesis using ok(2) w2 by (auto simp: go_simps)
    next
      case False
      with ok(2) have "go_bind (place_model E V j user owner args) (\<lambda>b. go_bind (CreateDatabaseModel E V j b)
          (\<lambda>b. go_bind (builder_Error b) (create_model E V j owner))) w2 = (q, w')" by simp
      then show ?thesis using placed_refused [OF refused deletes _ w2] by blast
    qed
  next
    case (err e)
    then show ?thesis using frameD [OF w_db(1) err(1)] w1 by auto
  qed auto
next
  case (err e)
  then show ?thesis using frameD [OF frame_sum err(1)] by auto
qed auto

end

section \<open>Rows left behind\<close>

text \<open>A builder whose model has its UUID in memory only.\<close>

definition half_saved :: "model_builder \<Rightarrow> bool" where
  "half_saved b \<longleftrightarrow> (\<exists>e m. mb_err b = Some e \<and> mb_model b = Some m \<and> mdl_UUID m \<noteq> None)"

context model_rows
begin

text \<open>A failed save keeps the row, and the row it was to become has the UUID the row does not have.\<close>

lemma db_UpdateModel_fails:
  assumes saves: "\<And>h om m w. \<exists>e w'. gorm_Save (tbl_models E) h om m w = (Err e, w')"
  shows "triple (\<lambda>w. r \<in> rows w) (db_UpdateModel E d m) (\<lambda>_ _. False) (\<lambda>w. r \<in> rows w)"
proof -
  have "triple (\<lambda>w. r \<in> rows w) (gorm_Save (tbl_models E) h om m) (\<lambda>_ _. False) (\<lambda>w. r \<in> rows w)" for h om
    unfolding triple_def
  proof (intro allI impI)
    fix w
    assume r: "r \<in> rows w"
    obtain e w' where "gorm_Save (tbl_models E) h om m w = (Err e, w')" using saves by blast
    with row_save_err [OF this] r
    show "case gorm_Save (tbl_models E) h om m w of (Ok x, w') \<Rightarrow> False | (_, w') \<Rightarrow> r \<in> rows w'" by auto
  qed
  then show ?thesis
    unfolding db_UpdateModel_def ready_def db_do_def
    by (cases "db_configured d \<and> db_migrated d") (auto intro!: triple_maperr triple_err)
qed

lemma UpdateDatabaseModel_fails:
  assumes saves: "\<And>h om m w. \<exists>e w'. gorm_Save (tbl_models E) h om m w = (Err e, w')" and b: "mb_err b = None"
  shows "triple (\<lambda>w. r \<in> rows w) (UpdateDatabaseModel E V j b)
    (\<lambda>b w. r \<in> rows w \<and> half_saved b) (\<lambda>w. r \<in> rows w)"
proof -
  let ?P = "\<lambda>w. r \<in> rows w"
  have info: "triple ?P (FromJujuModelInfo V i m) (\<lambda>m w. ?P w \<and> mdl_UUID m \<noteq> None) ?P" for i m
    unfolding FromJujuModelInfo_def Let_def by (auto simp: triple_def go_simps go_some_def go_bind_def split: option.splits)
  have saved: "triple ?P (go_bind (go_try (db_UpdateModel E d m)) (\<lambda>r. case r of
      Inl e \<Rightarrow> go_return (b\<lparr>mb_model := Some m, mb_err := Some (h e)\<rparr>) | Inr x \<Rightarrow> k x))
      (\<lambda>b w. ?P w \<and> half_saved b) ?P"
    if "mdl_UUID m \<noteq> None" for m d h k
    by (rule triple_try_bind [OF db_UpdateModel_fails [OF saves]])
      (use that in \<open>auto intro!: triple_return simp: half_saved_def\<close>, simp add: triple_def)
  show ?thesis
  proof (cases "mb_model b = None \<or> mb_controller b = None \<or> mb_credential b = None")
    case True
    then show ?thesis
      using b by (auto simp: UpdateDatabaseModel_def unless_err_def triple_panic split: option.splits)
  next
    case False
    then obtain m ctl cred where "mb_model b = Some m" "mb_controller b = Some ctl" "mb_credential b = Some cred" by auto
    then show ?thesis
      unfolding UpdateDatabaseModel_def unless_err_def or_fail_def fail_with_def Let_def b option.case if_True prod.case
      by simp (rule triple_bind [OF info], rule triple_pure, rule saved, simp)
  qed
qed

lemma create_model_unsaved:
  assumes saves: "\<And>h om m w. \<exists>e w'. gorm_Save (tbl_models E) h om m w = (Err e, w')"
    and made: "CreateControllerModel E V j b w = (Ok b1, w1)" "mb_err b1 = None"
    and run: "create_model E V j owner b w = (q, w')"
    and r: "r \<in> rows w" "mdl_UUID r = None"
  shows "q \<notin> range Ok \<and> r \<in> rows w'"
proof -
  let ?P = "\<lambda>w. r \<in> rows w"
  have clean: "triple ?P (after_cleanup E j b (go_err e)) (\<lambda>_ _. False) ?P"
    if "mb_err b = Some e'" and "mb_model b = Some m" and "mdl_UUID m = Some v" for b e e' m v
    using that triple_anyD [OF delete_by_uuid_misses [OF that(3) r(2)]]
    by (auto simp: after_cleanup_def Cleanup_def go_simps go_try_def go_bind_def triple_def split: prod.splits outcome.splits)
  have w1: "?P w1" using frameD [OF w_CreateControllerModel made(1)] r(1) by simp
  have "triple ?P (go_bind (UpdateDatabaseModel E V j b1) (\<lambda>b. case mb_err b of
           Some e \<Rightarrow> after_cleanup E j b (go_err e)
         | None \<Rightarrow> after_cleanup E j b (finish_model E owner b))) (\<lambda>_ _. False) ?P"
    by (rule triple_bind [OF UpdateDatabaseModel_fails [OF saves made(2)]]) (auto intro!: triple_pure clean simp: half_saved_def)
  from triple_runD [OF this w1, of q w'] show ?thesis
    using run made unfolding create_model_def go_bind_def [of "CreateControllerModel E V j b"] by (auto simp: image_iff)
qed

end

text \<open>
  C9. A model that its controller refuses leaves no row behind: whatever is asked for, where controllers
  create no models and rows can be deleted, \<^verbatim>\<open>AddModel\<close> does not succeed, and where it returns an error
  the table of models is as it was. The row that is stored before the controller is asked is deleted again.
\<close>

theorem refused_model_leaves_no_row:
  assumes "model_rows E V rows"
    and "\<And>api a w. \<exists>e w'. api_CreateModel V api a w = (Err e, w')"
    and "\<And>h cs m w. \<exists>w'. gorm_Delete (tbl_models E) h cs m w = (Ok (), w')"
    and "AddModel E V j user args w = (q, w')"
  shows "q \<notin> range Ok \<and> (q \<in> range Err \<longrightarrow> rows w' = rows w)"
  using assms by (rule model_rows.AddModel_refused)

text \<open>
  A model whose row cannot be updated leaves its row behind: where the row is stored and the
  controller creates the model, but the new values cannot be saved, \<^verbatim>\<open>AddModel\<close> fails and the row
  without a UUID stays, because the clean-up looks for it under the UUID that was not saved.
\<close>

theorem failed_update_keeps_row:
  assumes "model_rows E V rows"
    and "\<And>h om m w. \<exists>e w'. gorm_Save (tbl_models E) h om m w = (Err e, w')"
    and "CreateDatabaseModel E V j b w = (Ok b1, w1)" and "mb_err b = None" and "mb_err b1 = None"
    and "CreateControllerModel E V j b1 w1 = (Ok b2, w2)" and "mb_err b2 = None"
    and "create_model E V j owner b1 w1 = (q, w')"
  shows "q \<notin> range Ok \<and> (\<exists>r\<in>rows w'. r \<notin> rows w \<and> mdl_UUID r = None)"
proof -
  from triple_OkD [OF model_rows.CreateDatabaseModel_rows [OF assms(1,4)] refl assms(3)] assms(5)
  obtain m where m: "mdl_UUID m = None" "\<forall>r\<in>rows w. mdl_ID r \<noteq> mdl_ID m" "rows w1 = insert m (rows w)"
    by (auto simp: stored_def)
  have "m \<in> rows w1" using m(3) by simp
  from model_rows.create_model_unsaved [OF assms(1,2,6,7,8) this m(1)] m(1,2) show ?thesis by blast
qed

section \<open>A table of models in memory\<close>

text \<open>The world is the table itself; one controller with one cloud, and checks that always succeed.\<close>

definition row_table :: "(model list, model) gorm_table" where
  "row_table = (toy_table [])
     \<lparr>gorm_Create := (\<lambda>_ m w. let m' = m\<lparr>mdl_ID := Suc (fold max (map mdl_ID w) 0)\<rparr> in (Ok m', m' # w)),
      gorm_Delete := (\<lambda>_ cs m w. (Ok (), filter (\<lambda>r. \<not> (list_all (row_matches r) cs \<and> (mdl_ID m \<noteq> 0 \<longrightarrow> mdl_ID r = mdl_ID m))) w)),
      gorm_Save := (\<lambda>_ _ m w. (Err (ErrNew ''connection lost''), w))\<rparr>"

definition row_controller :: controller where
  "row_controller = empty_controller\<lparr>ctl_ID := 1, ctl_Name := ''ctl'', ctl_UUID := ''c'', ctl_CloudRegions :=
     [\<lparr>crg_ID = 1, crg_CloudRegionID = 1,
       crg_CloudRegion = empty_region_ref\<lparr>rr_CloudName := ''aws'', rr_Cloud := empty_cloud_ref\<lparr>clr_Name := ''aws''\<rparr>, rr_Name := ''r''\<rparr>,
       crg_ControllerID = 1, crg_Priority = 1\<rparr>]\<rparr>"

definition row_cloud :: cloud where
  "row_cloud = empty_cloud\<lparr>cld_ID := 1, cld_Name := ''aws'', cld_Regions := [mem_region]\<rparr>"

definition row_externals :: "model list externals" where
  "row_externals = libs.extend mem_libs
     (externals.fields (\<lambda>_. go_return ()) (\<lambda>_. go_return ()) (\<lambda>_ _ _. go_return ([], '''')) (\<lambda>_ _. go_return []) (\<lambda>_. go_return [])
       (\<lambda>_ _. go_return True) (\<lambda>_ _. go_return True) (\<lambda>_. go_return (\<lambda>_. Some True)) (\<lambda>_. go_return []) (\<lambda>w. ('''', w)) (\<lambda>w. (0, w))
       (\<lambda>f. f Tx) (toy_table []) (toy_table []) (toy_table []) (toy_table [row_controller]) row_table (toy_table []) (toy_table [row_cloud]) (toy_table []))"

lemma row_externals_simps [simp]:
  "tbl_models row_externals = row_table" "tbl_identities row_externals = toy_table []"
  "tbl_controllers row_externals = toy_table [row_controller]" "tbl_clouds row_externals = toy_table [row_cloud]"
  "cofga_CheckRelation row_externals x ctx = go_return True" "cofga_CheckRelationWithTracing row_externals x ctx = go_return True"
  "names_NewTag row_externals k i = Some i"
  by (simp_all add: row_externals_def mem_defs)

text \<open>Controllers that refuse every model.\<close>

definition refusing_env :: "'w juju_env" where
  "refusing_env = toy_env\<lparr>api_CreateModel := (\<lambda>_ _. go_err (ErrNew ''refused''))\<rparr>"

lemma refusing_env_simps [simp]:
  "api_CreateModel refusing_env api args w = (Err (ErrNew ''refused''), w)"
  "je_swaps refusing_env = je_swaps toy_env" "je_Dial refusing_env = je_Dial toy_env"
  "je_credentials refusing_env = je_credentials toy_env" "je_defaults refusing_env = je_defaults toy_env"
  "je_Store_Get refusing_env = je_Store_Get toy_env"
  "api_UpdateCloudsCredentialForce refusing_env = api_UpdateCloudsCredentialForce toy_env"
  "je_CredentialTag (refusing_env :: 'w juju_env) = je_CredentialTag (toy_env :: 'w juju_env)"
  by (simp_all add: refusing_env_def go_simps)

lemma refusing_env_frame: "env_frame obs refusing_env"
  by (simp add: env_frame_def refusing_env_def toy_env_def toy_table_frame frame_return frame_err)

lemma le_fold_max: "a \<le> fold max xs (a :: nat)"
proof (induction xs arbitrary: a)
  case (Cons x xs)
  have "a \<le> max x a" by simp
  also have "\<dots> \<le> fold max xs (max x a)" by (rule Cons)
  finally show ?case by simp
qed simp

lemma fold_max_ge: "x \<in> set xs \<Longrightarrow> x \<le> fold max xs (a :: nat)"
proof (induction xs arbitrary: a)
  case (Cons y ys)
  have "y \<le> fold max ys (max y a)" using le_fold_max [of "max y a" ys] by simp
  then show ?case using Cons by auto
qed simp

lemma row_table_fresh: "r \<in> set w \<Longrightarrow> mdl_ID r \<noteq> Suc (fold max (map mdl_ID w) 0)"
  using fold_max_ge [of "mdl_ID r" "map mdl_ID w" 0] by auto

lemma row_table_rows: "env_frame set V \<Longrightarrow> model_rows row_externals V set"
  by unfold_locales
    (auto simp: toy_table_frame frame_return, auto simp: row_table_def Let_def row_table_fresh)

interpretation row_toy: model_rows row_externals toy_env set
  by (rule row_table_rows [OF toy_env_frame])

interpretation row_refusing: model_rows row_externals refusing_env set
  by (rule row_table_rows [OF refusing_env_frame])

lemma row_checks: "checkRelation row_externals (mem_user n) t r w = (Ok True, w)"
  by (simp add: checkRelation_def OFGA_CheckRelation_def mem_user_def ContextualTuples_good user_ResourceTag_def with_client_def
      identity_ResourceTag_def new_juju_tag_def bad_groups_def maxContextualTuples_def NewUser_def go_bind_def go_simps)

lemma row_place:
  assumes "id_Name i = ''alice''"
  shows "\<exists>b. place_model row_externals refusing_env mem_juju (mem_user ''alice'') i toy_args w = (Ok b, w)
    \<and> mb_err b = None \<and> mb_name b = ''m'' \<and> mb_owner b = Some i \<and> mb_model b = None \<and> mb_credential b = None
    \<and> mb_cloudRegionID b = 1 \<and> (\<exists>c. mb_cloud b = Some c \<and> cld_Name c = ''aws'')
    \<and> (\<exists>cand. mb_candidates b = [cand] \<and> ctl_UUID (cand_controller cand) = ''c'')"
  using assms
  by (simp add: row_checks place_model_def WithOwner_def WithAuthorizer_def WithName_def newModelBuilder_def unless_err_def builder_Error_def
      WithController_def with_authorizer_def or_fail_def fail_with_def toy_args_def mem_juju_def mem_pm_def GetController_def
      empty_controller_def row_controller_def row_cloud_def ready_def controller_ResourceTag_def new_juju_tag_def IsAllowedAddModelToController_def
      WithCloud_def GetCloud_def empty_cloud_def cloud_ResourceTag_def IsAllowedAddModelToCloud_def
      serves_cloud_def empty_region_ref_def empty_cloud_ref_def WithCloudRegion_def pick_region_def supports_region_def
      mem_region_def empty_region_def cloud_Region_def in_region_def empty_region_controller_def
      cloud_defaults_of_def db_CloudDefaults_def toy_table_def not_found_as_def dbError_def err_not_found_def WithConfig_def
      Let_def go_bind_def go_try_def go_maperr_def go_simps)

lemmas row_run_defs = CreateDatabaseModel_def unless_err_def or_fail_def fail_with_def selectController_def
  shuffleCandidateControllers_def apply_swaps_def selectCloudCredentials_def GetIdentityCloudCredentials_def ready_def
  mem_juju_def mem_pm_def toy_table_def toy_credential_def empty_credential_def store_model_def db_AddModel_def db_do_def
  row_table_def create_model_def CreateControllerModel_def dialControllerAsSuperuser_def dial_def create_over_def
  mb_updateCredential_def getCloudCredentialAttributes_def credential_ResourceTag_def credential_Path_def
  forceUpdateControllerCloudCredential_def tagged_def credential_update_result_def jujuModelCreateArgs_def toy_info_def
  empty_model_info_def new_juju_tag_def after_cleanup_def Cleanup_def DeleteModel_def Let_def go_bind_def go_try_def
  go_maperr_def go_simps empty_model_def

lemma row_create_refused:
  assumes "mb_err b = None" and "mb_name b = ''m''" and "mb_owner b = Some i" and "mb_model b = None" and "mb_credential b = None"
    and "mb_cloudRegionID b = 1" and "mb_cloud b = Some c" and "cld_Name c = ''aws''"
    and "mb_candidates b = [cand]" and "ctl_UUID (cand_controller cand) = ''c''" and "id_Name i = ''alice''"
  shows "\<exists>b1 m. CreateDatabaseModel row_externals refusing_env mem_juju b [] = (Ok b1, [m]) \<and> mb_err b1 = None
    \<and> (\<exists>e w'. create_model row_externals refusing_env mem_juju i b1 [m] = (Err e, w'))"
  using assms by (simp add: row_run_defs)

lemma row_create_made:
  assumes "mb_err b = None" and "mb_name b = ''m''" and "mb_owner b = Some i" and "mb_model b = None" and "mb_credential b = None"
    and "mb_cloudRegionID b = 1" and "mb_cloud b = Some c" and "cld_Name c = ''aws''"
    and "mb_candidates b = [cand]" and "ctl_UUID (cand_controller cand) = ''c''" and "id_Name i = ''alice''"
  shows "\<exists>b1 m. CreateDatabaseModel row_externals toy_env mem_juju b [] = (Ok b1, [m]) \<and> mb_err b1 = None
    \<and> (\<exists>b2. CreateControllerModel row_externals toy_env mem_juju b1 [m] = (Ok b2, [m]) \<and> mb_err b2 = None)"
  using assms by (simp add: row_run_defs)

theorem refused_model_leaves_no_row_witness:
  "\<exists>e w'. AddModel row_externals refusing_env mem_juju (mem_user ''alice'') toy_args [] = (Err e, w') \<and> set w' = {}"
proof -
  obtain i where i: "NewIdentity row_externals ''alice'' = Inr i" "id_Name i = ''alice''"
    using NewIdentity_safe_name [of "''alice''" row_externals] by (auto simp: unsafe_chars_def)
  obtain b where b: "place_model row_externals refusing_env mem_juju (mem_user ''alice'') i toy_args [] = (Ok b, [])"
    "mb_err b = None" "mb_name b = ''m''" "mb_owner b = Some i" "mb_model b = None" "mb_credential b = None"
    "mb_cloudRegionID b = 1" "\<exists>c. mb_cloud b = Some c \<and> cld_Name c = ''aws''"
    "\<exists>cand. mb_candidates b = [cand] \<and> ctl_UUID (cand_controller cand) = ''c''"
    using row_place [OF i(2)] by blast
  obtain b1 m e w' where c: "CreateDatabaseModel row_externals refusing_env mem_juju b [] = (Ok b1, [m])" "mb_err b1 = None"
    "create_model row_externals refusing_env mem_juju i b1 [m] = (Err e, w')"
    using row_create_refused [OF b(2-7) _ _ _ _ i(2)] b(8,9) by blast
  have run: "AddModel row_externals refusing_env mem_juju (mem_user ''alice'') toy_args [] = (Err e, w')"
    using i b(1) c by (simp add: AddModel_def toy_args_def GetIdentity_def toy_table_def ready_def mem_juju_def mem_pm_def
        builder_Error_def go_bind_def go_simps)
  have "set w' = set []"
    using refused_model_leaves_no_row [OF row_refusing.model_rows_axioms _ _ run] by (simp add: row_table_def)
  with run show ?thesis by auto
qed

theorem failed_update_keeps_row_witness:
  "\<exists>b b1 w1 q w'. CreateDatabaseModel row_externals toy_env mem_juju b [] = (Ok b1, w1)
     \<and> create_model row_externals toy_env mem_juju empty_identity b1 w1 = (q, w') \<and> q \<notin> range Ok
     \<and> (\<exists>r\<in>set w'. r \<notin> set [] \<and> mdl_UUID r = None)"
proof -
  let ?b = "newModelBuilder\<lparr>mb_name := ''m'', mb_owner := Some (empty_identity\<lparr>id_Name := ''alice''\<rparr>), mb_cloud := Some row_cloud,
    mb_cloudRegionID := 1, mb_candidates := [\<lparr>cand_controller = row_controller, cand_priority = 1\<rparr>]\<rparr>"
  obtain b1 m b2 where c: "CreateDatabaseModel row_externals toy_env mem_juju ?b [] = (Ok b1, [m])" "mb_err b1 = None"
    "CreateControllerModel row_externals toy_env mem_juju b1 [m] = (Ok b2, [m])" "mb_err b2 = None"
    using row_create_made [of ?b "empty_identity\<lparr>id_Name := ''alice''\<rparr>" row_cloud "\<lparr>cand_controller = row_controller, cand_priority = 1\<rparr>"]
    by (auto simp: newModelBuilder_def row_cloud_def row_controller_def)
  obtain q w' where run: "create_model row_externals toy_env mem_juju empty_identity b1 [m] = (q, w')" using prod.exhaust by blast
  have "q \<notin> range Ok \<and> (\<exists>r\<in>set w'. r \<notin> set [] \<and> mdl_UUID r = None)"
    by (rule failed_update_keeps_row [OF row_toy.model_rows_axioms _ c(1) _ c(2,3,4) run])
      (simp_all add: row_table_def newModelBuilder_def)
  with c(1) run show ?thesis by blast
qed

end
