(* ===== verification/Juju_Models.thy ===== *)
theory Juju_Models
  imports Model_Builder
begin

text \<open>
  The rest of \<^verbatim>\<open>internal/jimm/juju/model.go\<close> and the poller of \<^verbatim>\<open>model_poller.go\<close>: what users can do
  with the models they have, and how JIMM follows models that are destroyed or migrated.
\<close>

section \<open>Models that go away\<close>

text \<open>\<^verbatim>\<open>state.Dying.String()\<close> and \<^verbatim>\<open>state.Alive.String()\<close>.\<close>

definition Dying :: string where "Dying = ''dying''"

definition Alive :: string where "Alive = ''alive''"

definition deleteModel :: "'w externals \<Rightarrow> juju_manager \<Rightarrow> tag \<Rightarrow> ('w, unit) io" where
  "deleteModel E j mt =
     go_bind (DeleteModel E (jm_Database j) (empty_model\<lparr>mdl_UUID := Some (Id mt)\<rparr>)) (\<lambda>_.
     OFGA_RemoveModel E (jm_fuel j) mt)"

definition maybeCleanupModel :: "'w externals \<Rightarrow> juju_manager \<Rightarrow> err \<Rightarrow> model \<Rightarrow> ('w, unit) io" where
  "maybeCleanupModel E j errFromAPI m =
     (if ErrorCode (Some errFromAPI) = CodeNotFound \<or> ErrorCode (Some errFromAPI) = CodeUnauthorized then
        if mdl_Life m \<noteq> Dying then go_return ()
        else go_bind (go_some ''invalid model tag'' (model_ResourceTag E m)) (\<lambda>mt.
          go_maperr (wrap_err ''failed to delete model: %w'' []) (deleteModel E j mt))
      else go_return ())"

definition checkModelMigratedInternal :: "'w externals \<Rightarrow> 'w juju_env \<Rightarrow> juju_manager \<Rightarrow> err \<Rightarrow> model \<Rightarrow> ('w, model) io" where
  "checkModelMigratedInternal E V j errFromAPI m =
     (if ErrorCode (Some errFromAPI) \<noteq> CodeRedirect then go_err errFromAPI
      else case ErrorInfo (Some errFromAPI) of
        None \<Rightarrow> go_err (wrap_err ''missing error info in redirect error: %w'' [] errFromAPI)
      | Some errInfo \<Rightarrow> (case je_RedirectAlias V errInfo of
          Inl e \<Rightarrow> go_err (wrap_err ''cannot unmarshal redirect error info: %w'' [] e)
        | Inr alias \<Rightarrow>
            go_bind (go_maperr (\<lambda>_. wrap_err ''failed to get controller %q: %w'' [alias] errFromAPI)
              (GetController E (jm_Database j) (empty_controller\<lparr>ctl_Name := alias\<rparr>))) (\<lambda>ctl.
            go_maperr (\<lambda>_. wrap_err ''failed to update model after migration: %w'' [] errFromAPI)
              (db_UpdateModel E (jm_Database j) (InternalMigrationSuccess (ctl_ID ctl) m)))))"

section \<open>Information about a model\<close>

text \<open>
  The functions change the model they are given a pointer to; here they return it beside the
  information. The user is nil where the poller asks.
\<close>

definition err_internal :: err where "err_internal = ErrNew ''internal server error''"

definition err_migration_mode :: err where "err_migration_mode = ErrNew ''model in unsupported migration mode''"

definition reactToModelInfoError ::
    "'w externals \<Rightarrow> 'w juju_env \<Rightarrow> juju_manager \<Rightarrow> ofga_user option \<Rightarrow> err \<Rightarrow> model \<Rightarrow> ('w, model_info \<times> model) io" where
  "reactToModelInfoError E V j user errFromAPI m =
     (if mdl_MigrationMode m = MigrationModeNone then
        go_bind (go_maperr (\<lambda>_. err_internal) (maybeCleanupModel E j errFromAPI m)) (\<lambda>_. go_err errFromAPI)
      else if mdl_MigrationMode m = MigrationModeMigrateInternal then
        go_bind (go_maperr (\<lambda>_. err_internal) (checkModelMigratedInternal E V j errFromAPI m)) (\<lambda>m.
        go_bind (GetModel E (jm_Database j) m) (\<lambda>m.
        go_bind (dialControllerAsSuperuser V j user (mdl_Controller m)) (\<lambda>api.
        go_bind (go_some ''invalid model tag'' (model_ResourceTag E m)) (\<lambda>mt.
        go_bind (api_ModelInfo V api mt) (\<lambda>info. go_return (info, m))))))
      else if mdl_MigrationMode m = MigrationModeExporting \<or> mdl_MigrationMode m = MigrationModeImporting then go_err errFromAPI
      else go_err err_migration_mode)"

definition reactToModelInfoSuccess :: "'w externals \<Rightarrow> juju_manager \<Rightarrow> model \<Rightarrow> model_info \<Rightarrow> ('w, model_info \<times> model) io" where
  "reactToModelInfoSuccess E j m info =
     (if mdl_MigrationMode m \<in> {MigrationModeNone, MigrationModeExporting, MigrationModeImporting} then go_return (info, m)
      else if mdl_MigrationMode m = MigrationModeMigrateInternal then
        if mi_MigrationEnd info then
          go_bind (go_maperr (wrap_err ''failed to update model after failed migration: %w'' [])
            (db_UpdateModel E (jm_Database j) (MigrationFailed m))) (\<lambda>m. go_return (info, m))
        else go_return (info, m)
      else go_err err_migration_mode)"

definition modelInfo ::
    "'w externals \<Rightarrow> 'w juju_env \<Rightarrow> juju_manager \<Rightarrow> ofga_user option \<Rightarrow> model \<Rightarrow> conn \<Rightarrow> ('w, model_info \<times> model) io" where
  "modelInfo E V j user m api =
     go_bind (go_some ''invalid model tag'' (model_ResourceTag E m)) (\<lambda>mt.
     go_bind (go_try (api_ModelInfo V api mt)) (\<lambda>r. case r of
         Inr info \<Rightarrow> reactToModelInfoSuccess E j m info
       | Inl errFromAPI \<Rightarrow> reactToModelInfoError E V j user errFromAPI m))"

text \<open>The users of a model with the strongest access each of them has; a nil identity panics.\<close>

definition model_users :: "'w externals \<Rightarrow> tag \<Rightarrow> ('w, (string \<times> string) list) io" where
  "model_users E mt =
     go_fold (\<lambda>relation userAccess.
       go_bind (ListUsersWithAccess E mt relation) (\<lambda>us.
       go_fold (\<lambda>u userAccess.
         go_bind (go_some ''nil identity'' u) (\<lambda>u.
         go_return (if map_of userAccess (u_Name u) = None
                    then map_put (u_Name u) (ToModelAccessString relation) userAccess else userAccess))) us userAccess))
       [AdministratorRelation, WriterRelation, ReaderRelation] []"

definition sees_user :: "ofga_user \<Rightarrow> string \<Rightarrow> string \<Rightarrow> bool" where
  "sees_user user modelAccess username \<longleftrightarrow>
     go_contains username ''@'' \<and> (modelAccess = ''admin'' \<or> username = u_Name user \<or> username = EveryoneUser)"

definition mergeModelInfo ::
    "'w externals \<Rightarrow> 'w juju_env \<Rightarrow> juju_manager \<Rightarrow> ofga_user \<Rightarrow> model_info \<Rightarrow> model \<Rightarrow> ('w, model_info) io" where
  "mergeModelInfo E V j user info m =
     go_bind (credential_ResourceTag V (mdl_CloudCredential m)) (\<lambda>cct.
     go_bind (go_some ''invalid model tag'' (model_ResourceTag E m)) (\<lambda>mt.
     go_bind (model_users E mt) (\<lambda>userAccess.
     go_bind (GetUserModelAccess E (jm_permissionManager j) user mt) (\<lambda>modelAccess.
     go_bind (visit V userAccess) (\<lambda>entries.
     go_return (info\<lparr>mi_CloudCredential := cred_Id cct, mi_ControllerUUID := ctl_UUID (mdl_Controller m),
       mi_Owner := id_Name (mdl_Owner m),
       mi_Users := map (\<lambda>(n, a). \<lparr>ui_UserName = n, ui_Access = a\<rparr>) (filter (\<lambda>(n, _). sees_user user modelAccess n) entries),
       mi_Machines := (if modelAccess \<noteq> ''admin'' \<and> modelAccess \<noteq> ''write'' then [] else mi_Machines info)\<rparr>))))))"

definition ModelInfo :: "'w externals \<Rightarrow> 'w juju_env \<Rightarrow> juju_manager \<Rightarrow> ofga_user \<Rightarrow> tag \<Rightarrow> ('w, model_info) io" where
  "ModelInfo E V j user mt =
     go_bind (GetModel E (jm_Database j) (model_SetTag empty_model mt)) (\<lambda>m.
     go_bind (go_maperr (\<lambda>_. err_unauthorized_juju) (IsModelReader E user mt)) (\<lambda>ok.
     if \<not> ok then go_err err_unauthorized_juju
     else go_bind (dialControllerAsSuperuser V j (Some user) (mdl_Controller m)) (\<lambda>api.
       go_bind (modelInfo E V j (Some user) m api) (\<lambda>(info, m).
       mergeModelInfo E V j user info m))))"

definition fallbackModelStatus :: "model \<Rightarrow> err option \<Rightarrow> model_status" where
  "fallbackModelStatus m e = \<lparr>ms_UUID = (case mdl_UUID m of Some u \<Rightarrow> u | None \<Rightarrow> ''''), ms_Life = mdl_Life m,
     ms_Owner = mdl_OwnerIdentityName m, ms_Error = e\<rparr>"

definition juju_ModelStatus :: "'w externals \<Rightarrow> 'w juju_env \<Rightarrow> juju_manager \<Rightarrow> ofga_user \<Rightarrow> tag \<Rightarrow> ('w, model_status) io" where
  "juju_ModelStatus E V j user mt =
     go_bind (GetModel E (jm_Database j) (model_SetTag empty_model mt)) (\<lambda>m.
     go_bind (HasModelRelation E user mt AdministratorRelation) (\<lambda>hasAccess.
     if \<not> hasAccess then go_err err_unauthorized_juju
     else go_bind (dialControllerAsSuperuser V j (Some user) (mdl_Controller m)) (\<lambda>api.
       go_bind (go_try (api_ModelStatus V api mt)) (\<lambda>r. case r of
           Inr ms \<Rightarrow> go_return ms
         | Inl e \<Rightarrow>
             go_bind (go_try (maybeCleanupModel E j e m)) (\<lambda>_.
             if ErrorCode (Some e) = CodeNotFound \<or> ErrorCode (Some e) = CodeUnauthorized
             then go_return (fallbackModelStatus m None) else go_err e)))))"

section \<open>Listing models\<close>

text \<open>A nil map reads as an empty one; the key of a later relation overwrites that of an earlier one.\<close>

definition listUserModelAccess :: "'w externals \<Rightarrow> ofga_user \<Rightarrow> ('w, (string \<times> string) list) io" where
  "listUserModelAccess E user =
     go_fold (\<lambda>relation access.
       go_bind (ListModels E user relation) (\<lambda>uuids.
       go_return (fold (\<lambda>uuid access. map_put uuid (ToModelAccessString relation) access) uuids access)))
       [ReaderRelation, WriterRelation, AdministratorRelation] []"

definition model_uuid :: "model \<Rightarrow> string" where
  "model_uuid m = (case mdl_UUID m of Some u \<Rightarrow> u | None \<Rightarrow> '''')"

definition MergeModelSummaryFromController ::
    "'w juju_env \<Rightarrow> model \<Rightarrow> model_summary \<Rightarrow> string \<Rightarrow> string \<Rightarrow> ('w, model_summary) io" where
  "MergeModelSummaryFromController V m s maskingControllerUUID access =
     go_bind (credential_ResourceTag V (mdl_CloudCredential m)) (\<lambda>cct.
     go_return (s\<lparr>sum_Name := mdl_Name m, sum_UUID := model_uuid m,
       sum_ControllerUUID := (if maskingControllerUUID \<noteq> '''' then maskingControllerUUID else ctl_UUID (mdl_Controller m)),
       sum_ProviderType := clr_Type (rr_Cloud (mdl_CloudRegion m)), sum_Cloud := clr_Name (rr_Cloud (mdl_CloudRegion m)),
       sum_CloudRegion := rr_Name (mdl_CloudRegion m), sum_CloudCredential := cred_Id cct,
       sum_Owner := id_Name (mdl_Owner m), sum_Life := mdl_Life m, sum_ModelUserAccess := access\<rparr>))"

definition empty_summary :: model_summary where
  "empty_summary = \<lparr>sum_Name = '''', sum_UUID = '''', sum_ControllerUUID = '''', sum_ProviderType = '''', sum_Cloud = '''',
     sum_CloudRegion = '''', sum_CloudCredential = '''', sum_Owner = '''', sum_Life = '''', sum_Status = '''', sum_ModelUserAccess = ''''\<rparr>"

definition addModelSummary :: "model_summary \<Rightarrow> (string \<rightharpoonup> model_summary) \<Rightarrow> (string \<rightharpoonup> model_summary)" where
  "addModelSummary s m = m(sum_UUID s \<mapsto> s)"

text \<open>Errors of the controllers are only logged; a model no controller told of is unavailable.\<close>

definition ListModelSummaries ::
    "'w externals \<Rightarrow> 'w juju_env \<Rightarrow> juju_manager \<Rightarrow> ofga_user \<Rightarrow> string \<Rightarrow> ('w, model_summary list) io" where
  "ListModelSummaries E V j user maskingControllerUUID =
     go_bind (listUserModelAccess E user) (\<lambda>modelAccess.
     if modelAccess = [] then go_return []
     else go_bind (visit V modelAccess) (\<lambda>entries.
       go_bind (GetModelsByUUID E (jm_Database j) (map fst entries)) (\<lambda>dbModels.
       go_bind (forEachController V j (unique_controllers [] (map (\<lambda>m. (ctl_UUID (mdl_Controller m), mdl_Controller m)) dbModels))
         (\<lambda>_ api summaries.
           go_bind (go_try (api_ListModelSummaries V api)) (\<lambda>r. case r of
               Inl e \<Rightarrow> go_return (summaries, Some e)
             | Inr results \<Rightarrow> go_return (fold addModelSummary results summaries, None))) Map.empty) (\<lambda>(summaries, _).
       go_mapM (\<lambda>m.
         let found = summaries (model_uuid m) in
         go_bind (MergeModelSummaryFromController V m (case found of Some s \<Rightarrow> s | None \<Rightarrow> empty_summary) maskingControllerUUID
           (case map_of modelAccess (model_uuid m) of Some a \<Rightarrow> a | None \<Rightarrow> '''')) (\<lambda>s.
         go_return (if found = None then s\<lparr>sum_Status := ''unavailable''\<rparr> else s))) dbModels))))"

definition juju_ListModels :: "'w externals \<Rightarrow> 'w juju_env \<Rightarrow> juju_manager \<Rightarrow> ofga_user \<Rightarrow> ('w, user_model list) io" where
  "juju_ListModels E V j user =
     go_bind (go_maperr (\<lambda>e. ErrFmt ''failed to list user models: %v'' [err_text E e] None)
       (ListModels E user ReaderRelation)) (\<lambda>uuids.
     go_bind (go_maperr (\<lambda>e. ErrFmt ''failed to get models by uuid: %v'' [err_text E e] None)
       (GetModelsByUUID E (jm_Database j) uuids)) (\<lambda>models.
     let modelsMap = fold (\<lambda>m mm. mm(model_uuid m \<mapsto> m)) models Map.empty in
     go_bind (forEachController V j (unique_controllers [] (map (\<lambda>m. (mdl_ControllerID m, mdl_Controller m)) models))
       (\<lambda>_ api userModels.
         go_bind (go_try (api_ListModels V api)) (\<lambda>r. case r of
             Inl e \<Rightarrow> go_return (userModels, Some e)
           | Inr ums \<Rightarrow> go_return (userModels @ List.map_filter (\<lambda>um.
               map_option (\<lambda>m. um\<lparr>um_Owner := mdl_OwnerIdentityName m\<rparr>) (modelsMap (um_UUID um))) ums, None))) []) (\<lambda>(userModels, e).
     case e of
       Some e \<Rightarrow> go_err (ErrFmt ''failed to list models: %v'' [err_text E e] None)
     | None \<Rightarrow> go_return userModels)))"

text \<open>The marker error \<^verbatim>\<open>errStop\<close> hands an error of \<open>f\<close> on unchanged, as \<open>go_fold\<close> does.\<close>

definition ForEachUserModel ::
    "'w externals \<Rightarrow> juju_manager \<Rightarrow> ofga_user \<Rightarrow> (model \<Rightarrow> string \<Rightarrow> 's \<Rightarrow> ('w, 's) io) \<Rightarrow> 's \<Rightarrow> ('w, 's) io" where
  "ForEachUserModel E j user f s =
     ForEachModel E (jm_Database j) (\<lambda>m s.
       go_bind (go_some ''invalid model tag'' (model_ResourceTag E m)) (\<lambda>mt.
       go_bind (GetUserModelAccess E (jm_permissionManager j) user mt) (\<lambda>access.
       if access = ''read'' \<or> access = ''write'' \<or> access = ''admin'' then f m access s else go_return s))) s"

definition juju_ForEachModel ::
    "'w externals \<Rightarrow> juju_manager \<Rightarrow> ofga_user \<Rightarrow> (model \<Rightarrow> string \<Rightarrow> 's \<Rightarrow> ('w, 's) io) \<Rightarrow> 's \<Rightarrow> ('w, 's) io" where
  "juju_ForEachModel E j user f s =
     (if \<not> u_JimmAdmin user then go_err err_unauthorized_juju
      else ForEachModel E (jm_Database j) (\<lambda>m s. f m ''admin'' s) s)"

section \<open>Operations on a model\<close>

definition doModel ::
    "'w externals \<Rightarrow> 'w juju_env \<Rightarrow> juju_manager \<Rightarrow> ofga_user \<Rightarrow> tag \<Rightarrow> string \<Rightarrow> (model \<Rightarrow> conn \<Rightarrow> ('w, 'a) io) \<Rightarrow> ('w, 'a) io" where
  "doModel E V j user mt requireRelation f =
     go_bind (GetModel E (jm_Database j) (model_SetTag empty_model mt)) (\<lambda>m.
     go_bind (HasModelRelation E user mt requireRelation) (\<lambda>hasAccess.
     if \<not> hasAccess then go_err err_unauthorized_juju
     else go_bind (dialControllerAsSuperuser V j (Some user) (mdl_Controller m)) (\<lambda>api. f m api)))"

definition doModelAdmin ::
    "'w externals \<Rightarrow> 'w juju_env \<Rightarrow> juju_manager \<Rightarrow> ofga_user \<Rightarrow> tag \<Rightarrow> (model \<Rightarrow> conn \<Rightarrow> ('w, 'a) io) \<Rightarrow> ('w, 'a) io" where
  "doModelAdmin E V j user mt f = doModel E V j user mt AdministratorRelation f"

definition DestroyModel ::
    "'w externals \<Rightarrow> 'w juju_env \<Rightarrow> juju_manager \<Rightarrow> ofga_user \<Rightarrow> tag \<Rightarrow> destroy_args \<Rightarrow> ('w, unit) io" where
  "DestroyModel E V j user mt args =
     doModelAdmin E V j user mt (\<lambda>m api.
       go_bind (db_UpdateModel E (jm_Database j) (m\<lparr>mdl_Life := Dying\<rparr>)) (\<lambda>m.
       go_bind (go_try (api_DestroyModel V api mt args)) (\<lambda>r. case r of
           Inr _ \<Rightarrow> go_return ()
         | Inl e \<Rightarrow>
             if ErrorCode (Some e) = CodeNotFound then deleteModel E j mt
             else go_bind (go_try (db_UpdateModel E (jm_Database j) (m\<lparr>mdl_Life := Alive\<rparr>))) (\<lambda>_. go_err e))))"

definition DumpModel :: "'w externals \<Rightarrow> 'w juju_env \<Rightarrow> juju_manager \<Rightarrow> ofga_user \<Rightarrow> tag \<Rightarrow> bool \<Rightarrow> ('w, config) io" where
  "DumpModel E V j user mt simplified = doModelAdmin E V j user mt (\<lambda>m api. api_DumpModel V api mt simplified)"

definition DumpModelDB :: "'w externals \<Rightarrow> 'w juju_env \<Rightarrow> juju_manager \<Rightarrow> ofga_user \<Rightarrow> tag \<Rightarrow> ('w, config) io" where
  "DumpModelDB E V j user mt = doModelAdmin E V j user mt (\<lambda>m api. api_DumpModelDB V api mt)"

definition AbortModelUpgrade :: "'w externals \<Rightarrow> 'w juju_env \<Rightarrow> juju_manager \<Rightarrow> ofga_user \<Rightarrow> tag \<Rightarrow> ('w, unit) io" where
  "AbortModelUpgrade E V j user mt = doModel E V j user mt WriterRelation (\<lambda>m api. api_AbortModelUpgrade V api (Id mt))"

definition UpgradeController ::
    "'w externals \<Rightarrow> 'w juju_env \<Rightarrow> juju_manager \<Rightarrow> ofga_user \<Rightarrow> string \<Rightarrow> string \<Rightarrow> string \<Rightarrow> bool \<Rightarrow> bool \<Rightarrow> ('w, string) io" where
  "UpgradeController E V j user controllerName targetVersion stream ignoreAgentVersions dryRun =
     go_bind (getControllerByName E j controllerName) (\<lambda>ctl.
     go_bind (dialControllerAsSuperuser V j (Some user) ctl) (\<lambda>api.
     go_bind (go_maperr (\<lambda>e. Codef CodeServerError
         (wrap_err ''failed to get controller model UUID on controller %q: %w'' [controllerName] e))
       (api_ControllerModelUUID V api)) (\<lambda>uuid.
     api_UpgradeModel V api uuid targetVersion stream ignoreAgentVersions dryRun)))"

definition UpgradeModel ::
    "'w externals \<Rightarrow> 'w juju_env \<Rightarrow> juju_manager \<Rightarrow> ofga_user \<Rightarrow> tag \<Rightarrow> string \<Rightarrow> string \<Rightarrow> bool \<Rightarrow> bool \<Rightarrow> ('w, string) io" where
  "UpgradeModel E V j user mt targetVersion stream ignoreAgentVersions dryRun =
     doModel E V j user mt WriterRelation (\<lambda>m api.
       api_UpgradeModel V api (Id mt) targetVersion stream ignoreAgentVersions dryRun)"

definition ValidateModelUpgrade :: "'w externals \<Rightarrow> 'w juju_env \<Rightarrow> juju_manager \<Rightarrow> ofga_user \<Rightarrow> tag \<Rightarrow> bool \<Rightarrow> ('w, unit) io" where
  "ValidateModelUpgrade E V j user mt force = doModelAdmin E V j user mt (\<lambda>m api. api_ValidateModelUpgrade V api mt force)"

text \<open>
  A user's tag and the owner of a credential are compared as user tags; the tag of an administrator
  of JIMM is not looked at.
\<close>

definition checkCredentialOwner :: "'w externals \<Rightarrow> ofga_user \<Rightarrow> cred_tag \<Rightarrow> ('w, unit) io" where
  "checkCredentialOwner E user t =
     (if u_JimmAdmin user then go_return ()
      else go_bind (user_ResourceTag E user) (\<lambda>ut.
        if ut \<noteq> Tag UserTagKind (cct_Owner t) then go_err err_unauthorized_juju else go_return ()))"

definition ChangeModelCredential ::
    "'w externals \<Rightarrow> 'w juju_env \<Rightarrow> juju_manager \<Rightarrow> ofga_user \<Rightarrow> tag \<Rightarrow> cred_tag \<Rightarrow> ('w, unit) io" where
  "ChangeModelCredential E V j user mt cct =
     go_bind (checkCredentialOwner E user cct) (\<lambda>_.
     go_bind (db_GetCloudCredential V (jm_Database j) (credential_SetTag empty_credential cct)) (\<lambda>cred.
     go_bind (getCloudCredentialAttributes V cred) (\<lambda>attrs.
     go_bind (doModelAdmin E V j user mt (\<lambda>m api.
       go_bind (forceUpdateControllerCloudCredential V cred attrs api) (\<lambda>(_, e). case e of
           Some e \<Rightarrow> go_err e
         | None \<Rightarrow> go_bind (api_ChangeModelCredential V api mt cct) (\<lambda>_. go_return m)))) (\<lambda>m.
     go_bind (db_UpdateModel E (jm_Database j) (m\<lparr>mdl_CloudCredential := cred, mdl_CloudCredentialID := cc_ID cred\<rparr>)) (\<lambda>_.
     go_return ())))))"

section \<open>The poller\<close>

text \<open>Models grouped by the UUID of their controller, in the order they are read.\<close>

definition add_to_group :: "model \<Rightarrow> (string \<times> model list) list \<Rightarrow> (string \<times> model list) list" where
  "add_to_group m groups =
     (let key = ctl_UUID (mdl_Controller m) in
      map_put key ((case map_of groups key of Some ms \<Rightarrow> ms | None \<Rightarrow> []) @ [m]) groups)"

definition pollModels :: "'w externals \<Rightarrow> 'w juju_env \<Rightarrow> juju_manager \<Rightarrow> model list \<Rightarrow> ('w, unit) io" where
  "pollModels E V j models = (case models of
       [] \<Rightarrow> go_return ()
     | m0 # _ \<Rightarrow>
         go_bind (go_try (dialControllerAsService V j (mdl_Controller m0))) (\<lambda>r. case r of
             Inl e \<Rightarrow> go_return ()
           | Inr api \<Rightarrow> go_foreach (\<lambda>m. go_bind (go_try (modelInfo E V j None m api)) (\<lambda>_. go_return ())) models))"

definition PollModels :: "'w externals \<Rightarrow> 'w juju_env \<Rightarrow> juju_manager \<Rightarrow> ('w, unit) io" where
  "PollModels E V j =
     go_bind (ForEachModel E (jm_Database j) (\<lambda>m groups. go_return (add_to_group m groups)) []) (\<lambda>groups.
     go_bind (visit V groups) (\<lambda>entries.
     go_foreach (\<lambda>(_, models). pollModels E V j models) entries))"

end
