(* ===== verification/App_Offers.thy ===== *)
theory App_Offers
  imports Juju_Models
begin

text \<open>
  The file \<^verbatim>\<open>internal/jimm/juju/applicationoffer.go\<close>: creating, consuming, showing, listing and
  destroying the offers of applications.
\<close>

section \<open>Data and the calls of a controller\<close>

text \<open>The descriptions are pointers, so that a controller may answer without one.\<close>

record offer_details =
  od_OfferUUID :: string
  od_OfferName :: string
  od_OfferURL :: string
  od_ApplicationName :: string
  od_Connections :: "string list"
  od_Users :: "user_info list"

record external_controller =
  eci_ControllerTag :: string
  eci_Alias :: string
  eci_Addrs :: "string list"
  eci_CACert :: string

record consume_details =
  cod_Offer :: "offer_details option"
  cod_ControllerInfo :: "external_controller option"
  cod_Macaroon :: string

record offer_params =
  op_ModelUUID :: string
  op_Owner :: string
  op_OfferName :: string
  op_Application :: string
  op_Desc :: string
  op_Endpoints :: "string list"

record offer_filter =
  of_ModelName :: string
  of_OwnerName :: string
  of_OfferName :: string

text \<open>\<open>oe_OfferURL\<close> prints a \<^verbatim>\<open>crossmodel.OfferURL\<close> of a user, a model and an offer.\<close>

record 'w offer_env =
  oe_Offer :: "conn \<Rightarrow> offer_params \<Rightarrow> ('w, unit) io"
  oe_GetApplicationOffer :: "conn \<Rightarrow> string \<Rightarrow> ('w, offer_details option) io"
  oe_ConsumeDetails :: "conn \<Rightarrow> string \<Rightarrow> ('w, consume_details) io"
  oe_DestroyApplicationOffer :: "conn \<Rightarrow> string \<Rightarrow> bool \<Rightarrow> ('w, unit) io"
  oe_FindApplicationOffers :: "conn \<Rightarrow> offer_filter list \<Rightarrow> ('w, offer_details option list) io"
  oe_ListApplicationOffers :: "conn \<Rightarrow> offer_filter list \<Rightarrow> ('w, offer_details option list) io"
  oe_OfferURL :: "string \<Rightarrow> string \<Rightarrow> string \<Rightarrow> string"

record offer_request =
  aop_ModelTag :: tag
  aop_OwnerID :: string
  aop_OfferName :: string
  aop_ApplicationName :: string
  aop_ApplicationDescription :: string
  aop_Endpoints :: "(string \<times> string) list"

definition everyoneUser :: ofga_user where
  "everyoneUser = NewUser (empty_identity\<lparr>id_Name := EveryoneUser\<rparr>) True"

section \<open>Creating and destroying\<close>

text \<open>An error of OpenFGA is only logged.\<close>

definition deleteApplicationOffer :: "'w externals \<Rightarrow> juju_manager \<Rightarrow> application_offer \<Rightarrow> ('w, unit) io" where
  "deleteApplicationOffer E j offer =
     go_bind (DeleteApplicationOffer E (jm_Database j) offer) (\<lambda>_.
     go_bind (go_some ''invalid application offer tag'' (offer_ResourceTag E offer)) (\<lambda>t.
     go_bind (go_try (RemoveApplicationOffer E (jm_fuel j) t)) (\<lambda>_. go_return ())))"

text \<open>An offer of that URL may be left over; it is removed where the controller does not know it.\<close>

definition check_offer_url ::
    "'w externals \<Rightarrow> 'w juju_env \<Rightarrow> 'w offer_env \<Rightarrow> juju_manager \<Rightarrow> ofga_user \<Rightarrow> controller \<Rightarrow> string \<Rightarrow> ('w, unit) io" where
  "check_offer_url E V F j user ctl url =
     go_bind (go_try (GetApplicationOffer E (jm_Database j) (empty_offer\<lparr>ao_URL := url\<rparr>))) (\<lambda>r. case r of
         Inl e \<Rightarrow> if ErrorCode (Some e) \<noteq> CodeNotFound then go_err e else go_return ()
       | Inr offerCheck \<Rightarrow>
           go_bind (dialControllerAsSuperuser V j (Some user) ctl) (\<lambda>api.
           go_bind (go_try (oe_GetApplicationOffer F api url)) (\<lambda>r. case r of
               Inr _ \<Rightarrow> go_err (Codef CodeAlreadyExists (ErrFmt ''offer %s already exists, please use a different name'' [url] None))
             | Inl e \<Rightarrow> if ErrorCode (Some e) \<noteq> CodeNotFound then go_err e else deleteApplicationOffer E j offerCheck)))"

text \<open>The three relations of a new offer; errors are only logged.\<close>

definition offer_relations :: "'w externals \<Rightarrow> string \<Rightarrow> tag \<Rightarrow> tag \<Rightarrow> ('w, unit) io" where
  "offer_relations E ownerId mt t =
     go_bind (go_try (AddModelApplicationOffer E mt t)) (\<lambda>_.
     go_bind (go_sum (NewIdentity E ownerId)) (\<lambda>identity.
     go_bind (go_try (SetApplicationOfferAccess E (NewUser identity True) t AdministratorRelation)) (\<lambda>_.
     go_bind (go_try (SetApplicationOfferAccess E everyoneUser t ReaderRelation)) (\<lambda>_.
     go_return ()))))"

definition Offer ::
    "'w externals \<Rightarrow> 'w juju_env \<Rightarrow> 'w offer_env \<Rightarrow> juju_manager \<Rightarrow> ofga_user \<Rightarrow> offer_request \<Rightarrow> ('w, unit) io" where
  "Offer E V F j user offer =
     go_bind (go_maperr (\<lambda>e. if ErrorCode (Some e) = CodeNotFound then Codef CodeNotFound (ErrNew ''model not found'') else e)
       (GetModel E (jm_Database j) (empty_model\<lparr>mdl_UUID := Some (Id (aop_ModelTag offer))\<rparr>))) (\<lambda>m.
     go_bind (go_some ''invalid model tag'' (model_ResourceTag E m)) (\<lambda>mt.
     go_bind (go_maperr (wrap_err ''failed administrator check: %w'' []) (IsAdministrator E user mt)) (\<lambda>isAdmin.
     if \<not> isAdmin then go_err err_unauthorized_juju
     else
       let url = oe_OfferURL F (mdl_OwnerIdentityName m) (mdl_Name m) (aop_OfferName offer) in
       go_bind (check_offer_url E V F j user (mdl_Controller m) url) (\<lambda>_.
       go_bind (dialControllerAsSuperuser V j (Some user) (mdl_Controller m)) (\<lambda>api.
       go_bind (if aop_OwnerID offer \<noteq> '''' then go_return (aop_OwnerID offer)
                else go_bind (user_ResourceTag E user) (\<lambda>ut. go_return (Id ut))) (\<lambda>ownerId.
       go_bind (visit V (aop_Endpoints offer)) (\<lambda>endpoints.
       go_bind (go_maperr (\<lambda>e. if go_contains (err_text E e) ''application offer already exists'' then Codef CodeAlreadyExists (wrap_err ''%w'' [] e) else e)
         (oe_Offer F api \<lparr>op_ModelUUID = Id (aop_ModelTag offer), op_Owner = ownerId, op_OfferName = aop_OfferName offer,
            op_Application = aop_ApplicationName offer, op_Desc = aop_ApplicationDescription offer, op_Endpoints = map fst endpoints\<rparr>)) (\<lambda>_.
       go_bind (go_maperr (wrap_err ''failed to fetch details of the created application offer: %w'' []) (oe_GetApplicationOffer F api url)) (\<lambda>created.
       go_bind (go_some ''nil pointer dereference'' created) (\<lambda>created.
       let doc = empty_offer\<lparr>ao_ModelID := mdl_ID m, ao_Name := od_OfferName created, ao_UUID := od_OfferUUID created,
         ao_URL := od_OfferURL created\<rparr> in
       go_bind (go_maperr (wrap_err ''failed to store the created application offer: %w'' [])
         (go_bind (ready (jm_Database j)) (\<lambda>_. je_transaction V (\<lambda>tx.
            go_bind (AddApplicationOffer E ((jm_Database j)\<lparr>db_handle := tx\<rparr>) doc) (\<lambda>_. go_return ()))))) (\<lambda>_.
       go_bind (go_some ''invalid application offer tag'' (offer_ResourceTag E doc)) (\<lambda>t.
       offer_relations E ownerId mt t))))))))))))"

section \<open>Access\<close>

text \<open>The access is found level by level, but unlike the getters of \<^verbatim>\<open>user.go\<close> a failed check is an error.\<close>

definition getUserOfferAccess :: "'w externals \<Rightarrow> ofga_user \<Rightarrow> tag \<Rightarrow> ('w, string) io" where
  "getUserOfferAccess E user t =
     go_bind (go_maperr (wrap_err ''openfga check failed: %w'' []) (IsAdministrator E user t)) (\<lambda>isOfferAdmin.
     if isOfferAdmin then go_return ''admin''
     else go_bind (go_maperr (wrap_err ''openfga check failed: %w'' []) (IsApplicationOfferConsumer E user t)) (\<lambda>isOfferConsumer.
       if isOfferConsumer then go_return ''consume''
       else go_bind (go_maperr (wrap_err ''openfga check failed: %w'' []) (IsApplicationOfferReader E user t)) (\<lambda>isOfferReader.
         if isOfferReader then go_return ''read'' else go_return '''')))"

definition offer_users :: "'w externals \<Rightarrow> tag \<Rightarrow> ('w, (string \<times> string) list) io" where
  "offer_users E t =
     go_fold (\<lambda>relation users.
       go_bind (ListUsersWithAccess E t relation) (\<lambda>us.
       go_fold (\<lambda>u users.
         go_bind (go_some ''nil identity'' u) (\<lambda>u.
         go_return (if map_of users (u_Name u) = None then map_put (u_Name u) (ToOfferAccessString relation) users else users))) us users))
       [AdministratorRelation, ConsumerRelation, ReaderRelation] []"

definition listApplicationOfferUsers :: "'w externals \<Rightarrow> 'w juju_env \<Rightarrow> tag \<Rightarrow> identity \<Rightarrow> bool \<Rightarrow> ('w, user_info list) io" where
  "listApplicationOfferUsers E V t user adminAccess =
     go_bind (offer_users E t) (\<lambda>users.
     go_bind (visit V users) (\<lambda>entries.
     go_return (map (\<lambda>(n, a). \<lparr>ui_UserName = n, ui_Access = a\<rparr>)
       (filter (\<lambda>(n, _). adminAccess \<or> n = EveryoneUser \<or> n = id_Name user) entries))))"

text \<open>No value stands for \<^verbatim>\<open>noApplicationOfferAccessError\<close>.\<close>

definition enrichOfferDetails ::
    "'w externals \<Rightarrow> 'w juju_env \<Rightarrow> ofga_user \<Rightarrow> offer_details option \<Rightarrow> ('w, offer_details option) io" where
  "enrichOfferDetails E V user offerDetail = (case offerDetail of
       None \<Rightarrow> go_err (ErrNew ''offerDetail cannot be nil'')
     | Some od \<Rightarrow> (case new_juju_tag E ApplicationOfferTagKind (od_OfferUUID od) of
           None \<Rightarrow> go_err (ErrNew ''invalid application offer UUID'')
         | Some t \<Rightarrow>
             go_bind (getUserOfferAccess E user t) (\<lambda>accessLevel.
             if accessLevel = '''' then go_return None
             else go_bind (listApplicationOfferUsers E V t (u_Identity user) (accessLevel = ''admin'')) (\<lambda>users.
               go_return (Some (od\<lparr>od_Connections := (if accessLevel \<noteq> ''admin'' then [] else od_Connections od), od_Users := users\<rparr>))))))"

section \<open>Showing and consuming\<close>

definition err_offer_not_found :: err where
  "err_offer_not_found = Codef CodeNotFound (ErrNew ''application offer not found'')"

definition find_offer :: "'w externals \<Rightarrow> juju_manager \<Rightarrow> string \<Rightarrow> ('w, application_offer) io" where
  "find_offer E j url =
     go_maperr (\<lambda>e. if ErrorCode (Some e) = CodeNotFound then err_offer_not_found else e)
       (GetApplicationOffer E (jm_Database j) (empty_offer\<lparr>ao_URL := url\<rparr>))"

definition juju_GetApplicationOffer ::
    "'w externals \<Rightarrow> 'w juju_env \<Rightarrow> 'w offer_env \<Rightarrow> juju_manager \<Rightarrow> ofga_user \<Rightarrow> string \<Rightarrow> ('w, offer_details) io" where
  "juju_GetApplicationOffer E V F j user url =
     go_bind (find_offer E j url) (\<lambda>offer.
     go_bind (go_some ''invalid application offer tag'' (offer_ResourceTag E offer)) (\<lambda>t.
     go_bind (IsApplicationOfferReader E user t) (\<lambda>reader.
     if \<not> reader then go_err err_offer_not_found
     else go_bind (dialControllerAsSuperuser V j (Some user) (ao_Controller offer)) (\<lambda>api.
       go_bind (go_try (oe_GetApplicationOffer F api url)) (\<lambda>r. case r of
           Inl e \<Rightarrow>
             if ErrorCode (Some e) \<noteq> CodeNotFound then go_err e
             else go_bind (go_try (deleteApplicationOffer E j offer)) (\<lambda>_. go_err err_offer_not_found)
         | Inr offerDetails \<Rightarrow>
             go_bind (enrichOfferDetails E V user offerDetails) (\<lambda>r. case r of
                 None \<Rightarrow> go_err (ErrNew ''no application offer access'')
               | Some od \<Rightarrow> go_return od))))))"

definition fix_controller_info :: "'w externals \<Rightarrow> controller \<Rightarrow> external_controller option \<Rightarrow> ('w, external_controller) io" where
  "fix_controller_info E ctl ci =
     go_bind (go_some ''invalid controller tag'' (controller_ResourceTag E ctl)) (\<lambda>ct.
     let info = \<lparr>eci_ControllerTag = tag_String ct, eci_Alias = ctl_Name ctl, eci_Addrs = [], eci_CACert = ''''\<rparr> in
     if ctl_PublicAddress ctl \<noteq> '''' then go_return (info\<lparr>eci_Addrs := [ctl_PublicAddress ctl]\<rparr>)
     else go_bind (go_some ''nil pointer dereference'' ci) (\<lambda>ci.
       go_return (info\<lparr>eci_Addrs := eci_Addrs ci, eci_CACert := eci_CACert ci\<rparr>)))"

definition GetApplicationOfferConsumeDetails ::
    "'w externals \<Rightarrow> 'w juju_env \<Rightarrow> 'w offer_env \<Rightarrow> juju_manager \<Rightarrow> ofga_user \<Rightarrow> string \<Rightarrow> ('w, consume_details) io" where
  "GetApplicationOfferConsumeDetails E V F j user url =
     go_bind (find_offer E j url) (\<lambda>offer.
     go_bind (go_some ''invalid application offer tag'' (offer_ResourceTag E offer)) (\<lambda>t.
     go_bind (getUserOfferAccess E user t) (\<lambda>accessLevel.
     if accessLevel = ''read'' then go_err err_unauthorized_juju
     else if accessLevel \<noteq> ''admin'' \<and> accessLevel \<noteq> ''consume'' then go_err (Codef CodeNotFound (ErrNew ''not found''))
     else go_bind (dialControllerAsSuperuser V j (Some user) (ao_Controller offer)) (\<lambda>api.
       go_bind (oe_ConsumeDetails F api url) (\<lambda>details.
       go_bind (listApplicationOfferUsers E V t (u_Identity user) (accessLevel = ''admin'')) (\<lambda>users.
       go_bind (go_some ''nil pointer dereference'' (cod_Offer details)) (\<lambda>od.
       go_bind (fix_controller_info E (ao_Controller offer) (cod_ControllerInfo details)) (\<lambda>info.
       go_return (details\<lparr>cod_Offer := Some (od\<lparr>od_Users := users\<rparr>), cod_ControllerInfo := Some info\<rparr>)))))))))"

definition doApplicationOfferAdmin ::
    "'w externals \<Rightarrow> 'w juju_env \<Rightarrow> juju_manager \<Rightarrow> ofga_user \<Rightarrow> string \<Rightarrow> (application_offer \<Rightarrow> conn \<Rightarrow> ('w, unit) io) \<Rightarrow> ('w, unit) io" where
  "doApplicationOfferAdmin E V j user url f =
     go_bind (GetApplicationOffer E (jm_Database j) (empty_offer\<lparr>ao_URL := url\<rparr>)) (\<lambda>offer.
     go_bind (go_some ''invalid application offer tag'' (offer_ResourceTag E offer)) (\<lambda>t.
     go_bind (IsAdministrator E user t) (\<lambda>isOfferAdmin.
     if \<not> isOfferAdmin then go_err err_unauthorized_juju
     else go_bind (dialControllerAsSuperuser V j (Some user) (ao_Controller offer)) (\<lambda>api. f offer api))))"

definition DestroyOffer ::
    "'w externals \<Rightarrow> 'w juju_env \<Rightarrow> 'w offer_env \<Rightarrow> juju_manager \<Rightarrow> ofga_user \<Rightarrow> string \<Rightarrow> bool \<Rightarrow> ('w, unit) io" where
  "DestroyOffer E V F j user url force =
     doApplicationOfferAdmin E V j user url (\<lambda>offer api.
       go_bind (oe_DestroyApplicationOffer F api url force) (\<lambda>_. deleteApplicationOffer E j offer))"

section \<open>Listing\<close>

text \<open>What one controller contributes; offers found before an error stay in the shared list.\<close>

fun enrich_all :: "'w externals \<Rightarrow> 'w juju_env \<Rightarrow> ofga_user \<Rightarrow> offer_details option list \<Rightarrow> offer_details list \<Rightarrow> ('w, offer_details list \<times> err option) io" where
  "enrich_all E V user [] found = go_return (found, None)"
| "enrich_all E V user (offer # offers) found =
     go_bind (go_try (enrichOfferDetails E V user offer)) (\<lambda>r. case r of
         Inl e \<Rightarrow> go_return (found, Some e)
       | Inr None \<Rightarrow> enrich_all E V user offers found
       | Inr (Some od) \<Rightarrow> enrich_all E V user offers (found @ [od]))"

definition queryControllersForOffers ::
    "'w externals \<Rightarrow> 'w juju_env \<Rightarrow> juju_manager \<Rightarrow> ofga_user \<Rightarrow> (nat \<times> controller) list
      \<Rightarrow> (conn \<Rightarrow> ('w, offer_details option list) io) \<Rightarrow> ('w, offer_details list) io" where
  "queryControllersForOffers E V j user controllers query =
     go_bind (visit V controllers) (\<lambda>entries.
     go_bind (go_lift (je_schedule V (length entries))) (\<lambda>order.
     go_bind (errgroup (\<lambda>i found.
       go_bind (go_try (dialControllerAsSuperuser V j (Some user) (snd (entries ! i)))) (\<lambda>r. case r of
           Inl e \<Rightarrow> go_return (found, Some e)
         | Inr api \<Rightarrow> go_bind (go_try (query api)) (\<lambda>r. case r of
               Inl e \<Rightarrow> go_return (found, if ErrorCode (Some e) = CodeNotFound then None else Some e)
             | Inr offers \<Rightarrow> enrich_all E V user offers found))) order [] None) (\<lambda>(found, e). case e of
         Some e \<Rightarrow> go_err e
       | None \<Rightarrow> go_return found)))"

definition err_no_filter :: err where
  "err_no_filter = Codef CodeBadRequest (ErrNew ''at least one filter must be specified'')"

definition FindApplicationOffers ::
    "'w externals \<Rightarrow> 'w juju_env \<Rightarrow> 'w offer_env \<Rightarrow> juju_manager \<Rightarrow> ofga_user \<Rightarrow> offer_filter list \<Rightarrow> ('w, offer_details list) io" where
  "FindApplicationOffers E V F j user filters =
     (if filters = [] then go_err err_no_filter
      else go_bind (ForEachController E (jm_Database j) (\<lambda>ctl m. go_return (map_put (ctl_ID ctl) ctl m)) []) (\<lambda>controllers.
        queryControllersForOffers E V j user controllers (\<lambda>api. oe_FindApplicationOffers F api filters)))"

text \<open>The owner that is filled in is used for the lookup only; the controller gets the filters as they came.\<close>

definition juju_ListApplicationOffers ::
    "'w externals \<Rightarrow> 'w juju_env \<Rightarrow> 'w offer_env \<Rightarrow> juju_manager \<Rightarrow> ofga_user \<Rightarrow> offer_filter list \<Rightarrow> ('w, offer_details list) io" where
  "juju_ListApplicationOffers E V F j user filters =
     (if filters = [] then go_err err_no_filter
      else go_bind (go_fold (\<lambda>f m.
          if of_ModelName f = '''' then go_err (ErrNew ''application offer filter must specify a model name'')
          else go_bind (GetModel E (jm_Database j) (empty_model\<lparr>mdl_Name := of_ModelName f,
              mdl_OwnerIdentityName := (if of_OwnerName f = '''' then u_Name user else of_OwnerName f)\<rparr>)) (\<lambda>m'.
            go_return (map_put (ctl_ID (mdl_Controller m')) (mdl_Controller m') m))) filters []) (\<lambda>controllers.
        queryControllersForOffers E V j user controllers (\<lambda>api. oe_ListApplicationOffers F api filters)))"

end
