(* ===== verification/Cloud_Admin.thy ===== *)
theory Cloud_Admin
  imports Model_Builder
begin

text \<open>
  The rest of \<^verbatim>\<open>internal/jimm/juju/cloud.go\<close>: adding, updating and removing clouds, with the
  conversions of \<^verbatim>\<open>internal/dbmodel/cloud.go\<close> and the methods of \<^verbatim>\<open>internal/db/cloud.go\<close> on regions.
\<close>

section \<open>Conversions\<close>

definition cloud_SetTag :: "cloud \<Rightarrow> tag \<Rightarrow> cloud" where
  "cloud_SetTag c t = c\<lparr>cld_Name := Id t\<rparr>"

definition ToJujuCloudRegion :: "cloud_region \<Rightarrow> juju_region" where
  "ToJujuCloudRegion r = \<lparr>jr_Name = cr_Name r, jr_Endpoint = cr_Endpoint r, jr_IdentityEndpoint = cr_IdentityEndpoint r,
     jr_StorageEndpoint = cr_StorageEndpoint r\<rparr>"

definition FromJujuCloudRegion :: "juju_region \<Rightarrow> cloud_region \<Rightarrow> cloud_region" where
  "FromJujuCloudRegion r cr = cr\<lparr>cr_Name := jr_Name r, cr_Endpoint := jr_Endpoint r,
     cr_IdentityEndpoint := jr_IdentityEndpoint r, cr_StorageEndpoint := jr_StorageEndpoint r\<rparr>"

text \<open>\<^verbatim>\<open>jujuparams.Cloud\<close> has the fields of \<^verbatim>\<open>jujucloud.Cloud\<close>; a later region of the same name overwrites the configuration.\<close>

definition ToJujuCloud :: "cloud \<Rightarrow> juju_cloud" where
  "ToJujuCloud c = \<lparr>jc_Type = cld_Type c, jc_HostCloudRegion = cld_HostCloudRegion c, jc_AuthTypes = cld_AuthTypes c,
     jc_Endpoint = cld_Endpoint c, jc_IdentityEndpoint = cld_IdentityEndpoint c, jc_StorageEndpoint = cld_StorageEndpoint c,
     jc_Regions = map ToJujuCloudRegion (cld_Regions c), jc_CACertificates = cld_CACertificates c,
     jc_SkipTLSVerify = cld_SkipTLSVerify c, jc_Config = cld_Config c,
     jc_RegionConfig = fold (\<lambda>r m. case cr_Config r of None \<Rightarrow> m | Some cfg \<Rightarrow> m(cr_Name r \<mapsto> cfg)) (cld_Regions c) Map.empty\<rparr>"

definition FromJujuCloud :: "juju_cloud \<Rightarrow> cloud \<Rightarrow> cloud" where
  "FromJujuCloud cld c = c\<lparr>cld_Type := jc_Type cld, cld_HostCloudRegion := jc_HostCloudRegion cld,
     cld_AuthTypes := jc_AuthTypes cld, cld_Endpoint := jc_Endpoint cld, cld_IdentityEndpoint := jc_IdentityEndpoint cld,
     cld_StorageEndpoint := jc_StorageEndpoint cld, cld_CACertificates := jc_CACertificates cld,
     cld_SkipTLSVerify := jc_SkipTLSVerify cld, cld_Config := jc_Config cld,
     cld_Regions := map (\<lambda>r. (FromJujuCloudRegion r (cloud_Region c (jr_Name r)))\<lparr>cr_Config := jc_RegionConfig cld (jr_Name r)\<rparr>)
       (jc_Regions cld)\<rparr>"

section \<open>Regions in the database\<close>

definition AddCloudRegion :: "'w juju_env \<Rightarrow> database \<Rightarrow> cloud_region \<Rightarrow> ('w, cloud_region) io" where
  "AddCloudRegion V d cr =
     go_bind (ready d) (\<lambda>_.
     go_maperr (\<lambda>e. let e' = dbError e in
         if ErrorCode (Some e') = CodeAlreadyExists
         then Codef CodeAlreadyExists (ErrFmt ''cloud-region %s/%s already exists'' [cr_CloudName cr, cr_Name cr] None) else e')
       (gorm_Create (je_regions V) (db_handle d) cr))"

definition FindRegionByCloudType :: "'w juju_env \<Rightarrow> database \<Rightarrow> string \<Rightarrow> string \<Rightarrow> ('w, cloud_region) io" where
  "FindRegionByCloudType V d providerType regionName =
     go_bind (ready d) (\<lambda>_. db_do (gorm_First (je_regions V) (db_handle d)
       [WhereEq ''clouds.type'' providerType, WhereEq ''cloud_regions.name'' regionName] empty_region))"

definition FindRegionByCloudName :: "'w juju_env \<Rightarrow> database \<Rightarrow> string \<Rightarrow> string \<Rightarrow> ('w, cloud_region) io" where
  "FindRegionByCloudName V d cloudName regionName =
     go_bind (ready d) (\<lambda>_. db_do (gorm_First (je_regions V) (db_handle d)
       [WhereEq ''clouds.name'' cloudName, WhereEq ''cloud_regions.name'' regionName] empty_region))"

definition DeleteCloudRegionControllerPriority :: "'w juju_env \<Rightarrow> database \<Rightarrow> region_controller \<Rightarrow> ('w, unit) io" where
  "DeleteCloudRegionControllerPriority V d c =
     go_bind (ready d) (\<lambda>_. db_do (gorm_Delete (je_priorities V) (db_handle d) [] c))"

definition save_region :: "'w juju_env \<Rightarrow> handle \<Rightarrow> string \<Rightarrow> cloud_region \<Rightarrow> ('w, unit) io" where
  "save_region V tx cloudName r =
     go_bind (gorm_Save (je_regions V) tx [] (r\<lparr>cr_CloudName := cloudName\<rparr>)) (\<lambda>r.
     go_foreach (\<lambda>ctl. go_bind (gorm_Save (je_priorities V) tx [] (ctl\<lparr>rc_CloudRegionID := cr_ID r\<rparr>)) (\<lambda>_. go_return ()))
       (cr_Controllers r))"

definition db_UpdateCloud :: "'w externals \<Rightarrow> 'w juju_env \<Rightarrow> database \<Rightarrow> cloud \<Rightarrow> ('w, unit) io" where
  "db_UpdateCloud E V d c =
     go_bind (ready d) (\<lambda>_. db_do (je_transaction V (\<lambda>tx.
       go_bind (gorm_Save (tbl_clouds E) tx [] c) (\<lambda>c.
       go_bind (go_foreach (save_region V tx (cld_Name c)) (cld_Regions c)) (\<lambda>_.
       gorm_Delete (je_regions V) tx (WhereEq ''cloud_name'' (cld_Name c)
         # (if cld_Regions c = [] then [] else [WhereNotIn ''name'' (map cr_Name (cld_Regions c))])) empty_region)))))"

section \<open>Adding a cloud\<close>

definition DefaultReservedCloudNames :: "string list" where
  "DefaultReservedCloudNames = [''aks'', ''aws'', ''aws-china'', ''aws-gov'', ''azure'', ''azure-china'', ''cloudsigma'', ''ecs'', ''eks'',
     ''google'', ''joyent'', ''localhost'', ''oracle'', ''oracle-classic'', ''oracle-compute'', ''rackspace'']"

definition CloudRegionControllerPrioritySupported :: nat where
  "CloudRegionControllerPrioritySupported = 1"

definition checkReservedCloudNames :: "tag \<Rightarrow> string list \<Rightarrow> ('w, unit) io" where
  "checkReservedCloudNames t reservedCloudNames =
     (if Id t \<in> set (if reservedCloudNames = [] then DefaultReservedCloudNames else reservedCloudNames)
      then go_err (Codef CodeAlreadyExists (ErrFmt ''cloud %q already exists'' [Id t] None)) else go_return ())"

text \<open>An error of \<^verbatim>\<open>AddCloud\<close> that says the cloud is there already is ignored.\<close>

definition addControllerCloud ::
    "'w juju_env \<Rightarrow> juju_manager \<Rightarrow> controller \<Rightarrow> ofga_user \<Rightarrow> tag \<Rightarrow> juju_cloud \<Rightarrow> bool \<Rightarrow> ('w, juju_cloud) io" where
  "addControllerCloud V j ctl user t cloud force =
     go_bind (dialControllerAsSuperuser V j (Some user) ctl) (\<lambda>api.
     go_bind (go_try (api_AddCloud V api t cloud force)) (\<lambda>r. case r of
         Inl e \<Rightarrow> if je_ErrCode V e \<noteq> CodeAlreadyExists then go_err e else api_Cloud V api t
       | Inr _ \<Rightarrow> api_Cloud V api t))"

definition on_controller :: "controller \<Rightarrow> cloud \<Rightarrow> cloud" where
  "on_controller ctl c = c\<lparr>cld_Regions := map (\<lambda>r. r\<lparr>cr_Controllers :=
     [empty_region_controller\<lparr>rc_ControllerID := ctl_ID ctl, rc_Priority := CloudRegionControllerPrioritySupported\<rparr>]\<rparr>) (cld_Regions c)\<rparr>"

definition addCloudToDatabase ::
    "'w externals \<Rightarrow> 'w juju_env \<Rightarrow> juju_manager \<Rightarrow> controller \<Rightarrow> ofga_user \<Rightarrow> tag \<Rightarrow> juju_cloud \<Rightarrow> bool \<Rightarrow> ('w, cloud) io" where
  "addCloudToDatabase E V j ctl user t cloud force =
     (let dbCloud = (FromJujuCloud cloud empty_cloud)\<lparr>cld_Name := Id t\<rparr> in
      go_bind (addControllerCloud V j ctl user t cloud force) (\<lambda>ccloud.
      db_AddCloud E (jm_Database j) (on_controller ctl (FromJujuCloud ccloud dbCloud))))"

definition addCloudControllerRelation :: "'w externals \<Rightarrow> cloud \<Rightarrow> controller \<Rightarrow> ('w, unit) io" where
  "addCloudControllerRelation E c ctl =
     go_bind (go_some ''invalid cloud tag'' (cloud_ResourceTag E c)) (\<lambda>ct.
     go_bind (go_some ''invalid controller tag'' (controller_ResourceTag E ctl)) (\<lambda>t.
     AddCloudController E ct t))"

definition validateCloudRegion ::
    "'w externals \<Rightarrow> 'w juju_env \<Rightarrow> database \<Rightarrow> ofga_user \<Rightarrow> juju_cloud \<Rightarrow> string \<Rightarrow> ('w, unit) io" where
  "validateCloudRegion E V d user cloud controllerName =
     (if jc_HostCloudRegion cloud = '''' then go_return ()
      else case go_splitN2 (CHR ''/'') (jc_HostCloudRegion cloud) of
        [provider, regionName] \<Rightarrow>
          if provider = '''' then go_err (Codef CodeIncompatibleClouds
              (ErrFmt ''cloud host region %q has invalid cloud/region format'' [jc_HostCloudRegion cloud] None))
          else go_bind (go_maperr (\<lambda>e. if ErrorCode (Some e) = CodeNotFound
                then Codef CodeIncompatibleClouds (ErrFmt ''unable to find cloud/region %q'' [jc_HostCloudRegion cloud] None) else e)
              (FindRegionByCloudType V d provider regionName)) (\<lambda>region.
            go_bind (go_some ''invalid cloud tag'' (new_juju_tag E CloudTagKind (clr_Name (cr_Cloud region)))) (\<lambda>ct.
            go_bind (IsAllowedAddModelToCloud E user ct) (\<lambda>allowedAddModel.
            if \<not> allowedAddModel then go_err (Codef CodeUnauthorized (ErrFmt ''missing access to %q'' [jc_HostCloudRegion cloud] None))
            else if clr_HostCloudRegion (cr_Cloud region) \<noteq> ''''
              then go_err (Codef CodeIncompatibleClouds (ErrFmt ''cloud already hosted %q'' [jc_HostCloudRegion cloud] None))
            else if \<exists>rc\<in>set (cr_Controllers region). ctl_Name (rc_Controller rc) = controllerName then go_return ()
            else go_err (Codef CodeNotFound (ErrNew ''controller not found'')))))
      | _ \<Rightarrow> go_err (Codef CodeIncompatibleClouds
              (ErrFmt ''cloud host region %q has invalid cloud/region format'' [jc_HostCloudRegion cloud] None)))"

definition AddCloudToController ::
    "'w externals \<Rightarrow> 'w juju_env \<Rightarrow> juju_manager \<Rightarrow> ofga_user \<Rightarrow> string \<Rightarrow> tag \<Rightarrow> juju_cloud \<Rightarrow> bool \<Rightarrow> ('w, unit) io" where
  "AddCloudToController E V j user controllerName t cloud force =
     go_bind (getControllerByName E j controllerName) (\<lambda>ctl.
     go_bind (checkControllerAdminAccess E user ctl) (\<lambda>_.
     go_bind (checkReservedCloudNames t (jm_ReservedCloudNames j)) (\<lambda>_.
     go_bind (validateCloudRegion E V (jm_Database j) user cloud controllerName) (\<lambda>_.
     go_bind (addCloudToDatabase E V j ctl user t cloud force) (\<lambda>dbCloud.
     addCloudControllerRelation E dbCloud ctl)))))"

text \<open>Slashes may not occur twice; a provider type is tried before the name of a cloud.\<close>

definition determineHostCloudRegion :: "'w externals \<Rightarrow> 'w juju_env \<Rightarrow> juju_manager \<Rightarrow> string \<Rightarrow> ('w, cloud_region) io" where
  "determineHostCloudRegion E V j hostCloudRegion =
     (if \<not> go_contains hostCloudRegion ''/'' then
        go_bind (go_maperr (wrap_err ''unable to find host cloud %q: %w'' [hostCloudRegion])
          (GetCloud E (jm_Database j) (empty_cloud\<lparr>cld_Name := hostCloudRegion\<rparr>))) (\<lambda>cl. case cld_Regions cl of
            [] \<Rightarrow> go_err (Codef CodeBadRequest (ErrFmt ''the host cloud %q does not have a valid region'' [hostCloudRegion] None))
          | [r] \<Rightarrow> go_return r
          | _ \<Rightarrow> go_err (Codef CodeBadRequest (ErrFmt
              ''unable to determine a unique region for host cloud %q - consider specifying the host cloud region'' [hostCloudRegion] None)))
      else case go_split (CHR ''/'') hostCloudRegion of
        [part0, part1] \<Rightarrow>
          if part0 = '''' then go_err (Codef CodeBadRequest (ErrFmt ''invalid cloud/region format %q'' [hostCloudRegion] None))
          else go_bind (go_try (FindRegionByCloudType V (jm_Database j) part0 part1)) (\<lambda>r. case r of
              Inr region \<Rightarrow> go_return region
            | Inl _ \<Rightarrow> go_maperr (\<lambda>e. if ErrorCode (Some e) = CodeNotFound
                  then Codef CodeNotFound (ErrFmt ''unable to find cloud/region %q'' [hostCloudRegion] None) else e)
                (FindRegionByCloudName V (jm_Database j) part0 part1))
      | _ \<Rightarrow> go_err (Codef CodeBadRequest (ErrFmt ''invalid cloud/region format %q'' [hostCloudRegion] None)))"

definition shuffleRegionControllers :: "'w juju_env \<Rightarrow> region_controller list \<Rightarrow> ('w, region_controller list) io" where
  "shuffleRegionControllers V controllers =
     go_bind (go_lift (je_swaps V (length controllers))) (\<lambda>sw.
     go_return (sort_key (\<lambda>c. - int (rc_Priority c)) (apply_swaps sw controllers)))"

text \<open>Both relations of a hosted cloud are added without looking at errors, which are logged.\<close>

definition hosted_relations :: "'w externals \<Rightarrow> ofga_user \<Rightarrow> cloud \<Rightarrow> controller \<Rightarrow> ('w, unit) io" where
  "hosted_relations E user dbCloud ctl =
     go_bind (go_some ''invalid cloud tag'' (cloud_ResourceTag E dbCloud)) (\<lambda>ct.
     go_bind (go_some ''invalid controller tag'' (controller_ResourceTag E ctl)) (\<lambda>t.
     go_bind (go_try (AddCloudController E ct t)) (\<lambda>_.
     go_bind (go_try (SetCloudAccess E user ct AdministratorRelation)) (\<lambda>_.
     go_return ()))))"

definition AddHostedCloud ::
    "'w externals \<Rightarrow> 'w juju_env \<Rightarrow> juju_manager \<Rightarrow> ofga_user \<Rightarrow> tag \<Rightarrow> juju_cloud \<Rightarrow> bool \<Rightarrow> ('w, unit) io" where
  "AddHostedCloud E V j user t cloud force =
     go_bind (checkReservedCloudNames t (jm_ReservedCloudNames j)) (\<lambda>_.
     if jc_Type cloud \<noteq> ''kubernetes''
     then go_err (Codef CodeIncompatibleClouds (ErrFmt ''unsupported cloud type %q'' [jc_Type cloud] None))
     else if jc_HostCloudRegion cloud = '''' then go_err (Codef CodeCloudRegionRequired (ErrNew ''cloud host region not specified''))
     else go_bind (determineHostCloudRegion E V j (jc_HostCloudRegion cloud)) (\<lambda>region.
       if clr_HostCloudRegion (cr_Cloud region) \<noteq> ''''
       then go_err (Codef CodeIncompatibleClouds (ErrFmt ''cloud already hosted %q'' [jc_HostCloudRegion cloud] None))
       else go_bind (db_AddCloud E (jm_Database j) ((FromJujuCloud cloud empty_cloud)\<lparr>cld_Name := Id t\<rparr>)) (\<lambda>dbCloud.
         go_bind (shuffleRegionControllers V (cr_Controllers region)) (\<lambda>controllers.
         case controllers of
           [] \<Rightarrow> go_panic ''index out of range''
         | rc # _ \<Rightarrow>
             go_bind (addControllerCloud V j (rc_Controller rc) user t cloud force) (\<lambda>ccloud.
             let dbCloud = on_controller (rc_Controller rc) (FromJujuCloud ccloud dbCloud) in
             go_bind (db_UpdateCloud E V (jm_Database j) dbCloud) (\<lambda>_.
             hosted_relations E user dbCloud (rc_Controller rc)))))))"

section \<open>Administering a cloud\<close>

definition doCloudAdmin ::
    "'w externals \<Rightarrow> 'w juju_env \<Rightarrow> juju_manager \<Rightarrow> ofga_user \<Rightarrow> tag \<Rightarrow> (cloud \<Rightarrow> conn \<Rightarrow> ('w, unit) io) \<Rightarrow> ('w, unit) io" where
  "doCloudAdmin E V j user ct f =
     go_bind (GetCloud E (jm_Database j) (cloud_SetTag empty_cloud ct)) (\<lambda>c.
     go_bind (go_some ''invalid cloud tag'' (cloud_ResourceTag E c)) (\<lambda>t.
     go_bind (IsAdministrator E user t) (\<lambda>isCloudAdministrator.
     if \<not> isCloudAdministrator then go_err err_unauthorized_juju
     else case cld_Regions c of
       r # _ \<Rightarrow> (case cr_Controllers r of
           rc # _ \<Rightarrow> go_bind (dialControllerAsSuperuser V j (Some user) (rc_Controller rc)) (\<lambda>api. f c api)
         | [] \<Rightarrow> go_err (ErrFmt ''cloud administration not available for %s'' [Id ct] None))
     | [] \<Rightarrow> go_err (ErrFmt ''cloud administration not available for %s'' [Id ct] None))))"

definition juju_RemoveCloud :: "'w externals \<Rightarrow> 'w juju_env \<Rightarrow> juju_manager \<Rightarrow> ofga_user \<Rightarrow> tag \<Rightarrow> ('w, unit) io" where
  "juju_RemoveCloud E V j user ct =
     doCloudAdmin E V j user ct (\<lambda>c api.
       go_bind (api_RemoveCloud V api ct) (\<lambda>_.
       go_bind (go_maperr (wrap_err ''cannot update database after updating controller: %w'' []) (DeleteCloud E (jm_Database j) c)) (\<lambda>_.
       go_bind (go_try (RemoveCloud E (jm_fuel j) ct)) (\<lambda>_. go_return ()))))"

definition region_controllers :: "cloud \<Rightarrow> region_controller list" where
  "region_controllers c = concat (map cr_Controllers (cld_Regions c))"

definition cloud_controllers :: "cloud \<Rightarrow> controller list" where
  "cloud_controllers c = unique_controllers [] (map (\<lambda>rc. (rc_ControllerID rc, rc_Controller rc)) (region_controllers c))"

definition with_default_region :: "juju_cloud \<Rightarrow> juju_cloud" where
  "with_default_region cloud = (if jc_Regions cloud = []
     then cloud\<lparr>jc_Regions := [\<lparr>jr_Name = ''default'', jr_Endpoint = '''', jr_IdentityEndpoint = '''', jr_StorageEndpoint = ''''\<rparr>]\<rparr> else cloud)"

definition new_regions_on :: "controller list \<Rightarrow> cloud \<Rightarrow> cloud" where
  "new_regions_on controllers c = c\<lparr>cld_Regions := map (\<lambda>r. if cr_Controllers r = []
     then r\<lparr>cr_Controllers := map (\<lambda>ctl. empty_region_controller\<lparr>rc_Controller := ctl, rc_Priority := CloudRegionControllerPrioritySupported\<rparr>) controllers\<rparr>
     else r) (cld_Regions c)\<rparr>"

definition juju_UpdateCloud :: "'w externals \<Rightarrow> 'w juju_env \<Rightarrow> juju_manager \<Rightarrow> ofga_user \<Rightarrow> tag \<Rightarrow> juju_cloud \<Rightarrow> ('w, unit) io" where
  "juju_UpdateCloud E V j user ct cloud0 =
     (let cloud = with_default_region cloud0 in
      go_bind (GetCloud E (jm_Database j) (cloud_SetTag empty_cloud ct)) (\<lambda>c.
      go_bind (go_some ''invalid cloud tag'' (cloud_ResourceTag E c)) (\<lambda>t.
      go_bind (GetUserCloudAccess E (jm_permissionManager j) user t) (\<lambda>cloudAccess.
      if cloudAccess \<noteq> ''admin'' then go_err err_unauthorized_juju
      else go_bind (forEachController V j (cloud_controllers c) (\<lambda>_ api. only_err (api_UpdateCloud V api ct cloud)) ()) (\<lambda>(_, e). case e of
          Some e \<Rightarrow> go_err e
        | None \<Rightarrow>
            go_bind (ready (jm_Database j)) (\<lambda>_. je_transaction V (\<lambda>tx.
              let d = (jm_Database j)\<lparr>db_handle := tx\<rparr> in
              go_bind (GetCloud E d (cloud_SetTag empty_cloud ct)) (\<lambda>c2.
              db_UpdateCloud E V d (new_regions_on (cloud_controllers c) (FromJujuCloud cloud c2))))))))))"

text \<open>Whether another controller hosts the cloud; the map is keyed by the names of controllers, the last one wins.\<close>

definition hosts_by_name :: "cloud \<Rightarrow> (string \<times> controller) list" where
  "hosts_by_name c = fold (\<lambda>rc m. map_put (ctl_Name (rc_Controller rc)) (rc_Controller rc) m) (region_controllers c) []"

definition RemoveCloudFromController ::
    "'w externals \<Rightarrow> 'w juju_env \<Rightarrow> juju_manager \<Rightarrow> ofga_user \<Rightarrow> string \<Rightarrow> tag \<Rightarrow> ('w, unit) io" where
  "RemoveCloudFromController E V j user controllerName ct =
     go_bind (GetCloud E (jm_Database j) (cloud_SetTag empty_cloud ct)) (\<lambda>c.
     go_bind (go_maperr (\<lambda>_. err_unauthorized_juju) (IsAdministrator E user ct)) (\<lambda>isAdministrator.
     if \<not> isAdministrator then go_err err_unauthorized_juju
     else case map_of (hosts_by_name c) controllerName of
       None \<Rightarrow> go_err (Codef CodeNotFound (ErrNew ''cloud not hosted by controller''))
     | Some ctl \<Rightarrow>
         go_bind (dialControllerAsSuperuser V j (Some user) ctl) (\<lambda>api.
         go_bind (api_RemoveCloud V api ct) (\<lambda>_.
         if filter (\<lambda>(n, _). n \<noteq> controllerName) (hosts_by_name c) = []
         then go_maperr (wrap_err ''failed to delete cloud after updating controller: %w'' []) (DeleteCloud E (jm_Database j) c)
         else go_bind (go_foreach (\<lambda>crp. go_maperr (wrap_err ''cannot update database after updating controller: %w'' [])
                (DeleteCloudRegionControllerPriority V (jm_Database j) crp)) (region_controllers c)) (\<lambda>_.
           go_bind (go_try (RemoveCloud E (jm_fuel j) ct)) (\<lambda>_. go_return ()))))))"

end
