(* ===== verification/Cloud_Credentials.thy ===== *)
theory Cloud_Credentials
  imports Cloud_Admin Juju_Models "HOL-Library.List_Lexorder" "HOL-Library.Char_ord"
begin

text \<open>
  The file \<^verbatim>\<open>internal/jimm/juju/cloudcredential.go\<close>: reading, updating, copying, revoking and
  recovering the credentials of clouds.
\<close>

section \<open>Reading\<close>

definition juju_GetCloudCredential :: "'w juju_env \<Rightarrow> juju_manager \<Rightarrow> ofga_user \<Rightarrow> cred_tag \<Rightarrow> ('w, cloud_credential) io" where
  "juju_GetCloudCredential V j user t =
     (if \<not> u_JimmAdmin user \<and> u_Name user \<noteq> cct_Owner t then go_err err_unauthorized_juju
      else db_GetCloudCredential V (jm_Database j) (credential_SetTag empty_credential t))"

text \<open>The tag is empty where every cloud is meant.\<close>

definition ForEachUserCloudCredential ::
    "'w juju_env \<Rightarrow> juju_manager \<Rightarrow> identity \<Rightarrow> tag option \<Rightarrow> (cloud_credential \<Rightarrow> ('w, unit) io) \<Rightarrow> ('w, unit) io" where
  "ForEachUserCloudCredential V j u ct f =
     ForEachCloudCredential V (jm_Database j) (id_Name u) (case ct of Some t \<Rightarrow> Id t | None \<Rightarrow> '''') f"

text \<open>Attributes are finite maps; \<open>redacted\<close> lists the hidden keys in order.\<close>

definition visible_attributes :: "'w juju_env \<Rightarrow> cloud_credential \<Rightarrow> (string \<rightharpoonup> string) \<Rightarrow> (string \<rightharpoonup> string)" where
  "visible_attributes V cred attrs =
     (\<lambda>k. if je_IsVisibleAttribute V (clr_Type (cc_Cloud cred)) (cc_AuthType cred) k then attrs k else None)"

definition redacted_attributes :: "'w juju_env \<Rightarrow> cloud_credential \<Rightarrow> (string \<rightharpoonup> string) \<Rightarrow> string list" where
  "redacted_attributes V cred attrs =
     sorted_list_of_set {k \<in> dom attrs. \<not> je_IsVisibleAttribute V (clr_Type (cc_Cloud cred)) (cc_AuthType cred) k}"

definition GetCloudCredentialAttributes ::
    "'w juju_env \<Rightarrow> ofga_user \<Rightarrow> cloud_credential \<Rightarrow> bool \<Rightarrow> ('w, (string \<rightharpoonup> string) \<times> string list) io" where
  "GetCloudCredentialAttributes V user cred hidden =
     (if (if hidden then u_Name user \<noteq> cc_OwnerIdentityName cred
          else \<not> u_JimmAdmin user \<and> u_Name user \<noteq> cc_OwnerIdentityName cred)
      then go_err err_unauthorized_juju
      else go_bind (getCloudCredentialAttributes V cred) (\<lambda>attrs.
        if attrs = Map.empty then go_return (Map.empty, [])
        else if hidden then go_return (attrs, [])
        else go_return (visible_attributes V cred attrs, redacted_attributes V cred attrs)))"

section \<open>Updating\<close>

text \<open>An error and the models are both part of the result.\<close>

definition checkControllerCloudCredential ::
    "'w juju_env \<Rightarrow> cloud_credential \<Rightarrow> (string \<rightharpoonup> string) \<Rightarrow> conn \<Rightarrow> ('w, update_model_result list \<times> err option) io" where
  "checkControllerCloudCredential V cred attrs api =
     go_bind (tagged V cred attrs) (\<lambda>tc.
     go_bind (go_try (api_CheckCredentialModels V api tc)) (\<lambda>r. case r of
         Inl e \<Rightarrow> go_return ([], Some e)
       | Inr out \<Rightarrow> go_return (credential_update_result out)))"

definition updateCredential :: "'w juju_env \<Rightarrow> juju_manager \<Rightarrow> cloud_credential \<Rightarrow> (string \<rightharpoonup> string) \<Rightarrow> ('w, cloud_credential) io" where
  "updateCredential V j cred attrs =
     go_bind (go_maperr (wrap_err ''failed to store credential id: %w'' []) (SetCloudCredential V (jm_Database j) cred)) (\<lambda>cred.
     go_bind (credential_ResourceTag V cred) (\<lambda>t.
     go_bind (go_maperr (wrap_err ''failed to store credentials: %w'' []) (je_Store_Put V t attrs)) (\<lambda>_.
     go_return cred)))"

record update_credential_args =
  uca_CredentialTag :: cred_tag
  uca_AuthType :: string
  uca_Attributes :: "string \<rightharpoonup> string"
  uca_SkipCheck :: bool
  uca_SkipUpdate :: bool

text \<open>
  The method returns the results of the models along with an error; \<open>update_result\<close> is that pair.
\<close>

type_synonym update_result = "update_model_result list \<times> err option"

definition check_models ::
    "'w juju_env \<Rightarrow> juju_manager \<Rightarrow> controller list \<Rightarrow> cloud_credential \<Rightarrow> (string \<rightharpoonup> string) \<Rightarrow> ('w, update_result) io" where
  "check_models V j controllers cred attrs =
     forEachController V j controllers (\<lambda>_ api result.
       go_bind (checkControllerCloudCredential V cred attrs api) (\<lambda>(models, e).
       go_return (result @ models, e))) []"

definition push_credential ::
    "'w juju_env \<Rightarrow> juju_manager \<Rightarrow> controller list \<Rightarrow> cloud_credential \<Rightarrow> (string \<rightharpoonup> string) \<Rightarrow> bool
      \<Rightarrow> update_model_result list \<Rightarrow> ('w, update_result) io" where
  "push_credential V j controllers cred attrs skipCheck result =
     forEachController V j controllers (\<lambda>_ api result.
       go_bind (forceUpdateControllerCloudCredential V cred attrs api) (\<lambda>(models, e).
       go_return (if e = None \<and> skipCheck then result @ models else result, e))) result"

definition store_credential ::
    "'w juju_env \<Rightarrow> juju_manager \<Rightarrow> controller list \<Rightarrow> cloud_credential \<Rightarrow> update_credential_args
      \<Rightarrow> update_model_result list \<Rightarrow> ('w, update_result) io" where
  "store_credential V j controllers cred args result =
     (if (\<exists>r\<in>set result. umr_Errors r \<noteq> []) \<or> uca_SkipUpdate args then go_return (result, None)
      else go_bind (go_try (updateCredential V j cred (uca_Attributes args))) (\<lambda>r. case r of
          Inl e \<Rightarrow> go_return (result, Some e)
        | Inr cred \<Rightarrow> push_credential V j controllers cred (uca_Attributes args) (uca_SkipCheck args) result))"

definition check_update_owner :: "'w externals \<Rightarrow> juju_manager \<Rightarrow> ofga_user \<Rightarrow> cred_tag \<Rightarrow> ('w, unit) io" where
  "check_update_owner E j user t =
     go_bind (user_ResourceTag E user) (\<lambda>ut.
     if ut = Tag UserTagKind (cct_Owner t) then go_return ()
     else if \<not> u_JimmAdmin user then go_err err_unauthorized_juju
     else go_bind (GetIdentity E (jm_Database j) (identity_SetTag empty_identity (Tag UserTagKind (cct_Owner t)))) (\<lambda>_. go_return ()))"

definition find_credential :: "'w juju_env \<Rightarrow> juju_manager \<Rightarrow> cred_tag \<Rightarrow> ('w, cloud_credential) io" where
  "find_credential V j t =
     go_bind (go_try (db_GetCloudCredential V (jm_Database j) (credential_SetTag empty_credential t))) (\<lambda>r. case r of
         Inl e \<Rightarrow> if ErrorCode (Some e) \<noteq> CodeNotFound then go_err e else go_return (credential_SetTag empty_credential t)
       | Inr cred \<Rightarrow> go_return cred)"

text \<open>Errors before the first controller is asked leave the result empty: they are errors of the computation.\<close>

definition UpdateCloudCredential ::
    "'w externals \<Rightarrow> 'w juju_env \<Rightarrow> juju_manager \<Rightarrow> ofga_user \<Rightarrow> update_credential_args \<Rightarrow> ('w, update_result) io" where
  "UpdateCloudCredential E V j user args =
     go_bind (check_update_owner E j user (uca_CredentialTag args)) (\<lambda>_.
     go_bind (find_credential V j (uca_CredentialTag args)) (\<lambda>cred.
     go_bind (go_some ''invalid cloud tag'' (new_juju_tag E CloudTagKind (cc_CloudName cred))) (\<lambda>ct.
     go_bind (GetCloud E (jm_Database j) (cloud_SetTag empty_cloud ct)) (\<lambda>_.
     go_bind (GetModelsUsingCredential E (jm_Database j) (cc_ID cred)) (\<lambda>models.
     let controllers = unique_controllers [] (map (\<lambda>m. (mdl_ControllerID m, mdl_Controller m)) models);
         cred = cred\<lparr>cc_AuthType := uca_AuthType args\<rparr> in
     go_bind (if uca_SkipCheck args then go_return ([], None)
              else check_models V j controllers cred (uca_Attributes args)) (\<lambda>(result, e). case e of
         Some e \<Rightarrow> go_return (result, Some e)
       | None \<Rightarrow> store_credential V j controllers cred args result))))))"

section \<open>Copying and revoking\<close>

definition CopyCredential ::
    "'w externals \<Rightarrow> 'w juju_env \<Rightarrow> juju_manager \<Rightarrow> ofga_user \<Rightarrow> ofga_user \<Rightarrow> cred_tag \<Rightarrow> ('w, cred_tag \<times> update_result) io" where
  "CopyCredential E V j originalUser newUser cred =
     go_bind (juju_GetCloudCredential V j originalUser cred) (\<lambda>credential.
     go_bind (getCloudCredentialAttributes V credential) (\<lambda>attr.
     let newCredID = cct_Cloud cred @ ''/'' @ u_Name newUser @ ''/'' @ cct_Name cred in
     if \<not> je_IsValidCloudCredential V newCredID
     then go_err (ErrFmt ''new credential ID %s is not a valid cloud credential tag'' [newCredID] None)
     else go_bind (go_some ''invalid cloud credential tag'' (je_CredentialTag V newCredID)) (\<lambda>newTag.
       go_bind (UpdateCloudCredential E V j newUser \<lparr>uca_CredentialTag = newTag, uca_AuthType = cc_AuthType credential,
         uca_Attributes = attr, uca_SkipCheck = False, uca_SkipUpdate = False\<rparr>) (\<lambda>res.
       go_return (newTag, res)))))"

definition revoke_on :: "'w juju_env \<Rightarrow> cred_tag \<Rightarrow> conn \<Rightarrow> ('w, unit) io" where
  "revoke_on V t api =
     go_bind (go_try (api_RevokeCredential V api t)) (\<lambda>r. case r of
         Inl e \<Rightarrow> if ErrorCode (Some e) = CodeNotFound then go_return () else go_err e
       | Inr _ \<Rightarrow> go_return ())"

definition RevokeCloudCredential :: "'w externals \<Rightarrow> 'w juju_env \<Rightarrow> juju_manager \<Rightarrow> identity \<Rightarrow> cred_tag \<Rightarrow> ('w, unit) io" where
  "RevokeCloudCredential E V j user t =
     (if id_Name user \<noteq> cct_Owner t then go_err err_unauthorized_juju
      else go_bind (go_try (db_GetCloudCredential V (jm_Database j) (credential_SetTag empty_credential t))) (\<lambda>r. case r of
          Inl e \<Rightarrow> if ErrorCode (Some e) = CodeNotFound then go_return () else go_err e
        | Inr credential \<Rightarrow>
            go_bind (GetModelsUsingCredential E (jm_Database j) (cc_ID credential)) (\<lambda>models.
            if models \<noteq> [] then go_err (Codef CodeBadRequest
                (ErrFmt ''cloud credential still used by %d model(s)'' [itoa (length models)] None))
            else go_bind (GetCloud E (jm_Database j) (empty_cloud\<lparr>cld_Name := cc_CloudName credential\<rparr>)) (\<lambda>c.
              go_bind (forEachController V j (cloud_controllers c) (\<lambda>_ api. only_err (revoke_on V t api)) ()) (\<lambda>(_, e). case e of
                  Some e \<Rightarrow> go_err e
                | None \<Rightarrow> go_maperr (wrap_err ''failed to revoke credential in local database: %w'' [])
                    (DeleteCloudCredential V (jm_Database j) (credential\<lparr>cc_Valid := Some False\<rparr>)))))))"

section \<open>Recovering\<close>

text \<open>The last error of a controller, and the attributes of the first result that fits.\<close>

fun pick_contents :: "string \<Rightarrow> (err + credential_content option) list \<Rightarrow> err option \<Rightarrow> err option \<times> (string \<rightharpoonup> string)" where
  "pick_contents name [] lastErr = (lastErr, Map.empty)"
| "pick_contents name (Inl e # rest) lastErr = pick_contents name rest (Some e)"
| "pick_contents name (Inr None # rest) lastErr = pick_contents name rest lastErr"
| "pick_contents name (Inr (Some c) # rest) lastErr =
     (if ccr_Name c \<noteq> name \<or> ccr_Attributes c = Map.empty then pick_contents name rest lastErr
      else (lastErr, ccr_Attributes c))"

fun fetch_contents ::
    "'w juju_env \<Rightarrow> juju_manager \<Rightarrow> ofga_user \<Rightarrow> cred_tag \<Rightarrow> controller list \<Rightarrow> err option \<Rightarrow> ('w, err option \<times> (string \<rightharpoonup> string)) io" where
  "fetch_contents V j owner t [] lastErr = go_return (lastErr, Map.empty)"
| "fetch_contents V j owner t (ctl # ctls) lastErr =
     go_bind (go_try (go_bind (dialControllerAsSuperuser V j (Some owner) ctl) (\<lambda>api.
       api_CredentialContents V api (cct_Cloud t) (cct_Name t) True))) (\<lambda>r. case r of
         Inl e \<Rightarrow> fetch_contents V j owner t ctls (Some e)
       | Inr results \<Rightarrow> (case pick_contents (cct_Name t) results lastErr of (lastErr, attrs) \<Rightarrow>
           if attrs \<noteq> Map.empty then go_return (lastErr, attrs) else fetch_contents V j owner t ctls lastErr))"

definition recoverCredential :: "'w externals \<Rightarrow> 'w juju_env \<Rightarrow> juju_manager \<Rightarrow> cloud_credential \<Rightarrow> bool \<Rightarrow> ('w, unit) io" where
  "recoverCredential E V j credential dryRun =
     go_bind (credential_ResourceTag V credential) (\<lambda>t.
     go_bind (GetModelsUsingCredential E (jm_Database j) (cc_ID credential)) (\<lambda>models.
     if models = [] then go_err (Codef CodeNotFound
         (ErrFmt ''no models use credential attributes %q, cannot recover secrets'' [je_CredentialTag_String V t] None))
     else go_bind (go_sum (NewIdentity E (cc_OwnerIdentityName credential))) (\<lambda>owner.
       go_bind (fetch_contents V j (NewUser owner True) t
         (unique_controllers [] (map (\<lambda>m. (ctl_ID (mdl_Controller m), mdl_Controller m)) models)) None) (\<lambda>(lastErr, attrs).
       if attrs = Map.empty then go_err (Codef CodeNotFound (case lastErr of
           Some e \<Rightarrow> ErrFmt ''could not recover credential secrets from any controller: %v'' [err_text E e] None
         | None \<Rightarrow> ErrNew ''credential secrets not found on any controller''))
       else if dryRun then go_return ()
       else go_maperr (wrap_err ''failed to store recovered credentials: %w'' []) (je_Store_Put V t attrs)))))"

definition RecoverModelCredential :: "'w externals \<Rightarrow> 'w juju_env \<Rightarrow> juju_manager \<Rightarrow> ofga_user \<Rightarrow> cred_tag \<Rightarrow> bool \<Rightarrow> ('w, unit) io" where
  "RecoverModelCredential E V j user t dryRun =
     go_bind (checkJimmAdmin user) (\<lambda>_.
     go_bind (db_GetCloudCredential V (jm_Database j) (credential_SetTag empty_credential t)) (\<lambda>credential.
     recoverCredential E V j credential dryRun))"

text \<open>A credential is recovered where the result has no error.\<close>

definition RecoverAllModelCredentials ::
    "'w externals \<Rightarrow> 'w juju_env \<Rightarrow> juju_manager \<Rightarrow> ofga_user \<Rightarrow> bool \<Rightarrow> ('w, (cred_tag \<times> err option) list) io" where
  "RecoverAllModelCredentials E V j user dryRun =
     go_bind (checkJimmAdmin user) (\<lambda>_.
     go_bind (GetAllCloudCredentials V (jm_Database j)) (\<lambda>creds.
     go_mapM (\<lambda>cred.
       go_bind (credential_ResourceTag V cred) (\<lambda>t.
       go_bind (go_try (recoverCredential E V j cred dryRun)) (\<lambda>r.
       go_return (t, case r of Inl e \<Rightarrow> Some e | Inr _ \<Rightarrow> None)))) creds))"

end
