(* ===== verification/Model_Safety.thy ===== *)
theory Model_Safety
  imports Juju_Models Model_Placement
begin

text \<open>
  What the operations on existing models guarantee: a request without the required relation to the
  model reaches no controller, the poller forgets only models that are going away, and what a user
  is told about a model depends on the user's access.
\<close>

section \<open>Requests on a model\<close>

datatype model_request =
    ReqInfo | ReqStatus | ReqDestroy destroy_args | ReqDump bool | ReqDumpDB | ReqAbort
  | ReqUpgrade string string bool bool | ReqValidate bool | ReqCredential cred_tag

fun required_relation :: "model_request \<Rightarrow> string" where
  "required_relation ReqInfo = ReaderRelation"
| "required_relation ReqAbort = WriterRelation"
| "required_relation (ReqUpgrade v s i d) = WriterRelation"
| "required_relation _ = AdministratorRelation"

text \<open>The methods behind the requests, without their results.\<close>

definition no_value :: "('w, 'a) io \<Rightarrow> ('w, unit) io" where
  "no_value m = go_bind m (\<lambda>_. go_return ())"

fun serve_model :: "'w externals \<Rightarrow> 'w juju_env \<Rightarrow> juju_manager \<Rightarrow> ofga_user \<Rightarrow> tag \<Rightarrow> model_request \<Rightarrow> ('w, unit) io" where
  "serve_model E V j user mt ReqInfo = no_value (ModelInfo E V j user mt)"
| "serve_model E V j user mt ReqStatus = no_value (juju_ModelStatus E V j user mt)"
| "serve_model E V j user mt (ReqDestroy a) = DestroyModel E V j user mt a"
| "serve_model E V j user mt (ReqDump s) = no_value (DumpModel E V j user mt s)"
| "serve_model E V j user mt ReqDumpDB = no_value (DumpModelDB E V j user mt)"
| "serve_model E V j user mt ReqAbort = AbortModelUpgrade E V j user mt"
| "serve_model E V j user mt (ReqUpgrade v s i d) = no_value (UpgradeModel E V j user mt v s i d)"
| "serve_model E V j user mt (ReqValidate f) = ValidateModelUpgrade E V j user mt f"
| "serve_model E V j user mt (ReqCredential t) = ChangeModelCredential E V j user mt t"

text \<open>A computation that fails and leaves the observer alone.\<close>

definition denied :: "('w \<Rightarrow> 'o) \<Rightarrow> ('w, 'a) io \<Rightarrow> 'w \<Rightarrow> bool" where
  "denied obs m w \<longleftrightarrow> (\<exists>q w'. m w = (q, w') \<and> q \<notin> range Ok \<and> obs w' = obs w)"

lemma denied_bind:
  assumes "frame obs m" and "\<And>x w1. m w = (Ok x, w1) \<Longrightarrow> obs w1 = obs w \<Longrightarrow> denied obs (f x) w1"
  shows "denied obs (go_bind m f) w"
proof (cases "m w")
  case (Pair q w1)
  have s: "obs w1 = obs w" using frameD [OF assms(1) Pair] .
  show ?thesis
  proof (cases q)
    case (Ok x)
    with Pair assms(2) [of x w1] s show ?thesis by (auto simp: denied_def go_bind_def)
  qed (use Pair s in \<open>auto simp: denied_def go_bind_def\<close>)
qed

lemma denied_first: "denied obs m w \<Longrightarrow> denied obs (go_bind m f) w"
  unfolding denied_def go_bind_def by (auto split: prod.splits outcome.splits)

lemma denied_no_value: "denied obs m w \<Longrightarrow> denied obs (no_value m) w"
  unfolding no_value_def by (rule denied_first)

lemma denied_err: "denied obs (go_err e) w"
  by (auto simp: denied_def go_simps)

lemma maperr_id: "go_maperr (\<lambda>e. e) m = m"
  by (rule ext) (simp add: go_maperr_def split: prod.splits outcome.splits)

text \<open>
  An observer that the lookups before the check do not disturb; it may see every change of a row,
  every tuple and every call to a controller.
\<close>

locale quiet_lookups = openfga_service E store remaining
  for E :: "'w externals" and store :: "'w \<Rightarrow> tup set" and remaining :: "'w \<Rightarrow> tup \<Rightarrow> string \<Rightarrow> tup set" +
  fixes V :: "'w juju_env" and obs :: "'w \<Rightarrow> 'o"
  assumes q_model: "frame (\<lambda>w. (store w, obs w)) (gorm_First (tbl_models E) h cs m)"
    and q_credential: "frame (\<lambda>w. (store w, obs w)) (gorm_First (je_credentials V) h cs cred)"
    and q_secret: "frame (\<lambda>w. (store w, obs w)) (je_Store_Get V t)"
    and q_check: "frame (\<lambda>w. (store w, obs w)) (cofga_CheckRelationWithTracing E x ctx)"
begin

abbreviation seen :: "'w \<Rightarrow> tup set \<times> 'o" where
  "seen \<equiv> \<lambda>w. (store w, obs w)"

lemma q_checkRelation [frame_intros]: "frame seen (checkRelation E u r rel)"
  unfolding checkRelation_def OFGA_CheckRelation_def by (simp, intro frame_intros q_check)

lemma q_lookups [frame_intros]:
  "frame seen (GetModel E d m)" "frame seen (db_GetCloudCredential V d cred)"
  "frame seen (getCloudCredentialAttributes V cred)" "frame seen (checkCredentialOwner E user t)"
  unfolding GetModel_def db_GetCloudCredential_def getCloudCredentialAttributes_def credential_ResourceTag_def
    checkCredentialOwner_def
  by (intro frame_intros q_model q_credential q_secret)+

lemma denied_check:
  assumes "user_tag E u = Some ut" and "\<not> can (store w) u ut rel mt"
  shows "denied seen (go_bind (go_maperr h (checkRelation E u mt rel)) (\<lambda>ok. if \<not> ok then go_err e else f)) w"
proof (rule denied_bind)
  show "frame seen (go_maperr h (checkRelation E u mt rel))" by (intro frame_intros)
  fix ok w1
  assume "go_maperr h (checkRelation E u mt rel) w = (Ok ok, w1)"
  then have "checkRelation E u mt rel w = (Ok ok, w1)"
    by (auto simp: go_maperr_def split: prod.splits outcome.splits)
  then have "\<not> ok" using assms by (auto elim: checkRelation_ok)
  then show "denied seen (if \<not> ok then go_err e else f) w1" by (simp add: denied_err)
qed

lemmas denied_plain_check = denied_check [where h = "\<lambda>e. e", unfolded maperr_id]

lemma denied_doModel:
  assumes "user_tag E u = Some ut" and "\<not> can (store w) u ut rel mt"
  shows "denied seen (doModel E V j u mt rel f) w"
  unfolding doModel_def HasModelRelation_def
  by (rule denied_bind, rule q_lookups, rule denied_plain_check [OF assms(1)]) (use assms(2) in simp)

lemma serve_model_denied:
  assumes "user_tag E u = Some ut" and "\<not> can (store w) u ut (required_relation req) mt"
  shows "denied seen (serve_model E V j u mt req) w"
proof (cases req)
  case ReqInfo
  then show ?thesis
    using assms by (auto simp: ModelInfo_def IsModelReader_def intro!: denied_no_value denied_bind [OF q_lookups(1)] denied_check)
next
  case ReqStatus
  then show ?thesis
    using assms by (auto simp: juju_ModelStatus_def HasModelRelation_def intro!: denied_no_value denied_bind [OF q_lookups(1)] denied_plain_check)
next
  case (ReqCredential t)
  show ?thesis
    unfolding ReqCredential serve_model.simps ChangeModelCredential_def doModelAdmin_def
    by (rule denied_bind [OF q_lookups(4)], rule denied_bind [OF q_lookups(2)], rule denied_bind [OF q_lookups(3)],
        rule denied_first, rule denied_doModel [OF assms(1)]) (use assms(2) ReqCredential in simp)
qed (use assms in \<open>auto simp: DestroyModel_def DumpModel_def DumpModelDB_def AbortModelUpgrade_def UpgradeModel_def
    ValidateModelUpgrade_def doModelAdmin_def intro!: denied_no_value denied_doModel\<close>)

end

text \<open>
  C10. A request on a model by a user without the relation it requires (reader for information,
  writer for upgrades, administrator for everything else) does not succeed and has no effect: no
  observer that is blind to lookups notices it, so that no controller is called, no row changed
  and no relation added or removed.
\<close>

theorem unauthorised_model_requests:
  assumes "quiet_lookups E store remaining V obs" and "user_tag E user = Some ut"
    and "\<not> can (store w) user ut (required_relation req) mt"
    and "serve_model E V j user mt req w = (q, w')"
  shows "q \<notin> range Ok \<and> obs w' = obs w \<and> store w' = store w"
  using quiet_lookups.serve_model_denied [OF assms(1-3), of j] assms(4) by (auto simp: denied_def)

interpretation mem_quiet: quiet_lookups mem_externals mem_store mem_remaining toy_env "\<lambda>w. w"
  by unfold_locales (simp_all add: mem_models_def toy_table_def frame_def go_simps no_table_def)

theorem unauthorised_model_requests_witness:
  "\<exists>q. serve_model mem_externals toy_env mem_juju (mem_user ''alice'') (Tag ModelTagKind ''m'') ReqDumpDB [] = (q, []) \<and> q \<notin> range Ok"
proof -
  obtain q w' where run: "serve_model mem_externals toy_env mem_juju (mem_user ''alice'') (Tag ModelTagKind ''m'') ReqDumpDB [] = (q, w')"
    using prod.exhaust by blast
  have "\<not> can (mem_store []) (mem_user ''alice'') (Tag UserTagKind ''alice'') (required_relation ReqDumpDB) (Tag ModelTagKind ''m'')"
    by (simp add: can_def mem_store_def)
  from unauthorised_model_requests [OF mem_quiet.quiet_lookups_axioms _ this run] run show ?thesis by auto
qed

section \<open>Models that go away\<close>

text \<open>The relations of a model: those others have to it, and those its offers have to it.\<close>

definition of_model :: "tag \<Rightarrow> tup \<Rightarrow> bool" where
  "of_model mt x \<longleftrightarrow> tup_matches (no_tup\<lparr>Target := Some (ConvertTag mt)\<rparr>) x
     \<or> (\<exists>k. BlankKindTag ApplicationOfferTagKind = Inr k
          \<and> tup_matches (no_tup\<lparr>Object := Some (ConvertTag mt), Target := Some k\<rparr>) x)"

text \<open>Models that may be forgotten: JIMM has been asked to destroy them and does not migrate them.\<close>

definition leaving :: "model \<Rightarrow> bool" where
  "leaving m \<longleftrightarrow> mdl_Life m = Dying \<and> mdl_MigrationMode m = MigrationModeNone"

definition forgotten :: "'w externals \<Rightarrow> model set \<Rightarrow> tup set \<Rightarrow> tup set \<Rightarrow> bool" where
  "forgotten E M S S' \<longleftrightarrow> S' \<subseteq> S \<and> (\<forall>x\<in>S - S'. on_everyone_user x
     \<or> (\<exists>m\<in>M. \<exists>mt. leaving m \<and> model_ResourceTag E m = Some mt \<and> of_model mt x))"

lemma forgotten_refl: "forgotten E M S S"
  by (simp add: forgotten_def)

lemma forgotten_more:
  assumes "forgotten E M S S'" and "S'' \<subseteq> S'" and "m \<in> M" and "leaving m" and "model_ResourceTag E m = Some mt"
    and "S' - S'' \<subseteq> {x. of_model mt x} \<union> {x. on_everyone_user x}"
  shows "forgotten E M S S''"
  using assms unfolding forgotten_def by blast

lemma triple_frame_inv:
  assumes "frame obs m"
  shows "triple (\<lambda>w. I (obs w)) m (\<lambda>_ w. I (obs w)) (\<lambda>w. I (obs w))"
  using assms unfolding triple_def by (auto split: prod.splits outcome.splits dest: frameD)

context juju_services
begin

lemma removeTuples_within:
  assumes "{x. tup_matches p x} \<subseteq> X" and "{x. on_everyone_user x} \<subseteq> X"
  shows "triple (\<lambda>w. store w \<subseteq> S \<and> S - store w \<subseteq> X) (removeTuples E fuel p)
    (\<lambda>_ w. store w \<subseteq> S \<and> S - store w \<subseteq> X) (\<lambda>w. store w \<subseteq> S \<and> S - store w \<subseteq> X)"
  unfolding triple_def
proof (intro allI impI)
  fix w
  assume w: "store w \<subseteq> S \<and> S - store w \<subseteq> X"
  obtain q w' where run: "removeTuples E fuel p w = (q, w')" using prod.exhaust by blast
  have "store w' \<subseteq> S \<and> S - store w' \<subseteq> X" using removeTuples_only [OF run] w assms by blast
  then show "case removeTuples E fuel p w of (Ok x, w') \<Rightarrow> store w' \<subseteq> S \<and> S - store w' \<subseteq> X
      | (_, w') \<Rightarrow> store w' \<subseteq> S \<and> S - store w' \<subseteq> X"
    unfolding run prod.case by (cases q) simp_all
qed

lemma RemoveModel_only:
  assumes "OFGA_RemoveModel E fuel mt w = (q, w')"
  shows "store w' \<subseteq> store w \<and> store w - store w' \<subseteq> {x. of_model mt x} \<union> {x. on_everyone_user x}"
proof -
  let ?P = "\<lambda>w1. store w1 \<subseteq> store w \<and> store w - store w1 \<subseteq> {x. of_model mt x} \<union> {x. on_everyone_user x}"
  have "triple ?P (OFGA_RemoveModel E fuel mt) (\<lambda>_. ?P) ?P"
    unfolding OFGA_RemoveModel_def
  proof (rule triple_bind [OF removeTuples_within])
    show "triple ?P (go_bind (go_sum (BlankKindTag ApplicationOfferTagKind)) (\<lambda>k.
        removeTuples E fuel (no_tup\<lparr>Object := Some (ConvertTag mt), Target := Some k\<rparr>))) (\<lambda>_. ?P) ?P" for x :: unit
      by (cases "BlankKindTag ApplicationOfferTagKind")
        (auto simp: go_sum_def of_model_def intro!: triple_err removeTuples_within)
  qed (auto simp: of_model_def)
  from triple_anyD [OF this _ assms] show ?thesis by simp
qed

end

context juju_services
begin

lemma juju_frames [frame_intros]:
  "frame store (DeleteModel E d m)" "frame store (db_UpdateModel E d m)" "frame store (dialControllerAsService V j c)"
  "frame store (checkModelMigratedInternal E V j e m)"
  unfolding DeleteModel_def db_UpdateModel_def dialControllerAsService_def dial_def checkModelMigratedInternal_def
  by (intro frame_intros)+

lemma deleteModel_forgets:
  assumes "m \<in> M" and "leaving m" and "model_ResourceTag E m = Some mt"
  shows "triple (\<lambda>w. forgotten E M S (store w)) (deleteModel E j mt) (\<lambda>_ w. forgotten E M S (store w)) (\<lambda>w. forgotten E M S (store w))"
proof -
  let ?I = "\<lambda>w. forgotten E M S (store w)"
  have rm: "triple ?I (OFGA_RemoveModel E (jm_fuel j) mt) (\<lambda>_. ?I) ?I"
    unfolding triple_def
  proof (intro allI impI)
    fix w
    assume I: "?I w"
    obtain q w' where run: "OFGA_RemoveModel E (jm_fuel j) mt w = (q, w')" using prod.exhaust by blast
    have "?I w'" using RemoveModel_only [OF run] I assms by (intro forgotten_more [OF I _ assms]) auto
    then show "case OFGA_RemoveModel E (jm_fuel j) mt w of (Ok x, w') \<Rightarrow> ?I w' | (_, w') \<Rightarrow> ?I w'"
      unfolding run prod.case by (cases q) simp_all
  qed
  show ?thesis
    unfolding deleteModel_def by (rule triple_bind [OF triple_frame_inv [where I = "forgotten E M S", OF juju_frames(1)] rm])
qed

lemma maybeCleanupModel_forgets:
  assumes "m \<in> M" and "mdl_MigrationMode m = MigrationModeNone"
  shows "triple (\<lambda>w. forgotten E M S (store w)) (maybeCleanupModel E j e m) (\<lambda>_ w. forgotten E M S (store w)) (\<lambda>w. forgotten E M S (store w))"
proof -
  have "triple (\<lambda>w. forgotten E M S (store w)) (go_bind (go_some s (model_ResourceTag E m)) (\<lambda>mt. go_maperr h (deleteModel E j mt)))
      (\<lambda>_ w. forgotten E M S (store w)) (\<lambda>w. forgotten E M S (store w))" if "mdl_Life m = Dying" for s h
    using that assms by (cases "model_ResourceTag E m")
      (auto simp: go_some_def leaving_def intro!: triple_panic triple_maperr deleteModel_forgets)
  then show ?thesis
    unfolding maybeCleanupModel_def by (auto intro!: triple_return triple_cond)
qed

lemma modelInfo_forgets:
  assumes "m \<in> M"
  shows "triple (\<lambda>w. forgotten E M S (store w)) (modelInfo E V j u m api) (\<lambda>_ w. forgotten E M S (store w)) (\<lambda>w. forgotten E M S (store w))"
proof -
  let ?I = "\<lambda>w. forgotten E M S (store w)"
  note inv = triple_frame_inv [where I = "forgotten E M S" and obs = store]
  have react: "triple ?I (reactToModelInfoError E V j u e m) (\<lambda>_. ?I) ?I" for e
  proof (cases "mdl_MigrationMode m = MigrationModeNone")
    case True
    then show ?thesis
      using assms by (auto simp: reactToModelInfoError_def intro!: triple_bind triple_maperr maybeCleanupModel_forgets triple_err)
  next
    case False
    then have "frame store (reactToModelInfoError E V j u e m)"
      unfolding reactToModelInfoError_def by (simp, intro conjI impI frame_intros)
    then show ?thesis by (rule inv)
  qed
  have fine: "triple ?I (reactToModelInfoSuccess E j m i) (\<lambda>_. ?I) ?I" for i
    unfolding reactToModelInfoSuccess_def by (intro inv frame_intros)
  show ?thesis
    unfolding modelInfo_def
    by (intro triple_bind [OF triple_some] triple_try_bind [OF inv])
      (auto intro!: frame_intros simp: react fine)
qed

lemma pollModels_forgets:
  assumes "set ms \<subseteq> M"
  shows "triple (\<lambda>w. forgotten E M S (store w)) (pollModels E V j ms) (\<lambda>_ w. forgotten E M S (store w)) (\<lambda>w. forgotten E M S (store w))"
proof -
  let ?I = "\<lambda>w. forgotten E M S (store w)"
  have each: "triple ?I (go_foreach (\<lambda>m. go_bind (go_try (modelInfo E V j None m api)) (\<lambda>_. go_return ())) ms) (\<lambda>_. ?I) ?I" for api
    using assms by (intro triple_foreach triple_bind [OF triple_try [OF modelInfo_forgets]] triple_return) auto
  show ?thesis
  proof (cases ms)
    case (Cons m0 ms')
    then show ?thesis
      using each by (auto simp: pollModels_def intro!: triple_try_bind [OF triple_frame_inv [where I = "forgotten E M S"]] frame_intros triple_return)
  qed (simp add: pollModels_def triple_return)
qed

end

text \<open>Every goroutine of a group runs once, and every entry of a map is visited once.\<close>

definition schedules :: "'w juju_env \<Rightarrow> bool" where
  "schedules V \<longleftrightarrow> (\<forall>n w. distinct (fst (je_schedule V n w)) \<and> set (fst (je_schedule V n w)) = {..<n})"

lemma go_fold_return: "go_fold (\<lambda>x s. go_return (h x s)) xs s = go_return (fold h xs s)"
  by (induction xs arbitrary: s) simp_all

lemma visit_all:
  assumes "schedules V" and "visit V xs w = (Ok ys, w')"
  shows "set ys = set xs" and "length ys = length xs"
proof -
  obtain order w1 where o: "je_schedule V (length xs) w = (order, w1)" using prod.exhaust by blast
  from assms(1) o have order: "distinct order" "set order = {..<length xs}"
    unfolding schedules_def by (metis fst_conv)+
  have ys: "ys = map ((!) xs) order"
    using assms(2) o by (simp add: visit_def go_lift_def go_bind_def go_simps)
  have "set xs = (!) xs ` {..<length xs}" by (auto simp: set_conv_nth)
  with ys order(2) show "set ys = set xs" by simp
  have "length order = length xs" using order by (metis card_lessThan distinct_card)
  with ys show "length ys = length xs" by simp
qed

lemma add_to_group_members:
  assumes "\<forall>(k, ms)\<in>set groups. set ms \<subseteq> X" and "m \<in> X"
  shows "\<forall>(k, ms)\<in>set (add_to_group m groups). set ms \<subseteq> X"
proof -
  have "set (case map_of groups k of Some ms \<Rightarrow> ms | None \<Rightarrow> []) \<subseteq> X" for k
    using assms(1) by (cases "map_of groups k") (auto dest!: map_of_SomeD)
  then show ?thesis using assms by (fastforce simp: add_to_group_def Let_def map_put_def)
qed

lemma groups_members: "set ms \<subseteq> X \<Longrightarrow> \<forall>(k, g)\<in>set groups. set g \<subseteq> X \<Longrightarrow> \<forall>(k, g)\<in>set (fold add_to_group ms groups). set g \<subseteq> X"
proof (induction ms arbitrary: groups)
  case (Cons m ms)
  have "\<forall>(k, g)\<in>set (add_to_group m groups). set g \<subseteq> X" using Cons.prems by (intro add_to_group_members) auto
  then show ?case using Cons by simp
qed simp

context juju_services
begin

lemma PollModels_forgets:
  assumes "schedules V" and run: "PollModels E V j w = (q, w')"
  shows "store w' = store w \<or> (\<exists>ms w1. gorm_Find (tbl_models E) (db_handle (jm_Database j)) [] '''' None None w = (Ok ms, w1)
    \<and> forgotten E (set ms) (store w) (store w'))"
proof (cases "ForEachModel E (jm_Database j) (\<lambda>m groups. go_return (add_to_group m groups)) [] w")
  case (Pair r w1)
  have fr: "frame store (ForEachModel E (jm_Database j) (\<lambda>m groups. go_return (add_to_group m groups)) [])"
    unfolding ForEachModel_def by (intro frame_intros)
  have w1: "store w1 = store w" using frameD [OF fr Pair] .
  show ?thesis
  proof (cases "\<exists>groups. r = Ok groups")
    case False
    then have "w' = w1" using run Pair by (auto simp: PollModels_def go_bind_def split: outcome.splits)
    then show ?thesis using w1 by simp
  next
    case True
    then obtain groups where r: "r = Ok groups" by blast
    with Pair obtain ms w2 where find: "gorm_Find (tbl_models E) (db_handle (jm_Database j)) [] '''' None None w = (Ok ms, w2)"
      and groups: "groups = fold add_to_group ms []"
      by (auto simp: ForEachModel_def go_fold_return db_do_def ready_def go_simps elim!: go_bind_OkE split: if_splits)
    let ?I = "\<lambda>w1. forgotten E (set ms) (store w) (store w1)"
    have members: "\<forall>(k, g)\<in>set groups. set g \<subseteq> set ms"
      using groups_members [of ms "set ms" "[]"] by (simp add: groups)
    have visit: "triple ?I (visit V groups) (\<lambda>entries w. ?I w \<and> set entries = set groups) ?I"
      unfolding triple_def
    proof (intro allI impI)
      fix u
      assume I: "?I u"
      obtain p u' where run: "visit V groups u = (p, u')" using prod.exhaust by blast
      have fv: "frame store (visit V groups)"
        unfolding visit_def go_lift_def frame_def using env_frameD(11) [OF env_store]
        by (auto simp: go_bind_def go_simps split: prod.splits)
      have "?I u'" using frameD [OF fv run] I by simp
      moreover have "set es = set groups" if "p = Ok es" for es using visit_all(1) [OF assms(1)] run that by blast
      ultimately show "case visit V groups u of (Ok es, w') \<Rightarrow> ?I w' \<and> set es = set groups | (_, w') \<Rightarrow> ?I w'"
        unfolding run prod.case by (cases p) simp_all
    qed
    have "triple ?I (go_bind (visit V groups) (\<lambda>entries. go_foreach (\<lambda>(_, models). pollModels E V j models) entries)) (\<lambda>_. ?I) ?I"
      using members by (intro triple_bind [OF visit] triple_pure triple_foreach) (auto intro!: pollModels_forgets)
    moreover have "go_bind (visit V groups) (\<lambda>entries. go_foreach (\<lambda>(_, models). pollModels E V j models) entries) w1 = (q, w')"
      using run Pair r by (simp add: PollModels_def go_bind_def)
    moreover have "?I w1" using w1 forgotten_refl by simp
    ultimately have "?I w'" by (auto dest: triple_anyD)
    then show ?thesis using find by blast
  qed
qed

end

text \<open>
  C11. The poller forgets only models that go away: the relations it removes from OpenFGA are those of
  models whose row says that they are being destroyed and not migrated (and relations of the user
  that stands for everyone, which are removed for public ones). It adds none, whatever the
  controllers answer and in whatever order they are asked.
\<close>

theorem poll_forgets_only_dying:
  assumes "juju_services E store remaining V" and "schedules V" and "PollModels E V j w = (q, w')"
  shows "store w' = store w \<or> (\<exists>ms w1. gorm_Find (tbl_models E) (db_handle (jm_Database j)) [] '''' None None w = (Ok ms, w1)
    \<and> forgotten E (set ms) (store w) (store w'))"
  using assms by (rule juju_services.PollModels_forgets)

text \<open>A world with one dying and one living model, whose controller knows neither.\<close>

definition dying_model :: model where
  "dying_model = empty_model\<lparr>mdl_ID := 1, mdl_UUID := Some ''m'', mdl_Life := Dying, mdl_MigrationMode := MigrationModeNone\<rparr>"

definition living_model :: model where
  "living_model = empty_model\<lparr>mdl_ID := 2, mdl_UUID := Some ''n'', mdl_Life := Alive, mdl_MigrationMode := MigrationModeNone\<rparr>"

definition two_models :: "tup list externals" where
  "two_models = mem_externals\<lparr>tbl_models := toy_table [dying_model, living_model]\<rparr>"

definition lost_env :: "'w juju_env" where
  "lost_env = toy_env\<lparr>api_ModelInfo := (\<lambda>_ _. go_err (Codef CodeNotFound (ErrNew ''model not found'')))\<rparr>"

lemma two_models_simps [simp]:
  "cofga_AddRelationIdempotent two_models = cofga_AddRelationIdempotent mem_externals"
  "cofga_RemoveRelationIdempotent two_models = cofga_RemoveRelationIdempotent mem_externals"
  "cofga_FindMatchingTuples two_models = cofga_FindMatchingTuples mem_externals"
  "cofga_FindAccessibleObjects two_models = cofga_FindAccessibleObjects mem_externals"
  "cofga_FindUsersByRelation two_models = cofga_FindUsersByRelation mem_externals"
  "cofga_CheckRelation two_models = cofga_CheckRelation mem_externals"
  "cofga_CheckRelationWithTracing two_models = cofga_CheckRelationWithTracing mem_externals"
  "cofga_BatchCheckRelations two_models = cofga_BatchCheckRelations mem_externals"
  "FetchGroups two_models = FetchGroups mem_externals" "newUUID two_models = newUUID mem_externals" "NowFunc two_models = NowFunc mem_externals"
  "gorm_Transaction two_models = gorm_Transaction mem_externals" "tbl_groups two_models = tbl_groups mem_externals"
  "tbl_roles two_models = tbl_roles mem_externals" "tbl_identities two_models = tbl_identities mem_externals"
  "tbl_controllers two_models = tbl_controllers mem_externals" "tbl_models two_models = toy_table [dying_model, living_model]"
  "tbl_offers two_models = tbl_offers mem_externals" "tbl_clouds two_models = tbl_clouds mem_externals"
  "tbl_user_mappings two_models = tbl_user_mappings mem_externals" "err_text two_models = err_text mem_externals"
  "IsPublicAccess two_models = IsPublicAccess mem_externals" "names_NewTag two_models = names_NewTag mem_externals"
  by (simp_all add: two_models_def err_text_def fun_eq_iff)

lemma lost_env_simps [simp]:
  "je_Dial lost_env = je_Dial toy_env" "je_swaps lost_env = je_swaps toy_env" "je_schedule lost_env n w = ([0..<n], w)"
  "api_ModelInfo lost_env api mt = go_err (Codef CodeNotFound (ErrNew ''model not found''))"
  by (simp_all add: lost_env_def toy_env_def)

interpretation two: juju_services two_models mem_store mem_remaining lost_env
proof (intro juju_services.intro jimm_services.intro)
  show "openfga_service two_models mem_store mem_remaining"
    using mem.openfga_service_axioms unfolding openfga_service_def two_models_simps .
  show "jimm_services_axioms two_models mem_store"
    using memj.jimm_services_axioms unfolding jimm_services_def jimm_services_axioms_def two_models_simps
    by (simp add: toy_table_frame)
  have "env_frame mem_store lost_env"
    by (simp add: env_frame_def lost_env_def toy_env_def toy_table_frame frame_return frame_err)
  moreover have "shuffles (lost_env :: tup list juju_env)" by (simp add: shuffles_def)
  ultimately show "juju_services_axioms two_models mem_store lost_env"
    using memju.juju_services_axioms unfolding juju_services_def juju_services_axioms_def two_models_simps lost_env_simps by blast
qed

theorem poll_forgets_only_dying_witness:
  "\<exists>q w'. PollModels two_models lost_env mem_juju
      (map (tag_tup (Tag UserTagKind ''alice'') ReaderRelation) [Tag ModelTagKind ''m'', Tag ModelTagKind ''n'']) = (q, w')
    \<and> tag_tup (Tag UserTagKind ''alice'') ReaderRelation (Tag ModelTagKind ''n'') \<in> mem_store w'"
proof -
  let ?w = "map (tag_tup (Tag UserTagKind ''alice'') ReaderRelation) [Tag ModelTagKind ''m'', Tag ModelTagKind ''n'']"
  let ?x = "tag_tup (Tag UserTagKind ''alice'') ReaderRelation (Tag ModelTagKind ''n'')"
  obtain q w' where run: "PollModels two_models lost_env mem_juju ?w = (q, w')" using prod.exhaust by blast
  have "schedules (lost_env :: tup list juju_env)" by (auto simp: schedules_def)
  from poll_forgets_only_dying [OF two.juju_services_axioms this run]
  have "mem_store w' = mem_store ?w \<or> forgotten two_models {dying_model, living_model} (mem_store ?w) (mem_store w')"
    by (auto simp: toy_table_def go_simps)
  moreover have "?x \<in> mem_store ?w" by (simp add: mem_store_def tag_tup_def mk_tup_def)
  moreover have "\<not> on_everyone_user ?x" by (simp add: on_everyone_user_def tag_tup_def mk_tup_def EveryoneUser_def ConvertTag_record)
  moreover have "\<not> leaving living_model" by (simp add: leaving_def living_model_def Alive_def Dying_def)
  moreover have "\<not> of_model (Tag ModelTagKind ''m'') ?x"
    by (auto simp: of_model_def tup_matches_def tag_tup_def mk_tup_def ConvertTag_record)
  moreover have "model_ResourceTag two_models dying_model = Some (Tag ModelTagKind ''m'')"
    by (simp add: model_ResourceTag_def dying_model_def new_juju_tag_def)
  ultimately have "?x \<in> mem_store w'" unfolding forgotten_def by auto
  with run show ?thesis by blast
qed

section \<open>What a user is told\<close>

text \<open>
  Rows of the table of models are found by their UUID and saved with it, and OpenFGA lists objects
  of the kind that is asked for.
\<close>

locale models_found = juju_services E store remaining V
  for E :: "'w externals" and store :: "'w \<Rightarrow> tup set" and remaining :: "'w \<Rightarrow> tup \<Rightarrow> string \<Rightarrow> tup set" and V :: "'w juju_env" +
  assumes row_first: "gorm_First (tbl_models E) h (WhereEq ''uuid'' u # cs) m w = (Ok m', w') \<Longrightarrow> mdl_UUID m = Some u \<Longrightarrow> mdl_UUID m' = Some u"
    and row_save: "gorm_Save (tbl_models E) h om m w = (Ok m', w') \<Longrightarrow> mdl_UUID m' = mdl_UUID m"
    and rows_among: "gorm_Find (tbl_models E) h [WhereIn ''uuid'' us] '''' None None w = (Ok ms, w') \<Longrightarrow> m \<in> set ms \<Longrightarrow> mdl_UUID m \<in> Some ` set us"
    and objects_kind: "cofga_FindAccessibleObjects E x ctx w = (Ok es, w') \<Longrightarrow> Target x = Some t \<Longrightarrow> ob \<in> set es \<Longrightarrow>
      ent_Kind ob = ent_Kind t \<and> ent_Relation ob = ''''"
begin

lemma GetModel_uuid: "GetModel E d m w = (Ok m', w') \<Longrightarrow> mdl_UUID m = Some u \<Longrightarrow> mdl_UUID m' = Some u"
  by (auto simp: GetModel_def elim!: go_bind_OkE dest: row_first)

lemma db_UpdateModel_uuid: "db_UpdateModel E d m w = (Ok m', w') \<Longrightarrow> store w' = store w \<and> mdl_UUID m' = mdl_UUID m"
  using frameD [OF juju_frames(2), of d m w "Ok m'" w']
  by (auto simp: db_UpdateModel_def db_do_def elim!: go_bind_OkE dest: row_save)

lemma checkModelMigratedInternal_uuid: "checkModelMigratedInternal E V j e m w = (Ok m', w') \<Longrightarrow> mdl_UUID m' = mdl_UUID m"
  by (auto simp: checkModelMigratedInternal_def InternalMigrationSuccess_def elim!: go_bind_OkE
      dest!: db_UpdateModel_uuid split: if_splits option.splits sum.splits)

lemma reactToModelInfoSuccess_ok:
  "reactToModelInfoSuccess E j m i w = (Ok (i', m'), w') \<Longrightarrow> store w' = store w \<and> mdl_UUID m' = mdl_UUID m"
  by (auto simp: reactToModelInfoSuccess_def MigrationFailed_def elim!: go_bind_OkE split: if_splits
      dest!: db_UpdateModel_uuid)

lemma reactToModelInfoError_ok:
  assumes "reactToModelInfoError E V j u e m w = (Ok (i, m'), w')" and "mdl_UUID m = Some v"
  shows "store w' = store w \<and> mdl_UUID m' = Some v"
proof (cases "mdl_MigrationMode m = MigrationModeNone")
  case True
  then show ?thesis using assms(1) by (auto simp: reactToModelInfoError_def elim!: go_bind_OkE)
next
  case False
  then have "frame store (reactToModelInfoError E V j u e m)"
    unfolding reactToModelInfoError_def by (simp, intro conjI impI frame_intros)
  then have "store w' = store w" using assms(1) by (rule frameD)
  moreover have "mdl_UUID m' = Some v"
    using assms False by (auto simp: reactToModelInfoError_def elim!: go_bind_OkE split: if_splits
        dest!: checkModelMigratedInternal_uuid)
      (metis GetModel_uuid)
  ultimately show ?thesis by simp
qed

lemma modelInfo_ok:
  assumes "modelInfo E V j u m api w = (Ok (i, m'), w')" and "mdl_UUID m = Some v"
  shows "store w' = store w \<and> mdl_UUID m' = Some v"
proof -
  from assms(1) obtain mt where "go_bind (go_try (api_ModelInfo V api mt)) (\<lambda>r. case r of
         Inr info \<Rightarrow> reactToModelInfoSuccess E j m info
       | Inl e \<Rightarrow> reactToModelInfoError E V j u e m) w = (Ok (i, m'), w')"
    by (cases "model_ResourceTag E m") (auto simp: modelInfo_def go_some_def go_simps)
  then show ?thesis
  proof (cases rule: go_try_bindE)
    case (failed e w1)
    moreover have "frame store (api_ModelInfo V api mt)" by (intro frame_intros)
    ultimately show ?thesis
      using reactToModelInfoError_ok [of j u e m w1 i m' w'] assms(2) by (auto dest: frameD)
  next
    case (succeeded info w1)
    moreover have "frame store (api_ModelInfo V api mt)" by (intro frame_intros)
    ultimately show ?thesis
      using reactToModelInfoSuccess_ok [of j m info w1 i m' w'] assms(2) by (auto dest: frameD)
  qed
qed

text \<open>The level of access that decides what is shown is one the user has.\<close>

lemma GetUserModelAccess_sound:
  assumes "GetUserModelAccess E p user mt w = (Ok a, w')" and "user_tag E user = Some ut"
  shows "(a = ''admin'' \<longrightarrow> can (store w) user ut AdministratorRelation mt)
    \<and> (a = ''write'' \<longrightarrow> can (store w) user ut WriterRelation mt)"
proof -
  from assms(1) obtain r where r: "access_of (checkRelation E user mt) model_levels w = (Ok r, w')" "a = ToModelAccessString r"
    by (auto simp: GetUserModelAccess_def get_access_is_access_of elim!: go_bind_OkE)
  show ?thesis
  proof (cases "r = NoRelation")
    case True
    then show ?thesis using r(2) by (simp add: ToModelAccessString_def)
  next
    case False
    then have "can (store w) user ut r mt" using access_of_ok [OF r(1)] assms(2) by (metis option.inject)
    then show ?thesis
      using r(2) by (auto simp: ToModelAccessString_def AdminAccess_def WriteAccess_def ReadAccess_def split: if_splits)
  qed
qed

end

context models_found
begin

lemma model_users_frame [frame_intros]: "frame store (model_users E mt)"
  unfolding model_users_def ListUsersWithAccess_def by (intro frame_intros service_frames)

lemma mergeModelInfo_ok:
  assumes "mergeModelInfo E V j user i m w = (Ok info, w')" and "model_ResourceTag E m = Some mt" and "user_tag E user = Some ut"
  shows "(\<not> can (store w) user ut AdministratorRelation mt \<longrightarrow> (\<forall>u\<in>set (mi_Users info). ui_UserName u \<in> {u_Name user, EveryoneUser}))
    \<and> (\<not> can (store w) user ut AdministratorRelation mt \<and> \<not> can (store w) user ut WriterRelation mt \<longrightarrow> mi_Machines info = [])"
proof -
  from assms(1,2) obtain cct w1 userAccess w2 a w3 es where run:
    "credential_ResourceTag V (mdl_CloudCredential m) w = (Ok cct, w1)" "model_users E mt w1 = (Ok userAccess, w2)"
    "GetUserModelAccess E (jm_permissionManager j) user mt w2 = (Ok a, w3)"
    and info: "mi_Users info = map (\<lambda>(n, a). \<lparr>ui_UserName = n, ui_Access = a\<rparr>) (filter (\<lambda>(n, _). sees_user user a n) es)"
      "mi_Machines info = (if a \<noteq> ''admin'' \<and> a \<noteq> ''write'' then [] else mi_Machines i)"
    by (auto simp: mergeModelInfo_def elim!: go_bind_OkE go_some_OkE)
  have "store w2 = store w"
    using frameD [OF seen.w_credential_ResourceTag run(1)] frameD [OF model_users_frame run(2)] by simp
  with GetUserModelAccess_sound [OF run(3) assms(3)] have a: "a = ''admin'' \<longrightarrow> can (store w) user ut AdministratorRelation mt"
    "a = ''write'' \<longrightarrow> can (store w) user ut WriterRelation mt" by simp_all
  have "\<forall>u\<in>set (mi_Users info). a = ''admin'' \<or> ui_UserName u \<in> {u_Name user, EveryoneUser}"
    unfolding info(1) by (auto simp: sees_user_def)
  with a info(2) show ?thesis by auto
qed

lemma ModelInfo_ok:
  assumes run: "ModelInfo E V j user mt w = (Ok info, w')" and mt: "new_juju_tag E ModelTagKind (Id mt) = Some mt"
    and ut: "user_tag E user = Some ut"
  shows "can (store w) user ut ReaderRelation mt
    \<and> (\<not> can (store w) user ut AdministratorRelation mt \<longrightarrow> (\<forall>u\<in>set (mi_Users info). ui_UserName u \<in> {u_Name user, EveryoneUser}))
    \<and> (\<not> can (store w) user ut AdministratorRelation mt \<and> \<not> can (store w) user ut WriterRelation mt \<longrightarrow> mi_Machines info = [])"
proof -
  from run obtain m w1 ok w2 api w3 i m' w4 where
    c: "GetModel E (jm_Database j) (model_SetTag empty_model mt) w = (Ok m, w1)"
    "checkRelation E user mt ReaderRelation w1 = (Ok ok, w2)" "ok"
    "dialControllerAsSuperuser V j (Some user) (mdl_Controller m) w2 = (Ok api, w3)"
    "modelInfo E V j (Some user) m api w3 = (Ok (i, m'), w4)" "mergeModelInfo E V j user i m' w4 = (Ok info, w')"
    by (auto simp: ModelInfo_def IsModelReader_def elim!: go_bind_OkE split: if_splits)
  have uuid: "mdl_UUID m = Some (Id mt)" using GetModel_uuid [OF c(1)] by (simp add: model_SetTag_def)
  note m' = modelInfo_ok [OF c(5) uuid]
  have s: "store w1 = store w" "store w2 = store w1" "store w3 = store w2"
    using frameD [OF resource_frames(2) c(1)] frameD [OF checkRelation_frame c(2)] frameD [OF seen.w_dial c(4)] by simp_all
  have "can (store w) user ut ReaderRelation mt" using c(2,3) ut s by (auto elim: checkRelation_ok)
  moreover have "model_ResourceTag E m' = Some mt" using m' mt by (simp add: model_ResourceTag_def)
  ultimately show ?thesis using mergeModelInfo_ok [OF c(6) _ ut] m' s by auto
qed

end

text \<open>
  C12. Information about a model is redacted: only a reader of the model gets it; one who is not an
  administrator sees no other user than himself and everyone, and one who may not write sees no
  machines, also where the model has just been migrated to another controller.
\<close>

theorem model_info_redacted:
  assumes "models_found E store remaining V" and "ModelInfo E V j user mt w = (Ok info, w')"
    and "new_juju_tag E ModelTagKind (Id mt) = Some mt" and "user_tag E user = Some ut"
  shows "can (store w) user ut ReaderRelation mt
    \<and> (\<not> can (store w) user ut AdministratorRelation mt \<longrightarrow> (\<forall>u\<in>set (mi_Users info). ui_UserName u \<in> {u_Name user, EveryoneUser}))
    \<and> (\<not> can (store w) user ut AdministratorRelation mt \<and> \<not> can (store w) user ut WriterRelation mt \<longrightarrow> mi_Machines info = [])"
  using assms by (rule models_found.ModelInfo_ok)

interpretation mem_found: models_found mem_externals mem_store mem_remaining toy_env
  by unfold_locales (auto simp: mem_models_def no_table_def go_simps)

lemma mem_model_access:
  "\<exists>a. GetUserModelAccess mem_externals p (mem_user n) mt w = (Ok a, w)"
  by (simp add: GetUserModelAccess_def get_access_defs check_defs first_relation_def mem_check go_bind_def go_try_def go_simps)

theorem model_info_redacted_witness:
  "\<exists>info. ModelInfo mem_externals toy_env mem_juju (mem_user ''alice'') (Tag ModelTagKind ''m'')
      [tag_tup (Tag UserTagKind ''alice'') ReaderRelation (Tag ModelTagKind ''m'')] = (Ok info, [tag_tup (Tag UserTagKind ''alice'') ReaderRelation (Tag ModelTagKind ''m'')])
    \<and> can (mem_store [tag_tup (Tag UserTagKind ''alice'') ReaderRelation (Tag ModelTagKind ''m'')])
        (mem_user ''alice'') (Tag UserTagKind ''alice'') ReaderRelation (Tag ModelTagKind ''m'')"
proof -
  let ?w = "[tag_tup (Tag UserTagKind ''alice'') ReaderRelation (Tag ModelTagKind ''m'')]"
  have reads: "holds (mem_store ?w) (ConvertTag (Tag UserTagKind ''alice'')) ReaderRelation (ConvertTag (Tag ModelTagKind ''m''))"
    by (intro holds.direct) (auto simp: tag_tup_def mk_tup_def mem_store_def assignable_def grantee_def access_relations_def)
  obtain a where a: "GetUserModelAccess mem_externals (jm_permissionManager mem_juju) (mem_user ''alice'') (Tag ModelTagKind ''m'') ?w = (Ok a, ?w)"
    using mem_model_access by blast
  have "\<exists>info. ModelInfo mem_externals toy_env mem_juju (mem_user ''alice'') (Tag ModelTagKind ''m'') ?w = (Ok info, ?w)"
    using reads a
    by (simp add: ModelInfo_def GetModel_def ready_def mem_juju_def mem_pm_def model_SetTag_def mem_models_def no_table_def IsModelReader_def mem_check
        dialControllerAsSuperuser_def dial_def modelInfo_def model_ResourceTag_def new_juju_tag_def reactToModelInfoSuccess_def empty_model_def
        mergeModelInfo_def credential_ResourceTag_def credential_Path_def empty_credential_def model_users_def ListUsersWithAccess_def visit_def
        MigrationModeNone_def go_lift_def go_bind_def go_try_def go_maperr_def go_simps)
  then obtain info where run: "ModelInfo mem_externals toy_env mem_juju (mem_user ''alice'') (Tag ModelTagKind ''m'') ?w = (Ok info, ?w)" by blast
  from model_info_redacted [OF mem_found.models_found_axioms run, of "Tag UserTagKind ''alice''"] run show ?thesis
    by (auto simp: new_juju_tag_def)
qed

section \<open>Which models are listed\<close>

lemma errgroup_inv:
  assumes "errgroup f xs s e w = (Ok (s', e'), w')" and "I s"
    and "\<And>x s w s1 e1 w1. f x s w = (Ok (s1, e1), w1) \<Longrightarrow> I s \<Longrightarrow> I s1"
  shows "I s'"
  using assms(1,2)
proof (induction xs arbitrary: s e w)
  case (Cons x xs)
  from Cons.prems(1) obtain s1 e1 w1 where f: "f x s w = (Ok (s1, e1), w1)"
    and rest: "errgroup f xs s1 (if e = None then e1 else e) w1 = (Ok (s', e'), w')"
    by (auto elim!: go_bind_OkE)
  show ?case by (rule Cons.IH [OF rest assms(3) [OF f Cons.prems(2)]])
qed simp

lemma forEachController_inv:
  assumes "forEachController V j cs f s w = (Ok (s', e'), w')" and "I s"
    and "\<And>c api s w s1 e1 w1. f c api s w = (Ok (s1, e1), w1) \<Longrightarrow> I s \<Longrightarrow> I s1"
  shows "I s'"
proof -
  from assms(1) obtain order w1 where "errgroup (\<lambda>i s. go_bind (go_try (dialControllerAsService V j (cs ! i))) (\<lambda>r. case r of
           Inl e \<Rightarrow> go_return (s, Some e)
         | Inr api \<Rightarrow> f (conn_controller api) api s)) order s None w1 = (Ok (s', e'), w')"
    unfolding forEachController_def by (elim go_bind_OkE) blast
  then show ?thesis
    by (rule errgroup_inv) (auto simp: assms(2) go_simps elim!: go_try_bindE dest: assms(3))
qed

lemma dom_fold_models: "dom (fold (\<lambda>m mm. mm(k m \<mapsto> m)) ms mm) = dom mm \<union> k ` set ms"
  by (induction ms arbitrary: mm) auto

context models_found
begin

lemma ListModels_ok:
  assumes "ListModels E u rel w = (Ok ids, w')" and "user_tag E u = Some t"
  shows "store w' = store w \<and> (\<forall>i\<in>set ids. can (store w) u t rel (Tag ModelTagKind i))"
proof -
  from assms obtain ts w1 t' w2 es where c: "ContextualTuples E u w = (Ok ts, w1)" "user_ResourceTag E u w1 = (Ok t', w2)"
    "with_client u (OFGA_ListObjects E (ConvertTag t') rel ModelTagKind ts) w2 = (Ok es, w')" "ids = map ent_ID es"
    by (auto simp: ListModels_def list_ids_def elim!: go_bind_OkE)
  from c(2) assms(2) have t': "t' = t" "w2 = w1" by (auto elim: user_ResourceTag_OkE)
  from c(1) t' assms(2) have ts: "ts = idp_tuples t u" "w1 = w" by (auto elim: ContextualTuples_OkE)
  from c(3) have find: "cofga_FindAccessibleObjects E \<lparr>Object = Some (ConvertTag t'), Relation = rel,
      Target = Some \<lparr>ent_Kind = ModelTagKind, ent_ID = '''', ent_Relation = ''''\<rparr>\<rparr> ts w2 = (Ok es, w')"
    by (auto simp: OFGA_ListObjects_def listObjects_def elim!: with_client_OkE)
  have "can (store w) u t rel (Tag ModelTagKind (ent_ID ob))" if "ob \<in> set es" for ob
  proof -
    have "ob = ConvertTag (Tag ModelTagKind (ent_ID ob))" using objects_kind [OF find _ that] by (simp add: ConvertTag_record)
    moreover have "check_holds (store w \<union> set (idp_tuples t u)) \<lparr>Object = Some (ConvertTag t), Relation = rel, Target = Some ob\<rparr>"
      using find_objects_ok [OF find] that t' ts by simp
    ultimately show ?thesis by (metis can_def check_holds_def prod.case option.case(2) tup.select_convs)
  qed
  with c(4) frameD [OF find_objects_frame find] t' ts show ?thesis by auto
qed

lemma GetModelsByUUID_among: "GetModelsByUUID E d us w = (Ok ms, w') \<Longrightarrow> m \<in> set ms \<Longrightarrow> model_uuid m \<in> set us"
  by (auto simp: GetModelsByUUID_def model_uuid_def elim!: go_bind_OkE dest!: rows_among)

lemma known_models:
  "x \<in> set (List.map_filter (\<lambda>um. map_option (\<lambda>m. um\<lparr>um_Owner := h m\<rparr>) (mm (um_UUID um))) ums) \<Longrightarrow>
    um_UUID (x :: user_model) \<in> dom mm"
  by (auto simp: map_filter_def)

lemma juju_ListModels_ok:
  assumes run: "juju_ListModels E V j user w = (Ok ums, w')" and ut: "user_tag E user = Some ut" and um: "um \<in> set ums"
  shows "can (store w) user ut ReaderRelation (Tag ModelTagKind (um_UUID um))"
proof -
  from run obtain uuids w1 models w2 e where c: "ListModels E user ReaderRelation w = (Ok uuids, w1)"
    "GetModelsByUUID E (jm_Database j) uuids w1 = (Ok models, w2)"
    "forEachController V j (unique_controllers [] (map (\<lambda>m. (mdl_ControllerID m, mdl_Controller m)) models))
       (\<lambda>_ api userModels.
         go_bind (go_try (api_ListModels V api)) (\<lambda>r. case r of
             Inl e \<Rightarrow> go_return (userModels, Some e)
           | Inr ums \<Rightarrow> go_return (userModels @ List.map_filter (\<lambda>um.
               map_option (\<lambda>m. um\<lparr>um_Owner := mdl_OwnerIdentityName m\<rparr>)
                 (fold (\<lambda>m mm. mm(model_uuid m \<mapsto> m)) models Map.empty (um_UUID um))) ums, None))) [] w2 = (Ok (ums, e), w')"
    by (auto simp: juju_ListModels_def Let_def go_simps elim!: go_bind_OkE split: option.splits)
  have known: "dom (fold (\<lambda>m mm. mm(model_uuid m \<mapsto> m)) models Map.empty) \<subseteq> set uuids"
    using GetModelsByUUID_among [OF c(2)] by (auto simp: dom_fold_models)
  have "\<forall>x\<in>set ums. um_UUID x \<in> set uuids"
    by (rule forEachController_inv [OF c(3), where I = "\<lambda>ums. \<forall>x\<in>set ums. um_UUID x \<in> set uuids"])
      (auto simp: go_simps elim!: go_try_bindE dest!: known_models subsetD [OF known])
  then show ?thesis using ListModels_ok [OF c(1) ut] um by blast
qed

end


text \<open>
  C13. Every model that the listing of models returns can be read by the user, whatever the controllers
  list and in whatever order they answer.
\<close>

theorem listed_models_readable:
  assumes "models_found E store remaining V" and "juju_ListModels E V j user w = (Ok ums, w')" and "user_tag E user = Some ut"
  shows "\<forall>um\<in>set ums. can (store w) user ut ReaderRelation (Tag ModelTagKind (um_UUID um))"
  using models_found.juju_ListModels_ok [OF assms] by blast

text \<open>A world whose OpenFGA lists the objects of its tuples, on a controller that hosts two models.\<close>

definition stored_objects :: "tup \<Rightarrow> tup list \<Rightarrow> (tup list, entity list) io" where
  "stored_objects x ctx w = (Ok (filter (\<lambda>ob. (\<forall>t. Target x = Some t \<longrightarrow> ent_Kind ob = ent_Kind t) \<and> ent_Relation ob = ''''
     \<and> check_holds (mem_store w \<union> set ctx) (x\<lparr>Target := Some ob\<rparr>)) (List.map_filter Target w)), w)"

fun asked_models :: "cond list \<Rightarrow> model list" where
  "asked_models [WhereIn col us] = map (\<lambda>u. empty_model\<lparr>mdl_UUID := Some u, mdl_OwnerIdentityName := ''bob''\<rparr>) us"
| "asked_models _ = []"

definition listing :: "tup list externals" where
  "listing = mem_externals\<lparr>cofga_FindAccessibleObjects := stored_objects,
     tbl_models := mem_models\<lparr>gorm_Find := (\<lambda>_ cs _ _ _. go_return (asked_models cs))\<rparr>\<rparr>"

definition hosted_models :: "user_model list" where
  "hosted_models = [\<lparr>um_Name = ''one'', um_UUID = ''m'', um_Owner = ''admin''\<rparr>,
     \<lparr>um_Name = ''two'', um_UUID = ''n'', um_Owner = ''admin''\<rparr>]"

definition hosting_env :: "'w juju_env" where
  "hosting_env = toy_env\<lparr>api_ListModels := (\<lambda>_. go_return hosted_models)\<rparr>"

lemma listing_simps [simp]:
  "cofga_AddRelationIdempotent listing = cofga_AddRelationIdempotent mem_externals"
  "cofga_RemoveRelationIdempotent listing = cofga_RemoveRelationIdempotent mem_externals"
  "cofga_FindMatchingTuples listing = cofga_FindMatchingTuples mem_externals"
  "cofga_FindAccessibleObjects listing = stored_objects"
  "cofga_FindUsersByRelation listing = cofga_FindUsersByRelation mem_externals"
  "cofga_CheckRelation listing = cofga_CheckRelation mem_externals"
  "cofga_CheckRelationWithTracing listing = cofga_CheckRelationWithTracing mem_externals"
  "cofga_BatchCheckRelations listing = cofga_BatchCheckRelations mem_externals"
  "FetchGroups listing = FetchGroups mem_externals" "newUUID listing = newUUID mem_externals" "NowFunc listing = NowFunc mem_externals"
  "gorm_Transaction listing = gorm_Transaction mem_externals" "tbl_groups listing = tbl_groups mem_externals"
  "tbl_roles listing = tbl_roles mem_externals" "tbl_identities listing = tbl_identities mem_externals"
  "tbl_controllers listing = tbl_controllers mem_externals" "tbl_offers listing = tbl_offers mem_externals"
  "tbl_models listing = mem_models\<lparr>gorm_Find := (\<lambda>_ cs _ _ _. go_return (asked_models cs))\<rparr>"
  "tbl_clouds listing = tbl_clouds mem_externals"
  "tbl_user_mappings listing = tbl_user_mappings mem_externals" "err_text listing = err_text mem_externals"
  "IsPublicAccess listing = IsPublicAccess mem_externals" "names_NewTag listing = names_NewTag mem_externals"
  by (simp_all add: listing_def err_text_def fun_eq_iff)

lemma stored_objects_frame: "frame obs (stored_objects x ctx)"
  by (simp add: stored_objects_def frame_def)

lemma stored_objects_ok:
  "stored_objects x ctx w = (Ok es, w') \<Longrightarrow> \<forall>o'\<in>set es. check_holds (mem_store w \<union> set ctx) (x\<lparr>Target := Some o'\<rparr>)"
  by (auto simp: stored_objects_def)

interpretation hosted: models_found listing mem_store mem_remaining hosting_env
proof (intro models_found.intro juju_services.intro jimm_services.intro)
  show "openfga_service listing mem_store mem_remaining"
    by (intro openfga_service.intro; (unfold listing_simps)?;
        (rule mem.add_ok mem.add_err mem.add_total mem.remove_ok mem.remove_err mem.remove_total mem.read_frame mem.read_total
          mem.remaining_store mem.remaining_start mem.remaining_sub mem.read_ok mem.check_frame mem.check_tracing_frame
          mem.check_total mem.check_tracing_total mem.check_ok mem.check_tracing_ok mem.batch_frame mem.batch_ok mem.batch_ids
          mem.find_users_frame mem.add_exists mem.remove_missing mem.stored_object mem.public_access mem.finite_store
          stored_objects_frame stored_objects_ok; assumption))
  show "jimm_services_axioms listing mem_store"
    using memj.jimm_services_axioms unfolding jimm_services_def jimm_services_axioms_def listing_simps
    by (simp add: table_frame_def frame_return)
  have "env_frame mem_store hosting_env"
    by (simp add: env_frame_def hosting_env_def toy_env_def toy_table_frame frame_return frame_err)
  moreover have "shuffles (hosting_env :: tup list juju_env)" by (simp add: shuffles_def hosting_env_def toy_env_def)
  moreover have "je_Dial (hosting_env :: tup list juju_env) = je_Dial toy_env" by (simp add: hosting_env_def)
  ultimately show "juju_services_axioms listing mem_store hosting_env"
    using memju.juju_services_axioms unfolding juju_services_def juju_services_axioms_def listing_simps by simp
  show "models_found_axioms listing"
    by unfold_locales (auto simp: mem_models_def no_table_def stored_objects_def go_simps)
qed

theorem listed_models_readable_witness:
  "\<exists>ums w'. juju_ListModels listing hosting_env mem_juju (mem_user ''alice'')
      [tag_tup (Tag UserTagKind ''alice'') ReaderRelation (Tag ModelTagKind ''m'')] = (Ok ums, w')
    \<and> map (\<lambda>um. (um_UUID um, um_Owner um)) ums = [(''m'', ''bob'')]
    \<and> can (mem_store [tag_tup (Tag UserTagKind ''alice'') ReaderRelation (Tag ModelTagKind ''m'')])
        (mem_user ''alice'') (Tag UserTagKind ''alice'') ReaderRelation (Tag ModelTagKind ''m'')"
proof -
  let ?w = "[tag_tup (Tag UserTagKind ''alice'') ReaderRelation (Tag ModelTagKind ''m'')]"
  let ?m = "empty_model\<lparr>mdl_UUID := Some ''m'', mdl_OwnerIdentityName := ''bob''\<rparr>"
  have reads: "holds (mem_store ?w) (ConvertTag (Tag UserTagKind ''alice'')) ReaderRelation (ConvertTag (Tag ModelTagKind ''m''))"
    by (intro holds.direct) (auto simp: tag_tup_def mk_tup_def mem_store_def assignable_def grantee_def access_relations_def)
  have ids: "ListModels listing (mem_user ''alice'') ReaderRelation ?w = (Ok [''m''], ?w)"
    using reads
    by (simp add: ListModels_def list_ids_def ContextualTuples_good bad_groups_def maxContextualTuples_def user_ResourceTag_def mem_user_def NewUser_def with_client_def
      identity_ResourceTag_def OFGA_ListObjects_def listObjects_def stored_objects_def tag_tup_def mk_tup_def new_juju_tag_def
      map_filter_def check_holds_def ConvertTag_record EveryoneUser_def idp_tuples_def go_bind_def go_simps)
  have run: "juju_ListModels listing hosting_env mem_juju (mem_user ''alice'') ?w =
      (Ok [\<lparr>um_Name = ''one'', um_UUID = ''m'', um_Owner = ''bob''\<rparr>], ?w)"
    by (simp add: juju_ListModels_def ids GetModelsByUUID_def ready_def mem_juju_def mem_pm_def forEachController_def dialControllerAsService_def
      dial_def hosting_env_def hosted_models_def model_uuid_def empty_model_def map_filter_def go_lift_def go_maperr_def go_try_def go_bind_def go_simps)
  have "user_tag listing (mem_user ''alice'') = Some (Tag UserTagKind ''alice'')" by (simp add: identity_ResourceTag_def mem_user_def NewUser_def new_juju_tag_def)
  from listed_models_readable [OF hosted.models_found_axioms run this]
  have "can (mem_store ?w) (mem_user ''alice'') (Tag UserTagKind ''alice'') ReaderRelation (Tag ModelTagKind ''m'')"
    by simp
  with run show ?thesis by (intro exI conjI) (assumption | simp)+
qed

end
