(* ===== verification/Cloud_Safety.thy ===== *)
theory Cloud_Safety
  imports Cloud_Credentials Model_Safety
begin

text \<open>
  What the operations on clouds and credentials guarantee: descriptions of clouds survive their
  conversion, secrets are shown to their owners only, stored credentials change only for those who
  may change them, and a credential that some model rejects is not stored.
\<close>

section \<open>Descriptions of clouds\<close>

lemma region_roundtrip [simp]:
  "ToJujuCloudRegion ((FromJujuCloudRegion r cr)\<lparr>cr_Config := cfg\<rparr>) = r"
  "cr_Name ((FromJujuCloudRegion r cr)\<lparr>cr_Config := cfg\<rparr>) = jr_Name r"
  by (simp_all add: ToJujuCloudRegion_def FromJujuCloudRegion_def)

lemma fold_config_of_names:
  "fold (\<lambda>r m. case F (k r) of None \<Rightarrow> m | Some cfg \<Rightarrow> m(k r \<mapsto> cfg)) rs m = (\<lambda>i. if i \<in> k ` set rs \<and> F i \<noteq> None then F i else m i)"
  by (induction rs arbitrary: m) (auto simp: fun_eq_iff split: option.splits)

lemma fold_config_distinct:
  assumes "distinct (map k rs)" and "r \<in> set rs" and "m (k r) = None"
  shows "fold (\<lambda>r m. case g r of None \<Rightarrow> m | Some cfg \<Rightarrow> m(k r \<mapsto> cfg)) rs m (k r) = g r"
proof -
  have other: "i \<notin> k ` set rs \<Longrightarrow> fold (\<lambda>r m. case g r of None \<Rightarrow> m | Some cfg \<Rightarrow> m(k r \<mapsto> cfg)) rs m i = m i" for rs m i
    by (induction rs arbitrary: m) (auto split: option.splits)
  show ?thesis
    using assms
  proof (induction rs arbitrary: m)
    case (Cons x xs)
    then show ?case
    proof (cases "r = x")
      case True
      then show ?thesis using Cons.prems other [of "k x" xs] by (auto split: option.splits)
    next
      case False
      with Cons.prems have "r \<in> set xs" "k x \<noteq> k r" by auto
      with Cons.prems show ?thesis
        using Cons.IH [of "case g x of None \<Rightarrow> m | Some cfg \<Rightarrow> m(k x \<mapsto> cfg)"] by (auto split: option.splits)
    qed
  qed simp
qed

lemma cloud_Region_distinct:
  assumes "distinct (map cr_Name (cld_Regions c))" and "r \<in> set (cld_Regions c)"
  shows "cloud_Region c (cr_Name r) = r"
proof -
  have "find (\<lambda>x. cr_Name x = cr_Name r) rs = Some r" if "distinct (map cr_Name rs)" "r \<in> set rs" for rs
    using that by (induction rs) auto
  then show ?thesis using assms by (simp add: cloud_Region_def)
qed



section \<open>Secrets\<close>

text \<open>
  C16. The attributes of a credential: hidden ones are shown to the owner only; an administrator of JIMM
  who does not own it sees the visible ones and the names of the others, and nobody else anything.
\<close>

theorem secrets_for_owners:
  assumes "GetCloudCredentialAttributes V user cred hidden w = (Ok (shown, redacted), w')"
  shows "(u_Name user = cc_OwnerIdentityName cred \<or> u_JimmAdmin user \<and> \<not> hidden)
    \<and> (\<exists>t attrs. je_CredentialTag V (credential_Path cred) = Some t \<and> je_Store_Get V t w = (Ok attrs, w') \<and> shown \<subseteq>\<^sub>m attrs
      \<and> (hidden \<longrightarrow> shown = attrs \<and> redacted = [])
      \<and> (\<not> hidden \<longrightarrow> (\<forall>k\<in>dom shown. je_IsVisibleAttribute V (clr_Type (cc_Cloud cred)) (cc_AuthType cred) k)
          \<and> (finite (dom attrs) \<longrightarrow> set redacted = dom attrs - dom shown)))"
proof -
  from assms have owner: "u_Name user = cc_OwnerIdentityName cred \<or> u_JimmAdmin user \<and> \<not> hidden"
    by (auto simp: GetCloudCredentialAttributes_def go_simps split: if_splits)
  from assms obtain t where t: "je_CredentialTag V (credential_Path cred) = Some t"
    by (cases "je_CredentialTag V (credential_Path cred)")
      (simp_all add: GetCloudCredentialAttributes_def getCloudCredentialAttributes_def credential_ResourceTag_def go_bind_def go_simps split: if_splits)
  with assms obtain attrs where get: "je_Store_Get V t w = (Ok attrs, w')"
    and r: "(shown, redacted) = (if attrs = Map.empty then (Map.empty, []) else if hidden then (attrs, [])
        else (visible_attributes V cred attrs, redacted_attributes V cred attrs))"
    by (auto simp: GetCloudCredentialAttributes_def getCloudCredentialAttributes_def credential_ResourceTag_def go_simps
        elim!: go_bind_OkE split: if_splits)
  have "shown \<subseteq>\<^sub>m attrs" using r by (auto simp: map_le_def visible_attributes_def split: if_splits)
  moreover have "hidden \<longrightarrow> shown = attrs \<and> redacted = []" using r by (auto split: if_splits)
  moreover have "\<not> hidden \<longrightarrow> (\<forall>k\<in>dom shown. je_IsVisibleAttribute V (clr_Type (cc_Cloud cred)) (cc_AuthType cred) k)
        \<and> (finite (dom attrs) \<longrightarrow> set redacted = dom attrs - dom shown)"
    using r by (auto simp: visible_attributes_def redacted_attributes_def split: if_splits)
  ultimately show ?thesis using owner t get by blast
qed

text \<open>A store of secrets in memory, newest first.\<close>

type_synonym vault = "(cred_tag \<times> (string \<rightharpoonup> string)) list"

definition vault_env :: "vault juju_env" where
  "vault_env = toy_env\<lparr>je_Store_Get := (\<lambda>t w. (Ok (case map_of w t of Some a \<Rightarrow> a | None \<Rightarrow> Map.empty), w)),
     je_Store_Put := (\<lambda>t a w. (Ok (), (t, a) # w)), je_IsVisibleAttribute := (\<lambda>_ _ k. k = ''user'')\<rparr>"

lemma vault_env_simps [simp]:
  "je_Store_Get vault_env t w = (Ok (case map_of w t of Some a \<Rightarrow> a | None \<Rightarrow> Map.empty), w)"
  "je_Store_Put vault_env t a w = (Ok (), (t, a) # w)"
  "je_IsVisibleAttribute vault_env ct at k \<longleftrightarrow> k = ''user''"
  "je_CredentialTag vault_env s = (case go_split (CHR ''/'') s of [c, u, n] \<Rightarrow> Some \<lparr>cct_Cloud = c, cct_Owner = u, cct_Name = n\<rparr> | _ \<Rightarrow> None)"
  by (simp_all add: vault_env_def)

definition toy_cred_tag :: cred_tag where
  "toy_cred_tag = \<lparr>cct_Cloud = ''aws'', cct_Owner = ''alice'', cct_Name = ''k''\<rparr>"

theorem secrets_for_owners_witness:
  "\<exists>shown redacted. GetCloudCredentialAttributes vault_env ((mem_user ''bob'')\<lparr>u_JimmAdmin := True\<rparr>) toy_credential False
      [(toy_cred_tag, [''user'' \<mapsto> ''a'', ''password'' \<mapsto> ''b''])] = (Ok (shown, redacted), [(toy_cred_tag, [''user'' \<mapsto> ''a'', ''password'' \<mapsto> ''b''])])
    \<and> dom shown \<subseteq> {''user''}"
proof -
  let ?user = "(mem_user ''bob'')\<lparr>u_JimmAdmin := True\<rparr>" and ?w = "[(toy_cred_tag, [''user'' \<mapsto> ''a'', ''password'' \<mapsto> ''b''])] :: vault"
  have "\<exists>shown redacted. GetCloudCredentialAttributes vault_env ?user toy_credential False ?w = (Ok (shown, redacted), ?w)"
    by (simp add: GetCloudCredentialAttributes_def getCloudCredentialAttributes_def credential_ResourceTag_def credential_Path_def
        toy_credential_def empty_credential_def toy_cred_tag_def go_bind_def go_simps)
  then obtain shown redacted where run: "GetCloudCredentialAttributes vault_env ?user toy_credential False ?w = (Ok (shown, redacted), ?w)" by blast
  have "\<forall>k\<in>dom shown. k = ''user''" using secrets_for_owners [OF run] vault_env_simps(3) by blast
  with run show ?thesis by blast
qed

section \<open>Who may change a stored credential\<close>

lemma frame_bind_ok:
  assumes "frame obs m" and "\<And>x w w1. m w = (Ok x, w1) \<Longrightarrow> frame obs (f x)"
  shows "frame obs (go_bind m f)"
proof (rule frameI)
  fix w
  show "obs (snd (go_bind m f w)) = obs w"
  proof (cases "m w")
    case (Pair q w1)
    have s: "obs w1 = obs w" using frameD [OF assms(1) Pair] .
    show ?thesis
    proof (cases q)
      case (Ok x)
      obtain r w2 where f: "f x w1 = (r, w2)" using prod.exhaust by blast
      have "obs w2 = obs w1" using frameD [OF assms(2) f] Pair Ok by blast
      then show ?thesis using Pair Ok f s by (simp add: go_bind_def)
    qed (use Pair s in \<open>simp_all add: go_bind_def\<close>)
  qed
qed

lemma errgroup_frame: "(\<And>x s. frame obs (f x s)) \<Longrightarrow> frame obs (errgroup f xs s e)"
  by (induction xs arbitrary: s e) (auto intro!: frame_intros)

text \<open>
  The requests about credentials, and who may make the stored credentials change with them.
\<close>

datatype credential_request =
    ReqUpdate update_credential_args | ReqCopy ofga_user cred_tag | ReqRevoke cred_tag
  | ReqRecover cred_tag bool | ReqRecoverAll bool | ReqAttributes cloud_credential bool

fun serve_credential :: "'w externals \<Rightarrow> 'w juju_env \<Rightarrow> juju_manager \<Rightarrow> ofga_user \<Rightarrow> credential_request \<Rightarrow> ('w, unit) io" where
  "serve_credential E V j user (ReqUpdate args) = no_value (UpdateCloudCredential E V j user args)"
| "serve_credential E V j user (ReqCopy newUser t) = no_value (CopyCredential E V j user newUser t)"
| "serve_credential E V j user (ReqRevoke t) = RevokeCloudCredential E V j (u_Identity user) t"
| "serve_credential E V j user (ReqRecover t dry) = RecoverModelCredential E V j user t dry"
| "serve_credential E V j user (ReqRecoverAll dry) = no_value (RecoverAllModelCredentials E V j user dry)"
| "serve_credential E V j user (ReqAttributes cred hidden) = no_value (GetCloudCredentialAttributes V user cred hidden)"

fun may_change :: "ofga_user \<Rightarrow> tag \<Rightarrow> credential_request \<Rightarrow> bool" where
  "may_change user ut (ReqUpdate args) \<longleftrightarrow>
     (ut = Tag UserTagKind (cct_Owner (uca_CredentialTag args)) \<or> u_JimmAdmin user) \<and> \<not> uca_SkipUpdate args"
| "may_change user ut (ReqCopy newUser t) \<longleftrightarrow> u_Name user = cct_Owner t \<or> u_JimmAdmin user"
| "may_change user ut (ReqRevoke t) \<longleftrightarrow> u_Name user = cct_Owner t"
| "may_change user ut (ReqRecover t dry) \<longleftrightarrow> u_JimmAdmin user \<and> \<not> dry"
| "may_change user ut (ReqRecoverAll dry) \<longleftrightarrow> u_JimmAdmin user \<and> \<not> dry"
| "may_change user ut (ReqAttributes cred hidden) \<longleftrightarrow> False"

text \<open>
  An observer of the stored credentials, rows and secrets: of the operations of the outside world
  only storing and deleting may change what it sees.
\<close>

locale credential_store =
  fixes E :: "'w externals" and V :: "'w juju_env" and obs :: "'w \<Rightarrow> 'o"
  assumes s_identities: "table_frame obs (tbl_identities E)"
    and s_clouds: "table_frame obs (tbl_clouds E)"
    and s_models: "frame obs (gorm_Find (tbl_models E) h cs ord lim off)"
    and s_first: "frame obs (gorm_First (je_credentials V) h cs cred)"
    and s_find: "frame obs (gorm_Find (je_credentials V) h cs ord lim off)"
    and s_get: "frame obs (je_Store_Get V t)"
    and s_dial: "frame obs (je_Dial V as ctl m)"
    and s_schedule: "obs (snd (je_schedule V k w)) = obs w"
    and s_check: "frame obs (api_CheckCredentialModels V api tc)"
    and s_contents: "frame obs (api_CredentialContents V api c n b)"
    and s_revoke: "frame obs (api_RevokeCredential V api t)"
begin

lemmas s_frames [frame_intros] =
  table_frameD(1-7) [OF s_identities] table_frameD(1-7) [OF s_clouds] s_models s_first s_find s_get s_dial s_check s_contents s_revoke

lemma s_reads [frame_intros]:
  "frame obs (db_GetCloudCredential V d cred)" "frame obs (GetAllCloudCredentials V d)" "frame obs (getCloudCredentialAttributes V cred)"
  "frame obs (GetModelsUsingCredential E d n)" "frame obs (GetCloud E d c)" "frame obs (GetIdentity E d i)"
  "frame obs (credential_ResourceTag V cred)" "frame obs (tagged V cred attrs)" "frame obs (user_ResourceTag E u)"
  unfolding db_GetCloudCredential_def GetAllCloudCredentials_def getCloudCredentialAttributes_def GetModelsUsingCredential_def
    GetCloud_def GetIdentity_def credential_ResourceTag_def tagged_def user_ResourceTag_def
  by (intro frame_intros)+

lemma s_forEachController [frame_intros]:
  "(\<And>c api s. frame obs (f c api s)) \<Longrightarrow> frame obs (forEachController V j cs f s)"
  unfolding forEachController_def dialControllerAsService_def dial_def by (intro frame_intros errgroup_frame s_schedule)

lemma s_fetch_contents [frame_intros]: "frame obs (fetch_contents V j u t cs e)"
  by (induction cs arbitrary: e) (auto simp: dialControllerAsSuperuser_def dial_def intro!: frame_intros split: prod.splits)

lemma s_checks [frame_intros]:
  "frame obs (check_models V j cs cred attrs)" "frame obs (check_update_owner E j user ct)" "frame obs (find_credential V j ct)"
  "frame obs (juju_GetCloudCredential V j user ct)"
  unfolding check_models_def checkControllerCloudCredential_def check_update_owner_def find_credential_def juju_GetCloudCredential_def
  by (intro frame_intros)+

lemma unowned_update_refused:
  assumes "user_tag E user = Some ut" and "\<not> (ut = Tag UserTagKind (cct_Owner t) \<or> u_JimmAdmin user)"
  shows "check_update_owner E j user t w \<noteq> (Ok x, w1)"
  using assms by (auto simp: check_update_owner_def user_ResourceTag_def go_bind_def go_simps)

lemma update_denied:
  assumes "user_tag E user = Some ut" and "\<not> may_change user ut (ReqUpdate args)"
  shows "frame obs (UpdateCloudCredential E V j user args)"
  unfolding UpdateCloudCredential_def
proof (rule frame_bind_ok, rule s_checks)
  fix x w w1
  assume "check_update_owner E j user (uca_CredentialTag args) w = (Ok x, w1)"
  with assms have "uca_SkipUpdate args" using unowned_update_refused [OF assms(1)] by auto
  then have "frame obs (store_credential V j cs cred args result)" for cs cred result
    by (simp add: store_credential_def frame_return)
  then show "frame obs (go_bind (find_credential V j (uca_CredentialTag args)) (\<lambda>cred.
     go_bind (go_some ''invalid cloud tag'' (new_juju_tag E CloudTagKind (cc_CloudName cred))) (\<lambda>ct.
     go_bind (GetCloud E (jm_Database j) (cloud_SetTag empty_cloud ct)) (\<lambda>_.
     go_bind (GetModelsUsingCredential E (jm_Database j) (cc_ID cred)) (\<lambda>models.
     let controllers = unique_controllers [] (map (\<lambda>m. (mdl_ControllerID m, mdl_Controller m)) models);
         cred = cred\<lparr>cc_AuthType := uca_AuthType args\<rparr> in
     go_bind (if uca_SkipCheck args then go_return ([], None)
              else check_models V j controllers cred (uca_Attributes args)) (\<lambda>(result, e). case e of
         Some e \<Rightarrow> go_return (result, Some e)
       | None \<Rightarrow> store_credential V j controllers cred args result))))))"
    unfolding Let_def by (intro frame_intros)
qed

lemma dry_recovery: "dry \<Longrightarrow> frame obs (recoverCredential E V j cred dry)"
  unfolding recoverCredential_def by (simp only: if_True, intro frame_intros)

lemma credential_requests_denied:
  assumes "user_tag E user = Some ut" and "\<not> may_change user ut req"
  shows "frame obs (serve_credential E V j user req)"
proof (cases req)
  case (ReqUpdate args)
  then show ?thesis using update_denied assms by (auto simp: no_value_def intro!: frame_intros)
next
  case (ReqCopy newUser t)
  then show ?thesis using assms
    by (auto simp: no_value_def CopyCredential_def juju_GetCloudCredential_def go_simps frame_def go_bind_def)
next
  case (ReqRevoke t)
  then show ?thesis using assms by (simp add: RevokeCloudCredential_def frame_err)
next
  case (ReqRecover t dry)
  show ?thesis
  proof (cases "u_JimmAdmin user")
    case True
    with assms ReqRecover have dry: dry by simp
    show ?thesis unfolding ReqRecover serve_credential.simps RecoverModelCredential_def checkJimmAdmin_def
      by (intro frame_intros dry_recovery [OF dry])
  qed (simp add: ReqRecover RecoverModelCredential_def checkJimmAdmin_def frame_def go_bind_def go_simps)
next
  case (ReqRecoverAll dry)
  show ?thesis
  proof (cases "u_JimmAdmin user")
    case True
    with assms ReqRecoverAll have dry: dry by simp
    show ?thesis unfolding ReqRecoverAll serve_credential.simps no_value_def RecoverAllModelCredentials_def checkJimmAdmin_def
      by (intro frame_intros dry_recovery [OF dry])
  qed (simp add: ReqRecoverAll no_value_def RecoverAllModelCredentials_def checkJimmAdmin_def frame_def go_bind_def go_simps)
next
  case (ReqAttributes cred hidden)
  show ?thesis unfolding ReqAttributes serve_credential.simps no_value_def GetCloudCredentialAttributes_def by (intro frame_intros)
qed

end

text \<open>
  C14. Stored credentials change only through requests of those who may change them: updates by the
  owner or an administrator of JIMM that are more than a check, copies by either, revocations by the
  owner, and recoveries by an administrator that are no dry run.
\<close>

theorem credentials_guarded:
  assumes "credential_store E V obs" and "user_tag E user = Some ut" and "serve_credential E V j user req w = (q, w')"
    and "obs w' \<noteq> obs w"
  shows "may_change user ut req"
  using credential_store.credential_requests_denied [OF assms(1,2)] frameD assms(3,4) by metis

lemma push_credential_checked:
  assumes "push_credential V j cs cred attrs False res w = (Ok (res', e), w')"
  shows "res' = res"
  using assms unfolding push_credential_def
  by (rule forEachController_inv [where I = "\<lambda>r. r = res"]) (auto simp: go_simps elim!: go_bind_OkE)

text \<open>
  C15. A credential that a model rejects is not stored: where the checks were made and the answer
  contains an error of some model, neither the row nor the secret of the credential has changed.
\<close>

theorem rejected_credential_not_stored:
  assumes "credential_store E V obs" and "UpdateCloudCredential E V j user args w = (Ok (result, e), w')"
    and "\<not> uca_SkipCheck args" and "\<exists>r\<in>set result. umr_Errors r \<noteq> []"
  shows "obs w' = obs w"
proof -
  from assms(2,3) obtain u w1 cred w2 ct w3 c w4 models w5 p w6 where run0:
    "check_update_owner E j user (uca_CredentialTag args) w = (Ok u, w1)" "find_credential V j (uca_CredentialTag args) w1 = (Ok cred, w2)"
    "go_some ''invalid cloud tag'' (new_juju_tag E CloudTagKind (cc_CloudName cred)) w2 = (Ok ct :: (err, tag) outcome, w3)"
    "GetCloud E (jm_Database j) (cloud_SetTag empty_cloud ct) w3 = (Ok c, w4)"
    "GetModelsUsingCredential E (jm_Database j) (cc_ID cred) w4 = (Ok models, w5)"
    "check_models V j (unique_controllers [] (map (\<lambda>m. (mdl_ControllerID m, mdl_Controller m)) models))
       (cred\<lparr>cc_AuthType := uca_AuthType args\<rparr>) (uca_Attributes args) w5 = (Ok p, w6)"
    "(case p of (res, e0) \<Rightarrow> case e0 of Some e \<Rightarrow> go_return (res, Some e)
       | None \<Rightarrow> store_credential V j (unique_controllers [] (map (\<lambda>m. (mdl_ControllerID m, mdl_Controller m)) models))
           (cred\<lparr>cc_AuthType := uca_AuthType args\<rparr>) args res) w6 = (Ok (result, e), w')"
    unfolding UpdateCloudCredential_def Let_def if_not_P [OF assms(3)]
    by (elim go_bind_OkE) blast
  obtain res e0 where p: "p = (res, e0)" by (cases p)
  note run = run0 [unfolded p prod.case]
  note reads = credential_store.s_checks [OF assms(1)] credential_store.s_reads [OF assms(1)]
  have w6: "obs w6 = obs w"
    using frameD [OF reads(2) run(1)] frameD [OF reads(3) run(2)] frameD [OF frame_some run(3), of obs] frameD [OF reads(9) run(4)]
      frameD [OF reads(8) run(5)] frameD [OF reads(1) run(6)] by simp
  show ?thesis
  proof (cases e0)
    case None
    with run(7) have store: "store_credential V j (unique_controllers [] (map (\<lambda>m. (mdl_ControllerID m, mdl_Controller m)) models))
       (cred\<lparr>cc_AuthType := uca_AuthType args\<rparr>) args res w6 = (Ok (result, e), w')" by simp
    have "result = res"
      using store assms(3) unfolding store_credential_def
      by (auto simp: go_simps elim!: go_try_bindE split: if_splits dest!: push_credential_checked)
    with store assms(4) have "w' = w6" by (auto simp: store_credential_def go_simps)
    with w6 show ?thesis by simp
  qed (use run(7) w6 in \<open>simp add: go_simps\<close>)
qed

section \<open>Credentials in memory\<close>

text \<open>The world is the store of secrets; one model uses every credential, and its cloud rejects it.\<close>

definition vault_externals :: "vault externals" where
  "vault_externals = libs.extend mem_libs
     (externals.fields (\<lambda>_. go_return ()) (\<lambda>_. go_return ()) (\<lambda>_ _ _. go_return ([], '''')) (\<lambda>_ _. go_return []) (\<lambda>_. go_return [])
       (\<lambda>_ _. go_return True) (\<lambda>_ _. go_return True) (\<lambda>_. go_return (\<lambda>_. Some True)) (\<lambda>_. go_return []) (\<lambda>w. ('''', w)) (\<lambda>w. (0, w))
       (\<lambda>f. f Tx) (toy_table []) (toy_table []) (toy_table []) (toy_table []) (toy_table [living_model]) (toy_table [])
       (toy_table [empty_cloud]) (toy_table []))"

definition rejecting_env :: "vault juju_env" where
  "rejecting_env = vault_env\<lparr>api_CheckCredentialModels := (\<lambda>_ _. go_return
     [\<lparr>ucr_Error = None, ucr_Models = [\<lparr>umr_ModelUUID = ''n'', umr_Errors = [ErrNew ''not valid'']\<rparr>]\<rparr>])\<rparr>"

lemma vault_externals_simps [simp]:
  "tbl_models vault_externals = toy_table [living_model]" "tbl_identities vault_externals = toy_table []"
  "tbl_clouds vault_externals = toy_table [empty_cloud]" "names_NewTag vault_externals k i = Some i"
  by (simp_all add: vault_externals_def mem_defs)

lemma vault_store:
  assumes "je_Dial V = je_Dial toy_env" and "\<And>t w. snd (je_Store_Get V t w) = w" and "je_credentials V = je_credentials toy_env"
    and "je_schedule V = je_schedule toy_env" and "\<And>api tc. frame (\<lambda>w. w) (api_CheckCredentialModels V api tc)"
    and "api_CredentialContents V = api_CredentialContents toy_env" and "api_RevokeCredential V = api_RevokeCredential toy_env"
  shows "credential_store vault_externals V (\<lambda>w. w)"
  using assms by unfold_locales
    (simp_all add: toy_table_frame table_frameD [OF toy_table_frame] frame_return toy_env_def, simp add: frame_def)

interpretation vault: credential_store vault_externals vault_env "\<lambda>w. w"
  by (rule vault_store) (simp_all add: vault_env_def toy_env_def frame_return)

interpretation rejecting: credential_store vault_externals rejecting_env "\<lambda>w. w"
  by (rule vault_store) (simp_all add: rejecting_env_def vault_env_def toy_env_def frame_return)

definition toy_update :: "bool \<Rightarrow> update_credential_args" where
  "toy_update skip = \<lparr>uca_CredentialTag = toy_cred_tag, uca_AuthType = ''userpass'', uca_Attributes = [''user'' \<mapsto> ''a''],
     uca_SkipCheck = skip, uca_SkipUpdate = False\<rparr>"

lemmas vault_runs = UpdateCloudCredential_def check_update_owner_def find_credential_def db_GetCloudCredential_def GetCloud_def
  GetModelsUsingCredential_def ready_def user_ResourceTag_def identity_ResourceTag_def new_juju_tag_def mem_user_def NewUser_def mem_juju_def mem_pm_def
  credential_SetTag_def empty_credential_def toy_credential_def cloud_SetTag_def toy_table_def toy_update_def toy_cred_tag_def
  store_credential_def updateCredential_def SetCloudCredential_def credential_ResourceTag_def credential_Path_def
  push_credential_def check_models_def forEachController_def dialControllerAsService_def dial_def forceUpdateControllerCloudCredential_def
  checkControllerCloudCredential_def tagged_def credential_update_result_def db_do_def
  go_lift_def go_maperr_def go_try_def go_bind_def go_simps

lemma vault_tag: "user_tag vault_externals (mem_user n) = Some (Tag UserTagKind n)"
  by (simp add: identity_ResourceTag_def new_juju_tag_def mem_user_def NewUser_def)

theorem credentials_guarded_witness:
  "\<exists>q. serve_credential vault_externals vault_env mem_juju (mem_user ''alice'') (ReqUpdate (toy_update True)) [] =
      (q, [(toy_cred_tag, [''user'' \<mapsto> ''a''])])
    \<and> may_change (mem_user ''alice'') (Tag UserTagKind ''alice'') (ReqUpdate (toy_update True))"
proof -
  have "\<exists>q. serve_credential vault_externals vault_env mem_juju (mem_user ''alice'') (ReqUpdate (toy_update True)) [] =
      (q, [(toy_cred_tag, [''user'' \<mapsto> ''a''])])"
    by (simp add: no_value_def vault_env_def toy_env_def vault_runs)
  then obtain q where run: "serve_credential vault_externals vault_env mem_juju (mem_user ''alice'') (ReqUpdate (toy_update True)) [] =
      (q, [(toy_cred_tag, [''user'' \<mapsto> ''a''])])" by blast
  from credentials_guarded [OF vault.credential_store_axioms vault_tag run] run show ?thesis by blast
qed

theorem rejected_credential_not_stored_witness:
  "\<exists>e w'. UpdateCloudCredential vault_externals rejecting_env mem_juju (mem_user ''alice'') (toy_update False) [] =
      (Ok ([\<lparr>umr_ModelUUID = ''n'', umr_Errors = [ErrNew ''not valid'']\<rparr>], e), w') \<and> w' = []"
proof -
  have "\<exists>e w'. UpdateCloudCredential vault_externals rejecting_env mem_juju (mem_user ''alice'') (toy_update False) [] =
      (Ok ([\<lparr>umr_ModelUUID = ''n'', umr_Errors = [ErrNew ''not valid'']\<rparr>], e), w')"
    by (simp add: rejecting_env_def vault_env_def toy_env_def vault_runs)
  then obtain e w' where run: "UpdateCloudCredential vault_externals rejecting_env mem_juju (mem_user ''alice'') (toy_update False) [] =
      (Ok ([\<lparr>umr_ModelUUID = ''n'', umr_Errors = [ErrNew ''not valid'']\<rparr>], e), w')" by blast
  have "w' = []" by (rule rejected_credential_not_stored [OF rejecting.credential_store_axioms run]) (simp_all add: toy_update_def)
  with run show ?thesis by blast
qed

section \<open>Administering clouds\<close>

datatype cloud_request = ReqRemoveCloud tag | ReqUpdateCloud tag juju_cloud | ReqRemoveFrom string tag | ReqAddTo string tag juju_cloud bool

fun serve_cloud :: "'w externals \<Rightarrow> 'w juju_env \<Rightarrow> juju_manager \<Rightarrow> ofga_user \<Rightarrow> cloud_request \<Rightarrow> ('w, unit) io" where
  "serve_cloud E V j user (ReqRemoveCloud ct) = juju_RemoveCloud E V j user ct"
| "serve_cloud E V j user (ReqUpdateCloud ct cloud) = juju_UpdateCloud E V j user ct cloud"
| "serve_cloud E V j user (ReqRemoveFrom name ct) = RemoveCloudFromController E V j user name ct"
| "serve_cloud E V j user (ReqAddTo name ct cloud force) = AddCloudToController E V j user name ct cloud force"

text \<open>A cloud is administered by its administrators; clouds are added to a controller by those of controllers.\<close>

fun may_administer :: "'w externals \<Rightarrow> tup set \<Rightarrow> ofga_user \<Rightarrow> tag \<Rightarrow> cloud_request \<Rightarrow> bool" where
  "may_administer E S user ut (ReqAddTo name ct cloud force) \<longleftrightarrow> (\<exists>i. can S user ut AdministratorRelation (Tag ControllerTagKind i))"
| "may_administer E S user ut (ReqRemoveCloud ct) \<longleftrightarrow> (\<exists>t. new_juju_tag E CloudTagKind (Id ct) = Some t \<and> can S user ut AdministratorRelation t)"
| "may_administer E S user ut (ReqUpdateCloud ct cloud) \<longleftrightarrow> (\<exists>t. new_juju_tag E CloudTagKind (Id ct) = Some t \<and> can S user ut AdministratorRelation t)"
| "may_administer E S user ut (ReqRemoveFrom name ct) \<longleftrightarrow> can S user ut AdministratorRelation ct"

locale quiet_clouds = quiet_lookups E store remaining V obs
  for E :: "'w externals" and store :: "'w \<Rightarrow> tup set" and remaining :: "'w \<Rightarrow> tup \<Rightarrow> string \<Rightarrow> tup set"
    and V :: "'w juju_env" and obs :: "'w \<Rightarrow> 'o" +
  assumes q_cloud: "frame (\<lambda>w. (store w, obs w)) (gorm_First (tbl_clouds E) h cs c)"
    and q_controller: "frame (\<lambda>w. (store w, obs w)) (gorm_First (tbl_controllers E) h cs ctl)"
    and q_cloud_name: "gorm_First (tbl_clouds E) h [WhereEq ''name'' name] c w = (Ok c', w') \<Longrightarrow> cld_Name c' = name"
begin

lemma q_cloud_lookups [frame_intros]: "frame seen (GetCloud E d c)" "frame seen (getControllerByName E j n)"
  unfolding GetCloud_def getControllerByName_def GetController_def by (intro frame_intros q_cloud q_controller)+

lemma GetCloud_name: "GetCloud E d c w = (Ok c', w') \<Longrightarrow> cld_Name c' = cld_Name c"
  by (auto simp: GetCloud_def elim!: go_bind_OkE dest: q_cloud_name)

lemma denied_admin:
  assumes "user_tag E u = Some ut" and "\<not> can (store w) u ut AdministratorRelation mt"
  shows "denied seen (go_bind (IsAdministrator E u mt) (\<lambda>ok. if \<not> ok then go_err e else f)) w"
  unfolding IsAdministrator_def by (rule denied_plain_check [OF assms])

text \<open>The looked-up cloud has the name of the tag, so that the check is about that cloud.\<close>

lemma denied_on_cloud:
  assumes "\<And>c t w1. cloud_ResourceTag E c = Some t \<Longrightarrow> new_juju_tag E CloudTagKind (Id ct) = Some t \<Longrightarrow> store w1 = store w \<Longrightarrow> denied seen (f c t) w1"
  shows "denied seen (go_bind (GetCloud E d (cloud_SetTag empty_cloud ct)) (\<lambda>c.
     go_bind (go_some s (cloud_ResourceTag E c)) (\<lambda>t. f c t))) w"
proof (rule denied_bind [OF q_cloud_lookups(1)])
  fix c w1
  assume get: "GetCloud E d (cloud_SetTag empty_cloud ct) w = (Ok c, w1)" and same: "seen w1 = seen w"
  have name: "cld_Name c = Id ct" using GetCloud_name [OF get] by (simp add: cloud_SetTag_def)
  show "denied seen (go_bind (go_some s (cloud_ResourceTag E c)) (\<lambda>t. f c t)) w1"
    using assms same name by (intro denied_bind frame_some) (auto simp: cloud_ResourceTag_def go_some_def go_simps split: option.splits)
qed

lemma q_access: "frame seen (GetUserCloudAccess E p u t)"
  unfolding GetUserCloudAccess_def get_access_defs first_relation_def check_defs by (intro frame_intros)

lemma GetUserCloudAccess_sound:
  assumes "GetUserCloudAccess E p user t w = (Ok ''admin'', w')" and "user_tag E user = Some ut"
  shows "can (store w) user ut AdministratorRelation t"
proof -
  from assms(1) obtain r where r: "access_of (checkRelation E user t) cloud_levels w = (Ok r, w')" "ToCloudAccessString r = ''admin''"
    by (auto simp: GetUserCloudAccess_def get_access_is_access_of elim!: go_bind_OkE)
  then have admin: "r = AdministratorRelation" by (auto simp: ToCloudAccessString_def AdminAccess_def AddModelAccess_def split: if_splits)
  then have "r \<noteq> NoRelation" by (simp add: AdministratorRelation_def)
  then show ?thesis using access_of_ok [OF r(1)] assms(2) admin by (metis option.inject)
qed

lemma denied_access:
  assumes "user_tag E user = Some ut" and "\<not> can (store w) user ut AdministratorRelation t"
  shows "denied seen (go_bind (GetUserCloudAccess E p user t) (\<lambda>a. if a \<noteq> ''admin'' then go_err e else f)) w"
proof (rule denied_bind [OF q_access])
  fix a w1
  assume "GetUserCloudAccess E p user t w = (Ok a, w1)"
  then have "a \<noteq> ''admin''" using GetUserCloudAccess_sound [OF _ assms(1)] assms(2) by blast
  then show "denied seen (if a \<noteq> ''admin'' then go_err e else f) w1" by (simp only: if_P denied_err simp_thms)
qed

lemma serve_cloud_denied:
  assumes ut: "user_tag E user = Some ut" and not: "\<not> may_administer E (store w) user ut req"
  shows "denied seen (serve_cloud E V j user req) w"
proof (cases req)
  case (ReqRemoveCloud ct)
  show ?thesis unfolding ReqRemoveCloud serve_cloud.simps juju_RemoveCloud_def doCloudAdmin_def
    by (intro denied_on_cloud denied_admin [OF ut]) (use not ReqRemoveCloud in auto)
next
  case (ReqUpdateCloud ct cloud)
  show ?thesis unfolding ReqUpdateCloud serve_cloud.simps juju_UpdateCloud_def Let_def
    by (intro denied_on_cloud denied_access [OF ut]) (use not ReqUpdateCloud in auto)
next
  case (ReqRemoveFrom name ct)
  show ?thesis unfolding ReqRemoveFrom serve_cloud.simps RemoveCloudFromController_def IsAdministrator_def
    by (intro denied_bind [OF q_cloud_lookups(1)] denied_check [OF ut]) (use not ReqRemoveFrom in auto)
next
  case (ReqAddTo name ct cloud force)
  show ?thesis unfolding ReqAddTo serve_cloud.simps AddCloudToController_def checkControllerAdminAccess_def
    by (rule denied_bind [OF q_cloud_lookups(2)], rule denied_first, rule denied_bind [OF frame_some], rule denied_admin [OF ut])
      (use not ReqAddTo in \<open>auto simp: controller_ResourceTag_def new_juju_tag_def elim!: go_some_OkE\<close>)
qed

end


interpretation mem_clouds: quiet_clouds mem_externals mem_store mem_remaining toy_env "\<lambda>w. w"
  by unfold_locales (simp_all add: mem_clouds_def mem_controllers_def frame_def go_simps no_table_def)


end
