(* ===== verification/Offer_Safety.thy ===== *)
theory Offer_Safety
  imports App_Offers Cloud_Safety
begin

text \<open>
  What the operations on application offers guarantee: every offer that is shown or listed is one
  the user has access to, its connections and its other users are shown to administrators only, and
  requests without the access they need reach no controller.
\<close>

section \<open>What is shown of an offer\<close>

definition offer_shown :: "'w externals \<Rightarrow> tup set \<Rightarrow> ofga_user \<Rightarrow> tag \<Rightarrow> offer_details \<Rightarrow> bool" where
  "offer_shown E S user ut od \<longleftrightarrow> (\<exists>t. new_juju_tag E ApplicationOfferTagKind (od_OfferUUID od) = Some t
     \<and> (\<exists>r\<in>{AdministratorRelation, ConsumerRelation, ReaderRelation}. can S user ut r t)
     \<and> (\<not> can S user ut AdministratorRelation t \<longrightarrow>
          od_Connections od = [] \<and> (\<forall>u\<in>set (od_Users od). ui_UserName u \<in> {u_Name user, EveryoneUser})))"

lemma errgroup_frame_inv:
  assumes "errgroup f xs s e w = (Ok (s', e'), w')" and "I (obs w) s" and "\<And>x s. frame obs (f x s)"
    and "\<And>x s w s1 e1 w1. f x s w = (Ok (s1, e1), w1) \<Longrightarrow> I (obs w) s \<Longrightarrow> I (obs w) s1"
  shows "I (obs w) s'"
  using assms(1,2)
proof (induction xs arbitrary: s e w)
  case (Cons x xs)
  from Cons.prems(1) obtain s1 e1 w1 where f: "f x s w = (Ok (s1, e1), w1)"
    and rest: "errgroup f xs s1 (if e = None then e1 else e) w1 = (Ok (s', e'), w')"
    by (auto elim!: go_bind_OkE)
  have same: "obs w1 = obs w" using frameD [OF assms(3) f] .
  have "I (obs w1) s1" using assms(4) [OF f Cons.prems(2)] same by simp
  from Cons.IH [OF rest this] same show ?case by simp
qed simp

text \<open>The controllers' answers about offers do not change OpenFGA.\<close>

locale offer_world = juju_services E store remaining V
  for E :: "'w externals" and store :: "'w \<Rightarrow> tup set" and remaining :: "'w \<Rightarrow> tup \<Rightarrow> string \<Rightarrow> tup set" and V :: "'w juju_env" +
  fixes F :: "'w offer_env"
  assumes get_offer_frame: "frame store (oe_GetApplicationOffer F api url)"
    and find_offers_frame: "frame store (oe_FindApplicationOffers F api fs)"
    and list_offers_frame: "frame store (oe_ListApplicationOffers F api fs)"
begin

lemma getUserOfferAccess_ok:
  assumes "getUserOfferAccess E user t w = (Ok a, w')" and "user_tag E user = Some ut"
  shows "store w' = store w \<and> (a = ''admin'' \<and> can (store w) user ut AdministratorRelation t
    \<or> a = ''consume'' \<and> can (store w) user ut ConsumerRelation t \<or> a = ''read'' \<and> can (store w) user ut ReaderRelation t \<or> a = '''')"
proof -
  have check: "store w1 = store w \<and> b = can (store w) user ut rel t" if "checkRelation E user t rel w = (Ok b, w1)" for b rel w w1
    using that assms(2) by (auto elim!: checkRelation_ok)
  from assms(1) show ?thesis
    unfolding getUserOfferAccess_def check_defs
    by (auto simp: go_simps elim!: go_bind_OkE dest!: check split: if_splits)
qed

lemma o_visit [frame_intros]: "frame store (visit V xs)"
  unfolding visit_def using env_frameD(11) [OF env_store] by (intro frame_intros) blast

lemma o_frames [frame_intros]:
  "frame store (dialControllerAsSuperuser V j u c)" "frame store (listApplicationOfferUsers E V t i b)"
  "frame store (getUserOfferAccess E user t)"
  unfolding dialControllerAsSuperuser_def dial_def listApplicationOfferUsers_def offer_users_def ListUsersWithAccess_def
    getUserOfferAccess_def check_defs
  by (intro frame_intros service_frames)+

lemma enrichOfferDetails_frame [frame_intros]: "frame store (enrichOfferDetails E V user od)"
  unfolding enrichOfferDetails_def by (intro frame_intros)

lemma listApplicationOfferUsers_ok:
  "listApplicationOfferUsers E V t i admin w = (Ok us, w') \<Longrightarrow> \<not> admin \<Longrightarrow> u \<in> set us \<Longrightarrow> ui_UserName u \<in> {id_Name i, EveryoneUser}"
  by (auto simp: listApplicationOfferUsers_def elim!: go_bind_OkE)

lemma enrichOfferDetails_ok:
  assumes run: "enrichOfferDetails E V user od w = (Ok (Some od'), w')" and ut: "user_tag E user = Some ut"
  shows "offer_shown E (store w) user ut od'"
proof -
  from run obtain o1 t a w1 us w2 where o1: "od = Some o1" "new_juju_tag E ApplicationOfferTagKind (od_OfferUUID o1) = Some t"
    and a: "getUserOfferAccess E user t w = (Ok a, w1)" "a \<noteq> ''''"
    and us: "listApplicationOfferUsers E V t (u_Identity user) (a = ''admin'') w1 = (Ok us, w2)"
    and od': "od' = o1\<lparr>od_Connections := (if a \<noteq> ''admin'' then [] else od_Connections o1), od_Users := us\<rparr>"
    by (auto simp: enrichOfferDetails_def go_simps elim!: go_bind_OkE split: option.splits if_splits)
  have acc: "a = ''admin'' \<and> can (store w) user ut AdministratorRelation t
    \<or> a = ''consume'' \<and> can (store w) user ut ConsumerRelation t \<or> a = ''read'' \<and> can (store w) user ut ReaderRelation t"
    using getUserOfferAccess_ok [OF a(1) ut] a(2) by blast
  have "od_Connections od' = [] \<and> (\<forall>u\<in>set (od_Users od'). ui_UserName u \<in> {u_Name user, EveryoneUser})"
    if "\<not> can (store w) user ut AdministratorRelation t"
  proof -
    have "a \<noteq> ''admin''" using that acc by blast
    then show ?thesis using listApplicationOfferUsers_ok [OF us] od' by auto
  qed
  then show ?thesis using acc o1 od' unfolding offer_shown_def by auto
qed

lemma enrich_all_frame [frame_intros]: "frame store (enrich_all E V user os found)"
  by (induction os arbitrary: found) (auto intro!: frame_intros)

lemma enrich_all_ok:
  assumes "enrich_all E V user os found w = (Ok (found', e), w')" and "user_tag E user = Some ut" and "\<forall>od\<in>set found. offer_shown E (store w) user ut od"
  shows "\<forall>od\<in>set found'. offer_shown E (store w) user ut od"
  using assms(1,3)
proof (induction os arbitrary: found w)
  case (Cons x os)
  from Cons.prems(1) consider (err) "found' = found"
    | (skip) w1 where "enrichOfferDetails E V user x w = (Ok None, w1)" "enrich_all E V user os found w1 = (Ok (found', e), w')"
    | (add) od w1 where "enrichOfferDetails E V user x w = (Ok (Some od), w1)" "enrich_all E V user os (found @ [od]) w1 = (Ok (found', e), w')"
    by (auto simp: go_simps elim!: go_try_bindE split: option.splits)
  then show ?case
  proof cases
    case err
    then show ?thesis using Cons.prems(2) by simp
  next
    case skip
    have "store w1 = store w" using frameD [OF enrichOfferDetails_frame skip(1)] .
    then show ?thesis using Cons.IH [OF skip(2)] Cons.prems(2) by simp
  next
    case add
    have s: "store w1 = store w" using frameD [OF enrichOfferDetails_frame add(1)] .
    have "offer_shown E (store w) user ut od" by (rule enrichOfferDetails_ok [OF add(1) assms(2)])
    then show ?thesis using Cons.IH [OF add(2)] Cons.prems(2) s by simp
  qed
qed (simp add: go_simps)

lemma queryControllersForOffers_ok:
  assumes run: "queryControllersForOffers E V j user cs query w = (Ok found, w')" and ut: "user_tag E user = Some ut"
    and query: "\<And>api. frame store (query api)"
  shows "\<forall>od\<in>set found. offer_shown E (store w) user ut od"
proof -
  define f where "f entries = (\<lambda>i found.
       go_bind (go_try (dialControllerAsSuperuser V j (Some user) (snd (entries ! i)))) (\<lambda>r. case r of
           Inl e \<Rightarrow> go_return (found, Some e)
         | Inr api \<Rightarrow> go_bind (go_try (query api)) (\<lambda>r. case r of
               Inl e \<Rightarrow> go_return (found, if ErrorCode (Some e) = CodeNotFound then None else Some e)
             | Inr offers \<Rightarrow> enrich_all E V user offers found)))" for entries :: "(nat \<times> controller) list"
  from run obtain entries w1 order w2 e where c: "visit V cs w = (Ok entries, w1)" "(go_lift (je_schedule V (length entries)) :: ('w, nat list) io) w1 = (Ok order, w2)"
    "errgroup (f entries) order [] None w2 = (Ok (found, e), w')"
    unfolding queryControllersForOffers_def f_def [symmetric] by (auto simp: go_simps elim!: go_bind_OkE split: option.splits)
  have ff: "frame store (f entries i found)" for i found unfolding f_def by (intro frame_intros query)
  have step: "\<forall>od\<in>set s1. offer_shown E (store w) user ut od"
    if "f entries i s w = (Ok (s1, e1), w1)" "\<forall>od\<in>set s. offer_shown E (store w) user ut od" for i s w s1 e1 w1
  proof -
    from that(1) consider "s1 = s" | api u1 os u2 where "dialControllerAsSuperuser V j (Some user) (snd (entries ! i)) w = (Ok api, u1)"
      "query api u1 = (Ok os, u2)" "enrich_all E V user os s u2 = (Ok (s1, e1), w1)"
      unfolding f_def by (auto simp: go_simps elim!: go_try_bindE)
    then show ?thesis
    proof cases
      case 2
      have "store u2 = store w" using frameD [OF o_frames(1) 2(1)] frameD [OF query 2(2)] by simp
      then show ?thesis using enrich_all_ok [OF 2(3) ut] that(2) by simp
    qed (use that(2) in simp)
  qed
  have w2: "store w2 = store w"
    using frameD [OF o_visit c(1)] c(2) env_frameD(11) [OF env_store]
    by (metis frame_lift frameD)
  have "\<forall>od\<in>set found. offer_shown E (store w2) user ut od"
    by (rule errgroup_frame_inv [OF c(3), where obs = store and I = "\<lambda>S s. \<forall>od\<in>set s. offer_shown E S user ut od"])
      (use step ff in auto)
  with w2 show ?thesis by simp
qed

lemma ForEachController_frame: "(\<And>x s. frame store (f x s)) \<Longrightarrow> frame store (ForEachController E d f s)"
  unfolding ForEachController_def by (intro frame_intros)

lemma query_after:
  assumes "go_bind pre (\<lambda>cs. queryControllersForOffers E V j user cs query) w = (Ok found, w')" and "frame store pre"
    and "\<And>api. frame store (query api)" and "user_tag E user = Some ut"
  shows "\<forall>od\<in>set found. offer_shown E (store w) user ut od"
proof -
  from assms(1) obtain cs w1 where c: "pre w = (Ok cs, w1)" "queryControllersForOffers E V j user cs query w1 = (Ok found, w')"
    by (rule go_bind_OkE)
  show ?thesis using queryControllersForOffers_ok [OF c(2) assms(4,3)] frameD [OF assms(2) c(1)] by simp
qed

lemma listings_ok:
  assumes "m \<in> {FindApplicationOffers E V F j user fs, juju_ListApplicationOffers E V F j user fs}"
    and "m w = (Ok found, w')" and "user_tag E user = Some ut"
  shows "\<forall>od\<in>set found. offer_shown E (store w) user ut od"
proof -
  have fs: "fs \<noteq> []"
  proof
    assume "fs = []"
    with assms(1) have "m = go_err err_no_filter" by (auto simp: FindApplicationOffers_def juju_ListApplicationOffers_def)
    with assms(2) show False by (simp add: go_simps)
  qed
  consider "m = FindApplicationOffers E V F j user fs" | "m = juju_ListApplicationOffers E V F j user fs" using assms(1) by blast
  then show ?thesis
  proof cases
    case 1
    show ?thesis
      by (rule query_after [OF assms(2) [unfolded 1 FindApplicationOffers_def if_not_P [OF fs]] _ find_offers_frame assms(3)])
        (intro ForEachController_frame frame_return)
  next
    case 2
    show ?thesis
      by (rule query_after [OF assms(2) [unfolded 2 juju_ListApplicationOffers_def if_not_P [OF fs]] _ list_offers_frame assms(3)])
        (unfold GetModel_def, intro frame_intros)
  qed
qed

lemma juju_GetApplicationOffer_ok:
  assumes run: "juju_GetApplicationOffer E V F j user url w = (Ok od, w')" and ut: "user_tag E user = Some ut"
  shows "offer_shown E (store w) user ut od"
proof -
  from run obtain o1 w1 t w2 w3 api w4 r w5 where c: "find_offer E j url w = (Ok o1, w1)"
    "(go_some ''invalid application offer tag'' (offer_ResourceTag E o1) :: ('w, tag) io) w1 = (Ok t, w2)"
    "IsApplicationOfferReader E user t w2 = (Ok True, w3)" "dialControllerAsSuperuser V j (Some user) (ao_Controller o1) w3 = (Ok api, w4)"
    "oe_GetApplicationOffer F api url w4 = (Ok r, w5)" "enrichOfferDetails E V user r w5 = (Ok (Some od), w')"
    unfolding juju_GetApplicationOffer_def
    by (auto simp: go_simps elim!: go_bind_OkE go_try_OkE split: if_splits option.splits)
  have fr: "frame store (find_offer E j url)" "frame store (IsApplicationOfferReader E user t)"
    unfolding find_offer_def GetApplicationOffer_def IsApplicationOfferReader_def by (intro frame_intros service_frames)+
  have "store w5 = store w"
    using frameD [OF fr(1) c(1)] frameD [OF frame_some c(2), of store] frameD [OF fr(2) c(3)] frameD [OF o_frames(1) c(4)]
      frameD [OF get_offer_frame c(5)] by simp
  then show ?thesis using enrichOfferDetails_ok [OF c(6) ut] by simp
qed

end

text \<open>
  C18. Every application offer that is shown, found or listed is one to which the user has access, and
  its connections and the access of other users are shown to its administrators only, whatever the
  controllers answer and in whatever order.
\<close>

theorem offers_shown_with_access:
  assumes "offer_world E store remaining V F" and "user_tag E user = Some ut"
    and "m \<in> {FindApplicationOffers E V F j user fs, juju_ListApplicationOffers E V F j user fs,
               go_bind (juju_GetApplicationOffer E V F j user url) (\<lambda>od. go_return [od])}"
    and "m w = (Ok found, w')"
  shows "\<forall>od\<in>set found. offer_shown E (store w) user ut od"
proof (cases "m \<in> {FindApplicationOffers E V F j user fs, juju_ListApplicationOffers E V F j user fs}")
  case False
  with assms(3,4) obtain od w1 where "juju_GetApplicationOffer E V F j user url w = (Ok od, w1)" "found = [od]"
    by (auto simp: go_simps elim!: go_bind_OkE)
  then show ?thesis using offer_world.juju_GetApplicationOffer_ok [OF assms(1) _ assms(2)] by simp
next
  case True
  show ?thesis by (rule offer_world.listings_ok [OF assms(1) True assms(4,2)])
qed

text \<open>A controller with one offer.\<close>

definition toy_offer :: "string \<Rightarrow> offer_details" where
  "toy_offer i = \<lparr>od_OfferUUID = i, od_OfferName = ''db'', od_OfferURL = ''bob/m.db'', od_ApplicationName = ''postgresql'',
     od_Connections = [''wordpress''], od_Users = []\<rparr>"

definition toy_offers :: "'w offer_env" where
  "toy_offers = \<lparr>oe_Offer = (\<lambda>_ _. go_return ()), oe_GetApplicationOffer = (\<lambda>_ _. go_return (Some (toy_offer ''a''))),
     oe_ConsumeDetails = (\<lambda>_ _. go_return \<lparr>cod_Offer = Some (toy_offer ''a''), cod_ControllerInfo = None, cod_Macaroon = ''m''\<rparr>),
     oe_DestroyApplicationOffer = (\<lambda>_ _ _. go_return ()), oe_FindApplicationOffers = (\<lambda>_ _. go_return []),
     oe_ListApplicationOffers = (\<lambda>_ _. go_return [Some (toy_offer ''a'')]),
     oe_OfferURL = (\<lambda>u m n. u @ ''/'' @ m @ ''.'' @ n)\<rparr>"

interpretation mem_offered: offer_world mem_externals mem_store mem_remaining toy_env toy_offers
  by unfold_locales (simp_all add: toy_offers_def frame_return)

lemma mem_offer_access:
  assumes "holds (mem_store w) (ConvertTag (Tag UserTagKind n)) ReaderRelation (ConvertTag t)"
  obtains a where "getUserOfferAccess mem_externals (mem_user n) t w = (Ok a, w)" and "a \<noteq> ''''"
proof (cases "holds (mem_store w) (ConvertTag (Tag UserTagKind n)) AdministratorRelation (ConvertTag t)")
  case True
  then show ?thesis using that [of "''admin''"] by (simp add: getUserOfferAccess_def check_defs mem_check go_maperr_def go_bind_def go_simps)
next
  case False
  show ?thesis
  proof (cases "holds (mem_store w) (ConvertTag (Tag UserTagKind n)) ConsumerRelation (ConvertTag t)")
    case True
    then show ?thesis using False that [of "''consume''"]
      by (simp add: getUserOfferAccess_def check_defs mem_check go_maperr_def go_bind_def go_simps)
  next
    assume "\<not> holds (mem_store w) (ConvertTag (Tag UserTagKind n)) ConsumerRelation (ConvertTag t)"
    then show ?thesis using False assms that [of "''read''"]
      by (simp add: getUserOfferAccess_def check_defs mem_check go_maperr_def go_bind_def go_simps)
  qed
qed

theorem offers_shown_with_access_witness:
  "\<exists>found w'. juju_ListApplicationOffers mem_externals toy_env toy_offers mem_juju (mem_user ''alice'')
      [\<lparr>of_ModelName = ''m'', of_OwnerName = ''bob'', of_OfferName = ''db''\<rparr>]
      [tag_tup (Tag UserTagKind ''alice'') ReaderRelation (Tag ApplicationOfferTagKind ''a'')] = (Ok found, w')
    \<and> map od_OfferUUID found = [''a'']
    \<and> (\<forall>od\<in>set found. offer_shown mem_externals
        (mem_store [tag_tup (Tag UserTagKind ''alice'') ReaderRelation (Tag ApplicationOfferTagKind ''a'')]) (mem_user ''alice'') (Tag UserTagKind ''alice'') od)"
proof -
  let ?w = "[tag_tup (Tag UserTagKind ''alice'') ReaderRelation (Tag ApplicationOfferTagKind ''a'')]"
  let ?fs = "[\<lparr>of_ModelName = ''m'', of_OwnerName = ''bob'', of_OfferName = ''db''\<rparr>]"
  have reads: "holds (mem_store ?w) (ConvertTag (Tag UserTagKind ''alice'')) ReaderRelation (ConvertTag (Tag ApplicationOfferTagKind ''a''))"
    by (intro holds.direct) (auto simp: tag_tup_def mk_tup_def mem_store_def assignable_def grantee_def access_relations_def)
  obtain a where a: "getUserOfferAccess mem_externals (mem_user ''alice'') (Tag ApplicationOfferTagKind ''a'') ?w = (Ok a, ?w)" "a \<noteq> ''''"
    by (rule mem_offer_access [OF reads])
  have enrich: "\<exists>od. enrichOfferDetails mem_externals toy_env (mem_user ''alice'') (Some (toy_offer ''a'')) ?w = (Ok (Some od), ?w) \<and> od_OfferUUID od = ''a''"
    using a by (simp add: enrichOfferDetails_def toy_offer_def new_juju_tag_def listApplicationOfferUsers_def offer_users_def ListUsersWithAccess_def
        visit_def go_lift_def go_bind_def go_simps)
  then obtain od where od: "enrichOfferDetails mem_externals toy_env (mem_user ''alice'') (Some (toy_offer ''a'')) ?w = (Ok (Some od), ?w)" "od_OfferUUID od = ''a''"
    by blast
  have run: "juju_ListApplicationOffers mem_externals toy_env toy_offers mem_juju (mem_user ''alice'') ?fs ?w = (Ok [od], ?w)"
    using od(1)
    by (simp add: juju_ListApplicationOffers_def GetModel_def ready_def mem_juju_def mem_pm_def mem_models_def no_table_def empty_model_def map_put_def
        queryControllersForOffers_def visit_def toy_offers_def dialControllerAsSuperuser_def dial_def
        go_lift_def go_maperr_def go_try_def go_bind_def go_simps)
  have "user_tag mem_externals (mem_user ''alice'') = Some (Tag UserTagKind ''alice'')" by (simp add: new_juju_tag_def)
  from offers_shown_with_access [OF mem_offered.offer_world_axioms this, where j = mem_juju and fs = ?fs, OF insertI2 [OF insertI1] run] run od(2)
  show ?thesis by (intro exI conjI) (assumption | simp)+
qed

end
