(* ===== verification/Spec2Isabelle.thy ===== *)
theory Spec2Isabelle
  imports Perm_Listing Model_Proxy Model_Rows Offer_Safety
begin

text \<open>
  JIMM, the Juju Intelligent Model Manager, puts many Juju controllers behind one API. This
  development models the part of it that decides who may do what: the error values, the names
  and tags of entities, the client of the authorisation service OpenFGA, the user objects that
  carry authority, the permission manager, the managers of groups, roles and identities, the
  database methods they call, logging in, the signed tokens with which JIMM tells a Juju
  controller what a user may do, and the manager that drives the Juju controllers.

  \<^bold>\<open>Shape of the model.\<close> A Go function with effects is a computation over a world of arbitrary
  type: it takes the world and returns an outcome and the world after the call. The outcome is a
  value, an error, a panic, or the exhaustion of fuel (\<open>Go_Prelude\<close>). What JIMM does not contain
  (the OpenFGA client library, gorm and the tables behind it, the identity provider, Juju's name
  package, clocks and random numbers) is the record \<open>externals\<close> of functions, the parameter \<open>E\<close> of
  every definition that uses it (\<open>External\<close>). What the code relies on of OpenFGA is the locale
  \<open>openfga_service\<close>, and of all services together \<open>jimm_services\<close>; both are interpreted on an
  in-memory instance, on which the witnesses run the code.

  \<^bold>\<open>Theories and the code they model.\<close>
  \<^item> \<open>Errors\<close>: \<^verbatim>\<open>internal/errors\<close>. The code of an error is the first in its chain.
  \<^item> \<open>Jimm_Names\<close>: \<^verbatim>\<open>pkg/names\<close>. Tags of groups, roles and identity-provider groups; printing and
    parsing are inverse, parsing never panics.
  \<^item> \<open>Ofga_Names\<close>: \<^verbatim>\<open>internal/openfga/names\<close>. \<open>Auth_Model\<close>: the installed authorisation model, as
    the inductive predicate \<open>holds\<close> on sets of tuples.
  \<^item> \<open>Db_Model\<close>, \<open>Db_Store\<close>: \<^verbatim>\<open>internal/dbmodel\<close> and \<^verbatim>\<open>internal/db\<close>.
  \<^item> \<open>OFGA_Client\<close>, \<open>OFGA_User\<close>, \<open>Access_Ladder\<close>: \<^verbatim>\<open>internal/openfga\<close>. Writing and removing
    relations is exact; the access getters return the strongest level, stated once in the locale
    \<open>access_ladder\<close> for models, clouds, offers and controllers.
  \<^item> \<open>Tag_Resolver\<close>, \<open>Perm_Access\<close>, \<open>Access_Properties\<close>, \<open>Perm_Check\<close>, \<open>Perm_Relations\<close>:
    \<^verbatim>\<open>internal/jimm/permissions\<close>. Grants and revocations refine the abstract specifications
    \<open>granted\<close> and \<open>revoked\<close>; nobody changes a relation he may not manage (\<open>may_manage\<close>); checks
    are exact; the permission cache never holds an unearned permission.
  \<^item> \<open>Perm_Listing\<close>: the paged listings of \<^verbatim>\<open>permissions/relations.go\<close> and \<^verbatim>\<open>internal/db/resource.go\<close>.
    The pages of an object together are exactly its relations to resources.
  \<^item> \<open>Go_Encoding\<close>, \<open>Go_Json\<close>, \<open>Entitlement\<close>: the parts of Go's \<^verbatim>\<open>encoding/base64\<close> and
    \<^verbatim>\<open>encoding/json\<close> that \<^verbatim>\<open>internal/common/pagination/entitlement.go\<close> uses, and its tokens.
  \<^item> \<open>Jimm_JWT\<close>: \<^verbatim>\<open>internal/jimmjwx\<close>. Keys are loaded, matched and refreshed; every issued token
    verifies against the published key set. The JOSE library is a parameter with the hypothesis
    \<open>jose_ok\<close>.
  \<^item> \<open>Login_Tokens\<close>: \<^verbatim>\<open>internal/jimm/jujuauth\<close>. Every access that a token claims was earned; stated
    over sequences of requests of a connection, and end to end with the JWT service.
  \<^item> \<open>Go_Json_Values\<close>, \<open>Rpc_Proxy\<close>, \<open>Proxy_Gateway\<close>, \<open>Model_Proxy\<close>: \<^verbatim>\<open>internal/rpcproxy\<close> and the proxier of
    \<^verbatim>\<open>internal/jujuapi/websocket.go\<close>. Two goroutines over shared cells; \<open>proxy_run\<close> interleaves their
    steps with those of the rest of the world. The locale \<open>rpc_proxy\<close> holds the invariant, by which
    no login reaches a controller but JIMM's own and anonymous ones; \<open>model_proxier\<close> shows that the
    proxier with JIMM's login manager and token generator satisfies it.
  \<^item> \<open>Juju_Env\<close>, \<open>Juju_Clouds\<close>, \<open>Model_Builder\<close>: \<^verbatim>\<open>internal/jimm/juju\<close>. The dialer, the API of a
    controller, the store of credentials, the shuffle and the order of goroutines are the record
    \<open>juju_env\<close>; the functions of an errgroup run one after the other in the order of its schedule.
    \<open>Model_Builder\<close> is \<^verbatim>\<open>modelbuilder.go\<close> and \<^verbatim>\<open>AddModel\<close>.
  \<^item> \<open>Model_Placement\<close>: who may add a model, where it is placed and which relations it gets, over the
    locales \<open>juju_world\<close> (calls that an observer does not see) and \<open>juju_services\<close>. \<open>Model_Rows\<close>: the
    rows a failed \<^verbatim>\<open>AddModel\<close> leaves, over the contract \<open>model_rows\<close> of the table of models.
  \<^item> \<open>Juju_Models\<close>: the rest of \<^verbatim>\<open>model.go\<close> and \<^verbatim>\<open>model_poller.go\<close>. \<open>Model_Safety\<close>: what these operations
    guarantee. A request without the relation it needs is not noticed by any observer that is blind
    to lookups (\<open>quiet_lookups\<close>); the poller forgets dying models only; information about a model
    is redacted and only readable models are listed (\<open>models_found\<close>).
  \<^item> \<open>Cloud_Admin\<close>, \<open>Cloud_Credentials\<close>: \<^verbatim>\<open>cloud.go\<close> and \<^verbatim>\<open>cloudcredential.go\<close>, with the conversions of
    \<^verbatim>\<open>internal/dbmodel/cloud.go\<close>. \<open>Cloud_Safety\<close>: conversions are inverse, secrets are shown to their
    owners, stored credentials change only for those who may change them (\<open>credential_store\<close>), and
    clouds are administered by their administrators (\<open>quiet_clouds\<close>).
  \<^item> \<open>App_Offers\<close>: \<^verbatim>\<open>applicationoffer.go\<close>, with a controller's calls on offers as the record \<open>offer_env\<close>.
    \<open>Offer_Safety\<close>: offers are shown to those with access to them, and redacted for all but their
    administrators (\<open>offer_world\<close>).
  \<^item> \<open>Pagination\<close>: \<^verbatim>\<open>internal/common/pagination/pagination.go\<close>, with 64-bit wrap-around.
  \<^item> \<open>Entity_Managers\<close>: \<^verbatim>\<open>internal/jimm/group\<close>, \<^verbatim>\<open>role\<close> and \<^verbatim>\<open>identity\<close>. The locale
    \<open>entity_manager\<close> states what any history of requests can do.
  \<^item> \<open>Login\<close>: \<^verbatim>\<open>internal/jimm/login\<close>, \<^verbatim>\<open>internal/jimm/offer/authorizer.go\<close> and the session groups
    of \<^verbatim>\<open>internal/auth\<close>.

  \<^bold>\<open>Fuel.\<close> Loops that page through OpenFGA until the service sends an empty continuation token
  (\<open>removeTuples\<close>, \<open>existing_relations\<close>, \<open>cleanup_loop\<close>) take fuel. For the first two it is proved
  that more fuel than matching tuples is enough, for \<open>removeTuples\<close> where no matching tuple is
  public. The listing loop (\<open>page_loop\<close>) comes back with seven rounds per stored tuple. The JSON
  parser takes the length of its input as fuel, which is proved to be enough. Every other loop is
  structural or has a termination proof.

  \<^bold>\<open>Not modelled.\<close> Log lines, metrics and tracing; the RPC facades in front of the
  managers; of the code that drives Juju controllers, adding and importing from controllers,
  migrations, the watcher of metrics and the parser of status queries; bootstrap and upgrade jobs; SSH; Vault; HTTP. They are I/O, process control or
  third-party calls around the modelled core.
\<close>

end
